(* ===== verification/Rustica_Prelude.thy ===== *)
theory Rustica_Prelude
  imports Main "HOL-Library.Word" "HOL-Library.AList"
begin

text \<open>
  Shared vocabulary of the development: machine integers, the outcome of a Rust call, the parts
  of the Rust standard library the sources use (decimal conversion, \<^verbatim>\<open>join\<close>, \<^verbatim>\<open>split\<close>,
  \<^verbatim>\<open>strip_prefix\<close>, UTF-8 validity, \<^verbatim>\<open>HashMap\<close>, \<^verbatim>\<open>Duration\<close>), and the lemmas about them.

  \<^item> A \<^verbatim>\<open>String\<close> or \<^verbatim>\<open>&str\<close> is a \<^typ>\<open>string\<close> (a list of bytes, so \<^const>\<open>length\<close> is
    \<^verbatim>\<open>.len()\<close>); a \<^verbatim>\<open>Vec<u8>\<close> is a list of 8-bit words.
  \<^item> Integer arithmetic wraps, as it does in the release profile of the workspace's Cargo.toml
    (which does not switch overflow checks on).
  \<^item> A call has one of three outcomes: \<open>Ok\<close>, \<open>Err\<close> or a panic.
  \<^item> A \<^verbatim>\<open>HashMap\<close> is an association list: its order stands for the (arbitrary) iteration order.
\<close>

section \<open>Machine integers and bytes\<close>

type_synonym u8 = "8 word"
type_synonym u16 = "16 word"
type_synonym u32 = "32 word"
type_synonym u64 = "64 word"
type_synonym i64 = "64 word"
type_synonym i32 = "32 word"
type_synonym bytes = "u8 list"

section \<open>Outcomes\<close>

datatype ('a, 'e) result = Ok 'a | Err 'e | Panic

named_theorems ok_iff \<open>when a call returns Ok\<close>
named_theorems rust_defs \<open>definitions of the modelled standard library\<close>

fun map_err :: "('e \<Rightarrow> 'f) \<Rightarrow> ('a, 'e) result \<Rightarrow> ('a, 'f) result" where
  "map_err f (Ok x) = Ok x"
| "map_err f (Err e) = Err (f e)"
| "map_err f Panic = Panic"

text \<open>\<^verbatim>\<open>opt.ok_or(e)\<close> and \<^verbatim>\<open>opt.unwrap()\<close>.\<close>

definition ok_or :: "'a option \<Rightarrow> 'e \<Rightarrow> ('a, 'e) result" where
  "ok_or x e = (case x of None \<Rightarrow> Err e | Some v \<Rightarrow> Ok v)"

definition unwrap :: "'a option \<Rightarrow> ('a, 'e) result" where
  "unwrap x = (case x of None \<Rightarrow> Panic | Some v \<Rightarrow> Ok v)"

text \<open>The question mark operator: continue on \<open>Ok\<close>, leave the function otherwise.\<close>

definition and_then :: "('a, 'e) result \<Rightarrow> ('a \<Rightarrow> ('b, 'e) result) \<Rightarrow> ('b, 'e) result" where
  "and_then x f = (case x of Ok v \<Rightarrow> f v | Err e \<Rightarrow> Err e | Panic \<Rightarrow> Panic)"

definition is_ok :: "('a, 'e) result \<Rightarrow> bool" where
  "is_ok r = (case r of Ok _ \<Rightarrow> True | _ \<Rightarrow> False)"

section \<open>Strings\<close>

text \<open>\<^verbatim>\<open>v.join(sep)\<close>\<close>

fun join_with :: "string \<Rightarrow> string list \<Rightarrow> string" where
  "join_with sep [] = ''''"
| "join_with sep [x] = x"
| "join_with sep (x # y # xs) = x @ sep @ join_with sep (y # xs)"

text \<open>\<^verbatim>\<open>s.split(c)\<close>: always at least one piece.\<close>

fun split_on :: "char \<Rightarrow> string \<Rightarrow> string list" where
  "split_on c [] = [[]]"
| "split_on c (x # xs) =
     (if x = c then [] # split_on c xs
      else case split_on c xs of [] \<Rightarrow> [[x]] | p # ps \<Rightarrow> (x # p) # ps)"

fun starts_with :: "string \<Rightarrow> string \<Rightarrow> bool" where
  "starts_with [] s = True"
| "starts_with (p # ps) [] = False"
| "starts_with (p # ps) (x # xs) = (p = x \<and> starts_with ps xs)"

fun strip_prefix :: "string \<Rightarrow> string \<Rightarrow> string option" where
  "strip_prefix [] s = Some s"
| "strip_prefix (p # ps) [] = None"
| "strip_prefix (p # ps) (x # xs) = (if p = x then strip_prefix ps xs else None)"

definition as_bytes :: "string \<Rightarrow> bytes" where
  "as_bytes s = map of_char s"

definition from_bytes :: "bytes \<Rightarrow> string" where
  "from_bytes b = map (\<lambda>w. char_of (unat w)) b"

subsection \<open>Decimal numbers\<close>

definition digit_char :: "nat \<Rightarrow> char" where
  "digit_char d = ''0123456789'' ! d"

definition digit_val :: "char \<Rightarrow> nat option" where
  "digit_val c = (let n = of_char c :: nat in if 48 \<le> n \<and> n \<le> 57 then Some (n - 48) else None)"

text \<open>\<^verbatim>\<open>n.to_string()\<close> for an unsigned integer.\<close>

fun show_nat :: "nat \<Rightarrow> string" where
  "show_nat n = (if n < 10 then [digit_char n] else show_nat (n div 10) @ [digit_char (n mod 10)])"

declare show_nat.simps [simp del]

definition show_int :: "int \<Rightarrow> string" where
  "show_int i = (if i < 0 then CHR ''-'' # show_nat (nat (- i)) else show_nat (nat i))"

fun parse_acc :: "nat \<Rightarrow> string \<Rightarrow> nat option" where
  "parse_acc a [] = Some a"
| "parse_acc a (c # cs) =
     (case digit_val c of None \<Rightarrow> None | Some d \<Rightarrow> parse_acc (10 * a + d) cs)"

definition parse_digits :: "string \<Rightarrow> nat option" where
  "parse_digits s = (if s = [] then None else parse_acc 0 s)"

definition strip_plus :: "string \<Rightarrow> string" where
  "strip_plus s = (case s of [] \<Rightarrow> [] | c # cs \<Rightarrow> if c = CHR ''+'' then cs else s)"

text \<open>\<^verbatim>\<open>s.parse::<u64>()\<close>, \<^verbatim>\<open>s.parse::<u8>()\<close>: an optional plus sign, then digits, no overflow.\<close>

definition parse_u64 :: "string \<Rightarrow> u64 option" where
  "parse_u64 s = (case parse_digits (strip_plus s) of
     None \<Rightarrow> None | Some n \<Rightarrow> if n < 2 ^ 64 then Some (of_nat n) else None)"

definition parse_u8 :: "string \<Rightarrow> u8 option" where
  "parse_u8 s = (case parse_digits (strip_plus s) of
     None \<Rightarrow> None | Some n \<Rightarrow> if n < 2 ^ 8 then Some (of_nat n) else None)"

text \<open>\<^verbatim>\<open>s.parse::<i64>()\<close>: a minus sign is allowed too.\<close>

definition parse_i64 :: "string \<Rightarrow> i64 option" where
  "parse_i64 s = (case s of
     [] \<Rightarrow> None
   | c # cs \<Rightarrow>
       if c = CHR ''-'' then
         (case parse_digits cs of None \<Rightarrow> None
          | Some n \<Rightarrow> if n \<le> 2 ^ 63 then Some (- of_nat n) else None)
       else
         (case parse_digits (strip_plus s) of None \<Rightarrow> None
          | Some n \<Rightarrow> if n < 2 ^ 63 then Some (of_nat n) else None))"

definition show_u64 :: "u64 \<Rightarrow> string" where
  "show_u64 w = show_nat (unat w)"

subsection \<open>UTF-8 validity (\<^verbatim>\<open>String::from_utf8\<close>)\<close>

definition is_cont :: "u8 \<Rightarrow> bool" where
  "is_cont b \<longleftrightarrow> 0x80 \<le> b \<and> b \<le> 0xBF"

fun utf8_valid :: "bytes \<Rightarrow> bool" where
  "utf8_valid [] = True"
| "utf8_valid (a # rest) =
     (if a \<le> 0x7F then utf8_valid rest
      else if 0xC2 \<le> a \<and> a \<le> 0xDF then
        (case rest of b # r \<Rightarrow> is_cont b \<and> utf8_valid r | _ \<Rightarrow> False)
      else if 0xE0 \<le> a \<and> a \<le> 0xEF then
        (case rest of b # c # r \<Rightarrow>
           is_cont b \<and> is_cont c \<and> (a = 0xE0 \<longrightarrow> 0xA0 \<le> b) \<and> (a = 0xED \<longrightarrow> b \<le> 0x9F) \<and> utf8_valid r
         | _ \<Rightarrow> False)
      else if 0xF0 \<le> a \<and> a \<le> 0xF4 then
        (case rest of b # c # d # r \<Rightarrow>
           is_cont b \<and> is_cont c \<and> is_cont d \<and> (a = 0xF0 \<longrightarrow> 0x90 \<le> b) \<and> (a = 0xF4 \<longrightarrow> b \<le> 0x8F)
           \<and> utf8_valid r
         | _ \<Rightarrow> False)
      else False)"

definition from_utf8 :: "bytes \<Rightarrow> string option" where
  "from_utf8 b = (if utf8_valid b then Some (from_bytes b) else None)"

section \<open>\<^verbatim>\<open>HashMap\<close>\<close>

type_synonym ('k, 'v) hashmap = "('k \<times> 'v) list"

abbreviation hm_get :: "('k, 'v) hashmap \<Rightarrow> 'k \<Rightarrow> 'v option" where
  "hm_get m k \<equiv> map_of m k"

abbreviation hm_insert :: "'k \<Rightarrow> 'v \<Rightarrow> ('k, 'v) hashmap \<Rightarrow> ('k, 'v) hashmap" where
  "hm_insert k v m \<equiv> AList.update k v m"

abbreviation hm_keys :: "('k, 'v) hashmap \<Rightarrow> 'k list" where
  "hm_keys m \<equiv> map fst m"

abbreviation hm_wf :: "('k, 'v) hashmap \<Rightarrow> bool" where
  "hm_wf m \<equiv> distinct (map fst m)"

definition hm_contains :: "('k, 'v) hashmap \<Rightarrow> 'k \<Rightarrow> bool" where
  "hm_contains m k \<longleftrightarrow> map_of m k \<noteq> None"

text \<open>\<^verbatim>\<open>iter.collect::<HashMap<_, _>>()\<close>: later entries win.\<close>

definition hm_collect :: "('k \<times> 'v) list \<Rightarrow> ('k, 'v) hashmap" where
  "hm_collect xs = fold (\<lambda>(k, v) m. AList.update k v m) xs []"

section \<open>\<^verbatim>\<open>Duration\<close>\<close>

text \<open>
  A duration is a number of nanoseconds below \<open>2\<^sup>6\<^sup>4\<close> seconds; adding two durations
  panics when the sum is not.
\<close>

type_synonym duration = nat

definition duration_max :: nat where
  "duration_max = 2 ^ 64 * 10 ^ 9"

definition duration_add :: "duration \<Rightarrow> duration \<Rightarrow> duration option" where
  "duration_add a b = (if a + b < duration_max then Some (a + b) else None)"

definition duration_as_secs :: "duration \<Rightarrow> u64" where
  "duration_as_secs d = of_nat (d div 10 ^ 9)"

section \<open>Lemmas\<close>

subsection \<open>Outcomes\<close>

lemma ok_or_simps [simp]: "ok_or (Some v) e = Ok v" "ok_or None e = Err e"
  by (simp_all add: ok_or_def)

lemma unwrap_simps [simp]: "unwrap (Some v) = Ok v" "unwrap None = Panic"
  by (simp_all add: unwrap_def)

lemma ok_or_Ok [simp, ok_iff]: "ok_or x e = Ok v \<longleftrightarrow> x = Some v"
  by (simp add: ok_or_def split: option.split)

lemma ok_or_Err [simp]: "ok_or x e = Err e' \<longleftrightarrow> x = None \<and> e' = e"
  by (auto simp: ok_or_def split: option.split)

lemma ok_or_not_Panic [simp]: "ok_or x e \<noteq> Panic"
  by (simp add: ok_or_def split: option.split)

lemma unwrap_Ok [simp, ok_iff]: "unwrap x = Ok v \<longleftrightarrow> x = Some v"
  by (simp add: unwrap_def split: option.split)

lemma unwrap_Panic [simp]: "unwrap x = Panic \<longleftrightarrow> x = None"
  by (simp add: unwrap_def split: option.split)

lemma and_then_simps [simp]:
  "and_then (Ok v) f = f v" "and_then (Err e) f = Err e" "and_then Panic f = Panic"
  by (simp_all add: and_then_def)

lemma and_then_Ok [ok_iff]: "and_then x f = Ok v \<longleftrightarrow> (\<exists>u. x = Ok u \<and> f u = Ok v)"
  by (cases x) auto

lemma map_err_Ok [simp, ok_iff]: "map_err f x = Ok v \<longleftrightarrow> x = Ok v"
  by (cases x) auto

text \<open>A branch that returns an error is not the one that was taken.\<close>

lemma if_Err_Ok [ok_iff]: "(if b then Err e else x) = Ok v \<longleftrightarrow> \<not> b \<and> x = Ok v"
  by simp

lemma if_Panic_Ok [ok_iff]: "(if b then Panic else x) = Ok v \<longleftrightarrow> \<not> b \<and> x = Ok v"
  by simp

lemma case_option_Ok [ok_iff]:
  "(case x of None \<Rightarrow> Err e | Some u \<Rightarrow> f u) = Ok v \<longleftrightarrow> (\<exists>u. x = Some u \<and> f u = Ok v)"
  by (cases x) auto

lemma case_list_Ok [ok_iff]:
  "(case xs of [] \<Rightarrow> Err e | y # ys \<Rightarrow> f y ys) = Ok v \<longleftrightarrow> (\<exists>y ys. xs = y # ys \<and> f y ys = Ok v)"
  by (cases xs) auto

lemma case_sum_Ok [ok_iff]:
  "(case s of Inl e \<Rightarrow> Err (g e) | Inr u \<Rightarrow> f u) = Ok v \<longleftrightarrow> (\<exists>u. s = Inr u \<and> f u = Ok v)"
  by (cases s) auto

lemma case_result_Ok [ok_iff]:
  "(case x of Ok u \<Rightarrow> f u | Err e \<Rightarrow> Err (g e) | Panic \<Rightarrow> Panic) = Ok v \<longleftrightarrow> (\<exists>u. x = Ok u \<and> f u = Ok v)"
  by (cases x) auto

lemma is_ok_simps [simp]: "is_ok (Ok x)" "\<not> is_ok (Err e)" "\<not> is_ok Panic"
  by (simp_all add: is_ok_def)

lemma is_ok_iff: "is_ok r \<longleftrightarrow> (\<exists>x. r = Ok x)"
  by (cases r) auto

subsection \<open>Strings\<close>

lemma starts_with_iff: "starts_with p s \<longleftrightarrow> (\<exists>r. s = p @ r)"
  by (induction p s rule: starts_with.induct) auto

lemma strip_prefix_Some [simp]: "strip_prefix p s = Some r \<longleftrightarrow> s = p @ r"
  by (induction p s rule: strip_prefix.induct) auto

lemma strip_prefix_append [simp]: "strip_prefix p (p @ r) = Some r"
  by simp

lemma strip_prefix_None: "strip_prefix p s = None \<longleftrightarrow> \<not> starts_with p s"
  by (induction p s rule: strip_prefix.induct) auto

lemma split_on_nonempty [simp]: "split_on c s \<noteq> []"
  by (cases s) (auto split: list.split)

lemma split_on_parts: "p \<in> set (split_on c s) \<Longrightarrow> c \<notin> set p"
  by (induction s arbitrary: p) (auto split: if_splits list.splits)

text \<open>Joining what was split gives the string back.\<close>

lemma join_split [simp]: "join_with [c] (split_on c s) = s"
proof (induction s)
  case Nil
  show ?case by simp
next
  case (Cons x xs)
  obtain p ps where eq: "split_on c xs = p # ps"
    using split_on_nonempty by (cases "split_on c xs") auto
  from Cons.IH eq have "join_with [c] (p # ps) = xs" by simp
  then show ?case using eq by (cases ps) auto
qed

lemma split_on_no_sep: "c \<notin> set s \<Longrightarrow> split_on c s = [s]"
  by (induction s) auto

lemma split_on_append:
  assumes "c \<notin> set a"
  shows "split_on c (a @ c # b) = a # split_on c b"
  using assms by (induction a) auto

text \<open>Splitting what was joined gives the list back, when no piece holds the separator.\<close>

lemma split_join:
  assumes "xs \<noteq> []" and "\<forall>x \<in> set xs. c \<notin> set x"
  shows "split_on c (join_with [c] xs) = xs"
  using assms
proof (induction "[c]" xs rule: join_with.induct)
  case 1
  then show ?case by simp
next
  case (2 x)
  then show ?case by (simp add: split_on_no_sep)
next
  case (3 x y xs)
  then show ?case by (simp add: split_on_append)
qed

lemma char_of_unat_of_char: "char_of (unat (of_char c :: u8)) = c"
proof -
  have "(of_char c :: u8) = of_nat (of_char c)" by (simp only: of_nat_of_char)
  then have "unat (of_char c :: u8) = (of_char c :: nat)"
    by (simp only: unat_of_nat) simp
  then show ?thesis by simp
qed

lemma from_as_bytes [simp]: "from_bytes (as_bytes s) = s"
  by (induction s) (simp_all add: from_bytes_def as_bytes_def char_of_unat_of_char)

lemma as_bytes_inj [simp]: "as_bytes s = as_bytes t \<longleftrightarrow> s = t"
  by (metis from_as_bytes)

lemma as_bytes_Nil [simp]: "as_bytes s = [] \<longleftrightarrow> s = []"
  by (simp add: as_bytes_def)

lemma length_as_bytes [simp]: "length (as_bytes s) = length s"
  by (simp add: as_bytes_def)

subsection \<open>Decimal numbers\<close>

lemma less_10_cases: "(d::nat) < 10 \<Longrightarrow>
    d = 0 \<or> d = 1 \<or> d = 2 \<or> d = 3 \<or> d = 4 \<or> d = 5 \<or> d = 6 \<or> d = 7 \<or> d = 8 \<or> d = 9"
  by arith

lemma digit_val_char [simp]: "d < 10 \<Longrightarrow> digit_val (digit_char d) = Some d"
  by (drule less_10_cases, elim disjE) (simp_all add: digit_val_def digit_char_def)

lemma digit_char_range: "d < 10 \<Longrightarrow> digit_char d \<in> set ''0123456789''"
  unfolding digit_char_def by (rule nth_mem) simp

lemma parse_acc_append:
  "parse_acc a (xs @ ys) = (case parse_acc a xs of None \<Rightarrow> None | Some b \<Rightarrow> parse_acc b ys)"
  by (induction xs arbitrary: a) (auto split: option.split)

lemma show_nat_nonempty [simp]: "show_nat n \<noteq> []"
  by (subst show_nat.simps) simp

lemma parse_acc_show_nat: "parse_acc 0 (show_nat n) = Some n"
proof (induction n rule: show_nat.induct)
  case (1 n)
  show ?case
  proof (cases "n < 10")
    case True
    then show ?thesis by (subst show_nat.simps) simp
  next
    case False
    with "1.IH" have "parse_acc 0 (show_nat (n div 10)) = Some (n div 10)" by simp
    with False show ?thesis
      by (subst show_nat.simps) (simp add: parse_acc_append)
  qed
qed

lemma parse_digits_show_nat [simp]: "parse_digits (show_nat n) = Some n"
  by (simp add: parse_digits_def parse_acc_show_nat)

lemma show_nat_digits: "set (show_nat n) \<subseteq> set ''0123456789''"
proof (induction n rule: show_nat.induct)
  case (1 n)
  show ?case
  proof (cases "n < 10")
    case True
    then show ?thesis using digit_char_range [of n] by (subst show_nat.simps) simp
  next
    case False
    with "1.IH" have "set (show_nat (n div 10)) \<subseteq> set ''0123456789''" by simp
    moreover have "digit_char (n mod 10) \<in> set ''0123456789''"
      by (rule digit_char_range) simp
    ultimately show ?thesis using False by (subst show_nat.simps) simp
  qed
qed

lemma show_nat_not_sign: "c \<notin> set ''0123456789'' \<Longrightarrow> c \<notin> set (show_nat n)"
  using show_nat_digits by blast

lemma strip_plus_show_nat [simp]: "strip_plus (show_nat n) = show_nat n"
proof (cases "show_nat n")
  case Nil
  then show ?thesis by (simp add: strip_plus_def)
next
  case (Cons c cs)
  with show_nat_not_sign [of "CHR ''+''" n] have "c \<noteq> CHR ''+''" by auto
  with Cons show ?thesis by (simp add: strip_plus_def)
qed

lemma show_nat_inj [simp]: "show_nat m = show_nat n \<longleftrightarrow> m = n"
  by (metis parse_digits_show_nat option.inject)

lemma parse_show_u64 [simp]: "parse_u64 (show_u64 w) = Some w"
proof -
  have "unat w < 2 ^ 64" using unsigned_less [of w] by simp
  then show ?thesis by (simp add: parse_u64_def show_u64_def)
qed

lemma show_u64_inj [simp]: "show_u64 v = show_u64 w \<longleftrightarrow> v = w"
  by (simp add: show_u64_def word_unat_eq_iff)

lemma show_u64_not_sign: "c \<notin> set ''0123456789'' \<Longrightarrow> c \<notin> set (show_u64 w)"
  by (simp add: show_u64_def show_nat_not_sign)

subsection \<open>\<^verbatim>\<open>HashMap\<close>\<close>

lemma hm_get_insert [simp]: "map_of (AList.update k v m) k' = (if k' = k then Some v else map_of m k')"
  by (simp add: update_conv')

lemma hm_wf_insert [simp]: "hm_wf m \<Longrightarrow> hm_wf (AList.update k v m)"
  by (rule distinct_update)

lemma hm_contains_insert [simp]: "hm_contains (AList.update k v m) k' \<longleftrightarrow> k' = k \<or> hm_contains m k'"
  by (simp add: hm_contains_def)

lemma hm_contains_keys: "hm_contains m k \<longleftrightarrow> k \<in> set (hm_keys m)"
  by (simp add: hm_contains_def map_of_eq_None_iff)

lemma hm_collect_fold:
  "map_of (fold (\<lambda>(k, v) m. AList.update k v m) xs m) k =
     (case map_of (rev xs) k of None \<Rightarrow> map_of m k | Some v \<Rightarrow> Some v)"
proof (induction xs arbitrary: m)
  case Nil
  show ?case by simp
next
  case (Cons x xs)
  then show ?case by (cases x) (auto simp: map_add_def split: option.split)
qed

lemma hm_collect_get: "map_of (hm_collect xs) k = map_of (rev xs) k"
  by (simp add: hm_collect_def hm_collect_fold split: option.split)

lemma map_of_rev: "distinct (map fst xs) \<Longrightarrow> map_of (rev xs) = map_of xs"
  by (rule map_of_inject_set [THEN iffD2]) (simp_all add: rev_map [symmetric])

lemma hm_collect_wf [simp]: "hm_wf (hm_collect xs)"
proof -
  have "hm_wf m \<Longrightarrow> hm_wf (fold (\<lambda>(k, v) m. AList.update k v m) xs m)" for m :: "('a, 'b) hashmap"
    by (induction xs arbitrary: m) auto
  then show ?thesis by (simp add: hm_collect_def)
qed

subsection \<open>Lists\<close>

text \<open>Finding the first element with \<open>Q\<close> behind elements with \<open>P\<close>.\<close>

lemma split_first_Cons:
  "(\<exists>pre t post. s # ss = pre @ t # post \<and> (\<forall>p \<in> set pre. P p) \<and> Q t) \<longleftrightarrow>
     Q s \<or> P s \<and> (\<exists>pre t post. ss = pre @ t # post \<and> (\<forall>p \<in> set pre. P p) \<and> Q t)" (is "?L \<longleftrightarrow> ?R")
proof
  assume ?L
  then obtain pre t post where *: "s # ss = pre @ t # post" "\<forall>p \<in> set pre. P p" "Q t" by blast
  then show ?R by (cases pre) auto
next
  assume ?R
  then show ?L
  proof
    assume "Q s"
    then show ?L by (intro exI [of _ "[]"]) auto
  next
    assume "P s \<and> (\<exists>pre t post. ss = pre @ t # post \<and> (\<forall>p \<in> set pre. P p) \<and> Q t)"
    then obtain pre t post where "P s" "ss = pre @ t # post" "\<forall>p \<in> set pre. P p" "Q t" by blast
    then show ?L by (intro exI [of _ "s # pre"] exI [of _ t] exI [of _ post]) simp
  qed
qed

subsection \<open>Words\<close>

text \<open>The difference of two 64-bit times, as an interval of natural numbers.\<close>

lemma word_diff_le_iff:
  fixes t r k :: u64
  assumes "k \<le> t"
  shows "t - r \<le> k \<longleftrightarrow> t - k \<le> r \<and> r \<le> t"
  using assms by uint_arith

end
