(* ===== verification/Library_Env.thy ===== *)
theory Library_Env
  imports Rustica_Prelude
begin

text \<open>
  The third-party crates the sources call, as parameters. Nothing in this theory models code of
  the repository: it declares the data the sources exchange with the crates (only the fields the
  sources read or write) and records of functions, one field per library call. Every operation
  of the model that needs such a call takes the record as an argument; what a theorem relies on is
  a hypothesis about the fields.

  \<^item> \<open>'pk\<close> and \<open>'sk\<close> are \<^verbatim>\<open>sshcerts\<close>' \<^verbatim>\<open>PublicKey\<close> and \<^verbatim>\<open>PrivateKey\<close>, \<open>'ca\<close> is \<^verbatim>\<open>rcgen::Certificate\<close>.
  \<^item> An SSH certificate is a record of the public fields of \<^verbatim>\<open>sshcerts::Certificate\<close>; the builder's
    setters (\<^verbatim>\<open>.serial(..)\<close>, \<^verbatim>\<open>.key_id(..)\<close>, \<open>\<dots>\<close>) are updates of these fields, everything else
    (parsing, printing, signing, building) is a parameter.
  \<^item> A call that returns a \<^verbatim>\<open>Result\<close> is an \<open>option\<close> where the source drops the error, and
    a sum with the error's text on the left where the source prints it.
\<close>

section \<open>SSH keys and certificates (\<^verbatim>\<open>sshcerts\<close>)\<close>

datatype cert_type = User | Host

record fingerprint =
  fp_hash :: string
  fp_kind :: nat

record 'pk certificate =
  c_key :: 'pk
  c_serial :: u64
  c_cert_type :: cert_type
  c_key_id :: string
  c_principals :: "string list"
  c_valid_after :: u64
  c_valid_before :: u64
  c_critical_options :: "(string, string) hashmap"
  c_extensions :: "(string, string) hashmap"
  c_signature_key :: 'pk
  c_signature :: bytes
  c_comment :: "string option"
  c_serialized :: bytes

text \<open>What \<^verbatim>\<open>verify_certificate_chain\<close> and \<^verbatim>\<open>verify_auth_data\<close> return.\<close>

record 'pk piv_data =
  pd_public_key :: 'pk
  pd_pin_policy :: u8
  pd_touch_policy :: u8
  pd_serial :: u64
  pd_firmware :: string

record 'pk u2f_data =
  ud_aaguid :: bytes
  ud_firmware :: "string option"
  ud_ssh_public_key :: "string \<Rightarrow> 'pk option"

record ('pk, 'sk) ssh_lib =
  pk_from_string :: "string \<Rightarrow> 'pk option"
  pk_from_bytes :: "bytes \<Rightarrow> 'pk option"
  pk_to_string :: "'pk \<Rightarrow> string"
  pk_encode :: "'pk \<Rightarrow> bytes"
  pk_fingerprint :: "'pk \<Rightarrow> fingerprint"
  sk_from_string :: "string \<Rightarrow> 'sk option"
  sk_from_bytes :: "bytes \<Rightarrow> 'sk option"
  sk_pubkey :: "'sk \<Rightarrow> 'pk"
  sk_comment :: "'sk \<Rightarrow> string"
  sk_is_sk :: "'sk \<Rightarrow> bool"
  sk_sign :: "'sk \<Rightarrow> bytes \<Rightarrow> bytes option"
  cert_from_string :: "string \<Rightarrow> string + 'pk certificate"
  cert_from_bytes :: "bytes \<Rightarrow> 'pk certificate option"
  cert_to_string :: "'pk certificate \<Rightarrow> string"
  cert_builder :: "'pk \<Rightarrow> cert_type \<Rightarrow> 'pk \<Rightarrow> 'pk certificate option"
  cert_sign :: "'sk \<Rightarrow> 'pk certificate \<Rightarrow> 'pk certificate option"
  cert_tbs :: "'pk certificate \<Rightarrow> bytes"
  cert_add_signature :: "bytes \<Rightarrow> 'pk certificate \<Rightarrow> 'pk certificate option"
  cert_type_to_string :: "cert_type \<Rightarrow> string"
  cert_type_from_string :: "string \<Rightarrow> cert_type option"
  standard_extensions :: "(string, string) hashmap"
  verify_certificate_chain :: "bytes \<Rightarrow> bytes \<Rightarrow> 'pk piv_data option"
  verify_auth_data :: "bytes \<Rightarrow> bytes \<Rightarrow> bytes \<Rightarrow> i32 \<Rightarrow> bytes \<Rightarrow> 'pk u2f_data option"

abbreviation pk_hash :: "('pk, 'sk) ssh_lib \<Rightarrow> 'pk \<Rightarrow> string" where
  "pk_hash L k \<equiv> fp_hash (pk_fingerprint L k)"

text \<open>A slot of a Yubikey, by its number (\<^verbatim>\<open>yubikey::piv::SlotId\<close>).\<close>

type_synonym slot_id = u8

section \<open>Message authentication, digests, hexadecimal (\<^verbatim>\<open>ring\<close>, \<^verbatim>\<open>hex\<close>)\<close>

record crypto_lib =
  hmac_sign :: "bytes \<Rightarrow> bytes \<Rightarrow> bytes"
  hmac_verify :: "bytes \<Rightarrow> bytes \<Rightarrow> bytes \<Rightarrow> bool"
  sha256 :: "bytes \<Rightarrow> bytes"
  hex_encode :: "bytes \<Rightarrow> string"
  hex_decode :: "string \<Rightarrow> bytes option"

section \<open>X.509 parsing (\<^verbatim>\<open>x509_parser\<close>)\<close>

text \<open>An attribute of a relative distinguished name: its OID and its value read as a string.\<close>

record x509_attr =
  attr_type :: "nat list"
  attr_str :: "string option"

record x509 =
  x_not_after :: i64
  x_subject :: "x509_attr list list"
  x_subject_pki :: bytes

section \<open>X.509 certificate generation (\<^verbatim>\<open>rcgen\<close>)\<close>

datatype san_type = DnsName string | Rfc822Name string
datatype dn_type = CommonName | OrganizationName
datatype is_ca = NoCa | Ca
datatype key_usage = DigitalSignature | OtherKeyUsage nat
datatype sign_alg = PKCS_ECDSA_P256_SHA256 | PKCS_ECDSA_P384_SHA384

record custom_extension =
  oid_components :: "u64 list"
  ext_content :: bytes

record cert_params =
  subject_alt_names :: "san_type list"
  serial_number :: "bytes option"
  params_is_ca :: is_ca
  key_usages :: "key_usage list"
  extended_key_usages :: "nat list"
  name_constraints :: "nat option"
  custom_extensions :: "custom_extension list"
  distinguished_name :: "(dn_type \<times> string) list"
  use_authority_key_identifier_extension :: bool
  not_before :: u64
  not_after :: u64
  params_alg :: sign_alg
  params_key_pair :: "bytes option"

record csr =
  csr_params :: cert_params
  csr_public_key :: bytes

text \<open>
  \<open>time_ok s\<close> tells whether \<^verbatim>\<open>(UNIX_EPOCH + Duration::from_secs(s)).into()\<close> is a representable
  date; otherwise the conversion panics. \<open>dn_new\<close> and \<open>dn_push\<close> are \<^verbatim>\<open>DistinguishedName::new\<close> and
  \<^verbatim>\<open>push\<close>.
\<close>

record 'ca rcgen_lib =
  params_new :: "string list \<Rightarrow> cert_params"
  dn_new :: "(dn_type \<times> string) list"
  dn_push :: "(dn_type \<times> string) list \<Rightarrow> dn_type \<Rightarrow> string \<Rightarrow> (dn_type \<times> string) list"
  time_ok :: "u64 \<Rightarrow> bool"
  ca_from_params :: "cert_params \<Rightarrow> 'ca option"
  ca_key_pem :: "'ca \<Rightarrow> string"
  ca_pem :: "'ca \<Rightarrow> string + string"
  ca_pem_with_signer :: "'ca \<Rightarrow> 'ca \<Rightarrow> string option"
  csr_from_der :: "bytes \<Rightarrow> string + csr"
  csr_der_with_signer :: "csr \<Rightarrow> 'ca \<Rightarrow> bytes option"

section \<open>gRPC (\<^verbatim>\<open>tonic\<close>)\<close>

datatype status_code =
    PermissionDenied | Cancelled | InvalidArgument | Unavailable | ResourceExhausted | OtherCode nat

datatype status = Status (st_code: status_code) (st_message: string)

text \<open>The two renderings of a socket address the sources use: itself, and its IP.\<close>

record socket_addr =
  addr_string :: string
  addr_ip :: string

record 'a request =
  remote_addr :: "socket_addr option"
  peer_certs :: "bytes list option"
  into_inner :: 'a

end
