(* ===== verification/Server_Errors.thy ===== *)
theory Server_Errors
  imports Library_Env
begin

text \<open>
  \<^verbatim>\<open>rustica/src/error.rs\<close>, \<^verbatim>\<open>rustica/src/key.rs\<close> and the error type of \<^verbatim>\<open>rustica/src/auth/mod.rs\<close>:
  the error codes a client sees, the attestation data of a key, and the touch and PIN policies.
\<close>

section \<open>Errors\<close>

datatype rustica_server_error =
    Success | TimeExpired | BadChallenge | InvalidKey | UnsupportedKeyType | BadCertOptions
  | NotAuthorized | BadRequest | PivClientCertTooBig | PivIntermediateCertTooBig
  | U2fAttestationTooBig | U2fIntermediateCertTooBig | Unknown

datatype authorization_error =
    AE_CertType | AE_NotAuthorized | AE_AuthorizerError | AE_ConnectionFailure
  | AE_DatabaseError string | AE_ExternalError string

text \<open>The discriminants, as \<^verbatim>\<open>e as i64\<close> reads them.\<close>

fun error_code :: "rustica_server_error \<Rightarrow> i64" where
  "error_code Success = 0"
| "error_code TimeExpired = 1"
| "error_code BadChallenge = 2"
| "error_code InvalidKey = 3"
| "error_code UnsupportedKeyType = 4"
| "error_code BadCertOptions = 5"
| "error_code NotAuthorized = 6"
| "error_code BadRequest = 7"
| "error_code PivClientCertTooBig = 8"
| "error_code PivIntermediateCertTooBig = 9"
| "error_code U2fAttestationTooBig = 10"
| "error_code U2fIntermediateCertTooBig = 11"
| "error_code Unknown = 9001"

text \<open>The derived \<^verbatim>\<open>Debug\<close> rendering (\<^verbatim>\<open>{:?}\<close>).\<close>

fun debug_error :: "rustica_server_error \<Rightarrow> string" where
  "debug_error Success = ''Success''"
| "debug_error TimeExpired = ''TimeExpired''"
| "debug_error BadChallenge = ''BadChallenge''"
| "debug_error InvalidKey = ''InvalidKey''"
| "debug_error UnsupportedKeyType = ''UnsupportedKeyType''"
| "debug_error BadCertOptions = ''BadCertOptions''"
| "debug_error NotAuthorized = ''NotAuthorized''"
| "debug_error BadRequest = ''BadRequest''"
| "debug_error PivClientCertTooBig = ''PivClientCertTooBig''"
| "debug_error PivIntermediateCertTooBig = ''PivIntermediateCertTooBig''"
| "debug_error U2fAttestationTooBig = ''U2fAttestationTooBig''"
| "debug_error U2fIntermediateCertTooBig = ''U2fIntermediateCertTooBig''"
| "debug_error Unknown = ''Unknown''"

fun authorization_error_to_string :: "authorization_error \<Rightarrow> string" where
  "authorization_error_to_string AE_CertType = ''Not authorized for this certificate type''"
| "authorization_error_to_string AE_NotAuthorized = ''Not authorized''"
| "authorization_error_to_string AE_AuthorizerError = ''Authorization error''"
| "authorization_error_to_string AE_ConnectionFailure = ''Could not connect to authorization service''"
| "authorization_error_to_string (AE_DatabaseError m) = ''Database error: '' @ m"
| "authorization_error_to_string (AE_ExternalError m) = m"

fun from_authorization_error :: "authorization_error \<Rightarrow> rustica_server_error" where
  "from_authorization_error AE_CertType = BadCertOptions"
| "from_authorization_error AE_NotAuthorized = NotAuthorized"
| "from_authorization_error _ = Unknown"

section \<open>Keys and their attestation\<close>

datatype touch_policy = TouchNever | TouchAlways | TouchCached
datatype pin_policy = PinNever | PinOnce | PinAlways

record piv_attestation =
  pa_pin_policy :: pin_policy
  pa_touch_policy :: touch_policy
  pa_serial :: u64
  pa_firmware :: string
  pa_certificate :: bytes
  pa_intermediate :: bytes

record u2f_attestation =
  ua_aaguid :: string
  ua_firmware :: string
  ua_auth_data :: bytes
  ua_auth_data_signature :: bytes
  ua_intermediate :: bytes
  ua_challenge :: bytes
  ua_application :: bytes
  ua_alg :: i32

datatype key_attestation = Piv piv_attestation | U2f u2f_attestation

record key =
  k_fingerprint :: string
  k_attestation :: "key_attestation option"

fun pin_policy_to_string :: "pin_policy \<Rightarrow> string" where
  "pin_policy_to_string PinNever = ''Never''"
| "pin_policy_to_string PinOnce = ''Once''"
| "pin_policy_to_string PinAlways = ''Always''"

fun touch_policy_to_string :: "touch_policy \<Rightarrow> string" where
  "touch_policy_to_string TouchNever = ''Never''"
| "touch_policy_to_string TouchAlways = ''Always''"
| "touch_policy_to_string TouchCached = ''Cached''"

definition touch_policy_try_from :: "u8 \<Rightarrow> touch_policy option" where
  "touch_policy_try_from v =
     (if v = 1 then Some TouchNever else if v = 2 then Some TouchAlways
      else if v = 3 then Some TouchCached else None)"

definition pin_policy_try_from :: "u8 \<Rightarrow> pin_policy option" where
  "pin_policy_try_from v =
     (if v = 1 then Some PinNever else if v = 2 then Some PinOnce
      else if v = 3 then Some PinAlways else None)"

section \<open>Lemmas\<close>

lemma error_code_inj: "error_code a = error_code b \<longleftrightarrow> a = b"
  by (cases a; cases b) simp_all

lemma error_code_zero [simp]: "error_code e = 0 \<longleftrightarrow> e = Success"
  using error_code_inj [of e Success] by simp

lemma from_authorization_error_not_Success [simp]: "from_authorization_error e \<noteq> Success"
  by (cases e) simp_all

lemma debug_error_nonempty [simp]: "debug_error e \<noteq> []"
  by (cases e) simp_all

lemma touch_policy_try_from_range: "(\<exists>p. touch_policy_try_from v = Some p) \<longleftrightarrow> v \<in> {1, 2, 3}"
  by (auto simp: touch_policy_try_from_def)

lemma pin_policy_try_from_range: "(\<exists>p. pin_policy_try_from v = Some p) \<longleftrightarrow> v \<in> {1, 2, 3}"
  by (auto simp: pin_policy_try_from_def)

end
