(* ===== verification/Auth_Types.thy ===== *)
theory Auth_Types
  imports Server_Errors
begin

text \<open>
  \<^verbatim>\<open>rustica/src/auth/mod.rs\<close>: the requests a server sends to its authorizer and the
  authorizations it gets back.
\<close>

record ssh_authorization =
  sa_serial :: u64
  sa_valid_before :: u64
  sa_valid_after :: u64
  sa_principals :: "string list"
  sa_hosts :: "string list option"
  sa_extensions :: "(string, string) hashmap"
  sa_force_command :: "string option"
  sa_force_source_ip :: bool
  sa_authority :: string

record ssh_authorization_request =
  sr_fingerprint :: string
  sr_mtls_identities :: "string list"
  sr_requester_ip :: string
  sr_principals :: "string list"
  sr_servers :: "string list"
  sr_valid_before :: u64
  sr_valid_after :: u64
  sr_cert_type :: cert_type
  sr_authority :: string

record x509_authorization_request =
  xr_authority :: string
  xr_mtls_identities :: "string list"
  xr_requester_ip :: string
  xr_attestation :: bytes
  xr_attestation_intermediate :: bytes
  xr_key :: key

record x509_authorization =
  xa_authority :: string
  xa_issuer :: string
  xa_common_name :: string
  xa_sans :: "string list"
  xa_serial :: i64
  xa_valid_before :: u64
  xa_valid_after :: u64
  xa_extensions :: "custom_extension list"

record register_key_request_properties =
  rk_fingerprint :: string
  rk_pubkey :: string
  rk_mtls_identities :: "string list"
  rk_requester_ip :: string
  rk_attestation :: "key_attestation option"

record allowed_signer =
  as_identity :: string
  as_pubkey :: string

record allowed_signers =
  as_allowed_signers :: "allowed_signer list"

text \<open>The validity a default X.509 authorization gets: twelve hours.\<close>

definition x509_validity_secs :: u64 where
  "x509_validity_secs = 3600 * 12"

text \<open>The first mTLS identity, the one X.509 certificates are issued for.\<close>

definition first_identity :: "string list \<Rightarrow> string option" where
  "first_identity ids = (case ids of [] \<Rightarrow> None | i # _ \<Rightarrow> Some i)"

lemma first_identity_Some [simp]: "first_identity ids = Some i \<longleftrightarrow> (\<exists>is. ids = i # is)"
  by (auto simp: first_identity_def split: list.split)

lemma first_identity_None [simp]: "first_identity ids = None \<longleftrightarrow> ids = []"
  by (auto simp: first_identity_def split: list.split)

end
