(* ===== verification/Auth_Database.thy ===== *)
theory Auth_Database
  imports Auth_Types
begin

text \<open>
  \<^verbatim>\<open>rustica/src/auth/database.rs\<close> with \<^verbatim>\<open>models.rs\<close>: the authorizer backed by a SQLite database.

  A database is a record of tables, a table is the list of its rows in the order a query returns
  them. A table that cannot be queried is \<open>None\<close>: the source calls \<^verbatim>\<open>expect\<close> on those
  queries, so they panic. The table of registered keys has the fingerprint as its primary key (as the
  migrations declare it), so inserting a known fingerprint fails with SQLite's error
  text, a parameter. \<open>databases\<close> maps a path to the database behind it; a path that cannot be
  opened panics in \<^verbatim>\<open>establish_connection\<close>.
\<close>

section \<open>Rows and tables\<close>

record fingerprint_principal_authorization =
  fp_pr_fingerprint :: string
  fp_pr_principal :: string
  fp_pr_authority :: string

record fingerprint_host_authorization =
  fp_ho_fingerprint :: string
  fp_ho_hostname :: string
  fp_ho_authority :: string

record fingerprint_extension =
  fp_ex_fingerprint :: string
  fp_ex_extension_name :: string
  fp_ex_extension_value :: "string option"
  fp_ex_authority :: string

record fingerprint_permission =
  fp_pe_fingerprint :: string
  fp_pe_host_unrestricted :: bool
  fp_pe_principal_unrestricted :: bool
  fp_pe_can_create_host_certs :: bool
  fp_pe_can_create_user_certs :: bool
  fp_pe_max_creation_time :: i64
  fp_pe_authority :: string

record registered_key =
  rg_fingerprint :: string
  rg_pubkey :: string
  rg_user :: string
  rg_pin_policy :: "string option"
  rg_touch_policy :: "string option"
  rg_hsm_serial :: "string option"
  rg_firmware :: "string option"
  rg_attestation_certificate :: "string option"
  rg_attestation_intermediate :: "string option"
  rg_auth_data :: "string option"
  rg_auth_data_signature :: "string option"
  rg_aaguid :: "string option"
  rg_challenge :: "string option"
  rg_alg :: "i32 option"
  rg_application :: "string option"

record x509_authorization_row =
  xo_user :: string
  xo_hsm_serial :: string
  xo_require_touch :: bool
  xo_authority :: string

record database =
  db_principals :: "fingerprint_principal_authorization list option"
  db_hosts :: "fingerprint_host_authorization list option"
  db_extensions :: "fingerprint_extension list option"
  db_permissions :: "fingerprint_permission list option"
  db_x509 :: "x509_authorization_row list option"
  db_registered_keys :: "string + registered_key list"
  db_unique_error :: string

type_synonym databases = "string \<Rightarrow> database option"

record local_database =
  ld_path :: string

section \<open>Operations\<close>

definition establish_connection :: "databases \<Rightarrow> string \<Rightarrow> (database, 'e) result" where
  "establish_connection dbs path = unwrap (dbs path)"

definition principals_of :: "database \<Rightarrow> string \<Rightarrow> string \<Rightarrow> string list option" where
  "principals_of db fp authority = map_option (\<lambda>rows. map fp_pr_principal
     (filter (\<lambda>r. fp_pr_fingerprint r = fp \<and> fp_pr_authority r = authority) rows)) (db_principals db)"

definition hosts_of :: "database \<Rightarrow> string \<Rightarrow> string \<Rightarrow> string list option" where
  "hosts_of db fp authority = map_option (\<lambda>rows. map fp_ho_hostname
     (filter (\<lambda>r. fp_ho_fingerprint r = fp \<and> fp_ho_authority r = authority) rows)) (db_hosts db)"

definition extensions_of :: "database \<Rightarrow> string \<Rightarrow> string \<Rightarrow> (string, string) hashmap option" where
  "extensions_of db fp authority = map_option (\<lambda>rows. hm_collect (map
     (\<lambda>r. (fp_ex_extension_name r, case fp_ex_extension_value r of None \<Rightarrow> '''' | Some v \<Rightarrow> v))
     (filter (\<lambda>r. fp_ex_fingerprint r = fp \<and> fp_ex_authority r = authority) rows))) (db_extensions db)"

definition permissions_of :: "database \<Rightarrow> string \<Rightarrow> string \<Rightarrow> fingerprint_permission list option" where
  "permissions_of db fp authority = map_option
     (filter (\<lambda>r. fp_pe_fingerprint r = fp \<and> fp_pe_authority r = authority)) (db_permissions db)"

definition authorize_ssh_cert_local ::
    "databases \<Rightarrow> u64 option \<Rightarrow> local_database \<Rightarrow> ssh_authorization_request
     \<Rightarrow> (ssh_authorization, authorization_error) result" where
  "authorize_ssh_cert_local dbs now local req =
     (let fp = sr_fingerprint req;
          current_timestamp = (case now of Some ts \<Rightarrow> ts | None \<Rightarrow> 0xEFFFFFFFFFFFFFFF)
      in and_then (establish_connection dbs (ld_path local)) (\<lambda>db.
         and_then (unwrap (principals_of db fp (sr_authority req))) (\<lambda>principals.
         and_then (unwrap (hosts_of db fp (sr_authority req))) (\<lambda>hosts.
         and_then (unwrap (extensions_of db fp (sr_authority req))) (\<lambda>extensions.
         and_then (unwrap (permissions_of db fp (sr_authority req))) (\<lambda>results.
           case results of
             [] \<Rightarrow> Err AE_NotAuthorized
           | r # _ \<Rightarrow>
             if (case sr_cert_type req of User \<Rightarrow> \<not> fp_pe_can_create_user_certs r
                 | Host \<Rightarrow> \<not> fp_pe_can_create_host_certs r)
             then Err AE_CertType
             else Ok \<lparr>sa_serial = 0,
                      sa_valid_before = current_timestamp + fp_pe_max_creation_time r,
                      sa_valid_after = sr_valid_after req,
                      sa_principals = (if fp_pe_principal_unrestricted r then sr_principals req
                                       else principals),
                      sa_hosts = (if fp_pe_host_unrestricted r then None else Some hosts),
                      sa_extensions = extensions,
                      sa_force_command = None,
                      sa_force_source_ip = False,
                      sa_authority = sr_authority req\<rparr>))))))"

definition new_registered_key ::
    "crypto_lib \<Rightarrow> register_key_request_properties \<Rightarrow> registered_key" where
  "new_registered_key C req =
     (let k = \<lparr>rg_fingerprint = rk_fingerprint req, rg_pubkey = rk_pubkey req,
               rg_user = join_with '','' (rk_mtls_identities req),
               rg_pin_policy = None, rg_touch_policy = None, rg_hsm_serial = None,
               rg_firmware = None, rg_attestation_certificate = None,
               rg_attestation_intermediate = None, rg_auth_data = None,
               rg_auth_data_signature = None, rg_aaguid = None, rg_challenge = None,
               rg_alg = None, rg_application = None\<rparr>
      in case rk_attestation req of
        Some (Piv a) \<Rightarrow>
          k\<lparr>rg_firmware := Some (pa_firmware a),
            rg_hsm_serial := Some (show_u64 (pa_serial a)),
            rg_touch_policy := Some (touch_policy_to_string (pa_touch_policy a)),
            rg_pin_policy := Some (pin_policy_to_string (pa_pin_policy a)),
            rg_attestation_certificate := Some (hex_encode C (pa_certificate a)),
            rg_attestation_intermediate := Some (hex_encode C (pa_intermediate a))\<rparr>
      | Some (U2f a) \<Rightarrow>
          k\<lparr>rg_firmware := Some (ua_firmware a),
            rg_attestation_intermediate := Some (hex_encode C (ua_intermediate a)),
            rg_auth_data := Some (hex_encode C (ua_auth_data a)),
            rg_auth_data_signature := Some (hex_encode C (ua_auth_data_signature a)),
            rg_aaguid := Some (hex_encode C (as_bytes (ua_aaguid a))),
            rg_challenge := Some (hex_encode C (ua_challenge a)),
            rg_alg := Some (ua_alg a),
            rg_application := Some (hex_encode C (ua_application a))\<rparr>
      | None \<Rightarrow> k)"

text \<open>\<^verbatim>\<open>INSERT INTO registered_keys\<close>, with the fingerprint as the primary key.\<close>

definition insert_registered_key :: "database \<Rightarrow> registered_key \<Rightarrow> string + database" where
  "insert_registered_key db k = (case db_registered_keys db of
     Inl e \<Rightarrow> Inl e
   | Inr rows \<Rightarrow>
       if rg_fingerprint k \<in> set (map rg_fingerprint rows) then Inl (db_unique_error db)
       else Inr (db\<lparr>db_registered_keys := Inr (rows @ [k])\<rparr>))"

definition register_key_local ::
    "crypto_lib \<Rightarrow> databases \<Rightarrow> local_database \<Rightarrow> register_key_request_properties
     \<Rightarrow> databases \<times> (unit, authorization_error) result" where
  "register_key_local C dbs local req =
     (case dbs (ld_path local) of
        None \<Rightarrow> (dbs, Panic)
      | Some db \<Rightarrow>
        (case insert_registered_key db (new_registered_key C req) of
           Inl e \<Rightarrow> (dbs, Err (AE_DatabaseError e))
         | Inr db' \<Rightarrow> (dbs(ld_path local \<mapsto> db'), Ok ())))"

definition authorize_attested_x509_cert_local ::
    "databases \<Rightarrow> u64 option \<Rightarrow> local_database \<Rightarrow> x509_authorization_request
     \<Rightarrow> (x509_authorization, authorization_error) result" where
  "authorize_attested_x509_cert_local dbs now local props =
     and_then (establish_connection dbs (ld_path local)) (\<lambda>db.
       case k_attestation (xr_key props) of
         None \<Rightarrow> Err AE_AuthorizerError
       | Some (U2f _) \<Rightarrow> Err AE_AuthorizerError
       | Some (Piv att) \<Rightarrow>
         and_then (ok_or (first_identity (xr_mtls_identities props)) AE_AuthorizerError) (\<lambda>mtls_user.
         and_then (unwrap (db_x509 db)) (\<lambda>rows.
           case filter (\<lambda>r. xo_user r = mtls_user \<and> xo_authority r = xr_authority props
                          \<and> xo_hsm_serial r = show_u64 (pa_serial att)) rows of
             [] \<Rightarrow> Err AE_NotAuthorized
           | a # _ \<Rightarrow>
             if xo_require_touch a \<and> pa_touch_policy att = TouchNever then Err AE_NotAuthorized
             else and_then (unwrap now) (\<lambda>current_time.
               Ok \<lparr>xa_authority = xr_authority props, xa_issuer = ''Rustica'',
                   xa_common_name = mtls_user, xa_sans = [mtls_user],
                   xa_serial = 0xFEFEFEFEFE,
                   xa_valid_before = current_time + x509_validity_secs,
                   xa_valid_after = current_time,
                   xa_extensions = []\<rparr>))))"

definition get_allowed_signers_local ::
    "databases \<Rightarrow> local_database \<Rightarrow> (allowed_signers, authorization_error) result" where
  "get_allowed_signers_local dbs local =
     and_then (establish_connection dbs (ld_path local)) (\<lambda>db.
       case db_registered_keys db of
         Inl e \<Rightarrow> Err (AE_DatabaseError e)
       | Inr rows \<Rightarrow> Ok \<lparr>as_allowed_signers =
           map (\<lambda>r. \<lparr>as_identity = rg_user r, as_pubkey = rg_pubkey r\<rparr>) rows\<rparr>)"

section \<open>Lemmas\<close>

text \<open>The table of registered keys has one row per fingerprint.\<close>

definition registered_keys_wf :: "database \<Rightarrow> bool" where
  "registered_keys_wf db = (case db_registered_keys db of
     Inl _ \<Rightarrow> True | Inr rows \<Rightarrow> distinct (map rg_fingerprint rows))"

lemma new_registered_key_simps [simp]:
  "rg_fingerprint (new_registered_key C req) = rk_fingerprint req"
  "rg_pubkey (new_registered_key C req) = rk_pubkey req"
  "rg_user (new_registered_key C req) = join_with '','' (rk_mtls_identities req)"
  by (simp_all add: new_registered_key_def Let_def split: option.split key_attestation.split)

lemma insert_registered_key_Inr:
  "insert_registered_key db k = Inr db' \<longleftrightarrow>
     (\<exists>rows. db_registered_keys db = Inr rows \<and> rg_fingerprint k \<notin> set (map rg_fingerprint rows) \<and>
        db' = db\<lparr>db_registered_keys := Inr (rows @ [k])\<rparr>)"
  by (auto simp: insert_registered_key_def split: sum.splits if_splits)

lemma insert_registered_key_wf:
  "insert_registered_key db k = Inr db' \<Longrightarrow> registered_keys_wf db \<Longrightarrow> registered_keys_wf db'"
  by (auto simp: insert_registered_key_Inr registered_keys_wf_def)

lemma register_key_local_Ok:
  "register_key_local C dbs l req = (dbs', Ok u) \<longleftrightarrow>
     (\<exists>db db'. dbs (ld_path l) = Some db \<and>
        insert_registered_key db (new_registered_key C req) = Inr db' \<and> dbs' = dbs(ld_path l \<mapsto> db'))"
  by (auto simp: register_key_local_def split: option.splits sum.splits)

lemma register_key_local_lists:
  assumes "register_key_local C dbs l req = (dbs', Ok ())"
  shows "\<exists>a. get_allowed_signers_local dbs' l = Ok a \<and>
     \<lparr>as_identity = join_with '','' (rk_mtls_identities req), as_pubkey = rk_pubkey req\<rparr> \<in> set (as_allowed_signers a)"
  using assms
  by (auto simp: register_key_local_Ok insert_registered_key_Inr get_allowed_signers_local_def
      establish_connection_def)

text \<open>
  Registering a key adds exactly one allowed signer, the key under the comma-separated mTLS
  identities it was registered with, and no other.
\<close>

theorem register_then_list:
  assumes "register_key_local C dbs l req = (dbs', Ok ())"
  shows "\<exists>a. get_allowed_signers_local dbs l = Ok a \<and>
     get_allowed_signers_local dbs' l = Ok \<lparr>as_allowed_signers = as_allowed_signers a @
       [\<lparr>as_identity = join_with '','' (rk_mtls_identities req), as_pubkey = rk_pubkey req\<rparr>]\<rparr>"
  using assms
  by (auto simp: register_key_local_Ok insert_registered_key_Inr get_allowed_signers_local_def
      establish_connection_def)

text \<open>
  A fingerprint is registered once: registering it again, with whatever other data, is a
  database error and changes nothing, and the table keeps one row per fingerprint.
\<close>

theorem register_once:
  assumes "register_key_local C dbs l req = (dbs', Ok ())"
    and "dbs (ld_path l) = Some db" and "registered_keys_wf db"
    and "rk_fingerprint again = rk_fingerprint req"
  shows "(\<exists>e. register_key_local C dbs' l again = (dbs', Err (AE_DatabaseError e))) \<and>
     (\<exists>db'. dbs' (ld_path l) = Some db' \<and> registered_keys_wf db')"
proof -
  obtain db' where db': "insert_registered_key db (new_registered_key C req) = Inr db'"
    "dbs' = dbs(ld_path l \<mapsto> db')"
    using assms(1,2) by (auto simp: register_key_local_Ok)
  have "insert_registered_key db' (new_registered_key C again) = Inl (db_unique_error db')"
    using db'(1) assms(4) by (auto simp: insert_registered_key_Inr) (simp add: insert_registered_key_def)
  then show ?thesis
    using db' assms(3) insert_registered_key_wf by (auto simp: register_key_local_def)
qed

end
