(* ===== verification/Auth_External.thy ===== *)
theory Auth_External
  imports Auth_Types
begin

text \<open>
  \<^verbatim>\<open>rustica/src/auth/external.rs\<close>: the authorizer that forwards every question to a remote
  \<^verbatim>\<open>Author\<close> service over gRPC. The channel (address, TLS, connection) and the answers of the service
  are parameters, the maps sent and the reading of the answers are the model.
\<close>

record auth_server =
  au_server :: string
  au_port :: string
  au_ca :: string
  au_mtls_cert :: string
  au_mtls_key :: string

record authorize_request =
  ar_identities :: "(string, string) hashmap"
  ar_authorization_request :: "(string, string) hashmap"

record add_identity_data_request =
  ai_identities :: "(string, string) hashmap"
  ai_identity_data :: "(string, string) hashmap"

text \<open>
  The remote side. \<open>parse_oid\<close> is \<^verbatim>\<open>Oid::from_str\<close> followed by \<^verbatim>\<open>oid.iter()\<close>, \<open>asn1_utf8\<close> is
  \<^verbatim>\<open>asn1::write_single(&Utf8String::new(..))\<close>, \<open>status_text\<close> the \<^verbatim>\<open>Display\<close> of a status.
\<close>

record author_service =
  uri_ok :: "string \<Rightarrow> bool"
  tls_ok :: "auth_server \<Rightarrow> bool"
  connect_ok :: "auth_server \<Rightarrow> bool"
  author_authorize :: "authorize_request \<Rightarrow> status + (string, string) hashmap"
  author_add_identity_data :: "add_identity_data_request \<Rightarrow> status + unit"
  author_get_allowed_signers :: "status + (string \<times> string) list"
  status_text :: "status \<Rightarrow> string"
  parse_oid :: "string \<Rightarrow> u64 list option option"
  asn1_utf8 :: "string \<Rightarrow> bytes option"

section \<open>Operations\<close>

text \<open>Opening the channel; the caller chooses the error for an address that is no URI.\<close>

definition open_channel ::
    "author_service \<Rightarrow> auth_server \<Rightarrow> authorization_error \<Rightarrow> (unit, authorization_error) result" where
  "open_channel A srv bad_uri =
     (if \<not> uri_ok A (''https://'' @ au_server srv @ '':'' @ au_port srv) then Err bad_uri
      else if \<not> tls_ok A srv then Err AE_ConnectionFailure
      else if \<not> connect_ok A srv then Err AE_ConnectionFailure
      else Ok ())"

text \<open>\<^verbatim>\<open>map["key"]\<close> panics when the key is missing.\<close>

definition hm_index :: "('k, 'v) hashmap \<Rightarrow> 'k \<Rightarrow> ('v, 'e) result" where
  "hm_index m k = unwrap (map_of m k)"

definition ssh_identities :: "ssh_authorization_request \<Rightarrow> (string, string) hashmap" where
  "ssh_identities props =
     hm_insert ''mtls_identities'' (join_with '','' (sr_mtls_identities props))
    (hm_insert ''key_fingerprint'' (sr_fingerprint props)
    (hm_insert ''requester_ip'' (sr_requester_ip props) []))"

definition ssh_authorization_request_map ::
    "('pk, 'sk) ssh_lib \<Rightarrow> ssh_authorization_request \<Rightarrow> (string, string) hashmap" where
  "ssh_authorization_request_map L props =
     hm_insert ''authority'' (sr_authority props)
    (hm_insert ''cert_type'' (cert_type_to_string L (sr_cert_type props))
    (hm_insert ''valid_after'' (show_u64 (sr_valid_after props))
    (hm_insert ''valid_before'' (show_u64 (sr_valid_before props))
    (hm_insert ''servers'' (join_with '','' (sr_servers props))
    (hm_insert ''principals'' (join_with '','' (sr_principals props))
    (hm_insert ''type'' ''ssh'' []))))))"

definition extension_entries :: "(string, string) hashmap \<Rightarrow> (string, string) hashmap" where
  "extension_entries m = hm_collect (map
     (\<lambda>(k, v). (case strip_prefix ''extension.'' k of None \<Rightarrow> '''' | Some r \<Rightarrow> r, v))
     (filter (\<lambda>(k, v). starts_with ''extension.'' k) m))"

text \<open>Reading the service's approval of an SSH certificate.\<close>

definition read_ssh_approval ::
    "(string, string) hashmap \<Rightarrow> (ssh_authorization, authorization_error) result" where
  "read_ssh_approval m =
     (let extensions = extension_entries m;
          force_command = map_of m ''force_command'';
          force_source_ip = hm_contains m ''force_source_ip'';
          hosts = map_option (split_on CHR '','') (map_of m ''authorized_fingerprints'')
      in and_then (hm_index m ''serial'') (\<lambda>s.
         and_then (ok_or (parse_u64 s) AE_AuthorizerError) (\<lambda>serial.
         and_then (hm_index m ''valid_before'') (\<lambda>s.
         and_then (ok_or (parse_u64 s) AE_AuthorizerError) (\<lambda>valid_before.
         and_then (hm_index m ''valid_after'') (\<lambda>s.
         and_then (ok_or (parse_u64 s) AE_AuthorizerError) (\<lambda>valid_after.
         and_then (hm_index m ''principals'') (\<lambda>principals.
         and_then (hm_index m ''authority'') (\<lambda>authority.
           Ok \<lparr>sa_serial = serial, sa_valid_before = valid_before, sa_valid_after = valid_after,
               sa_principals = split_on CHR '','' principals, sa_hosts = hosts,
               sa_extensions = extensions, sa_force_command = force_command,
               sa_force_source_ip = force_source_ip, sa_authority = authority\<rparr>)))))))))"

definition authorize_ssh_cert_external ::
    "('pk, 'sk) ssh_lib \<Rightarrow> author_service \<Rightarrow> auth_server \<Rightarrow> ssh_authorization_request
     \<Rightarrow> (ssh_authorization, authorization_error) result" where
  "authorize_ssh_cert_external L A srv props =
     and_then (open_channel A srv AE_AuthorizerError) (\<lambda>_.
       case author_authorize A \<lparr>ar_identities = ssh_identities props,
              ar_authorization_request = ssh_authorization_request_map L props\<rparr> of
         Inl st \<Rightarrow> if st_code st = PermissionDenied then Err AE_NotAuthorized else Err AE_AuthorizerError
       | Inr m \<Rightarrow> read_ssh_approval m)"

definition register_identities ::
    "register_key_request_properties \<Rightarrow> (string, string) hashmap" where
  "register_identities req =
     hm_insert ''mtls_identities'' (join_with '','' (rk_mtls_identities req))
    (hm_insert ''key_fingerprint'' (rk_fingerprint req)
    (hm_insert ''requester_ip'' (rk_requester_ip req) []))"

definition register_identity_data ::
    "crypto_lib \<Rightarrow> register_key_request_properties \<Rightarrow> (string, string) hashmap" where
  "register_identity_data C req = (case rk_attestation req of
     Some (Piv a) \<Rightarrow>
       hm_insert ''intermediate_certificate'' (hex_encode C (pa_intermediate a))
      (hm_insert ''certificate'' (hex_encode C (pa_certificate a))
      (hm_insert ''type'' ''ssh_key'' []))
   | Some (U2f a) \<Rightarrow>
       hm_insert ''aaguid'' (ua_aaguid a)
      (hm_insert ''alg'' (show_int (sint (ua_alg a)))
      (hm_insert ''application'' (hex_encode C (ua_application a))
      (hm_insert ''challenge'' (hex_encode C (ua_challenge a))
      (hm_insert ''intermediate_certificate'' (hex_encode C (ua_intermediate a))
      (hm_insert ''auth_data_signature'' (hex_encode C (ua_auth_data_signature a))
      (hm_insert ''auth_data'' (hex_encode C (ua_auth_data a))
      (hm_insert ''type'' ''u2f_ssh_key'' [])))))))
   | None \<Rightarrow> hm_insert ''type'' ''ssh_key'' [])"

definition register_key_external ::
    "crypto_lib \<Rightarrow> author_service \<Rightarrow> auth_server \<Rightarrow> register_key_request_properties
     \<Rightarrow> (unit, authorization_error) result" where
  "register_key_external C A srv req =
     and_then (open_channel A srv AE_ConnectionFailure) (\<lambda>_.
       case author_add_identity_data A \<lparr>ai_identities = register_identities req,
              ai_identity_data = register_identity_data C req\<rparr> of
         Inr _ \<Rightarrow> Ok ()
       | Inl e \<Rightarrow> Err (AE_ExternalError (status_text A e)))"

definition x509_identities ::
    "crypto_lib \<Rightarrow> x509_authorization_request \<Rightarrow> (string, string) hashmap" where
  "x509_identities C props =
     hm_insert ''intermediate'' (hex_encode C (xr_attestation_intermediate props))
    (hm_insert ''leaf'' (hex_encode C (xr_attestation props))
    (hm_insert ''requester_ip'' (xr_requester_ip props)
    (hm_insert ''mtls_identities'' (join_with '','' (xr_mtls_identities props)) [])))"

definition x509_authorization_request_map ::
    "x509_authorization_request \<Rightarrow> (string, string) hashmap" where
  "x509_authorization_request_map props =
     hm_insert ''authority'' (xr_authority props) (hm_insert ''type'' ''rustica_mtls'' [])"

definition oid_extension :: "author_service \<Rightarrow> string \<times> string \<Rightarrow> custom_extension option" where
  "oid_extension A entry = (case parse_oid A (fst entry) of
     None \<Rightarrow> None
   | Some None \<Rightarrow> None
   | Some (Some ints) \<Rightarrow>
       (case asn1_utf8 A (snd entry) of
          None \<Rightarrow> None
        | Some b \<Rightarrow> Some \<lparr>oid_components = ints, ext_content = b\<rparr>))"

definition read_x509_times ::
    "(string, string) hashmap \<Rightarrow> u64 option \<Rightarrow> (u64 \<times> u64, authorization_error) result" where
  "read_x509_times m now =
     (case (map_option parse_u64 (map_of m ''valid_before''),
            map_option parse_u64 (map_of m ''valid_after'')) of
        (Some (Some vb), Some (Some va)) \<Rightarrow> Ok (vb, va)
      | (None, None) \<Rightarrow>
          (case now of None \<Rightarrow> Panic | Some t \<Rightarrow> Ok (t + x509_validity_secs, t))
      | _ \<Rightarrow> Err AE_AuthorizerError)"

definition read_x509_serial ::
    "(string, string) hashmap \<Rightarrow> (i64, authorization_error) result" where
  "read_x509_serial m = (case map_option parse_i64 (map_of m ''serial'') of
     Some (Some s) \<Rightarrow> Ok s
   | Some None \<Rightarrow> Err AE_AuthorizerError
   | None \<Rightarrow> Ok 0xFEFEFEFEFE)"

definition authorize_attested_x509_cert_external ::
    "crypto_lib \<Rightarrow> author_service \<Rightarrow> u64 option \<Rightarrow> auth_server \<Rightarrow> x509_authorization_request
     \<Rightarrow> (x509_authorization, authorization_error) result" where
  "authorize_attested_x509_cert_external C A now srv props =
     and_then (open_channel A srv AE_ConnectionFailure) (\<lambda>_.
       case author_authorize A \<lparr>ar_identities = x509_identities C props,
              ar_authorization_request = x509_authorization_request_map props\<rparr> of
         Inl st \<Rightarrow> Err AE_AuthorizerError
       | Inr m \<Rightarrow>
         and_then (ok_or (first_identity (xr_mtls_identities props)) AE_AuthorizerError) (\<lambda>mtls_user.
         and_then (read_x509_times m now) (\<lambda>(valid_before, valid_after).
         and_then (read_x509_serial m) (\<lambda>serial.
         and_then (ok_or (map_of m ''authority'') AE_AuthorizerError) (\<lambda>authority.
           Ok \<lparr>xa_authority = authority,
               xa_issuer = (case map_of m ''issuer'' of None \<Rightarrow> ''Rustica'' | Some i \<Rightarrow> i),
               xa_common_name = mtls_user, xa_sans = [mtls_user], xa_serial = serial,
               xa_valid_before = valid_before, xa_valid_after = valid_after,
               xa_extensions = List.map_filter (oid_extension A) m\<rparr>)))))"

definition get_allowed_signers_external ::
    "author_service \<Rightarrow> auth_server \<Rightarrow> (allowed_signers, authorization_error) result" where
  "get_allowed_signers_external A srv =
     and_then (open_channel A srv AE_ConnectionFailure) (\<lambda>_.
       case author_get_allowed_signers A of
         Inl st \<Rightarrow> Err AE_AuthorizerError
       | Inr xs \<Rightarrow> Ok \<lparr>as_allowed_signers =
           map (\<lambda>(i, k). \<lparr>as_identity = i, as_pubkey = k\<rparr>) xs\<rparr>)"

section \<open>Lemmas\<close>

lemma hm_index_simps [simp]:
  "hm_index m k = Ok v \<longleftrightarrow> map_of m k = Some v" "hm_index m k = Panic \<longleftrightarrow> map_of m k = None"
  by (simp_all add: hm_index_def)

lemma strip_entries_get:
  assumes "hm_wf m"
  shows "map_of (hm_collect (map
     (\<lambda>(k, v). (case strip_prefix p k of None \<Rightarrow> '''' | Some r \<Rightarrow> r, v))
     (filter (\<lambda>(k, v). starts_with p k) m))) k = map_of m (p @ k)" (is "map_of (hm_collect ?es) k = _")
proof -
  have "distinct (map fst ?es) \<and> (\<forall>k. k \<in> set (map fst ?es) \<longrightarrow> p @ k \<in> set (map fst m))"
    using assms by (induction m) (force simp: starts_with_iff)+
  then have "map_of (hm_collect ?es) k = map_of ?es k"
    by (simp only: hm_collect_get map_of_rev)
  also have "map_of ?es k = map_of m (p @ k)"
    by (induction m) (auto simp: starts_with_iff, metis)
  finally show ?thesis .
qed

text \<open>The extensions of an approval are the entries whose key has the prefix, without it.\<close>

lemma extension_entries_get:
  "hm_wf m \<Longrightarrow> map_of (extension_entries m) k = map_of m (''extension.'' @ k)"
  unfolding extension_entries_def by (rule strip_entries_get)

end
