(* ===== verification/Auth_Mechanism.thy ===== *)
theory Auth_Mechanism
  imports Auth_Database Auth_External
begin

text \<open>
  \<^verbatim>\<open>rustica/src/auth/mod.rs\<close>: the choice between the two authorizers, the contract both of them
  keep (locale \<open>authorizer\<close>), and the lemmas about the local database.
\<close>

record authorization_configuration =
  ac_database :: "local_database option"
  ac_external :: "auth_server option"

datatype authorization_mechanism = Local local_database | External auth_server

section \<open>Operations\<close>

fun authorize_ssh_cert ::
    "('pk, 'sk) ssh_lib \<Rightarrow> author_service \<Rightarrow> databases \<Rightarrow> u64 option \<Rightarrow> authorization_mechanism
     \<Rightarrow> ssh_authorization_request \<Rightarrow> (ssh_authorization, authorization_error) result" where
  "authorize_ssh_cert L A dbs now (Local l) req = authorize_ssh_cert_local dbs now l req"
| "authorize_ssh_cert L A dbs now (External e) req = authorize_ssh_cert_external L A e req"

fun authorize_attested_x509_cert ::
    "crypto_lib \<Rightarrow> author_service \<Rightarrow> databases \<Rightarrow> u64 option \<Rightarrow> authorization_mechanism
     \<Rightarrow> x509_authorization_request \<Rightarrow> (x509_authorization, authorization_error) result" where
  "authorize_attested_x509_cert C A dbs now (Local l) req =
     authorize_attested_x509_cert_local dbs now l req"
| "authorize_attested_x509_cert C A dbs now (External e) req =
     authorize_attested_x509_cert_external C A now e req"

fun register_key_auth ::
    "crypto_lib \<Rightarrow> author_service \<Rightarrow> authorization_mechanism \<Rightarrow> databases
     \<Rightarrow> register_key_request_properties \<Rightarrow> databases \<times> (unit, authorization_error) result" where
  "register_key_auth C A (Local l) dbs req = register_key_local C dbs l req"
| "register_key_auth C A (External e) dbs req = (dbs, register_key_external C A e req)"

fun get_allowed_signers ::
    "author_service \<Rightarrow> databases \<Rightarrow> authorization_mechanism
     \<Rightarrow> (allowed_signers, authorization_error) result" where
  "get_allowed_signers A dbs (Local l) = get_allowed_signers_local dbs l"
| "get_allowed_signers A dbs (External e) = get_allowed_signers_external A e"

fun authorizer_info :: "authorization_mechanism \<Rightarrow> string" where
  "authorizer_info (Local l) = ''Configured authorizer: Local DB at '' @ ld_path l"
| "authorizer_info (External e) = ''Configured authorizer: Remote Service at '' @ au_server e"

text \<open>
  \<^verbatim>\<open>try_into\<close>; the flag is the cargo feature \<^verbatim>\<open>local-db\<close> (without it the configuration has no
  \<^verbatim>\<open>database\<close> field).
\<close>

definition try_into_mechanism ::
    "bool \<Rightarrow> authorization_configuration \<Rightarrow> (authorization_mechanism, unit) result" where
  "try_into_mechanism local_db cfg =
     (if local_db then
        (case (ac_database cfg, ac_external cfg) of
           (Some d, None) \<Rightarrow> Ok (Local d)
         | (None, Some e) \<Rightarrow> Ok (External e)
         | _ \<Rightarrow> Err ())
      else (case ac_external cfg of Some e \<Rightarrow> Ok (External e) | None \<Rightarrow> Err ()))"

section \<open>The contract of an authorizer\<close>

text \<open>
  What the server relies on: an approval's extensions are a map, an X.509 approval is for the
  first mTLS identity of the request, and a registration that does not succeed changes nothing.
\<close>

locale authorizer =
  fixes ssh :: "ssh_authorization_request \<Rightarrow> (ssh_authorization, authorization_error) result"
    and x509 :: "x509_authorization_request \<Rightarrow> (x509_authorization, authorization_error) result"
    and register :: "'s \<Rightarrow> register_key_request_properties \<Rightarrow> 's \<times> (unit, authorization_error) result"
  assumes ssh_extensions: "ssh req = Ok a \<Longrightarrow> hm_wf (sa_extensions a)"
    and x509_identity: "x509 xreq = Ok xa \<Longrightarrow>
      first_identity (xr_mtls_identities xreq) = Some (xa_common_name xa) \<and> xa_sans xa = [xa_common_name xa]"
    and register_atomic: "register s rreq = (s', r) \<Longrightarrow> r \<noteq> Ok () \<Longrightarrow> s' = s"
begin

lemma x509_needs_identity: "xr_mtls_identities req = [] \<Longrightarrow> \<not> is_ok (x509 req)"
  using x509_identity by (fastforce simp: is_ok_iff)

text \<open>Any sequence of registrations that all fail leaves the authorizer's state alone.\<close>

fun register_all :: "'s \<Rightarrow> register_key_request_properties list \<Rightarrow> 's \<times> (unit, authorization_error) result list" where
  "register_all s [] = (s, [])"
| "register_all s (q # qs) =
     (let (s1, r) = register s q; (s2, rs) = register_all s1 qs in (s2, r # rs))"

lemma register_all_failed:
  "register_all s qs = (s', rs) \<Longrightarrow> Ok () \<notin> set rs \<Longrightarrow> s' = s"
proof (induction qs arbitrary: s s' rs)
  case Nil
  then show ?case by simp
next
  case (Cons q qs)
  obtain s1 r s2 rs2 where step: "register s q = (s1, r)" "register_all s1 qs = (s2, rs2)"
    by (metis surj_pair)
  with Cons.prems have eq: "s' = s2" "rs = r # rs2" by simp_all
  with Cons.prems(2) have "r \<noteq> Ok ()" "Ok () \<notin> set rs2" by auto
  with step eq show ?case using register_atomic Cons.IH by metis
qed

end

section \<open>Both authorizers keep it\<close>

lemma read_ssh_approval_Ok:
  "read_ssh_approval m = Ok a \<longleftrightarrow>
     (\<exists>s vb va ps au ser b f.
        map_of m ''serial'' = Some s \<and> parse_u64 s = Some ser \<and>
        map_of m ''valid_before'' = Some vb \<and> parse_u64 vb = Some b \<and>
        map_of m ''valid_after'' = Some va \<and> parse_u64 va = Some f \<and>
        map_of m ''principals'' = Some ps \<and> map_of m ''authority'' = Some au \<and>
        a = \<lparr>sa_serial = ser, sa_valid_before = b, sa_valid_after = f,
             sa_principals = split_on CHR '','' ps,
             sa_hosts = map_option (split_on CHR '','') (map_of m ''authorized_fingerprints''),
             sa_extensions = extension_entries m, sa_force_command = map_of m ''force_command'',
             sa_force_source_ip = hm_contains m ''force_source_ip'', sa_authority = au\<rparr>)"
  unfolding read_ssh_approval_def Let_def and_then_Ok ok_or_Ok hm_index_simps by blast

lemma extension_entries_wf [simp]: "hm_wf (extension_entries m)"
  by (simp add: extension_entries_def del: starts_with.simps strip_prefix.simps)

lemma authorize_ssh_cert_external_extensions:
  assumes "authorize_ssh_cert_external L A srv req = Ok a"
  shows "hm_wf (sa_extensions a)"
  using assms
  by (auto simp: authorize_ssh_cert_external_def and_then_Ok read_ssh_approval_Ok split: sum.splits if_splits)

lemma not_case_cert_type:
  "\<not> (case t of User \<Rightarrow> \<not> a | Host \<Rightarrow> \<not> b) \<longleftrightarrow> (t = User \<longrightarrow> a) \<and> (t = Host \<longrightarrow> b)"
  by (cases t) auto

lemma authorize_ssh_cert_local_Ok:
  "authorize_ssh_cert_local dbs now l req = Ok a \<longleftrightarrow>
     (\<exists>db ps hs es r rs.
        dbs (ld_path l) = Some db \<and>
        principals_of db (sr_fingerprint req) (sr_authority req) = Some ps \<and>
        hosts_of db (sr_fingerprint req) (sr_authority req) = Some hs \<and>
        extensions_of db (sr_fingerprint req) (sr_authority req) = Some es \<and>
        permissions_of db (sr_fingerprint req) (sr_authority req) = Some (r # rs) \<and>
        (sr_cert_type req = User \<longrightarrow> fp_pe_can_create_user_certs r) \<and>
        (sr_cert_type req = Host \<longrightarrow> fp_pe_can_create_host_certs r) \<and>
        a = \<lparr>sa_serial = 0,
             sa_valid_before = (case now of Some ts \<Rightarrow> ts | None \<Rightarrow> 0xEFFFFFFFFFFFFFFF) + fp_pe_max_creation_time r,
             sa_valid_after = sr_valid_after req,
             sa_principals = (if fp_pe_principal_unrestricted r then sr_principals req else ps),
             sa_hosts = (if fp_pe_host_unrestricted r then None else Some hs),
             sa_extensions = es, sa_force_command = None, sa_force_source_ip = False,
             sa_authority = sr_authority req\<rparr>)"
  unfolding authorize_ssh_cert_local_def Let_def establish_connection_def ok_iff not_case_cert_type
    result.inject
  by blast

lemma extensions_of_wf: "extensions_of db fp au = Some es \<Longrightarrow> hm_wf es"
  by (auto simp: extensions_of_def)

lemma piv_case_Ok:
  "(case k of Piv p \<Rightarrow> f p | U2f u \<Rightarrow> Err e) = Ok v \<longleftrightarrow> (\<exists>p. k = Piv p \<and> f p = Ok v)"
  by (cases k) auto

lemma authorize_attested_x509_cert_local_Ok:
  "authorize_attested_x509_cert_local dbs now l req = Ok a \<longleftrightarrow>
     (\<exists>db att user rows r rs t.
        dbs (ld_path l) = Some db \<and> k_attestation (xr_key req) = Some (Piv att) \<and>
        first_identity (xr_mtls_identities req) = Some user \<and> db_x509 db = Some rows \<and>
        filter (\<lambda>r. xo_user r = user \<and> xo_authority r = xr_authority req
                   \<and> xo_hsm_serial r = show_u64 (pa_serial att)) rows = r # rs \<and>
        \<not> (xo_require_touch r \<and> pa_touch_policy att = TouchNever) \<and> now = Some t \<and>
        a = \<lparr>xa_authority = xr_authority req, xa_issuer = ''Rustica'', xa_common_name = user,
             xa_sans = [user], xa_serial = 0xFEFEFEFEFE, xa_valid_before = t + x509_validity_secs,
             xa_valid_after = t, xa_extensions = []\<rparr>)"
  unfolding authorize_attested_x509_cert_local_def establish_connection_def ok_iff piv_case_Ok
  by blast

lemma authorize_attested_x509_cert_external_identity:
  assumes "authorize_attested_x509_cert_external C A now srv req = Ok a"
  shows "first_identity (xr_mtls_identities req) = Some (xa_common_name a) \<and> xa_sans a = [xa_common_name a]"
  using assms
  by (auto simp: authorize_attested_x509_cert_external_def and_then_Ok split: sum.splits)

lemma register_key_local_atomic:
  "register_key_local C dbs l req = (dbs', r) \<Longrightarrow> r \<noteq> Ok () \<Longrightarrow> dbs' = dbs"
  by (auto simp: register_key_local_def split: option.splits sum.splits)

interpretation local_authorizer: authorizer
    "authorize_ssh_cert_local dbs now l" "authorize_attested_x509_cert_local dbs now l"
    "\<lambda>s. register_key_local C s l" for C dbs now l
  by unfold_locales
     (auto simp: authorize_ssh_cert_local_Ok authorize_attested_x509_cert_local_Ok
           dest: extensions_of_wf register_key_local_atomic)

interpretation external_authorizer: authorizer
    "authorize_ssh_cert_external L A e" "authorize_attested_x509_cert_external C A now e"
    "\<lambda>s req. (s, register_key_external C A e req)" for L C A now e
  by unfold_locales
     (auto dest: authorize_ssh_cert_external_extensions authorize_attested_x509_cert_external_identity)

interpretation mechanism: authorizer
    "authorize_ssh_cert L A dbs now au" "authorize_attested_x509_cert C A dbs now au"
    "register_key_auth C A au" for L C A dbs now au
proof (cases au)
  case (Local l)
  then show "authorizer (authorize_ssh_cert L A dbs now au) (authorize_attested_x509_cert C A dbs now au)
     (register_key_auth C A au)"
    using local_authorizer.authorizer_axioms by (simp add: authorizer_def)
next
  case (External e)
  then show "authorizer (authorize_ssh_cert L A dbs now au) (authorize_attested_x509_cert C A dbs now au)
     (register_key_auth C A au)"
    using external_authorizer.authorizer_axioms by (simp add: authorizer_def)
qed

end
