(* ===== verification/Signer_Types.thy ===== *)
theory Signer_Types
  imports Library_Env
begin

text \<open>
  The \<^verbatim>\<open>Signer\<close> trait and the error type of \<^verbatim>\<open>rustica/src/signing/mod.rs\<close>. A boxed trait object is
  the record of its methods. The contract the rest of the server relies on is the locale
  \<open>ssh_signer\<close>; each signer (file, Amazon KMS, Yubikey) interprets it in its own theory.
\<close>

datatype signing_error =
    AccessError string
  | SigningFailure
  | ParsingError
  | UnknownAuthority string
  | DuplicatedKey string string
  | IdenticalUserAndHostKey string
  | SignerDoesNotHaveSSHKeys
  | SignerDoesNotAllRequiredSSHKeys

fun signing_error_to_string :: "signing_error \<Rightarrow> string" where
  "signing_error_to_string (AccessError e) = ''Could not access the private key material: '' @ e"
| "signing_error_to_string SigningFailure = ''The signing operation on the provided certificate failed''"
| "signing_error_to_string ParsingError = ''The signature could not be parsed''"
| "signing_error_to_string (UnknownAuthority a) =
     ''Unknown authority was requested for a signing operation: '' @ a"
| "signing_error_to_string (DuplicatedKey a1 a2) = ''Authorities '' @ a1 @ '' and '' @ a2
     @ '' share at least one key. This is not allowed as it almost always a misconfiguration leading to access that is not correctly restricted''"
| "signing_error_to_string (IdenticalUserAndHostKey a) = ''Authority '' @ a
     @ '' has an identical key for both user and host certificates. This is not allowed as it'' @ [CHR 0x27]
     @ ''s much safer to use separate keys for both.''"
| "signing_error_to_string SignerDoesNotHaveSSHKeys =
     ''Signer was not configured with SSH keys so it cannot create an SSH certificate''"
| "signing_error_to_string SignerDoesNotAllRequiredSSHKeys =
     ''Signer did not have both user and host keys defined''"

record ('pk, 'ca) signer =
  sg_sign :: "'pk certificate \<Rightarrow> ('pk certificate, signing_error) result"
  sg_public_key :: "cert_type \<Rightarrow> 'pk option"
  sg_attested_ca :: "'ca option"
  sg_client_ca :: "'ca option"

text \<open>
  The contract: a signer has the keys of both certificate types or of none; it signs only with a key
  it advertises, and says so when it has none.
\<close>

locale ssh_signer =
  fixes sign_cert :: "'pk certificate \<Rightarrow> ('pk certificate, signing_error) result"
    and public_key :: "cert_type \<Rightarrow> 'pk option"
  assumes both_or_none: "public_key User = None \<longleftrightarrow> public_key Host = None"
    and no_key: "public_key (c_cert_type cert) = None \<Longrightarrow> sign_cert cert = Err SignerDoesNotHaveSSHKeys"
    and has_key: "public_key t = Some k \<Longrightarrow> sign_cert cert \<noteq> Err SignerDoesNotHaveSSHKeys"
begin

lemma signed_needs_key: "sign_cert cert = Ok c \<Longrightarrow> \<exists>k. public_key (c_cert_type cert) = Some k"
  using no_key by (cases "public_key (c_cert_type cert)") auto

lemma key_of_type: "public_key t = None \<longleftrightarrow> public_key u = None"
  using both_or_none by (cases t; cases u) auto

lemma no_keys_iff:
  "sign_cert cert = Err SignerDoesNotHaveSSHKeys \<longleftrightarrow> public_key t = None"
  using no_key [of cert] has_key [of t _ cert] key_of_type [of t "c_cert_type cert"]
  by (cases "public_key t") auto

end

end
