(* ===== verification/Signer_File.thy ===== *)
theory Signer_File
  imports Signer_Types
begin

text \<open>
  \<^verbatim>\<open>rustica/src/signing/file.rs\<close>: the signer whose private keys are in the configuration.
  Base64 and the DER key parser are parameters.
\<close>

record 'sk file_config =
  fc_user_key :: "'sk option"
  fc_host_key :: "'sk option"
  fc_x509_private_key :: "string option"
  fc_x509_private_key_algorithm :: "string option"
  fc_client_certificate_authority_private_key :: "string option"
  fc_client_certificate_authority_private_key_algorithm :: "string option"
  fc_client_certificate_authority_common_name :: "string option"

record 'sk file_ssh_keys =
  fk_user :: 'sk
  fk_host :: 'sk

record ('sk, 'ca) file_signer =
  fs_ssh_keys :: "'sk file_ssh_keys option"
  fs_x509_certificate :: "'ca option"
  fs_client_certificate_authority :: "'ca option"

record key_codec =
  base64_decode :: "string \<Rightarrow> bytes option"
  keypair_from_der :: "bytes \<Rightarrow> bytes option"

text \<open>A string field of the configuration; a key that does not parse fails the whole configuration.\<close>

definition option_parse_private_key ::
    "('pk, 'sk) ssh_lib \<Rightarrow> string option \<Rightarrow> ('sk option, unit) result" where
  "option_parse_private_key L v = (case v of
     None \<Rightarrow> Ok None
   | Some s \<Rightarrow> (case sk_from_string L s of Some k \<Rightarrow> Ok (Some k) | None \<Rightarrow> Err ()))"

text \<open>The parameters every CA certificate of a signer starts from.\<close>

definition ca_base_params :: "'ca rcgen_lib \<Rightarrow> string \<Rightarrow> cert_params" where
  "ca_base_params R common_name =
     (let p = params_new R [] in
      p\<lparr>params_is_ca := Ca, distinguished_name := dn_push R (distinguished_name p) CommonName common_name\<rparr>)"

definition rcgen_certificate_from_private_key ::
    "key_codec \<Rightarrow> 'ca rcgen_lib \<Rightarrow> string \<Rightarrow> string \<Rightarrow> string \<Rightarrow> ('ca, signing_error) result" where
  "rcgen_certificate_from_private_key K R common_name private_key alg =
     (let ca_params = ca_base_params R common_name in
      and_then (ok_or (base64_decode K private_key) ParsingError) (\<lambda>key_bytes.
      and_then (ok_or (keypair_from_der K key_bytes) ParsingError) (\<lambda>kp.
      and_then (if alg = ''p256'' then Ok PKCS_ECDSA_P256_SHA256
                else if alg = ''p384'' then Ok PKCS_ECDSA_P384_SHA384
                else Err ParsingError) (\<lambda>a.
        ok_or (ca_from_params R (ca_params\<lparr>params_alg := a, params_key_pair := Some kp\<rparr>))
          SigningFailure))))"

definition file_sign ::
    "('pk, 'sk) ssh_lib \<Rightarrow> ('sk, 'ca) file_signer \<Rightarrow> 'pk certificate
     \<Rightarrow> ('pk certificate, signing_error) result" where
  "file_sign L fs cert =
     and_then (ok_or (fs_ssh_keys fs) SignerDoesNotHaveSSHKeys) (\<lambda>keys.
       ok_or (case c_cert_type cert of
                User \<Rightarrow> cert_sign L (fk_user keys) cert
              | Host \<Rightarrow> cert_sign L (fk_host keys) cert) SigningFailure)"

definition file_get_signer_public_key ::
    "('pk, 'sk) ssh_lib \<Rightarrow> ('sk, 'ca) file_signer \<Rightarrow> cert_type \<Rightarrow> 'pk option" where
  "file_get_signer_public_key L fs t = (case fs_ssh_keys fs of
     None \<Rightarrow> None
   | Some keys \<Rightarrow> (case t of User \<Rightarrow> Some (sk_pubkey L (fk_user keys))
                  | Host \<Rightarrow> Some (sk_pubkey L (fk_host keys))))"

definition file_signer_object ::
    "('pk, 'sk) ssh_lib \<Rightarrow> ('sk, 'ca) file_signer \<Rightarrow> ('pk, 'ca) signer" where
  "file_signer_object L fs = \<lparr>sg_sign = file_sign L fs,
     sg_public_key = file_get_signer_public_key L fs,
     sg_attested_ca = fs_x509_certificate fs, sg_client_ca = fs_client_certificate_authority fs\<rparr>"

definition file_into_signer ::
    "('pk, 'sk) ssh_lib \<Rightarrow> key_codec \<Rightarrow> 'ca rcgen_lib \<Rightarrow> 'sk file_config
     \<Rightarrow> (('pk, 'ca) signer, signing_error) result" where
  "file_into_signer L K R cfg =
     and_then (case (fc_x509_private_key cfg, fc_x509_private_key_algorithm cfg) of
         (Some pk, Some pka) \<Rightarrow>
           and_then (rcgen_certificate_from_private_key K R ''Rustica'' pk pka) (\<lambda>c. Ok (Some c))
       | _ \<Rightarrow> Ok None) (\<lambda>x509_certificate.
     and_then (case (fc_client_certificate_authority_private_key cfg,
                     fc_client_certificate_authority_private_key_algorithm cfg,
                     fc_client_certificate_authority_common_name cfg) of
         (Some ccapk, Some ccapka, Some cn) \<Rightarrow>
           and_then (rcgen_certificate_from_private_key K R cn ccapk ccapka) (\<lambda>c. Ok (Some c))
       | _ \<Rightarrow> Ok None) (\<lambda>client_certificate_authority.
     and_then (case (fc_user_key cfg, fc_host_key cfg) of
         (Some u, Some h) \<Rightarrow> Ok (Some \<lparr>fk_user = u, fk_host = h\<rparr>)
       | (None, None) \<Rightarrow> Ok None
       | _ \<Rightarrow> Err SignerDoesNotAllRequiredSSHKeys) (\<lambda>ssh_keys.
       Ok (file_signer_object L \<lparr>fs_ssh_keys = ssh_keys, fs_x509_certificate = x509_certificate,
             fs_client_certificate_authority = client_certificate_authority\<rparr>))))"

interpretation file_signer: ssh_signer "file_sign L fs" "file_get_signer_public_key L fs" for L fs
  by unfold_locales
     (auto simp: file_sign_def file_get_signer_public_key_def ok_or_def
           split: option.splits cert_type.splits)

lemma file_sign_Ok:
  "file_sign L fs cert = Ok c \<longleftrightarrow>
     (\<exists>keys. fs_ssh_keys fs = Some keys \<and>
        cert_sign L (if c_cert_type cert = User then fk_user keys else fk_host keys) cert = Some c)"
  by (cases "c_cert_type cert") (simp_all add: file_sign_def and_then_Ok)

lemma file_into_signer_half_keys:
  assumes "(fc_user_key cfg = None) \<noteq> (fc_host_key cfg = None)"
  shows "\<not> is_ok (file_into_signer L K R cfg)"
  using assms by (auto simp: file_into_signer_def is_ok_iff and_then_Ok split: option.splits)

end
