(* ===== verification/Signer_Kms.thy ===== *)
theory Signer_Kms
  imports Signer_File
begin

text \<open>
  \<^verbatim>\<open>rustica/src/signing/amazon_kms.rs\<close>: the signer whose keys are held by Amazon KMS. The client
  (its two calls, for given credentials), the conversion of keys and signatures to SSH's formats
  and \<^verbatim>\<open>rcgen\<close>'s remote key pair are parameters.
\<close>

datatype signing_algorithm_spec = EcdsaSha256 | EcdsaSha384 | OtherSpec string | UnknownSpec string

record kms_key_definition =
  kd_id :: string
  kd_algorithm :: string
  kd_common_name :: "string option"

record kms_client =
  kc_access_key_id :: string
  kc_secret_access_key :: string
  kc_region :: string

record kms_config =
  km_client :: kms_client
  km_user_key :: "kms_key_definition option"
  km_host_key :: "kms_key_definition option"
  km_x509_key :: "kms_key_definition option"
  km_client_certificate_authority_key :: "kms_key_definition option"

record 'pk ssh_kms_key =
  sk_public_key :: 'pk
  sk_key_id :: string
  sk_key_signing_algorithm :: signing_algorithm_spec

record 'pk kms_ssh_keys =
  ks_user :: "'pk ssh_kms_key"
  ks_host :: "'pk ssh_kms_key"

record ('pk, 'ca) kms_signer =
  kg_ssh_keys :: "'pk kms_ssh_keys option"
  kg_x509_certificate :: "'ca option"
  kg_client_certificate_authority :: "'ca option"
  kg_client :: kms_client

record kms_rcgen_remote_signer =
  kr_x509_public_key :: bytes
  kr_x509_key_id :: string
  kr_x509_key_signing_algorithm :: signing_algorithm_spec
  kr_client :: kms_client

text \<open>A KMS response holds an optional public key or signature; \<open>None\<close> and \<open>Inl\<close> are failed calls.\<close>

record 'pk kms_lib =
  kms_get_public_key :: "kms_client \<Rightarrow> string \<Rightarrow> bytes option option"
  kms_sign :: "kms_client \<Rightarrow> string \<Rightarrow> signing_algorithm_spec \<Rightarrow> bytes \<Rightarrow> string + bytes option"
  spec_from :: "string \<Rightarrow> signing_algorithm_spec"
  der_to_ssh_public_key :: "bytes \<Rightarrow> 'pk option"
  format_signature_for_ssh :: "'pk \<Rightarrow> bytes \<Rightarrow> bytes option"
  keypair_from_remote :: "kms_rcgen_remote_signer \<Rightarrow> bytes option"

section \<open>The remote key pair given to \<^verbatim>\<open>rcgen\<close>\<close>

definition kms_remote_sign ::
    "'pk kms_lib \<Rightarrow> kms_rcgen_remote_signer \<Rightarrow> bytes \<Rightarrow> (bytes, unit) result" where
  "kms_remote_sign M r msg =
     (case kms_sign M (kr_client r) (kr_x509_key_id r) (kr_x509_key_signing_algorithm r) msg of
        Inl e \<Rightarrow> Err ()
      | Inr signature \<Rightarrow> ok_or signature ())"

definition kms_remote_algorithm :: "kms_rcgen_remote_signer \<Rightarrow> sign_alg" where
  "kms_remote_algorithm r = (case kr_x509_key_signing_algorithm r of
     EcdsaSha384 \<Rightarrow> PKCS_ECDSA_P384_SHA384 | _ \<Rightarrow> PKCS_ECDSA_P256_SHA256)"

section \<open>Keys\<close>

definition ssh_key_from_kms ::
    "'pk kms_lib \<Rightarrow> kms_client \<Rightarrow> string \<Rightarrow> string \<Rightarrow> ('pk ssh_kms_key, signing_error) result" where
  "ssh_key_from_kms M client key_id key_alg =
     and_then (ok_or (kms_get_public_key M client key_id)
                 (AccessError (''Could not access key '' @ key_id))) (\<lambda>resp.
     and_then (ok_or resp (AccessError (''Could not access key_id '' @ key_id))) (\<lambda>der.
     and_then (ok_or (der_to_ssh_public_key M der)
                 (AccessError (''Key is not of a Rustica compatible type '' @ key_id))) (\<lambda>public_key.
       case spec_from M key_alg of
         UnknownSpec _ \<Rightarrow> Err (AccessError ''Unknown algorithm for user key'')
       | spec \<Rightarrow> Ok \<lparr>sk_public_key = public_key, sk_key_id = key_id,
                     sk_key_signing_algorithm = spec\<rparr>)))"

text \<open>\<^verbatim>\<open>public_key.as_ref()[n..]\<close>: panics when the key is shorter.\<close>

definition slice_from :: "nat \<Rightarrow> bytes \<Rightarrow> (bytes, 'e) result" where
  "slice_from n b = (if n \<le> length b then Ok (drop n b) else Panic)"

definition rcgen_certificate_from_kms ::
    "'pk kms_lib \<Rightarrow> 'ca rcgen_lib \<Rightarrow> kms_client \<Rightarrow> string \<Rightarrow> string \<Rightarrow> string \<Rightarrow> ('ca, signing_error) result"
    where
  "rcgen_certificate_from_kms M R client common_name key_id key_alg =
     and_then (ok_or (kms_get_public_key M client key_id)
                 (AccessError (''Could not access key '' @ key_id))) (\<lambda>resp.
     and_then (ok_or resp
                 (AccessError ''One or more keys were not returned correctly or at all'')) (\<lambda>public_key.
     let signing_algorithm = spec_from M key_alg;
         ca_params = ca_base_params R common_name
     in and_then (case signing_algorithm of
             EcdsaSha256 \<Rightarrow>
               and_then (slice_from 25 public_key) (\<lambda>pk. Ok (PKCS_ECDSA_P256_SHA256, pk))
           | EcdsaSha384 \<Rightarrow>
               and_then (slice_from 23 public_key) (\<lambda>pk. Ok (PKCS_ECDSA_P384_SHA384, pk))
           | _ \<Rightarrow> Err (AccessError (''Unsupported algorithm for key '' @ key_id))) (\<lambda>(alg, pk).
        and_then (ok_or (keypair_from_remote M
                     \<lparr>kr_x509_public_key = pk, kr_x509_key_id = key_id,
                      kr_x509_key_signing_algorithm = signing_algorithm, kr_client = client\<rparr>)
                   (AccessError (''Could not create remote signer for key '' @ key_id))) (\<lambda>kp.
          ok_or (ca_from_params R (ca_params\<lparr>params_alg := alg, params_key_pair := Some kp\<rparr>))
            (AccessError (''Could not create certificate for key '' @ key_id))))))"

section \<open>The signer\<close>

definition kms_key_for :: "'pk kms_ssh_keys \<Rightarrow> cert_type \<Rightarrow> 'pk ssh_kms_key" where
  "kms_key_for keys t = (case t of User \<Rightarrow> ks_user keys | Host \<Rightarrow> ks_host keys)"

definition kms_signer_sign ::
    "('pk, 'sk) ssh_lib \<Rightarrow> 'pk kms_lib \<Rightarrow> ('pk, 'ca) kms_signer \<Rightarrow> 'pk certificate
     \<Rightarrow> ('pk certificate, signing_error) result" where
  "kms_signer_sign L M sg cert =
     and_then (ok_or (kg_ssh_keys sg) SignerDoesNotHaveSSHKeys) (\<lambda>keys.
       let k = kms_key_for keys (c_cert_type cert) in
       case kms_sign M (kg_client sg) (sk_key_id k) (sk_key_signing_algorithm k) (cert_tbs L cert) of
         Inl e \<Rightarrow> Err (AccessError e)
       | Inr None \<Rightarrow> Err (AccessError ''No signature returned'')
       | Inr (Some signature) \<Rightarrow>
           and_then (ok_or (format_signature_for_ssh M (sk_public_key k) signature) ParsingError)
             (\<lambda>s. ok_or (cert_add_signature L s cert) SigningFailure))"

definition kms_get_signer_public_key :: "('pk, 'ca) kms_signer \<Rightarrow> cert_type \<Rightarrow> 'pk option" where
  "kms_get_signer_public_key sg t =
     map_option (\<lambda>keys. sk_public_key (kms_key_for keys t)) (kg_ssh_keys sg)"

definition kms_signer_object ::
    "('pk, 'sk) ssh_lib \<Rightarrow> 'pk kms_lib \<Rightarrow> ('pk, 'ca) kms_signer \<Rightarrow> ('pk, 'ca) signer" where
  "kms_signer_object L M sg = \<lparr>sg_sign = kms_signer_sign L M sg,
     sg_public_key = kms_get_signer_public_key sg,
     sg_attested_ca = kg_x509_certificate sg, sg_client_ca = kg_client_certificate_authority sg\<rparr>"

definition kms_into_signer ::
    "('pk, 'sk) ssh_lib \<Rightarrow> 'pk kms_lib \<Rightarrow> 'ca rcgen_lib \<Rightarrow> kms_config
     \<Rightarrow> (('pk, 'ca) signer, signing_error) result" where
  "kms_into_signer L M R cfg = (let client = km_client cfg in
     and_then (case (km_user_key cfg, km_host_key cfg) of
         (Some user, Some host) \<Rightarrow>
           and_then (ssh_key_from_kms M client (kd_id user) (kd_algorithm user)) (\<lambda>u.
           and_then (ssh_key_from_kms M client (kd_id host) (kd_algorithm host)) (\<lambda>h.
             Ok (Some \<lparr>ks_user = u, ks_host = h\<rparr>)))
       | (None, None) \<Rightarrow> Ok None
       | _ \<Rightarrow> Err SignerDoesNotAllRequiredSSHKeys) (\<lambda>ssh_keys.
     and_then (case km_x509_key cfg of
         Some x \<Rightarrow> and_then (rcgen_certificate_from_kms M R client ''Rustica'' (kd_id x) (kd_algorithm x))
                     (\<lambda>c. Ok (Some c))
       | None \<Rightarrow> Ok None) (\<lambda>x509_certificate.
     and_then (case km_client_certificate_authority_key cfg of
         Some x \<Rightarrow>
           and_then (rcgen_certificate_from_kms M R client
               (case kd_common_name x of None \<Rightarrow> ''RusticaAccess'' | Some cn \<Rightarrow> cn)
               (kd_id x) (kd_algorithm x)) (\<lambda>c. Ok (Some c))
       | None \<Rightarrow> Ok None) (\<lambda>client_certificate_authority.
       Ok (kms_signer_object L M \<lparr>kg_ssh_keys = ssh_keys, kg_x509_certificate = x509_certificate,
             kg_client_certificate_authority = client_certificate_authority, kg_client = client\<rparr>)))))"

interpretation kms_signer: ssh_signer "kms_signer_sign L M sg" "kms_get_signer_public_key sg" for L M sg
  by unfold_locales
     (auto simp: kms_signer_sign_def kms_get_signer_public_key_def ok_or_def Let_def
           split: option.splits sum.splits)

text \<open>
  The algorithm in a KMS certificate is the one its remote key pair reports: the two tables of the
  source agree on what they accept.
\<close>

lemma kms_algorithms_agree:
  assumes "rcgen_certificate_from_kms M R client cn key_id key_alg = Ok ca"
    and "kr_x509_key_signing_algorithm r = spec_from M key_alg"
  shows "\<exists>p. ca_from_params R p = Some ca \<and> params_alg p = kms_remote_algorithm r"
  using assms
  by (cases "spec_from M key_alg")
     (fastforce simp: rcgen_certificate_from_kms_def ok_iff Let_def kms_remote_algorithm_def)+

end
