(* ===== verification/Signer_Yubikey.thy ===== *)
theory Signer_Yubikey
  imports Signer_File
begin

text \<open>
  \<^verbatim>\<open>rustica/src/signing/yubikey.rs\<close>: the signer whose keys are in the slots of a Yubikey. The
  device is a parameter: opening it, reading a slot's key, signing with a slot, and the remote key
  pair \<^verbatim>\<open>CSRSigner\<close>. The mutex around it is free unless a panic poisoned it.
\<close>

record 'pk yk_lib =
  yk_serial :: "u32 option"
  yk_fetch_pubkey :: "slot_id \<Rightarrow> 'pk option"
  yk_cert_signer :: "bytes \<Rightarrow> slot_id \<Rightarrow> bytes option"
  yk_poisoned :: "string option"
  yk_csr_algorithm :: "u32 \<Rightarrow> slot_id \<Rightarrow> sign_alg"
  yk_csr_keypair :: "u32 \<Rightarrow> slot_id \<Rightarrow> bytes option"
  slot_try_from :: "u8 \<Rightarrow> slot_id option"
  show_slot :: "slot_id \<Rightarrow> string"

record yubikey_config =
  yc_user_slot :: "slot_id option"
  yc_host_slot :: "slot_id option"
  yc_x509_slot :: "slot_id option"
  yc_client_certificate_authority_slot :: "slot_id option"
  yc_client_certificate_authority_common_name :: "string option"

record 'pk yk_ssh_key =
  yk_slot :: slot_id
  yk_public_key :: 'pk

record 'pk yk_ssh_keys =
  yks_user :: "'pk yk_ssh_key"
  yks_host :: "'pk yk_ssh_key"

record ('pk, 'ca) yubikey_signer =
  yg_ssh_keys :: "'pk yk_ssh_keys option"
  yg_x509_certificate :: "'ca option"
  yg_client_certificate_authority :: "'ca option"

section \<open>Operations\<close>

text \<open>
  The slot field of a configuration: \<^verbatim>\<open>R0\<close> to \<^verbatim>\<open>R20\<close>, or a byte in hexadecimal. \<^verbatim>\<open>unwrap\<close> on a
  byte that is no slot, or on bad hexadecimal, panics.
\<close>

definition parse_option_slot ::
    "crypto_lib \<Rightarrow> 'pk yk_lib \<Rightarrow> string option \<Rightarrow> (slot_id option, string) result" where
  "parse_option_slot C Y v = (case v of
     None \<Rightarrow> Ok None
   | Some slot \<Rightarrow>
       if (length slot = 2 \<or> length slot = 3) \<and> starts_with ''R'' slot then
         (case parse_u8 (drop 1 slot) of
            Some n \<Rightarrow>
              if n \<le> 20 then and_then (unwrap (slot_try_from Y (0x81 + n))) (\<lambda>s. Ok (Some s))
              else Err ''Invalid Slot''
          | None \<Rightarrow> Err ''Invalid Slot'')
       else if length slot = 4 \<and> starts_with ''0x'' slot then
         and_then (unwrap (hex_decode C (drop 2 slot))) (\<lambda>b.
         and_then (case b of [] \<Rightarrow> Panic | w # _ \<Rightarrow> Ok w) (\<lambda>slot_value.
         and_then (unwrap (slot_try_from Y slot_value)) (\<lambda>s. Ok (Some s))))
       else Err ''Invalid Slot'')"

definition rcgen_certificate_from_yubikey ::
    "'pk yk_lib \<Rightarrow> 'ca rcgen_lib \<Rightarrow> string \<Rightarrow> u32 \<Rightarrow> slot_id \<Rightarrow> ('ca, signing_error) result" where
  "rcgen_certificate_from_yubikey Y R common_name serial slot =
     and_then (ok_or (yk_csr_keypair Y serial slot)
                (AccessError ''Could not create remote signer for X509 key'')) (\<lambda>kp.
       ok_or (ca_from_params R ((ca_base_params R common_name)
                \<lparr>params_alg := yk_csr_algorithm Y serial slot, params_key_pair := Some kp\<rparr>))
         (AccessError (''Could not create certificate for slot '' @ show_slot Y slot)))"

definition yk_key_for :: "'pk yk_ssh_keys \<Rightarrow> cert_type \<Rightarrow> 'pk yk_ssh_key" where
  "yk_key_for keys t = (case t of User \<Rightarrow> yks_user keys | Host \<Rightarrow> yks_host keys)"

definition yubikey_sign ::
    "('pk, 'sk) ssh_lib \<Rightarrow> 'pk yk_lib \<Rightarrow> ('pk, 'ca) yubikey_signer \<Rightarrow> 'pk certificate
     \<Rightarrow> ('pk certificate, signing_error) result" where
  "yubikey_sign L Y sg cert =
     and_then (ok_or (yg_ssh_keys sg) SignerDoesNotHaveSSHKeys) (\<lambda>keys.
       let slot = yk_slot (yk_key_for keys (c_cert_type cert)) in
       case yk_poisoned Y of
         Some e \<Rightarrow> Err (AccessError e)
       | None \<Rightarrow>
           and_then (unwrap (yk_serial Y)) (\<lambda>_.
             case yk_cert_signer Y (cert_tbs L cert) slot of
               Some sig \<Rightarrow> ok_or (cert_add_signature L sig cert) SigningFailure
             | None \<Rightarrow> Err SigningFailure))"

definition yubikey_get_signer_public_key :: "('pk, 'ca) yubikey_signer \<Rightarrow> cert_type \<Rightarrow> 'pk option" where
  "yubikey_get_signer_public_key sg t =
     map_option (\<lambda>keys. yk_public_key (yk_key_for keys t)) (yg_ssh_keys sg)"

definition yubikey_signer_object ::
    "('pk, 'sk) ssh_lib \<Rightarrow> 'pk yk_lib \<Rightarrow> ('pk, 'ca) yubikey_signer \<Rightarrow> ('pk, 'ca) signer" where
  "yubikey_signer_object L Y sg = \<lparr>sg_sign = yubikey_sign L Y sg,
     sg_public_key = yubikey_get_signer_public_key sg,
     sg_attested_ca = yg_x509_certificate sg, sg_client_ca = yg_client_certificate_authority sg\<rparr>"

text \<open>\<open>new_yubikey_mutex\<close> opens the device (or panics); the fresh mutex can always be locked.\<close>

definition yubikey_into_signer ::
    "('pk, 'sk) ssh_lib \<Rightarrow> 'pk yk_lib \<Rightarrow> 'ca rcgen_lib \<Rightarrow> yubikey_config
     \<Rightarrow> (('pk, 'ca) signer, signing_error) result" where
  "yubikey_into_signer L Y R cfg =
     and_then (unwrap (yk_serial Y)) (\<lambda>serial.
     and_then (case (yc_user_slot cfg, yc_host_slot cfg) of
         (Some user_slot, Some host_slot) \<Rightarrow>
           and_then (ok_or (yk_fetch_pubkey Y user_slot)
                       (AccessError ''Could fetch public key for user key'')) (\<lambda>u.
           and_then (ok_or (yk_fetch_pubkey Y host_slot)
                       (AccessError ''Could fetch public key for user key'')) (\<lambda>h.
             Ok (Some \<lparr>yks_user = \<lparr>yk_slot = user_slot, yk_public_key = u\<rparr>,
                       yks_host = \<lparr>yk_slot = host_slot, yk_public_key = h\<rparr>\<rparr>)))
       | (None, None) \<Rightarrow> Ok None
       | _ \<Rightarrow> Err SignerDoesNotAllRequiredSSHKeys) (\<lambda>ssh_keys.
     and_then (case yc_x509_slot cfg of
         Some x509_slot \<Rightarrow>
           and_then (rcgen_certificate_from_yubikey Y R ''Rustica'' serial x509_slot) (\<lambda>c. Ok (Some c))
       | None \<Rightarrow> Ok None) (\<lambda>x509_certificate.
     and_then (case (yc_client_certificate_authority_slot cfg,
                     yc_client_certificate_authority_common_name cfg) of
         (Some slot, Some cn) \<Rightarrow>
           and_then (rcgen_certificate_from_yubikey Y R cn serial slot) (\<lambda>c. Ok (Some c))
       | _ \<Rightarrow> Ok None) (\<lambda>client_certificate_authority.
       Ok (yubikey_signer_object L Y \<lparr>yg_ssh_keys = ssh_keys, yg_x509_certificate = x509_certificate,
             yg_client_certificate_authority = client_certificate_authority\<rparr>)))))"

interpretation yubikey_signer: ssh_signer "yubikey_sign L Y sg" "yubikey_get_signer_public_key sg" for L Y sg
  by unfold_locales
     (auto simp: yubikey_sign_def yubikey_get_signer_public_key_def ok_or_def unwrap_def Let_def
           split: option.splits)

end
