(* ===== verification/Signing.thy ===== *)
theory Signing
  imports Signer_Kms Signer_Yubikey
begin

text \<open>
  \<^verbatim>\<open>rustica/src/signing/mod.rs\<close>: the configured authorities, the lookups and signatures the server
  asks of them, and the conversion of the configuration, which refuses keys that are used twice.
\<close>

datatype 'sk signer_type =
  File "'sk file_config" | Yubikey yubikey_config | AmazonKMS kms_config

record 'sk signing_configuration =
  sc_default_authority :: string
  sc_authority_configurations :: "(string, 'sk signer_type) hashmap"

record ('pk, 'ca) signing_mechanism =
  sm_default_authority :: string
  sm_authorities :: "(string, ('pk, 'ca) signer) hashmap"

text \<open>The libraries the three signers call.\<close>

record ('pk, 'ca) signer_env =
  se_codec :: key_codec
  se_rcgen :: "'ca rcgen_lib"
  se_kms :: "'pk kms_lib"
  se_yubikey :: "'pk yk_lib"

section \<open>Operations\<close>

fun into_signer ::
    "('pk, 'sk) ssh_lib \<Rightarrow> ('pk, 'ca) signer_env \<Rightarrow> 'sk signer_type
     \<Rightarrow> (('pk, 'ca) signer, signing_error) result" where
  "into_signer L E (File x) = file_into_signer L (se_codec E) (se_rcgen E) x"
| "into_signer L E (Yubikey x) = yubikey_into_signer L (se_yubikey E) (se_rcgen E) x"
| "into_signer L E (AmazonKMS x) = kms_into_signer L (se_kms E) (se_rcgen E) x"

definition mech_sign ::
    "('pk, 'ca) signing_mechanism \<Rightarrow> string \<Rightarrow> 'pk certificate
     \<Rightarrow> ('pk certificate, signing_error) result" where
  "mech_sign m authority cert = (case map_of (sm_authorities m) authority of
     Some s \<Rightarrow> sg_sign s cert
   | None \<Rightarrow> Err (UnknownAuthority authority))"

definition get_signer_public_key ::
    "('pk, 'ca) signing_mechanism \<Rightarrow> string \<Rightarrow> cert_type \<Rightarrow> ('pk, signing_error) result" where
  "get_signer_public_key m authority t = (case map_of (sm_authorities m) authority of
     Some s \<Rightarrow> ok_or (sg_public_key s t) SignerDoesNotHaveSSHKeys
   | None \<Rightarrow> Err (UnknownAuthority authority))"

definition get_attested_x509_certificate_authority ::
    "('pk, 'ca) signing_mechanism \<Rightarrow> string \<Rightarrow> ('ca option, signing_error) result" where
  "get_attested_x509_certificate_authority m authority = (case map_of (sm_authorities m) authority of
     Some s \<Rightarrow> Ok (sg_attested_ca s)
   | None \<Rightarrow> Err (UnknownAuthority authority))"

definition get_client_certificate_authority ::
    "('pk, 'ca) signing_mechanism \<Rightarrow> string \<Rightarrow> ('ca option, signing_error) result" where
  "get_client_certificate_authority m authority = (case map_of (sm_authorities m) authority of
     Some s \<Rightarrow> Ok (sg_client_ca s)
   | None \<Rightarrow> Err (UnknownAuthority authority))"

definition get_authorities :: "('pk, 'ca) signing_mechanism \<Rightarrow> string list" where
  "get_authorities m = hm_keys (sm_authorities m)"

text \<open>\<^verbatim>\<open>Display\<close>: a line per key and certificate; \<^verbatim>\<open>serialize_pem().unwrap()\<close> may panic.\<close>

definition show_ca :: "'ca rcgen_lib \<Rightarrow> string \<Rightarrow> 'ca option \<Rightarrow> (string, unit) result" where
  "show_ca R label ca = (case ca of
     None \<Rightarrow> Ok ''''
   | Some c \<Rightarrow> (case ca_pem R c of
       Inl _ \<Rightarrow> Panic
     | Inr pem \<Rightarrow> Ok ([CHR 0x09] @ label @ [CHR 0x0A] @ pem @ [CHR 0x0A])))"

definition show_fingerprint ::
    "('pk, 'sk) ssh_lib \<Rightarrow> string \<Rightarrow> 'pk option \<Rightarrow> string" where
  "show_fingerprint L label k = (case k of
     None \<Rightarrow> '''' | Some pk \<Rightarrow> [CHR 0x09] @ label @ pk_hash L pk @ [CHR 0x0A])"

fun signing_mechanism_to_string ::
    "('pk, 'sk) ssh_lib \<Rightarrow> 'ca rcgen_lib \<Rightarrow> (string, ('pk, 'ca) signer) hashmap \<Rightarrow> (string, unit) result" where
  "signing_mechanism_to_string L R [] = Ok ''''"
| "signing_mechanism_to_string L R ((name, s) # rest) =
     and_then (show_ca R ''Attested X509 Certificate Authority:'' (sg_attested_ca s)) (\<lambda>a.
     and_then (show_ca R ''Client Certificate Authority:'' (sg_client_ca s)) (\<lambda>c.
     and_then (signing_mechanism_to_string L R rest) (\<lambda>r.
       Ok (''Authority: '' @ name @ [CHR 0x0A]
           @ show_fingerprint L ''User CA Fingerprint (SHA256): '' (sg_public_key s User)
           @ show_fingerprint L ''Host CA Fingerprint (SHA256): '' (sg_public_key s Host)
           @ a @ c @ r))))"

section \<open>Converting the configuration\<close>

text \<open>One key of an authority: refused when its fingerprint is known, remembered otherwise.\<close>

definition remember_key ::
    "string \<Rightarrow> string option \<Rightarrow> (string, string) hashmap \<Rightarrow> ((string, string) hashmap, signing_error) result"
    where
  "remember_key authority h public_keys = (case h of
     None \<Rightarrow> Ok public_keys
   | Some fp \<Rightarrow> (case map_of public_keys fp of
       Some existing \<Rightarrow> Err (DuplicatedKey authority existing)
     | None \<Rightarrow> Ok (hm_insert fp authority public_keys)))"

definition add_authority ::
    "('pk, 'sk) ssh_lib \<Rightarrow> string \<Rightarrow> ('pk, 'ca) signer \<Rightarrow> (string, string) hashmap
     \<Rightarrow> ((string, string) hashmap, signing_error) result" where
  "add_authority L name s public_keys =
     (let user_hash = map_option (pk_hash L) (sg_public_key s User);
          host_hash = map_option (pk_hash L) (sg_public_key s Host)
      in if user_hash \<noteq> None \<and> user_hash = host_hash then Err (IdenticalUserAndHostKey name)
         else and_then (remember_key name user_hash public_keys) (remember_key name host_hash))"

fun convert_authorities ::
    "('pk, 'sk) ssh_lib \<Rightarrow> ('sk signer_type \<Rightarrow> (('pk, 'ca) signer, signing_error) result)
     \<Rightarrow> (string, 'sk signer_type) hashmap \<Rightarrow> (string, string) hashmap
     \<Rightarrow> (string, ('pk, 'ca) signer) hashmap
     \<Rightarrow> ((string, ('pk, 'ca) signer) hashmap, signing_error) result" where
  "convert_authorities L into [] public_keys converted = Ok converted"
| "convert_authorities L into ((name, cfg) # rest) public_keys converted =
     and_then (into cfg) (\<lambda>s.
     and_then (add_authority L name s public_keys) (\<lambda>public_keys'.
       convert_authorities L into rest public_keys' (hm_insert name s converted)))"

definition convert_to_signing_mechanism ::
    "('pk, 'sk) ssh_lib \<Rightarrow> ('pk, 'ca) signer_env \<Rightarrow> 'sk signing_configuration
     \<Rightarrow> (('pk, 'ca) signing_mechanism, signing_error) result" where
  "convert_to_signing_mechanism L E cfg =
     and_then (convert_authorities L (into_signer L E) (sc_authority_configurations cfg) [] [])
       (\<lambda>converted. Ok \<lparr>sm_default_authority = sc_default_authority cfg, sm_authorities = converted\<rparr>)"

section \<open>Lemmas\<close>

text \<open>The fingerprints of the keys a signer holds.\<close>

definition ssh_hashes :: "('pk, 'sk) ssh_lib \<Rightarrow> ('pk, 'ca) signer \<Rightarrow> string list" where
  "ssh_hashes L s = List.map_filter (\<lambda>t. map_option (pk_hash L) (sg_public_key s t)) [User, Host]"

lemma ssh_hashes_simps:
  "ssh_hashes L s =
     (case sg_public_key s User of None \<Rightarrow> [] | Some k \<Rightarrow> [pk_hash L k]) @
     (case sg_public_key s Host of None \<Rightarrow> [] | Some k \<Rightarrow> [pk_hash L k])"
  by (auto simp: ssh_hashes_def map_filter_def split: option.splits)

lemma add_authority_Ok:
  "add_authority L name s pks = Ok pks' \<longleftrightarrow>
     distinct (ssh_hashes L s) \<and> set (ssh_hashes L s) \<inter> dom (map_of pks) = {} \<and>
     pks' = fold (\<lambda>h m. AList.update h name m) (ssh_hashes L s) pks"
  by (cases "sg_public_key s User"; cases "sg_public_key s Host")
     (auto simp: add_authority_def remember_key_def ssh_hashes_simps Let_def split: option.splits)

lemma dom_fold_update:
  "dom (map_of (fold (\<lambda>h m. AList.update h name m) hs m)) = set hs \<union> dom (map_of m)"
  by (induction hs arbitrary: m) (auto simp: update_conv')

lemma convert_authorities_Ok:
  "convert_authorities L into cfgs pks conv = Ok conv' \<longleftrightarrow>
     (\<exists>signers. map (\<lambda>x. into (snd x)) cfgs = map Ok signers \<and>
        distinct (concat (map (ssh_hashes L) signers)) \<and>
        set (concat (map (ssh_hashes L) signers)) \<inter> dom (map_of pks) = {} \<and>
        conv' = fold (\<lambda>(k, v) m. AList.update k v m) (zip (map fst cfgs) signers) conv)"
proof (induction cfgs arbitrary: pks conv conv')
  case Nil
  show ?case by auto
next
  case (Cons c cfgs)
  obtain name cfg where c: "c = (name, cfg)" by (cases c)
  show ?case (is "?L \<longleftrightarrow> (\<exists>signers. ?R signers)")
  proof
    assume ?L
    then obtain s ss where "into cfg = Ok s" "map (\<lambda>x. into (snd x)) cfgs = map Ok ss"
      "distinct (ssh_hashes L s)" "set (ssh_hashes L s) \<inter> dom (map_of pks) = {}"
      "distinct (concat (map (ssh_hashes L) ss))"
      "set (concat (map (ssh_hashes L) ss)) \<inter> (set (ssh_hashes L s) \<union> dom (map_of pks)) = {}"
      "conv' = fold (\<lambda>(k, v) m. AList.update k v m) (zip (map fst cfgs) ss) (AList.update name s conv)"
      by (auto simp: c and_then_Ok add_authority_Ok Cons.IH dom_fold_update)
    then have "?R (s # ss)" by (auto simp: c)
    then show "\<exists>signers. ?R signers" ..
  next
    assume "\<exists>signers. ?R signers"
    then obtain s ss where "?R (s # ss)" by (auto simp: c)
    then show ?L
      by (auto simp: c and_then_Ok add_authority_Ok Cons.IH dom_fold_update intro!: exI [of _ s] exI [of _ ss])
  qed
qed

text \<open>
  C14: Converting the configuration succeeds exactly when every authority's signer can be built
  and no fingerprint occurs twice among all user and host keys of all authorities, and the
  mechanism then holds, under each name, the signer built from that name's configuration.
\<close>

theorem convert_to_signing_mechanism_Ok:
  "convert_to_signing_mechanism L E cfg = Ok m \<longleftrightarrow>
     (\<exists>signers. map (\<lambda>x. into_signer L E (snd x)) (sc_authority_configurations cfg) = map Ok signers \<and>
        distinct (concat (map (ssh_hashes L) signers)) \<and>
        m = \<lparr>sm_default_authority = sc_default_authority cfg,
             sm_authorities = hm_collect (zip (hm_keys (sc_authority_configurations cfg)) signers)\<rparr>)"
  by (auto simp: convert_to_signing_mechanism_def and_then_Ok convert_authorities_Ok hm_collect_def)

lemma distinct_concat_disjoint:
  assumes "distinct (concat xss)" and "i < length xss" and "j < length xss" and "i \<noteq> j"
  shows "set (xss ! i) \<inter> set (xss ! j) = {}"
  using assms
proof (induction xss arbitrary: i j)
  case Nil
  then show ?case by simp
next
  case (Cons xs xss)
  have "set xs \<inter> set (xss ! k) = {}" if "k < length xss" for k
    using Cons.prems(1) that by (auto simp: set_concat dest: nth_mem)
  with Cons show ?case by (cases i; cases j) (auto simp: Int_commute)
qed

lemma distinct_concat_nth: "distinct (concat xss) \<Longrightarrow> i < length xss \<Longrightarrow> distinct (xss ! i)"
  by (simp add: distinct_concat_iff)

lemma ssh_hashes_mem: "sg_public_key s t = Some k \<Longrightarrow> pk_hash L k \<in> set (ssh_hashes L s)"
  by (cases t) (auto simp: ssh_hashes_simps split: option.splits)

lemma ssh_hashes_type:
  assumes "distinct (ssh_hashes L s)" and "sg_public_key s t = Some k" and "sg_public_key s u = Some k'"
    and "pk_hash L k = pk_hash L k'"
  shows "t = u"
  using assms by (cases t; cases u) (auto simp: ssh_hashes_simps)

text \<open>
  In a mechanism that was accepted, a CA key belongs to one authority and one certificate
  type only: two keys with the same fingerprint are the same authority's key of the same type.
\<close>

theorem authority_keys_unique:
  assumes "convert_to_signing_mechanism L E cfg = Ok m"
    and "map_of (sm_authorities m) a = Some s" and "sg_public_key s t = Some k"
    and "map_of (sm_authorities m) b = Some s'" and "sg_public_key s' u = Some k'"
    and "pk_hash L k = pk_hash L k'"
  shows "a = b \<and> t = u"
proof -
  let ?names = "hm_keys (sc_authority_configurations cfg)"
  from assms(1) obtain signers where
    signers: "map (\<lambda>x. into_signer L E (snd x)) (sc_authority_configurations cfg) = map Ok signers"
    and dist: "distinct (concat (map (ssh_hashes L) signers))"
    and m: "sm_authorities m = hm_collect (zip ?names signers)"
    by (auto simp: convert_to_signing_mechanism_def and_then_Ok convert_authorities_Ok hm_collect_def)
  have len: "length signers = length ?names" using signers by (metis length_map)
  have idx: "\<exists>i < length signers. ?names ! i = x \<and> signers ! i = y"
    if "map_of (sm_authorities m) x = Some y" for x y
  proof -
    from that m have "(x, y) \<in> set (zip ?names signers)"
      by (metis hm_collect_get map_of_SomeD set_rev)
    then show ?thesis using len by (auto simp: set_zip)
  qed
  from idx [OF assms(2)] obtain i where i: "i < length signers" "?names ! i = a" "signers ! i = s" by blast
  from idx [OF assms(4)] obtain j where j: "j < length signers" "?names ! j = b" "signers ! j = s'" by blast
  have "i = j"
    using distinct_concat_disjoint [OF dist, of i j] i j ssh_hashes_mem [OF assms(3), of L]
      ssh_hashes_mem [OF assms(5), of L] assms(6) by auto
  with i j have same: "a = b" "s = s'" by simp_all
  have "distinct (ssh_hashes L s)" using distinct_concat_nth [OF dist, of i] i by simp
  from ssh_hashes_type [OF this assms(3) _ assms(6)] assms(5) same show ?thesis by simp
qed

end
