(* ===== verification/Logging.thy ===== *)
theory Logging
  imports Rustica_Prelude
begin

text \<open>
  \<^verbatim>\<open>rustica/src/logging/\<close>: the logs a server sends, the four loggers, and the loop of the logging
  thread. What a logger writes is a value of \<open>log_output\<close>: a line of the console log, a point
  written to InfluxDB, or an HTTP request. Serialization to JSON (\<^verbatim>\<open>serde_json\<close>) is a parameter;
  spawned requests are the requests themselves, their failure is only printed by the source.
\<close>

section \<open>Logs\<close>

datatype severity = Info | Warning | Error

record certificate_issued =
  ci_fingerprint :: string
  ci_signed_by :: string
  ci_serial :: u64
  ci_authority :: string
  ci_certificate_type :: string
  ci_mtls_identities :: "string list"
  ci_principals :: "string list"
  ci_extensions :: "(string, string) hashmap"
  ci_critical_options :: "(string, string) hashmap"
  ci_valid_after :: u64
  ci_valid_before :: u64
  ci_new_access_certificate_issued :: bool

record x509_certificate_issued =
  xi_authority :: string
  xi_mtls_identities :: "string list"
  xi_serial :: i64
  xi_extensions :: "(string, string) hashmap"
  xi_valid_after :: u64
  xi_valid_before :: u64

record key_info =
  ki_fingerprint :: string
  ki_mtls_identities :: "string list"

record key_registration_failure =
  kf_key_info :: key_info
  kf_message :: string

record internal_message =
  im_severity :: severity
  im_message :: string

datatype log =
    CertificateIssued certificate_issued
  | X509CertificateIssued x509_certificate_issued
  | KeyRegistered key_info
  | KeyRegistrationFailure key_registration_failure
  | InternalMessage internal_message
  | Heartbeat

record wrapped_log =
  wl_log :: log
  wl_identifier :: string

datatype logging_error = SerializationError string | CommunicationError string

section \<open>What loggers write\<close>

record influx_config =
  ix_address :: string
  ix_database :: string
  ix_dataset :: string
  ix_user :: string
  ix_password :: string

record splunk_config =
  sp_token :: string
  sp_url :: string
  sp_timeout :: u8

record webhook_config =
  wh_auth_header :: "string option"
  wh_url :: string
  wh_timeout :: u8

record logging_configuration =
  lc_identifier :: "string option"
  lc_heartbeat_interval :: "u64 option"
  lc_stdout :: "unit option"
  lc_influx :: "influx_config option"
  lc_splunk :: "splunk_config option"
  lc_webhook :: "webhook_config option"

text \<open>
  The loggers made from the configurations; a client of \<^verbatim>\<open>influxdb\<close> and of \<^verbatim>\<open>reqwest\<close> is the settings it is
  built with.
\<close>

record influx_client =
  icl_address :: string
  icl_database :: string
  icl_auth :: "string \<times> string"

record influx_logger =
  il_client :: influx_client
  il_dataset :: string

record http_client =
  hc_accept_invalid_certs :: bool
  hc_timeout :: u8

record splunk_logger =
  sl_client :: http_client
  sl_token :: string
  sl_url :: string

record webhook_logger =
  wg_client :: http_client
  wg_config :: webhook_config

record loggers =
  lg_stdout :: "unit option"
  lg_influx :: "influx_logger option"
  lg_splunk :: "splunk_logger option"
  lg_webhook :: "webhook_logger option"

definition influx_new :: "influx_config \<Rightarrow> influx_logger" where
  "influx_new cfg =
     \<lparr>il_client = \<lparr>icl_address = ix_address cfg, icl_database = ix_database cfg,
        icl_auth = (ix_user cfg, ix_password cfg)\<rparr>,
      il_dataset = ix_dataset cfg\<rparr>"

definition splunk_new :: "splunk_config \<Rightarrow> splunk_logger" where
  "splunk_new cfg =
     \<lparr>sl_client = \<lparr>hc_accept_invalid_certs = True, hc_timeout = sp_timeout cfg\<rparr>,
      sl_token = sp_token cfg, sl_url = sp_url cfg\<rparr>"

definition webhook_new :: "webhook_config \<Rightarrow> webhook_logger" where
  "webhook_new cfg =
     \<lparr>wg_client = \<lparr>hc_accept_invalid_certs = False, hc_timeout = wh_timeout cfg\<rparr>, wg_config = cfg\<rparr>"

record influx_point =
  ip_client :: influx_client
  ip_dataset :: string
  ip_time :: u64
  ip_tags :: "(string \<times> string) list"
  ip_fields :: "(string \<times> string) list"

record http_post =
  hp_client :: http_client
  hp_url :: string
  hp_headers :: "(string \<times> string) list"
  hp_body :: string

datatype log_output = Line severity string | Point influx_point | Post http_post

text \<open>
  \<^verbatim>\<open>{:?}\<close> of a string and of a map of strings. (Bytes above the ASCII range are kept: the
  escaping of unprintable non-ASCII characters is left out.)
\<close>

fun hex_digits :: "nat \<Rightarrow> string" where
  "hex_digits n = (if n < 16 then [''0123456789abcdef'' ! n]
                   else hex_digits (n div 16) @ [''0123456789abcdef'' ! (n mod 16)])"

declare hex_digits.simps [simp del]

definition escape_char :: "char \<Rightarrow> string" where
  "escape_char c = (let n = of_char c :: nat in
     if n = 0 then [CHR 0x5C, CHR ''0'']
     else if n = 9 then [CHR 0x5C, CHR ''t'']
     else if n = 10 then [CHR 0x5C, CHR ''n'']
     else if n = 13 then [CHR 0x5C, CHR ''r'']
     else if n = 34 \<or> n = 92 then [CHR 0x5C, c]
     else if n < 32 \<or> n = 127 then [CHR 0x5C, CHR ''u'', CHR 0x7B] @ hex_digits n @ [CHR 0x7D]
     else [c])"

definition debug_str :: "string \<Rightarrow> string" where
  "debug_str s = [CHR 0x22] @ concat (map escape_char s) @ [CHR 0x22]"

definition debug_map :: "(string, string) hashmap \<Rightarrow> string" where
  "debug_map m = [CHR 0x7B] @ join_with '', '' (map (\<lambda>(k, v). debug_str k @ '': '' @ debug_str v) m)
     @ [CHR 0x7D]"

section \<open>The loggers\<close>

type_synonym sent = "log_output list \<times> (unit, logging_error) result"

fun stdout_lines :: "log \<Rightarrow> (severity \<times> string) list" where
  "stdout_lines (CertificateIssued ci) =
     [(Info, ''['' @ ci_certificate_type ci @ ''] Certificate issued for: ['' @ ci_fingerprint ci
       @ ''] Authority: ['' @ ci_authority ci
       @ ''] Identified by: ['' @ join_with '', '' (ci_mtls_identities ci)
       @ ''] Principals granted: ['' @ join_with '', '' (ci_principals ci)
       @ ''] Extensions: ['' @ debug_map (ci_extensions ci)
       @ ''] CriticalOptions: ['' @ debug_map (ci_critical_options ci)
       @ ''] Valid After: ['' @ show_u64 (ci_valid_after ci)
       @ ''] Valid Before: ['' @ show_u64 (ci_valid_before ci)
       @ ''] Serial Number: ['' @ show_u64 (ci_serial ci) @ '']'')]"
| "stdout_lines (KeyRegistered kr) =
     [(Info, ''Key registered: ['' @ ki_fingerprint kr
       @ ''] Identified by: ['' @ join_with '', '' (ki_mtls_identities kr) @ '']'')]"
| "stdout_lines (KeyRegistrationFailure krf) =
     [(Info, ''Failed to register key: ['' @ ki_fingerprint (kf_key_info krf)
       @ ''] Identified by: ['' @ join_with '', '' (ki_mtls_identities (kf_key_info krf)) @ '']'')]"
| "stdout_lines (InternalMessage im) = [(im_severity im, im_message im)]"
| "stdout_lines Heartbeat = []"
| "stdout_lines (X509CertificateIssued x) =
     [(Info, ''X509 Certificate issued. Authority: ['' @ xi_authority x
       @ ''] Identified by: ['' @ join_with '', '' (xi_mtls_identities x)
       @ ''] Extensions: ['' @ debug_map (xi_extensions x)
       @ ''] Valid After: ['' @ show_u64 (xi_valid_after x)
       @ ''] Valid Before: ['' @ show_u64 (xi_valid_before x)
       @ ''] Serial: ['' @ show_int (sint (xi_serial x)) @ '']'')]"

definition stdout_send_log :: "wrapped_log \<Rightarrow> sent" where
  "stdout_send_log wl = (map (\<lambda>(s, m). Line s m) (stdout_lines (wl_log wl)), Ok ())"

definition influx_send_log :: "influx_logger \<Rightarrow> u64 option \<Rightarrow> wrapped_log \<Rightarrow> sent" where
  "influx_send_log lg now wl = (case wl_log wl of
     CertificateIssued ci \<Rightarrow>
       (case now of
          None \<Rightarrow> ([], Panic)
        | Some timestamp \<Rightarrow>
          ([Point \<lparr>ip_client = il_client lg, ip_dataset = il_dataset lg, ip_time = timestamp,
                   ip_tags = [(''fingerprint'', ci_fingerprint ci),
                              (''mtls_identities'', join_with '','' (ci_mtls_identities ci)),
                              (''serial'', show_u64 (ci_serial ci))],
                   ip_fields = [(''principals'', join_with '','' (ci_principals ci))]\<rparr>], Ok ()))
   | _ \<Rightarrow> ([], Ok ()))"

text \<open>The JSON serializer: of a log, and of a log inside Splunk's wrapper.\<close>

record json_lib =
  json_log :: "wrapped_log \<Rightarrow> string + string"
  json_splunk_event :: "wrapped_log \<Rightarrow> string + string"

definition splunk_send_log :: "json_lib \<Rightarrow> splunk_logger \<Rightarrow> wrapped_log \<Rightarrow> sent" where
  "splunk_send_log J lg wl = (case json_splunk_event J wl of
     Inl e \<Rightarrow> ([], Err (SerializationError e))
   | Inr data \<Rightarrow>
       ([Post \<lparr>hp_client = sl_client lg, hp_url = sl_url lg,
               hp_headers = [(''Authorization'', ''Splunk '' @ sl_token lg),
                             (''Content-Type'', ''application/x-www-form-urlencoded''),
                             (''Content-Length'', show_nat (length data))],
               hp_body = data\<rparr>], Ok ()))"

definition webhook_send_log :: "json_lib \<Rightarrow> webhook_logger \<Rightarrow> wrapped_log \<Rightarrow> sent" where
  "webhook_send_log J lg wl = (case json_log J wl of
     Inl e \<Rightarrow> ([], Err (SerializationError e))
   | Inr data \<Rightarrow>
       ([Post \<lparr>hp_client = wg_client lg, hp_url = wh_url (wg_config lg),
               hp_headers = [(''Content-Type'', ''application/x-www-form-urlencoded''),
                             (''Content-Length'', show_nat (length data))]
                 @ (case wh_auth_header (wg_config lg) of Some a \<Rightarrow> [(''Authorization'', a)] | None \<Rightarrow> []),
               hp_body = data\<rparr>], Ok ()))"

section \<open>The logging thread\<close>

text \<open>
  What \<^verbatim>\<open>recv_timeout\<close> returns. One iteration hands the log to every configured logger in turn;
  \<open>swallow\<close> is the \<^verbatim>\<open>if let Err(_) = logger.send_log(..) { error!(..) }\<close> of the network
  loggers, the console logger's result is unwrapped.
\<close>

datatype received = Received log | Timeout | Disconnected

datatype thread_end = StillRunning | Gone | Panicked

definition swallow :: "string \<Rightarrow> sent \<Rightarrow> log_output list \<times> bool" where
  "swallow backend s = (case snd s of
     Ok _ \<Rightarrow> (fst s, False)
   | Err _ \<Rightarrow> (fst s @ [Line Error (''Could not send logs to '' @ backend)], False)
   | Panic \<Rightarrow> (fst s, True))"

definition unwrap_sent :: "sent \<Rightarrow> log_output list \<times> bool" where
  "unwrap_sent s = (fst s, snd s \<noteq> Ok ())"

fun run_sends :: "(log_output list \<times> bool) list \<Rightarrow> log_output list \<times> bool" where
  "run_sends [] = ([], False)"
| "run_sends ((out, panicked) # rest) =
     (if panicked then (out, True)
      else let (out', p) = run_sends rest in (out @ out', p))"

definition opt_send :: "('c \<Rightarrow> log_output list \<times> bool) \<Rightarrow> 'c option \<Rightarrow> (log_output list \<times> bool) list" where
  "opt_send f c = (case c of None \<Rightarrow> [] | Some x \<Rightarrow> [f x])"

definition log_once ::
    "json_lib \<Rightarrow> loggers \<Rightarrow> u64 option \<Rightarrow> wrapped_log \<Rightarrow> log_output list \<times> bool" where
  "log_once J lgs now wl = run_sends
     (opt_send (\<lambda>_. unwrap_sent (stdout_send_log wl)) (lg_stdout lgs)
      @ opt_send (\<lambda>c. swallow ''InfluxDB'' (influx_send_log c now wl)) (lg_influx lgs)
      @ opt_send (\<lambda>c. swallow ''Splunk'' (splunk_send_log J c wl)) (lg_splunk lgs)
      @ opt_send (\<lambda>c. swallow ''webhook'' (webhook_send_log J c wl)) (lg_webhook lgs))"

definition heartbeat_interval :: "logging_configuration \<Rightarrow> u64" where
  "heartbeat_interval cfg = (case lc_heartbeat_interval cfg of None \<Rightarrow> 300 | Some n \<Rightarrow> n)"

definition wrap_log :: "logging_configuration \<Rightarrow> log \<Rightarrow> wrapped_log" where
  "wrap_log cfg l = \<lparr>wl_log = l,
     wl_identifier = (case lc_identifier cfg of None \<Rightarrow> '''' | Some i \<Rightarrow> i)\<rparr>"

text \<open>
  The loop, over the outcomes of the receive calls (each with the clock the loggers read).
  The list may end while the thread still runs.
\<close>

fun logging_loop ::
    "json_lib \<Rightarrow> logging_configuration \<Rightarrow> loggers \<Rightarrow> (received \<times> u64 option) list
     \<Rightarrow> log_output list \<times> thread_end" where
  "logging_loop J cfg lgs [] = ([], StillRunning)"
| "logging_loop J cfg lgs ((ev, now) # evs) =
     (if ev = Disconnected then ([Line Error ''Logging thread has gone away.''], Gone)
      else
        let l = (case ev of Received l \<Rightarrow> l | _ \<Rightarrow> Heartbeat);
            (out, panicked) = log_once J lgs now (wrap_log cfg l)
        in if panicked then (out, Panicked)
           else let (out', e) = logging_loop J cfg lgs evs in (out @ out', e))"

text \<open>The start of the thread: the loggers, with what it prints about them, then the loop.\<close>

definition configure_loggers :: "logging_configuration \<Rightarrow> string list \<times> loggers" where
  "configure_loggers cfg =
     ((case lc_stdout cfg of
         Some _ \<Rightarrow> [''Configured logger: stdout'']
       | None \<Rightarrow> [''stdout logger is not enabled. This is not recommended!''])
      @ (case lc_influx cfg of Some _ \<Rightarrow> [''Configured logger: influx''] | None \<Rightarrow> [])
      @ (case lc_splunk cfg of Some _ \<Rightarrow> [''Configured logger: splunk''] | None \<Rightarrow> [])
      @ (case lc_webhook cfg of Some _ \<Rightarrow> [''Configured logger: webhook''] | None \<Rightarrow> []),
      \<lparr>lg_stdout = lc_stdout cfg, lg_influx = map_option influx_new (lc_influx cfg),
       lg_splunk = map_option splunk_new (lc_splunk cfg),
       lg_webhook = map_option webhook_new (lc_webhook cfg)\<rparr>)"

definition start_logging_thread ::
    "json_lib \<Rightarrow> logging_configuration \<Rightarrow> (received \<times> u64 option) list
     \<Rightarrow> string list \<times> log_output list \<times> thread_end" where
  "start_logging_thread J cfg evs =
     (let (printed, lgs) = configure_loggers cfg in (printed, logging_loop J cfg lgs evs))"

section \<open>The contract of a logger\<close>

text \<open>
  Every logger writes at most one thing for a log, nothing when it fails, and (with the clock
  after the epoch) it does not panic.
\<close>

locale rustica_logger =
  fixes send_log :: "u64 option \<Rightarrow> wrapped_log \<Rightarrow> sent"
  assumes at_most_one: "length (fst (send_log now wl)) \<le> 1"
    and failure_writes_nothing: "snd (send_log now wl) \<noteq> Ok () \<Longrightarrow> fst (send_log now wl) = []"
    and no_panic: "snd (send_log (Some t) wl) \<noteq> Panic"
begin

lemma swallow_bounded: "length (fst (swallow b (send_log now wl))) \<le> 1"
proof (cases "snd (send_log now wl)")
  case (Ok u)
  with at_most_one [of now wl] show ?thesis by (simp add: swallow_def)
next
  case (Err e)
  with failure_writes_nothing [of now wl] show ?thesis by (simp add: swallow_def)
next
  case Panic
  with failure_writes_nothing [of now wl] show ?thesis by (simp add: swallow_def)
qed

lemma swallow_no_panic: "\<not> snd (swallow b (send_log (Some t) wl))"
  using no_panic [of t wl] by (auto simp: swallow_def split: result.splits)

end

interpretation stdout_logger: rustica_logger "\<lambda>now. stdout_send_log"
proof unfold_locales
  fix wl
  show "length (fst (stdout_send_log wl)) \<le> 1"
    by (cases "wl_log wl") (simp_all add: stdout_send_log_def)
qed (simp_all add: stdout_send_log_def)

interpretation influx_logger: rustica_logger "influx_send_log lg" for lg
  by unfold_locales (auto simp: influx_send_log_def split: log.splits option.splits)

interpretation splunk_logger: rustica_logger "\<lambda>now. splunk_send_log J lg" for J lg
  by unfold_locales (auto simp: splunk_send_log_def split: sum.splits)

interpretation webhook_logger: rustica_logger "\<lambda>now. webhook_send_log J lg" for J lg
  by unfold_locales (auto simp: webhook_send_log_def split: sum.splits)

section \<open>Lemmas\<close>

lemma run_sends_ok: "\<forall>s \<in> set ss. \<not> snd s \<Longrightarrow> run_sends ss = (concat (map fst ss), False)"
  by (induction ss rule: run_sends.induct) auto

lemma opt_send_ball: "(\<forall>s \<in> set (opt_send f c). P s) \<longleftrightarrow> (\<forall>x. c = Some x \<longrightarrow> P (f x))"
  by (cases c) (simp_all add: opt_send_def)

lemma stdout_unwrap [simp]: "\<not> snd (unwrap_sent (stdout_send_log wl))"
  by (simp add: unwrap_sent_def stdout_send_log_def)

lemma log_once_ok:
  "log_once J lgs (Some t) wl = (concat (map fst
     (opt_send (\<lambda>_. unwrap_sent (stdout_send_log wl)) (lg_stdout lgs)
      @ opt_send (\<lambda>c. swallow ''InfluxDB'' (influx_send_log c (Some t) wl)) (lg_influx lgs)
      @ opt_send (\<lambda>c. swallow ''Splunk'' (splunk_send_log J c wl)) (lg_splunk lgs)
      @ opt_send (\<lambda>c. swallow ''webhook'' (webhook_send_log J c wl)) (lg_webhook lgs))), False)"
  unfolding log_once_def
  by (rule run_sends_ok)
     (simp add: ball_Un opt_send_ball influx_logger.swallow_no_panic splunk_logger.swallow_no_panic
        webhook_logger.swallow_no_panic)

lemma logging_loop_output:
  assumes "\<forall>(ev, now) \<in> set evs. ev \<noteq> Disconnected \<and> now \<noteq> None"
  shows "logging_loop J cfg lgs evs =
     (concat (map (\<lambda>(ev, now). fst (log_once J lgs now
        (wrap_log cfg (case ev of Received l \<Rightarrow> l | _ \<Rightarrow> Heartbeat)))) evs), StillRunning)"
  using assms
proof (induction evs)
  case Nil
  show ?case by simp
next
  case (Cons e evs)
  obtain ev t where e: "e = (ev, Some t)" using Cons.prems by (cases e) auto
  with Cons show ?case by (auto simp: log_once_ok split: received.splits)
qed

text \<open>
  What the backends of a configuration have to receive for a log, written from the configuration alone: the console
  its lines; InfluxDB a point for each SSH certificate, none for other logs; Splunk and the webhook one post with the
  serialized log each, or an error on the console when it cannot be serialized.
\<close>

definition due_influx :: "influx_config \<Rightarrow> u64 \<Rightarrow> log \<Rightarrow> log_output list" where
  "due_influx c t l = (case l of
     CertificateIssued ci \<Rightarrow> [Point
       \<lparr>ip_client = \<lparr>icl_address = ix_address c, icl_database = ix_database c, icl_auth = (ix_user c, ix_password c)\<rparr>,
        ip_dataset = ix_dataset c, ip_time = t,
        ip_tags = [(''fingerprint'', ci_fingerprint ci), (''mtls_identities'', join_with '','' (ci_mtls_identities ci)),
          (''serial'', show_u64 (ci_serial ci))],
        ip_fields = [(''principals'', join_with '','' (ci_principals ci))]\<rparr>]
   | _ \<Rightarrow> [])"

definition due_post :: "http_client \<Rightarrow> string \<Rightarrow> string option \<Rightarrow> bool \<Rightarrow> string \<Rightarrow> log_output" where
  "due_post client url authorization auth_first data =
     (let auth = (case authorization of Some a \<Rightarrow> [(''Authorization'', a)] | None \<Rightarrow> []);
          form = [(''Content-Type'', ''application/x-www-form-urlencoded''), (''Content-Length'', show_nat (length data))]
      in Post \<lparr>hp_client = client, hp_url = url,
           hp_headers = (if auth_first then auth @ form else form @ auth), hp_body = data\<rparr>)"

definition due_splunk :: "json_lib \<Rightarrow> splunk_config \<Rightarrow> wrapped_log \<Rightarrow> log_output" where
  "due_splunk J c wl = (case json_splunk_event J wl of
     Inr data \<Rightarrow> due_post \<lparr>hc_accept_invalid_certs = True, hc_timeout = sp_timeout c\<rparr> (sp_url c)
       (Some (''Splunk '' @ sp_token c)) True data
   | Inl _ \<Rightarrow> Line Error ''Could not send logs to Splunk'')"

definition due_webhook :: "json_lib \<Rightarrow> webhook_config \<Rightarrow> wrapped_log \<Rightarrow> log_output" where
  "due_webhook J c wl = (case json_log J wl of
     Inr data \<Rightarrow> due_post \<lparr>hc_accept_invalid_certs = False, hc_timeout = wh_timeout c\<rparr> (wh_url c)
       (wh_auth_header c) False data
   | Inl _ \<Rightarrow> Line Error ''Could not send logs to webhook'')"

definition due_outputs :: "json_lib \<Rightarrow> logging_configuration \<Rightarrow> u64 \<Rightarrow> log \<Rightarrow> log_output list" where
  "due_outputs J cfg t l =
     (let wl = \<lparr>wl_log = l, wl_identifier = (case lc_identifier cfg of Some i \<Rightarrow> i | None \<Rightarrow> [])\<rparr> in
      (if lc_stdout cfg = Some () then map (\<lambda>(severity, line). Line severity line) (stdout_lines l) else [])
      @ (case lc_influx cfg of Some c \<Rightarrow> due_influx c t l | None \<Rightarrow> [])
      @ (case lc_splunk cfg of Some c \<Rightarrow> [due_splunk J c wl] | None \<Rightarrow> [])
      @ (case lc_webhook cfg of Some c \<Rightarrow> [due_webhook J c wl] | None \<Rightarrow> []))"

lemma due_influx_sent: "fst (swallow b (influx_send_log (influx_new c) (Some t) (wrap_log cfg l))) = due_influx c t l"
  by (simp add: due_influx_def swallow_def influx_send_log_def influx_new_def wrap_log_def split: log.split)

lemma due_splunk_sent: "fst (swallow ''Splunk'' (splunk_send_log J (splunk_new c) wl)) = [due_splunk J c wl]"
  by (simp add: due_splunk_def due_post_def swallow_def splunk_send_log_def splunk_new_def split: sum.split)

lemma due_webhook_sent: "fst (swallow ''webhook'' (webhook_send_log J (webhook_new c) wl)) = [due_webhook J c wl]"
  by (simp add: due_webhook_def due_post_def swallow_def webhook_send_log_def webhook_new_def split: sum.split option.split)

lemma log_once_due:
  "fst (log_once J (snd (configure_loggers cfg)) (Some t) (wrap_log cfg l)) = due_outputs J cfg t l"
proof -
  let ?wl = "wrap_log cfg l"
  have "concat (map fst (opt_send (\<lambda>_. unwrap_sent (stdout_send_log ?wl)) (lc_stdout cfg))) =
      (if lc_stdout cfg = Some () then map (\<lambda>(severity, line). Line severity line) (stdout_lines l) else [])"
    by (cases "lc_stdout cfg") (simp_all add: opt_send_def unwrap_sent_def stdout_send_log_def wrap_log_def)
  moreover have "concat (map fst (opt_send (\<lambda>c. swallow ''InfluxDB'' (influx_send_log c (Some t) ?wl))
      (map_option influx_new (lc_influx cfg)))) = (case lc_influx cfg of Some c \<Rightarrow> due_influx c t l | None \<Rightarrow> [])"
    by (cases "lc_influx cfg") (simp_all add: opt_send_def due_influx_sent)
  moreover have "concat (map fst (opt_send (\<lambda>c. swallow ''Splunk'' (splunk_send_log J c ?wl))
      (map_option splunk_new (lc_splunk cfg)))) = (case lc_splunk cfg of Some c \<Rightarrow> [due_splunk J c ?wl] | None \<Rightarrow> [])"
    by (cases "lc_splunk cfg") (simp_all add: opt_send_def due_splunk_sent)
  moreover have "concat (map fst (opt_send (\<lambda>c. swallow ''webhook'' (webhook_send_log J c ?wl))
      (map_option webhook_new (lc_webhook cfg)))) = (case lc_webhook cfg of Some c \<Rightarrow> [due_webhook J c ?wl] | None \<Rightarrow> [])"
    by (cases "lc_webhook cfg") (simp_all add: opt_send_def due_webhook_sent)
  moreover have "\<lparr>wl_log = l, wl_identifier = (case lc_identifier cfg of Some i \<Rightarrow> i | None \<Rightarrow> [])\<rparr> = ?wl"
    by (simp add: wrap_log_def split: option.split)
  ultimately show ?thesis by (simp only: log_once_ok configure_loggers_def due_outputs_def Let_def fst_conv snd_conv
        loggers.simps map_append concat_append append_assoc)
qed

text \<open>
  C39: While the clock is after the epoch and the channel is not closed, the logging thread neither panics
  nor drops a log: started from a configuration, it delivers every received log (a heartbeat for each timeout), in
  order, to every backend of that configuration, to the console, as an InfluxDB point when an SSH certificate was
  issued, as a post to Splunk's address with its token and as a post to the webhook's address with its authorization
  header; a log that a backend's serializer refuses is an error on the console and does not keep the others from theirs.
\<close>

theorem logging_thread_delivers:
  assumes "\<forall>(ev, now) \<in> set evs. ev \<noteq> Disconnected \<and> now \<noteq> None"
  shows "snd (start_logging_thread J cfg evs) =
     (concat (map (\<lambda>(ev, now). due_outputs J cfg (the now) (case ev of Received l \<Rightarrow> l | _ \<Rightarrow> Heartbeat)) evs),
      StillRunning)"
proof -
  have "map (\<lambda>(ev, now). fst (log_once J (snd (configure_loggers cfg)) now
        (wrap_log cfg (case ev of Received l \<Rightarrow> l | _ \<Rightarrow> Heartbeat)))) evs =
      map (\<lambda>(ev, now). due_outputs J cfg (the now) (case ev of Received l \<Rightarrow> l | _ \<Rightarrow> Heartbeat)) evs"
    using assms by (auto intro!: map_cong simp: log_once_due)
  with logging_loop_output [OF assms, of J cfg "snd (configure_loggers cfg)"] show ?thesis
    by (simp add: start_logging_thread_def case_prod_beta)
qed

lemma heartbeat_stdout: "stdout_send_log (wrap_log cfg Heartbeat) = ([], Ok ())"
  by (simp add: stdout_send_log_def wrap_log_def)

lemma heartbeat_influx: "influx_send_log lg now (wrap_log cfg Heartbeat) = ([], Ok ())"
  by (simp add: influx_send_log_def wrap_log_def)

text \<open>
  An idle logging thread with only the console and InfluxDB configured writes nothing, for however
  many heartbeat intervals and whatever the clock says: heartbeats are no-ops there.
\<close>

theorem idle_thread_silent:
  assumes "lc_splunk cfg = None" and "lc_webhook cfg = None"
  shows "snd (start_logging_thread J cfg (map (Pair Timeout) clocks)) = ([], StillRunning)"
proof -
  have "logging_loop J cfg lgs (map (Pair Timeout) clocks) = ([], StillRunning)"
    if lgs: "lg_splunk lgs = None" "lg_webhook lgs = None" for lgs
  proof (induction clocks)
    case (Cons t clocks)
    have "log_once J lgs t (wrap_log cfg Heartbeat) = ([], False)"
      using lgs by (simp add: log_once_def opt_send_def heartbeat_stdout heartbeat_influx
        unwrap_sent_def swallow_def split: option.split)
    with Cons show ?case by simp
  qed simp
  with assms show ?thesis by (simp add: start_logging_thread_def configure_loggers_def)
qed

end
