(* ===== verification/Verification.thy ===== *)
theory Verification
  imports Server_Errors
begin

text \<open>
  \<^verbatim>\<open>rustica/src/verification.rs\<close>: the checks of PIV and U2F attestation chains. The cryptographic
  verification itself is \<^verbatim>\<open>sshcerts\<close>' (a parameter); modelled are the size limits, the order of
  the checks, the policy conversions and what the resulting \<^typ>\<open>key\<close> holds.
\<close>

definition CERT_MAX_SIZE :: nat where
  "CERT_MAX_SIZE = 1024 * 2"

definition verify_piv_certificate_chain ::
    "('pk, 'sk) ssh_lib \<Rightarrow> bytes \<Rightarrow> bytes \<Rightarrow> (key, rustica_server_error) result" where
  "verify_piv_certificate_chain L client intermediate =
     (if length intermediate > CERT_MAX_SIZE then Err PivIntermediateCertTooBig
      else if length client > CERT_MAX_SIZE then Err PivClientCertTooBig
      else case verify_certificate_chain L client intermediate of
        None \<Rightarrow> Err InvalidKey
      | Some d \<Rightarrow>
        (case pin_policy_try_from (pd_pin_policy d) of
           None \<Rightarrow> Err InvalidKey
         | Some pin \<Rightarrow>
           (case touch_policy_try_from (pd_touch_policy d) of
              None \<Rightarrow> Err InvalidKey
            | Some touch \<Rightarrow>
              Ok \<lparr>k_fingerprint = pk_hash L (pd_public_key d),
                  k_attestation = Some (Piv \<lparr>pa_pin_policy = pin, pa_touch_policy = touch,
                    pa_serial = pd_serial d, pa_firmware = pd_firmware d,
                    pa_certificate = client, pa_intermediate = intermediate\<rparr>)\<rparr>)))"

definition verify_u2f_certificate_chain ::
    "('pk, 'sk) ssh_lib \<Rightarrow> crypto_lib \<Rightarrow> bytes \<Rightarrow> bytes \<Rightarrow> bytes \<Rightarrow> i32 \<Rightarrow> bytes \<Rightarrow> bytes \<Rightarrow> bool
     \<Rightarrow> (key, rustica_server_error) result" where
  "verify_u2f_certificate_chain L C auth_data auth_data_signature intermediate alg challenge
       application u2f_challenge_hashed =
     (if length intermediate > CERT_MAX_SIZE then Err U2fIntermediateCertTooBig
      else if length auth_data > CERT_MAX_SIZE then Err U2fAttestationTooBig
      else let challenge = (if u2f_challenge_hashed then challenge else sha256 C challenge) in
        (case verify_auth_data L auth_data auth_data_signature challenge alg intermediate of
           None \<Rightarrow> Err InvalidKey
         | Some d \<Rightarrow>
           (case from_utf8 application of
              None \<Rightarrow> Err InvalidKey
            | Some parsed_application \<Rightarrow>
              (case ud_ssh_public_key d parsed_application of
                 None \<Rightarrow> Err InvalidKey
               | Some ssh_public_key \<Rightarrow>
                 Ok \<lparr>k_fingerprint = pk_hash L ssh_public_key,
                     k_attestation = Some (U2f \<lparr>ua_aaguid = hex_encode C (ud_aaguid d),
                       ua_firmware = (case ud_firmware d of None \<Rightarrow> ''Unknown'' | Some f \<Rightarrow> f),
                       ua_auth_data = auth_data, ua_auth_data_signature = auth_data_signature,
                       ua_intermediate = intermediate, ua_challenge = challenge,
                       ua_application = application, ua_alg = alg\<rparr>)\<rparr>))))"

section \<open>Lemmas\<close>

text \<open>A PIV chain is accepted only within the size limits, and the key describes exactly it.\<close>

lemma verify_piv_Ok:
  assumes "verify_piv_certificate_chain L client intermediate = Ok k"
  obtains d pin touch where
    "length client \<le> CERT_MAX_SIZE" "length intermediate \<le> CERT_MAX_SIZE"
    "verify_certificate_chain L client intermediate = Some d"
    "pin_policy_try_from (pd_pin_policy d) = Some pin"
    "touch_policy_try_from (pd_touch_policy d) = Some touch"
    "k = \<lparr>k_fingerprint = pk_hash L (pd_public_key d),
          k_attestation = Some (Piv \<lparr>pa_pin_policy = pin, pa_touch_policy = touch,
            pa_serial = pd_serial d, pa_firmware = pd_firmware d,
            pa_certificate = client, pa_intermediate = intermediate\<rparr>)\<rparr>"
  using assms
  by (auto simp: verify_piv_certificate_chain_def split: if_splits option.splits)

lemma verify_piv_no_panic [simp]: "verify_piv_certificate_chain L c i \<noteq> Panic"
  by (simp add: verify_piv_certificate_chain_def split: option.split)

lemma verify_u2f_no_panic [simp]:
  "verify_u2f_certificate_chain L C a s i alg c app h \<noteq> Panic"
  by (simp add: verify_u2f_certificate_chain_def Let_def split: option.split)

lemma verify_u2f_Ok:
  assumes "verify_u2f_certificate_chain L C auth_data sig intermediate alg challenge app hashed = Ok k"
  obtains d pk u where
    "length auth_data \<le> CERT_MAX_SIZE" "length intermediate \<le> CERT_MAX_SIZE"
    "verify_auth_data L auth_data sig (if hashed then challenge else sha256 C challenge) alg intermediate
       = Some d"
    "utf8_valid app" "ud_ssh_public_key d (from_bytes app) = Some pk"
    "k_fingerprint k = pk_hash L pk" "k_attestation k = Some (U2f u)"
    "ua_auth_data u = auth_data" "ua_application u = app"
    "ua_challenge u = (if hashed then challenge else sha256 C challenge)"
  using assms
  by (auto simp: verify_u2f_certificate_chain_def Let_def from_utf8_def
      split: if_splits option.splits)

text \<open>Every rejection carries one of the three errors the function can name.\<close>

lemma verify_piv_Err:
  "verify_piv_certificate_chain L c i = Err e \<Longrightarrow>
     e \<in> {PivIntermediateCertTooBig, PivClientCertTooBig, InvalidKey}"
  by (auto simp: verify_piv_certificate_chain_def split: if_splits option.splits)

lemma verify_u2f_Err:
  "verify_u2f_certificate_chain L C a s i alg c app h = Err e \<Longrightarrow>
     e \<in> {U2fIntermediateCertTooBig, U2fAttestationTooBig, InvalidKey}"
  by (auto simp: verify_u2f_certificate_chain_def Let_def split: if_splits option.splits)

end
