(* ===== verification/Rustica_Proto.thy ===== *)
theory Rustica_Proto
  imports Library_Env
begin

text \<open>
  The messages of the gRPC service between agent and server, as \<^verbatim>\<open>proto/rustica.proto\<close> declares them.
\<close>

record challenge_request =
  cq_pubkey :: string

record challenge_response =
  cp_time :: string
  cp_challenge :: string
  cp_no_signature_required :: bool

record challenge =
  ch_pubkey :: string
  ch_challenge :: string
  ch_challenge_signature :: string
  ch_challenge_time :: string

record certificate_request =
  cr_cert_type :: u32
  cr_key_id :: string
  cr_principals :: "string list"
  cr_servers :: "string list"
  cr_extensions :: "(string, string) hashmap"
  cr_critical_options :: "(string, string) hashmap"
  cr_valid_after :: u64
  cr_valid_before :: u64
  cr_challenge :: "challenge option"

record certificate_response =
  ce_certificate :: string
  ce_error :: string
  ce_error_code :: i64
  ce_new_client_certificate :: string
  ce_new_client_key :: string

record register_key_request =
  rq_certificate :: bytes
  rq_intermediate :: bytes
  rq_challenge :: "challenge option"

record register_u2f_key_request =
  ru_auth_data :: bytes
  ru_auth_data_signature :: bytes
  ru_sk_application :: bytes
  ru_u2f_challenge :: bytes
  ru_intermediate :: bytes
  ru_alg :: i32
  ru_challenge :: "challenge option"
  ru_u2f_challenge_hashed :: bool

record attested_x509_certificate_request =
  ax_key_id :: string
  ax_csr :: bytes
  ax_attestation :: bytes
  ax_attestation_intermediate :: bytes

record attested_x509_certificate_response =
  ay_certificate :: bytes
  ay_error :: string
  ay_error_code :: i64

record allowed_signers_response =
  ar_compressed_allowed_signers :: bytes

end
