(* ===== verification/Server_State.thy ===== *)
theory Server_State
  imports Auth_Mechanism Signing Logging Verification Rustica_Proto
begin

text \<open>
  The state of a \<^verbatim>\<open>RusticaServer\<close> (\<^verbatim>\<open>rustica/src/server.rs\<close>) and what its handlers share.

  \<^item> \<open>log_sender\<close> is the list of logs sent on the channel so far.
  \<^item> \<open>srv_databases\<close> are the SQLite files the local authorizer opens; they are part of the state
    because registering a key writes to them.
  \<^item> \<open>'l\<close> is the LRU cache of the rate limiter, \<open>lru_push\<close> its only operation the server uses.
  \<^item> A handler takes the readings of the system clock it makes as arguments, in order; \<open>None\<close> is a
    clock before the epoch.
\<close>

section \<open>The server\<close>

record client_authority_configuration =
  cac_authority :: string
  cac_validity_length :: u64
  cac_expiration_renewal_period :: u64

record allowed_signers_configuration =
  asc_cache_validity_length :: duration
  asc_lru_rate_limiter_size :: nat
  asc_rate_limit_cooldown :: duration

record allowed_signers_cache =
  sc_compressed_allowed_signers :: bytes
  sc_expiry_timestamp :: duration

record ('pk, 'sk, 'ca, 'l) rustica_server =
  log_sender :: "log list"
  hmac_key :: bytes
  challenge_key :: 'sk
  srv_authorizer :: authorization_mechanism
  srv_signer :: "('pk, 'ca) signing_mechanism"
  require_rustica_proof :: bool
  require_attestation_chain :: bool
  client_authority :: client_authority_configuration
  srv_allowed_signers :: allowed_signers_configuration
  allowed_signers_rate_limiter :: 'l
  srv_allowed_signers_cache :: allowed_signers_cache
  srv_databases :: databases

record mtls_certificate_info =
  mi_identities :: "string list"
  mi_expiry_timestamp :: i64

record certificate_refresh_settings =
  crs_not_after :: u64
  crs_not_before :: u64

text \<open>The libraries a server calls.\<close>

record ('pk, 'sk, 'ca, 'l) server_env =
  e_ssh :: "('pk, 'sk) ssh_lib"
  e_crypto :: crypto_lib
  e_rcgen :: "'ca rcgen_lib"
  e_author :: author_service
  e_parse_x509 :: "bytes \<Rightarrow> string + x509"
  e_lru_push :: "'l \<Rightarrow> string \<Rightarrow> duration \<Rightarrow> 'l \<times> (string \<times> duration) option"
  e_zstd_new :: "bytes option"
  e_zstd_write :: "bytes \<Rightarrow> bytes \<Rightarrow> bytes option"
  e_zstd_finish :: "bytes \<Rightarrow> bytes option"

section \<open>Shared operations\<close>

definition send_log :: "log \<Rightarrow> ('pk, 'sk, 'ca, 'l) rustica_server \<Rightarrow> ('pk, 'sk, 'ca, 'l) rustica_server" where
  "send_log l srv = srv\<lparr>log_sender := log_sender srv @ [l]\<rparr>"

definition rustica_error :: "string \<Rightarrow> ('pk, 'sk, 'ca, 'l) rustica_server \<Rightarrow> ('pk, 'sk, 'ca, 'l) rustica_server" where
  "rustica_error m = send_log (InternalMessage \<lparr>im_severity = Error, im_message = m\<rparr>)"

definition rustica_warning :: "string \<Rightarrow> ('pk, 'sk, 'ca, 'l) rustica_server \<Rightarrow> ('pk, 'sk, 'ca, 'l) rustica_server" where
  "rustica_warning m = send_log (InternalMessage \<lparr>im_severity = Warning, im_message = m\<rparr>)"

definition create_response :: "rustica_server_error \<Rightarrow> certificate_response" where
  "create_response e = \<lparr>ce_certificate = '''', ce_error = debug_error e, ce_error_code = error_code e,
     ce_new_client_certificate = '''', ce_new_client_key = ''''\<rparr>"

definition permission_denied :: status where
  "permission_denied = Status PermissionDenied ''''"

text \<open>The common names of a certificate's subject, in order; a common name that is no string is an error.\<close>

definition oid_common_name :: "nat list" where
  "oid_common_name = [2, 5, 4, 3]"

fun common_names :: "x509_attr list \<Rightarrow> (string list, rustica_server_error) result" where
  "common_names [] = Ok []"
| "common_names (attr # attrs) =
     (if attr_type attr = oid_common_name then
        (case attr_str attr of
           Some s \<Rightarrow> and_then (common_names attrs) (\<lambda>ss. Ok (s # ss))
         | None \<Rightarrow> Err NotAuthorized)
      else common_names attrs)"

definition extract_certificate_information ::
    "('pk, 'sk, 'ca, 'l) server_env \<Rightarrow> bytes \<Rightarrow> (mtls_certificate_info, rustica_server_error) result" where
  "extract_certificate_information E peer = (case e_parse_x509 E peer of
     Inl _ \<Rightarrow> Err NotAuthorized
   | Inr cert \<Rightarrow>
       and_then (common_names (concat (x_subject cert))) (\<lambda>ids.
         Ok \<lparr>mi_identities = ids, mi_expiry_timestamp = x_not_after cert\<rparr>))"

section \<open>Lemmas\<close>

lemma server_log_simps [simp]:
  "log_sender (send_log l srv) = log_sender srv @ [l]"
  "hmac_key (send_log l srv) = hmac_key srv" "challenge_key (send_log l srv) = challenge_key srv"
  "srv_databases (send_log l srv) = srv_databases srv"
  "srv_allowed_signers_cache (send_log l srv) = srv_allowed_signers_cache srv"
  "allowed_signers_rate_limiter (send_log l srv) = allowed_signers_rate_limiter srv"
  by (simp_all add: send_log_def)

lemma common_names_Ok:
  "common_names attrs = Ok ids \<longleftrightarrow>
     map attr_str (filter (\<lambda>a. attr_type a = oid_common_name) attrs) = map Some ids"
  by (induction attrs arbitrary: ids) (auto simp: ok_iff split: option.splits)

lemma common_names_no_panic: "common_names attrs \<noteq> Panic"
  by (induction attrs) (auto simp: and_then_def split: option.splits result.splits)

lemma common_names_Err: "common_names attrs = Err e \<Longrightarrow> e = NotAuthorized"
  by (induction attrs) (auto simp: and_then_def split: option.splits result.splits if_splits)

lemma extract_no_panic [simp]: "extract_certificate_information E peer \<noteq> Panic"
  using common_names_no_panic
  by (auto simp: extract_certificate_information_def and_then_def split: sum.splits result.splits)

lemma extract_Err: "extract_certificate_information E peer = Err e \<Longrightarrow> e = NotAuthorized"
  by (auto simp: extract_certificate_information_def and_then_def dest: common_names_Err
           split: sum.splits result.splits)

text \<open>
  The identities read from a client certificate are exactly its common names, in order, and every
  one of them is a string; otherwise the certificate is not accepted. Nothing else in the subject
  counts, and the expiry is the certificate's.
\<close>

theorem extract_certificate_information_Ok:
  "extract_certificate_information E peer = Ok info \<longleftrightarrow>
     (\<exists>cert. e_parse_x509 E peer = Inr cert \<and>
        map attr_str (filter (\<lambda>a. attr_type a = oid_common_name) (concat (x_subject cert)))
          = map Some (mi_identities info) \<and>
        mi_expiry_timestamp info = x_not_after cert)"
  by (cases info) (auto simp: extract_certificate_information_def ok_iff common_names_Ok)

text \<open>
  A client certificate whose subject has no common name is accepted, with no identity at all
  (the comment on the function calls this an error).
\<close>

theorem extract_accepts_no_common_name:
  assumes "e_parse_x509 E peer = Inr cert"
    and "\<forall>a \<in> set (concat (x_subject cert)). attr_type a \<noteq> oid_common_name"
  shows "extract_certificate_information E peer =
     Ok \<lparr>mi_identities = [], mi_expiry_timestamp = x_not_after cert\<rparr>"
proof -
  have "filter (\<lambda>a. attr_type a = oid_common_name) (concat (x_subject cert)) = []"
    using assms(2) by (simp add: filter_empty_conv)
  then have "common_names (concat (x_subject cert)) = Ok []" by (simp add: common_names_Ok)
  with assms(1) show ?thesis by (simp add: extract_certificate_information_def)
qed

end
