(* ===== verification/Server_Validate.thy ===== *)
theory Server_Validate
  imports Server_State
begin

text \<open>
  \<^verbatim>\<open>validate_request\<close> of \<^verbatim>\<open>rustica/src/server.rs\<close>: every check a returned challenge has to pass,
  in the order of the source, with the warnings it logs.
\<close>

section \<open>The checks\<close>

text \<open>The request's time and the server's time, both needed.\<close>

definition request_times :: "challenge \<Rightarrow> u64 option \<Rightarrow> (u64 \<times> u64, rustica_server_error) result" where
  "request_times ch now = (case (parse_u64 (ch_challenge_time ch), now) of
     (Some rt, Some time) \<Rightarrow> Ok (rt, time)
   | _ \<Rightarrow> Err Unknown)"

text \<open>The message under the HMAC. \<open>challenge_window\<close> is the operational window in seconds.\<close>

definition challenge_message :: "u64 \<Rightarrow> string \<Rightarrow> string list \<Rightarrow> string" where
  "challenge_message rt pubkey identities =
     show_u64 rt @ ''-'' @ pubkey @ ''-'' @ join_with '','' identities"

definition challenge_expired :: "u64 \<Rightarrow> u64 \<Rightarrow> bool" where
  "challenge_expired time request_time \<longleftrightarrow> time - request_time > 5"

definition certificate_refresh ::
    "('pk, 'sk, 'ca, 'l) rustica_server \<Rightarrow> u64 \<Rightarrow> i64 \<Rightarrow> certificate_refresh_settings option" where
  "certificate_refresh srv time expiry =
     (if time > expiry
         \<or> expiry - time < cac_expiration_renewal_period (client_authority srv)
      then Some \<lparr>crs_not_after = time + cac_validity_length (client_authority srv),
                 crs_not_before = time\<rparr>
      else None)"

text \<open>
  Who signed the certificate that came back: the server's own challenge key when no proof is required,
  otherwise the very key the client asks a certificate for. The result is the warning to log.
\<close>

definition check_proof ::
    "('pk, 'sk) ssh_lib \<Rightarrow> ('pk, 'sk, 'ca, 'l) rustica_server \<Rightarrow> 'pk certificate \<Rightarrow> 'pk \<Rightarrow> string list
     \<Rightarrow> string option" where
  "check_proof L srv cert hmac_ssh_pubkey identities =
     (if \<not> require_rustica_proof srv then
        if pk_hash L (c_signature_key cert) \<noteq> pk_hash L (sk_pubkey L (challenge_key srv))
        then Some (''Received an incorrect certificate from '' @ join_with '','' identities)
        else None
      else if pk_hash L (c_key cert) \<noteq> pk_hash L (c_signature_key cert)
      then Some (''User key did not equal CA key when talking to: '' @ join_with '','' identities)
      else if pk_hash L (c_key cert) \<noteq> pk_hash L hmac_ssh_pubkey
      then Some (''User key did not equal HMAC validated public key: '' @ join_with '','' identities)
      else None)"

type_synonym 'pk validated = "'pk \<times> string list \<times> certificate_refresh_settings option"

text \<open>From the parsed certificate on: HMAC, public key, proof.\<close>

definition validate_certificate ::
    "('pk, 'sk, 'ca, 'l) server_env \<Rightarrow> challenge \<Rightarrow> u64 \<Rightarrow> u64 \<Rightarrow> mtls_certificate_info \<Rightarrow> 'pk certificate
     \<Rightarrow> ('pk, 'sk, 'ca, 'l) rustica_server
     \<Rightarrow> ('pk, 'sk, 'ca, 'l) rustica_server \<times> ('pk validated, rustica_server_error) result" where
  "validate_certificate E ch request_time time info cert srv =
     (let ids = mi_identities info;
          hmac_verification = challenge_message request_time (ch_pubkey ch) ids
      in case hex_decode (e_crypto E) (c_key_id cert) of
           None \<Rightarrow> (srv, Err BadChallenge)
         | Some decoded_challenge \<Rightarrow>
           if \<not> hmac_verify (e_crypto E) (hmac_key srv) (as_bytes hmac_verification) decoded_challenge
           then (rustica_warning (''Received a bad challenge from: '' @ join_with '','' ids) srv,
                 Err BadChallenge)
           else (case pk_from_string (e_ssh E) (ch_pubkey ch) of
             None \<Rightarrow>
               (rustica_error (''Public key was invalid when negotiating with ['' @ join_with '','' ids
                  @ '']. Public key: ['' @ ch_pubkey ch @ '']'') srv, Err BadChallenge)
           | Some hmac_ssh_pubkey \<Rightarrow>
             (case check_proof (e_ssh E) srv cert hmac_ssh_pubkey ids of
                Some warning \<Rightarrow> (rustica_warning warning srv, Err BadChallenge)
              | None \<Rightarrow> (srv, Ok (hmac_ssh_pubkey, ids,
                            certificate_refresh srv time (mi_expiry_timestamp info))))))"

definition validate_request ::
    "('pk, 'sk, 'ca, 'l) server_env \<Rightarrow> u64 option \<Rightarrow> bytes list \<Rightarrow> challenge
     \<Rightarrow> ('pk, 'sk, 'ca, 'l) rustica_server
     \<Rightarrow> ('pk, 'sk, 'ca, 'l) rustica_server \<times> ('pk validated, rustica_server_error) result" where
  "validate_request E now peers ch srv = (case peers of
     [] \<Rightarrow> (srv, Err BadRequest)
   | peer # _ \<Rightarrow>
     (case extract_certificate_information E peer of
        Err e \<Rightarrow> (srv, Err e)
      | Panic \<Rightarrow> (srv, Panic)
      | Ok info \<Rightarrow>
        (case request_times ch now of
           Err e \<Rightarrow> (srv, Err e)
         | Panic \<Rightarrow> (srv, Panic)
         | Ok (request_time, time) \<Rightarrow>
           let ids = mi_identities info in
           if challenge_expired time request_time then
             (rustica_warning (''Expired challenge received from: '' @ join_with '','' ids) srv,
              Err TimeExpired)
           else if length (ch_challenge ch) > 1024 then
             (rustica_warning (''Received a certificate that is far too large from from: ''
                @ join_with '','' ids) srv, Err Unknown)
           else (case cert_from_string (e_ssh E) (ch_challenge ch) of
             Inl _ \<Rightarrow>
               (rustica_warning (''Received a bad certificate from: '' @ join_with '','' ids) srv,
                Err BadChallenge)
           | Inr cert \<Rightarrow> validate_certificate E ch request_time time info cert srv))))"

section \<open>Lemmas\<close>

lemma check_proof_None:
  "check_proof L srv cert k ids = None \<longleftrightarrow>
     (if require_rustica_proof srv
      then pk_hash L (c_key cert) = pk_hash L (c_signature_key cert) \<and>
           pk_hash L (c_key cert) = pk_hash L k
      else pk_hash L (c_signature_key cert) = pk_hash L (sk_pubkey L (challenge_key srv)))"
  by (simp add: check_proof_def)

lemma request_times_Ok [simp]:
  "request_times ch now = Ok (rt, t) \<longleftrightarrow> parse_u64 (ch_challenge_time ch) = Some rt \<and> now = Some t"
  by (auto simp: request_times_def split: option.splits)

lemma request_times_Err [simp]:
  "request_times ch now = Err e \<longleftrightarrow> (parse_u64 (ch_challenge_time ch) = None \<or> now = None) \<and> e = Unknown"
  by (auto simp: request_times_def split: option.splits)

lemma request_times_no_panic [simp]: "request_times ch now \<noteq> Panic"
  by (auto simp: request_times_def split: option.splits)

text \<open>What an accepted certificate satisfies, and that nothing is logged for it.\<close>

lemma validate_certificate_Ok:
  "validate_certificate E ch rt t info cert srv = (srv', Ok (k, ids, refresh)) \<longleftrightarrow>
     srv' = srv \<and> ids = mi_identities info \<and>
     refresh = certificate_refresh srv t (mi_expiry_timestamp info) \<and>
     (\<exists>tag. hex_decode (e_crypto E) (c_key_id cert) = Some tag \<and>
        hmac_verify (e_crypto E) (hmac_key srv) (as_bytes (challenge_message rt (ch_pubkey ch) ids)) tag) \<and>
     pk_from_string (e_ssh E) (ch_pubkey ch) = Some k \<and>
     check_proof (e_ssh E) srv cert k ids = None"
  by (auto simp: validate_certificate_def Let_def split: option.splits)

lemma validate_certificate_no_panic: "snd (validate_certificate E ch rt t info cert srv) \<noteq> Panic"
  by (simp add: validate_certificate_def Let_def split: option.split)

lemma validate_request_stages:
  "validate_request E now peers ch srv = (srv', Ok v) \<longleftrightarrow>
     (\<exists>peer rest info rt t cert.
        peers = peer # rest \<and> extract_certificate_information E peer = Ok info \<and>
        parse_u64 (ch_challenge_time ch) = Some rt \<and> now = Some t \<and> t - rt \<le> 5 \<and>
        length (ch_challenge ch) \<le> 1024 \<and> cert_from_string (e_ssh E) (ch_challenge ch) = Inr cert \<and>
        validate_certificate E ch rt t info cert srv = (srv', Ok v))"
  by (cases peers)
     (auto simp: validate_request_def Let_def challenge_expired_def not_less
           split: result.splits sum.splits if_splits)

lemma validate_request_same:
  "validate_request E now peers ch srv = (srv', Ok v) \<Longrightarrow> srv' = srv"
  by (cases v) (auto simp: validate_request_stages validate_certificate_Ok)

text \<open>
  C1: A request is accepted exactly when the first client certificate is readable, the challenge
  time parses, the challenge is no older than the window, no longer than 1024 bytes, parses as an
  SSH certificate whose key id is the HMAC of the time, the public key and the mTLS identities,
  the public key parses, and the certificate was signed by the right key. An accepted request leaves the server
  unchanged.
\<close>

theorem validate_request_Ok:
  "validate_request E now peers ch srv = (srv', Ok (k, ids, refresh)) \<longleftrightarrow>
     srv' = srv \<and>
     (\<exists>peer rest info rt t cert tag.
        peers = peer # rest \<and> extract_certificate_information E peer = Ok info \<and>
        ids = mi_identities info \<and> parse_u64 (ch_challenge_time ch) = Some rt \<and> now = Some t \<and>
        t - rt \<le> 5 \<and> length (ch_challenge ch) \<le> 1024 \<and>
        cert_from_string (e_ssh E) (ch_challenge ch) = Inr cert \<and>
        hex_decode (e_crypto E) (c_key_id cert) = Some tag \<and>
        hmac_verify (e_crypto E) (hmac_key srv) (as_bytes (challenge_message rt (ch_pubkey ch) ids)) tag \<and>
        pk_from_string (e_ssh E) (ch_pubkey ch) = Some k \<and>
        (if require_rustica_proof srv
         then pk_hash (e_ssh E) (c_key cert) = pk_hash (e_ssh E) (c_signature_key cert) \<and>
              pk_hash (e_ssh E) (c_key cert) = pk_hash (e_ssh E) k
         else pk_hash (e_ssh E) (c_signature_key cert)
              = pk_hash (e_ssh E) (sk_pubkey (e_ssh E) (challenge_key srv))) \<and>
        refresh = certificate_refresh srv t (mi_expiry_timestamp info))"
  unfolding check_proof_None [symmetric, where ids = ids] validate_request_stages validate_certificate_Ok
  by blast

text \<open>Validating a request never panics, whatever the client sends.\<close>

theorem validate_request_no_panic: "snd (validate_request E now peers ch srv) \<noteq> Panic"
  by (auto simp: validate_request_def Let_def validate_certificate_no_panic
           split: list.splits result.splits sum.splits)

text \<open>
  The window check on wrapping 64-bit integers: once the clock is past five seconds, a request time
  passes exactly when it is neither in the future nor more than five seconds old (the subtraction
  that wraps below zero does land outside the window).
\<close>

theorem challenge_window:
  assumes "5 \<le> time"
  shows "\<not> challenge_expired time rt \<longleftrightarrow> unat time \<le> unat rt + 5 \<and> unat rt \<le> unat time"
proof -
  have "\<not> challenge_expired time rt \<longleftrightarrow> time - 5 \<le> rt \<and> rt \<le> time"
    using word_diff_le_iff [OF assms, of rt] by (simp add: challenge_expired_def not_less)
  also have "time - 5 \<le> rt \<longleftrightarrow> unat time \<le> unat rt + 5"
    using assms by unat_arith
  finally show ?thesis by (simp add: word_le_nat_alt)
qed

text \<open>
  Validation leaves everything but the log alone, and the log only grows by at most one message.
\<close>

theorem validate_request_only_logs:
  assumes "validate_request E now peers ch srv = (srv', r)"
  shows "\<exists>ls. length ls \<le> 1 \<and> srv' = srv\<lparr>log_sender := log_sender srv @ ls\<rparr>"
proof -
  have keep: "\<exists>ls. length ls \<le> 1 \<and> srv = srv\<lparr>log_sender := log_sender srv @ ls\<rparr>"
    by (rule exI [of _ "[]"]) simp
  have send: "\<exists>ls. length ls \<le> 1 \<and> send_log l srv = srv\<lparr>log_sender := log_sender srv @ ls\<rparr>" for l
    by (rule exI [of _ "[l]"]) (simp add: send_log_def)
  show ?thesis
    using assms keep send
    by (auto simp: validate_request_def validate_certificate_def Let_def rustica_warning_def
        rustica_error_def split: list.splits result.splits sum.splits option.splits if_splits prod.splits)
qed

end
