(* ===== verification/Server_Issue.thy ===== *)
theory Server_Issue
  imports Server_Validate
begin

text \<open>
  The handlers \<^verbatim>\<open>challenge\<close> and \<^verbatim>\<open>certificate\<close> of \<^verbatim>\<open>rustica/src/server.rs\<close>: handing out an HMAC
  challenge inside an SSH certificate, and issuing the certificate a client asks for.
\<close>

section \<open>Challenge\<close>

definition challenge_certificate ::
    "('pk, 'sk, 'ca, 'l) server_env \<Rightarrow> ('pk, 'sk, 'ca, 'l) rustica_server \<Rightarrow> 'pk \<Rightarrow> bytes
     \<Rightarrow> ('pk certificate, status) result" where
  "challenge_certificate E srv ssh_pubkey tag =
     and_then (ok_or (cert_builder (e_ssh E) ssh_pubkey Host (sk_pubkey (e_ssh E) (challenge_key srv)))
                 permission_denied) (\<lambda>c.
       ok_or (cert_sign (e_ssh E) (challenge_key srv)
                (c\<lparr>c_serial := 0xFEFEFEFEFEFEFEFE, c_key_id := hex_encode (e_crypto E) tag,
                   c_valid_after := 0, c_valid_before := 0\<rparr>))
         permission_denied)"

definition challenge_handler ::
    "('pk, 'sk, 'ca, 'l) server_env \<Rightarrow> u64 option \<Rightarrow> challenge_request request
     \<Rightarrow> ('pk, 'sk, 'ca, 'l) rustica_server
     \<Rightarrow> ('pk, 'sk, 'ca, 'l) rustica_server \<times> (challenge_response, status) result" where
  "challenge_handler E now req srv = (case (remote_addr req, peer_certs req) of
     (Some addr, Some (peer # _)) \<Rightarrow>
       (case extract_certificate_information E peer of
          Ok info \<Rightarrow>
            let ids = mi_identities info; pubkey = cq_pubkey (into_inner req) in
            if length pubkey > 1024 then
              (rustica_warning (''The pubkey size is too large ('' @ show_nat (length pubkey)
                 @ '' chars) for a challenge request from ['' @ join_with '','' ids @ '']'') srv,
               Err permission_denied)
            else
              (srv,
               and_then (ok_or (pk_from_string (e_ssh E) pubkey) permission_denied) (\<lambda>ssh_pubkey.
               and_then (unwrap now) (\<lambda>time.
                 let tag = hmac_sign (e_crypto E) (hmac_key srv)
                             (as_bytes (challenge_message time pubkey ids))
                 in and_then (challenge_certificate E srv ssh_pubkey tag) (\<lambda>cert.
                      Ok \<lparr>cp_time = show_u64 time, cp_challenge = cert_to_string (e_ssh E) cert,
                          cp_no_signature_required = \<not> require_rustica_proof srv\<rparr>))))
        | _ \<Rightarrow> (srv, Err permission_denied))
   | _ \<Rightarrow> (srv, Err permission_denied))"

section \<open>Certificate\<close>

definition requested_cert_type :: "u32 \<Rightarrow> cert_type option" where
  "requested_cert_type t = (if t = 1 then Some User else if t = 2 then Some Host else None)"

definition chosen_authority :: "('pk, 'sk, 'ca, 'l) rustica_server \<Rightarrow> string \<Rightarrow> string" where
  "chosen_authority srv key_id = (if key_id = [] then sm_default_authority (srv_signer srv) else key_id)"

definition certificate_critical_options ::
    "ssh_authorization \<Rightarrow> socket_addr \<Rightarrow> (string, string) hashmap" where
  "certificate_critical_options auth addr =
     (let m = (case sa_force_command auth of None \<Rightarrow> [] | Some cmd \<Rightarrow> hm_insert ''force-command'' cmd [])
      in if sa_force_source_ip auth then hm_insert ''source-address'' (addr_ip addr) m else m)"

definition certificate_to_sign ::
    "('pk, 'sk) ssh_lib \<Rightarrow> 'pk \<Rightarrow> cert_type \<Rightarrow> 'pk \<Rightarrow> ssh_authorization \<Rightarrow> (string, string) hashmap
     \<Rightarrow> 'pk certificate option" where
  "certificate_to_sign L ssh_pubkey t ca auth crit =
     map_option (\<lambda>c. c\<lparr>c_serial := sa_serial auth,
                       c_key_id := ''Rustica-JITC-for-'' @ pk_hash L ssh_pubkey,
                       c_principals := sa_principals auth,
                       c_valid_after := sa_valid_after auth, c_valid_before := sa_valid_before auth,
                       c_critical_options := crit, c_extensions := sa_extensions auth\<rparr>)
       (cert_builder L ssh_pubkey t ca)"

text \<open>The new client certificate (its key and PEM), when a refresh is due and there is a client CA.\<close>

definition refresh_client_certificate ::
    "('pk, 'sk, 'ca, 'l) server_env \<Rightarrow> ('pk, 'sk, 'ca, 'l) rustica_server \<Rightarrow> string list
     \<Rightarrow> certificate_refresh_settings option \<Rightarrow> (string \<times> string, status) result" where
  "refresh_client_certificate E srv ids refresh =
     (case (refresh, get_client_certificate_authority (srv_signer srv) (cac_authority (client_authority srv))) of
        (Some settings, Ok (Some ca)) \<Rightarrow>
          let R = e_rcgen E; p = params_new R ids;
              cn = (case ids of [] \<Rightarrow> '''' | i # _ \<Rightarrow> i)
          in if \<not> time_ok R (crs_not_before settings) \<or> \<not> time_ok R (crs_not_after settings) then Panic
             else and_then (unwrap (ca_from_params R (p\<lparr>not_before := crs_not_before settings,
                    not_after := crs_not_after settings,
                    distinguished_name := dn_push R (distinguished_name p) CommonName cn\<rparr>))) (\<lambda>new_cert.
                  and_then (unwrap (ca_pem_with_signer R new_cert ca)) (\<lambda>pem.
                    Ok (ca_key_pem R new_cert, pem)))
      | _ \<Rightarrow> Ok ('''', ''''))"

definition certificate_issued_log ::
    "('pk, 'sk) ssh_lib \<Rightarrow> 'pk \<Rightarrow> 'pk \<Rightarrow> string \<Rightarrow> cert_type \<Rightarrow> string list \<Rightarrow> ssh_authorization
     \<Rightarrow> (string, string) hashmap \<Rightarrow> certificate_refresh_settings option \<Rightarrow> log" where
  "certificate_issued_log L ssh_pubkey ca authority t ids auth crit refresh = CertificateIssued
     \<lparr>ci_fingerprint = pk_hash L ssh_pubkey, ci_signed_by = pk_hash L ca, ci_serial = sa_serial auth,
      ci_authority = authority, ci_certificate_type = cert_type_to_string L t,
      ci_mtls_identities = ids, ci_principals = sa_principals auth, ci_extensions = sa_extensions auth,
      ci_critical_options = crit, ci_valid_after = sa_valid_after auth,
      ci_valid_before = sa_valid_before auth, ci_new_access_certificate_issued = (refresh \<noteq> None)\<rparr>"

text \<open>From the authorization on: build, sign, check that the result parses, refresh, log.\<close>

definition issue_certificate ::
    "('pk, 'sk, 'ca, 'l) server_env \<Rightarrow> socket_addr \<Rightarrow> 'pk \<Rightarrow> string list \<Rightarrow> certificate_refresh_settings option
     \<Rightarrow> cert_type \<Rightarrow> string \<Rightarrow> 'pk \<Rightarrow> ssh_authorization \<Rightarrow> ('pk, 'sk, 'ca, 'l) rustica_server
     \<Rightarrow> ('pk, 'sk, 'ca, 'l) rustica_server \<times> (certificate_response, status) result" where
  "issue_certificate E addr ssh_pubkey ids refresh t authority ca auth srv =
     (let L = e_ssh E; crit = certificate_critical_options auth addr in
      case certificate_to_sign L ssh_pubkey t ca auth crit of
        None \<Rightarrow> (srv, Err permission_denied)
      | Some to_sign \<Rightarrow>
        (case mech_sign (srv_signer srv) (sa_authority auth) to_sign of
           Panic \<Rightarrow> (srv, Panic)
         | Err e \<Rightarrow> (rustica_error (''Creating certificate failed: '' @ signing_error_to_string e) srv,
                    Ok (create_response BadChallenge))
         | Ok cert \<Rightarrow>
           (case cert_from_string L (cert_to_string L cert) of
              Inl e \<Rightarrow> (rustica_error (''Couldn'' @ [CHR 0x27] @ ''t deserialize certificate: '' @ e) srv,
                        Ok (create_response BadCertOptions))
            | Inr _ \<Rightarrow>
              (case refresh_client_certificate E srv ids refresh of
                 Panic \<Rightarrow> (srv, Panic)
               | Err e \<Rightarrow> (srv, Err e)
               | Ok (new_key, new_cert) \<Rightarrow>
                   (send_log (certificate_issued_log L ssh_pubkey ca authority t ids auth crit refresh) srv,
                    Ok \<lparr>ce_certificate = cert_to_string L cert, ce_error = '''',
                        ce_error_code = error_code Success,
                        ce_new_client_certificate = new_cert, ce_new_client_key = new_key\<rparr>)))))"

definition ssh_auth_props ::
    "('pk, 'sk) ssh_lib \<Rightarrow> certificate_request \<Rightarrow> socket_addr \<Rightarrow> 'pk \<Rightarrow> string list \<Rightarrow> cert_type \<Rightarrow> string
     \<Rightarrow> ssh_authorization_request" where
  "ssh_auth_props L r addr ssh_pubkey ids t authority =
     \<lparr>sr_fingerprint = pk_hash L ssh_pubkey, sr_mtls_identities = ids,
      sr_requester_ip = addr_string addr, sr_principals = cr_principals r, sr_servers = cr_servers r,
      sr_valid_before = cr_valid_before r, sr_valid_after = cr_valid_after r, sr_cert_type = t,
      sr_authority = authority\<rparr>"

text \<open>Everything that follows a validated challenge.\<close>

definition authorize_and_issue ::
    "('pk, 'sk, 'ca, 'l) server_env \<Rightarrow> u64 option \<Rightarrow> u64 option \<Rightarrow> socket_addr \<Rightarrow> certificate_request
     \<Rightarrow> 'pk validated \<Rightarrow> ('pk, 'sk, 'ca, 'l) rustica_server
     \<Rightarrow> ('pk, 'sk, 'ca, 'l) rustica_server \<times> (certificate_response, status) result" where
  "authorize_and_issue E now2 now3 addr r v srv =
     (let (ssh_pubkey, ids, refresh) = v; L = e_ssh E;
          current_timestamp = (case now2 of Some ts \<Rightarrow> ts | None \<Rightarrow> 0xFFFFFFFFFFFFFFFF)
      in if cr_valid_before r < cr_valid_after r \<or> current_timestamp > cr_valid_before r then
           (srv, Ok (create_response BadCertOptions))
         else (case requested_cert_type (cr_cert_type r) of
           None \<Rightarrow> (srv, Ok (create_response BadCertOptions))
         | Some t \<Rightarrow>
           let authority = chosen_authority srv (cr_key_id r) in
           (case get_signer_public_key (srv_signer srv) authority t of
              Panic \<Rightarrow> (srv, Panic)
            | Err _ \<Rightarrow> (srv, Ok (create_response NotAuthorized))
            | Ok ca \<Rightarrow>
              (case authorize_ssh_cert L (e_author E) (srv_databases srv) now3 (srv_authorizer srv)
                      (ssh_auth_props L r addr ssh_pubkey ids t authority) of
                 Panic \<Rightarrow> (srv, Panic)
               | Err e \<Rightarrow> (srv, Ok (create_response (from_authorization_error e)))
               | Ok auth \<Rightarrow> issue_certificate E addr ssh_pubkey ids refresh t authority ca auth srv))))"

text \<open>The three clock readings: in \<open>validate_request\<close>, in the handler, in the local authorizer.\<close>

definition certificate_handler ::
    "('pk, 'sk, 'ca, 'l) server_env \<Rightarrow> u64 option \<Rightarrow> u64 option \<Rightarrow> u64 option
     \<Rightarrow> certificate_request request \<Rightarrow> ('pk, 'sk, 'ca, 'l) rustica_server
     \<Rightarrow> ('pk, 'sk, 'ca, 'l) rustica_server \<times> (certificate_response, status) result" where
  "certificate_handler E now1 now2 now3 req srv = (case remote_addr req of
     None \<Rightarrow> (srv, Err permission_denied)
   | Some addr \<Rightarrow> (let r = into_inner req in
     case (cr_challenge r, peer_certs req) of
       (Some ch, Some peers) \<Rightarrow>
         (case validate_request E now1 peers ch srv of
            (srv', Panic) \<Rightarrow> (srv', Panic)
          | (srv', Err e) \<Rightarrow> (srv', Ok (create_response e))
          | (srv', Ok v) \<Rightarrow> authorize_and_issue E now2 now3 addr r v srv')
     | _ \<Rightarrow> (srv, Ok (create_response BadRequest))))"

section \<open>Lemmas\<close>

lemma challenge_handler_Ok:
  "challenge_handler E now req srv = (srv', Ok resp) \<longleftrightarrow>
     srv' = srv \<and> (\<exists>addr peer rest info k t cert.
       remote_addr req = Some addr \<and> peer_certs req = Some (peer # rest) \<and>
       extract_certificate_information E peer = Ok info \<and> length (cq_pubkey (into_inner req)) \<le> 1024 \<and>
       pk_from_string (e_ssh E) (cq_pubkey (into_inner req)) = Some k \<and> now = Some t \<and>
       challenge_certificate E srv k (hmac_sign (e_crypto E) (hmac_key srv)
          (as_bytes (challenge_message t (cq_pubkey (into_inner req)) (mi_identities info)))) = Ok cert \<and>
       resp = \<lparr>cp_time = show_u64 t, cp_challenge = cert_to_string (e_ssh E) cert,
               cp_no_signature_required = \<not> require_rustica_proof srv\<rparr>)"
  by (auto simp: challenge_handler_def Let_def and_then_Ok not_less
           split: option.splits list.splits result.splits if_splits)

lemma challenge_certificate_Ok:
  "challenge_certificate E srv k tag = Ok cert \<longleftrightarrow>
     (\<exists>c. cert_builder (e_ssh E) k Host (sk_pubkey (e_ssh E) (challenge_key srv)) = Some c \<and>
       cert_sign (e_ssh E) (challenge_key srv)
         (c\<lparr>c_serial := 0xFEFEFEFEFEFEFEFE, c_key_id := hex_encode (e_crypto E) tag,
            c_valid_after := 0, c_valid_before := 0\<rparr>) = Some cert)"
  by (simp add: challenge_certificate_def and_then_Ok)

lemma create_response_code: "ce_error_code (create_response e) = 0 \<longleftrightarrow> e = Success"
  by (simp add: create_response_def error_code_zero)

lemma validate_request_Err_not_Success:
  "validate_request E now peers ch srv = (srv', Err e) \<Longrightarrow> e \<noteq> Success"
  by (auto simp: validate_request_def validate_certificate_def Let_def dest: extract_Err
           split: list.splits result.splits sum.splits option.splits if_splits prod.splits)

text \<open>
  The hosts of an authorization are never used, and the local database sets neither a forced command nor a source
  address: a certificate it authorizes has no critical options, whether the key is restricted to hosts or not.
\<close>

lemma hosts_ignored:
  "issue_certificate E addr k ids refresh t authority ca (auth\<lparr>sa_hosts := hosts\<rparr>) srv =
   issue_certificate E addr k ids refresh t authority ca auth srv"
proof -
  have same: "certificate_critical_options (auth\<lparr>sa_hosts := hosts\<rparr>) addr = certificate_critical_options auth addr"
    "certificate_to_sign L k t ca (auth\<lparr>sa_hosts := hosts\<rparr>) crit = certificate_to_sign L k t ca auth crit"
    "certificate_issued_log L k ca authority t ids (auth\<lparr>sa_hosts := hosts\<rparr>) crit refresh =
       certificate_issued_log L k ca authority t ids auth crit refresh"
    "sa_authority (auth\<lparr>sa_hosts := hosts\<rparr>) = sa_authority auth" for L crit
    by (simp_all add: certificate_critical_options_def certificate_to_sign_def certificate_issued_log_def)
  show ?thesis unfolding issue_certificate_def same ..
qed

lemma local_no_critical_options:
  assumes "authorize_ssh_cert_local dbs now l req = Ok auth"
  shows "certificate_critical_options auth addr = []"
  using assms unfolding authorize_ssh_cert_local_Ok by (auto simp: certificate_critical_options_def)

text \<open>What a successful signature needs; the server is unchanged but for the log entry.\<close>

lemma issue_certificate_success:
  "issue_certificate E addr k ids refresh t authority ca auth srv = (srv', Ok resp) \<and> ce_error_code resp = 0
   \<longleftrightarrow>
     (\<exists>tbs cert nk nc x.
        certificate_to_sign (e_ssh E) k t ca auth (certificate_critical_options auth addr) = Some tbs \<and>
        mech_sign (srv_signer srv) (sa_authority auth) tbs = Ok cert \<and>
        cert_from_string (e_ssh E) (cert_to_string (e_ssh E) cert) = Inr x \<and>
        refresh_client_certificate E srv ids refresh = Ok (nk, nc) \<and>
        resp = \<lparr>ce_certificate = cert_to_string (e_ssh E) cert, ce_error = '''', ce_error_code = 0,
                ce_new_client_certificate = nc, ce_new_client_key = nk\<rparr> \<and>
        srv' = send_log (certificate_issued_log (e_ssh E) k ca authority t ids auth
                 (certificate_critical_options auth addr) refresh) srv)"
  by (auto simp: issue_certificate_def Let_def create_response_code
           split: option.splits result.splits sum.splits)

lemma issue_certificate_refusal:
  "issue_certificate E addr k ids refresh t authority ca auth srv = (srv', Ok resp) \<Longrightarrow>
   ce_error_code resp \<noteq> 0 \<Longrightarrow> \<exists>e. e \<noteq> Success \<and> resp = create_response e"
  by (auto simp: issue_certificate_def Let_def split: option.splits result.splits sum.splits)

text \<open>A stage that answers with an error was passed, when the reply is a success.\<close>

lemma if_refusal:
  "e \<noteq> Success \<Longrightarrow>
   (if b then (s, Ok (create_response e)) else p) = (srv', Ok resp) \<and> ce_error_code resp = 0 \<longleftrightarrow>
   \<not> b \<and> p = (srv', Ok resp) \<and> ce_error_code resp = 0"
  by (auto simp: create_response_code)

lemma case_option_refusal:
  "e \<noteq> Success \<Longrightarrow>
   (case x of None \<Rightarrow> (s, Ok (create_response e)) | Some u \<Rightarrow> f u) = (srv', Ok resp) \<and> ce_error_code resp = 0
   \<longleftrightarrow> (\<exists>u. x = Some u \<and> f u = (srv', Ok resp) \<and> ce_error_code resp = 0)"
  by (cases x) (auto simp: create_response_code)

lemma case_result_refusal:
  "(\<And>e. g e \<noteq> Success) \<Longrightarrow>
   (case x of Ok u \<Rightarrow> f u | Err e \<Rightarrow> (s, Ok (create_response (g e))) | Panic \<Rightarrow> (s, Panic)) = (srv', Ok resp)
     \<and> ce_error_code resp = 0
   \<longleftrightarrow> (\<exists>u. x = Ok u \<and> f u = (srv', Ok resp) \<and> ce_error_code resp = 0)"
  by (cases x) (auto simp: create_response_code)

lemma authorize_and_issue_success:
  "authorize_and_issue E now2 now3 addr r (k, ids, refresh) srv = (srv', Ok resp) \<and> ce_error_code resp = 0
   \<longleftrightarrow>
     cr_valid_after r \<le> cr_valid_before r \<and>
     (case now2 of Some ts \<Rightarrow> ts | None \<Rightarrow> 0xFFFFFFFFFFFFFFFF) \<le> cr_valid_before r \<and>
     (\<exists>t ca auth.
        requested_cert_type (cr_cert_type r) = Some t \<and>
        get_signer_public_key (srv_signer srv) (chosen_authority srv (cr_key_id r)) t = Ok ca \<and>
        authorize_ssh_cert (e_ssh E) (e_author E) (srv_databases srv) now3 (srv_authorizer srv)
          (ssh_auth_props (e_ssh E) r addr k ids t (chosen_authority srv (cr_key_id r))) = Ok auth \<and>
        issue_certificate E addr k ids refresh t (chosen_authority srv (cr_key_id r)) ca auth srv
          = (srv', Ok resp) \<and> ce_error_code resp = 0)"
  unfolding authorize_and_issue_def Let_def prod.case
  by (simp add: if_refusal case_option_refusal case_result_refusal from_authorization_error_not_Success
      not_less)

lemma authorize_and_issue_refusal:
  assumes "authorize_and_issue E now2 now3 addr r v srv = (srv', Ok resp)" and "ce_error_code resp \<noteq> 0"
  shows "\<exists>e. e \<noteq> Success \<and> resp = create_response e"
proof -
  have auth: "\<exists>e. e \<noteq> Success \<and> create_response (from_authorization_error a) = create_response e" for a
    using from_authorization_error_not_Success by blast
  show ?thesis
    using assms
    by (auto simp: authorize_and_issue_def Let_def auth intro: issue_certificate_refusal
        split: prod.splits option.splits result.splits if_splits)
qed

lemma certificate_handler_success:
  "certificate_handler E now1 now2 now3 req srv = (srv', Ok resp) \<and> ce_error_code resp = 0 \<longleftrightarrow>
     (\<exists>addr ch peers k ids refresh.
        remote_addr req = Some addr \<and> cr_challenge (into_inner req) = Some ch \<and>
        peer_certs req = Some peers \<and>
        validate_request E now1 peers ch srv = (srv, Ok (k, ids, refresh)) \<and>
        authorize_and_issue E now2 now3 addr (into_inner req) (k, ids, refresh) srv = (srv', Ok resp) \<and>
        ce_error_code resp = 0)"
  by (auto simp: certificate_handler_def Let_def create_response_code
      dest: validate_request_same validate_request_Err_not_Success
      split: option.splits prod.splits result.splits)

text \<open>
  C2: A certificate is issued (the reply carries error code 0) exactly when the request carries a challenge
  that validates for some key and identities, the requested validity is not empty and not over, the
  certificate type is user or host, the requested (or default) authority has a key of that
  type, the authorizer approves the request made of exactly these values, and the certificate with the
  authorizer's serial, principals, validity, extensions and critical options, signed by the
  authority the authorizer names, parses again. The reply carries that certificate, and the
  only change to the server is the log entry for it.
\<close>

theorem certificate_issued_iff:
  "certificate_handler E now1 now2 now3 req srv = (srv', Ok resp) \<and> ce_error_code resp = 0 \<longleftrightarrow>
     (\<exists>addr ch peers k ids refresh t ca auth tbs cert nk nc x.
        remote_addr req = Some addr \<and> cr_challenge (into_inner req) = Some ch \<and>
        peer_certs req = Some peers \<and>
        validate_request E now1 peers ch srv = (srv, Ok (k, ids, refresh)) \<and>
        cr_valid_after (into_inner req) \<le> cr_valid_before (into_inner req) \<and>
        (case now2 of Some ts \<Rightarrow> ts | None \<Rightarrow> 0xFFFFFFFFFFFFFFFF) \<le> cr_valid_before (into_inner req) \<and>
        requested_cert_type (cr_cert_type (into_inner req)) = Some t \<and>
        get_signer_public_key (srv_signer srv) (chosen_authority srv (cr_key_id (into_inner req))) t = Ok ca \<and>
        authorize_ssh_cert (e_ssh E) (e_author E) (srv_databases srv) now3 (srv_authorizer srv)
          (ssh_auth_props (e_ssh E) (into_inner req) addr k ids t
             (chosen_authority srv (cr_key_id (into_inner req)))) = Ok auth \<and>
        certificate_to_sign (e_ssh E) k t ca auth (certificate_critical_options auth addr) = Some tbs \<and>
        mech_sign (srv_signer srv) (sa_authority auth) tbs = Ok cert \<and>
        cert_from_string (e_ssh E) (cert_to_string (e_ssh E) cert) = Inr x \<and>
        refresh_client_certificate E srv ids refresh = Ok (nk, nc) \<and>
        resp = \<lparr>ce_certificate = cert_to_string (e_ssh E) cert, ce_error = '''', ce_error_code = 0,
                ce_new_client_certificate = nc, ce_new_client_key = nk\<rparr> \<and>
        srv' = send_log (certificate_issued_log (e_ssh E) k ca
                 (chosen_authority srv (cr_key_id (into_inner req))) t ids auth
                 (certificate_critical_options auth addr) refresh) srv)"
  unfolding certificate_handler_success authorize_and_issue_success issue_certificate_success by blast

text \<open>A refused request leaves nothing behind but messages in the log.\<close>

definition only_messages :: "('pk, 'sk, 'ca, 'l) rustica_server \<Rightarrow> ('pk, 'sk, 'ca, 'l) rustica_server \<Rightarrow> bool" where
  "only_messages srv srv' \<longleftrightarrow> (\<exists>ms. srv' = srv\<lparr>log_sender := log_sender srv @ map InternalMessage ms\<rparr>)"

lemma only_messagesI [simp, intro]:
  "only_messages srv srv" "only_messages srv (rustica_error m srv)" "only_messages srv (rustica_warning m srv)"
proof -
  show "only_messages srv srv" unfolding only_messages_def by (rule exI [of _ "[]"]) simp
  have "only_messages srv (send_log (InternalMessage im) srv)" for im
    unfolding only_messages_def by (rule exI [of _ "[im]"]) (simp add: send_log_def)
  then show "only_messages srv (rustica_error m srv)" "only_messages srv (rustica_warning m srv)"
    by (simp_all add: rustica_error_def rustica_warning_def)
qed

lemma validate_request_messages: "validate_request E now peers ch srv = (srv', r) \<Longrightarrow> only_messages srv srv'"
  by (auto simp: validate_request_def validate_certificate_def Let_def
      split: list.splits result.splits sum.splits option.splits if_splits prod.splits)

lemma issue_certificate_messages:
  "issue_certificate E addr k ids refresh t authority ca auth srv = (srv', Ok resp) \<Longrightarrow> ce_error_code resp \<noteq> 0
     \<Longrightarrow> only_messages srv srv'"
  by (auto simp: issue_certificate_def Let_def split: option.splits result.splits sum.splits)

lemma authorize_and_issue_messages:
  "authorize_and_issue E now2 now3 addr r v srv = (srv', Ok resp) \<Longrightarrow> ce_error_code resp \<noteq> 0
     \<Longrightarrow> only_messages srv srv'"
  by (auto simp: authorize_and_issue_def Let_def dest: issue_certificate_messages
      split: prod.splits option.splits result.splits if_splits)

lemma certificate_handler_refusal:
  assumes "certificate_handler E now1 now2 now3 req srv = (srv', Ok resp)" and "ce_error_code resp \<noteq> 0"
  shows "\<exists>e. e \<noteq> Success \<and> resp = create_response e" and "only_messages srv srv'"
proof -
  show "\<exists>e. e \<noteq> Success \<and> resp = create_response e"
    using assms
    by (auto simp: certificate_handler_def Let_def intro: authorize_and_issue_refusal
        dest: validate_request_Err_not_Success split: option.splits result.splits prod.splits)
  show "only_messages srv srv'"
    using assms
    by (auto simp: certificate_handler_def Let_def
        dest: validate_request_same validate_request_messages authorize_and_issue_messages
        split: option.splits result.splits prod.splits)
qed

text \<open>
  C22: A refusal says so and gives nothing away: a reply with a nonzero error code carries no certificate,
  no client certificate and no client key, its code and text are those of one error, and the server is as before
  but for messages in its log: neither a certificate nor a registration is recorded.
\<close>

theorem certificate_refusal:
  assumes "certificate_handler E now1 now2 now3 req srv = (srv', Ok resp)" and "ce_error_code resp \<noteq> 0"
  shows "ce_certificate resp = '''' \<and> ce_new_client_certificate resp = '''' \<and> ce_new_client_key resp = '''' \<and>
     (\<exists>e. e \<noteq> Success \<and> ce_error_code resp = error_code e \<and> ce_error resp = debug_error e) \<and>
     (\<exists>ms. srv' = srv\<lparr>log_sender := log_sender srv @ map InternalMessage ms\<rparr>)"
  using certificate_handler_refusal [OF assms] by (auto simp: create_response_def only_messages_def)

end
