(* ===== verification/Server_Register.thy ===== *)
theory Server_Register
  imports Server_Validate
begin

text \<open>
  The handlers \<^verbatim>\<open>register_key\<close> and \<^verbatim>\<open>register_u2f_key\<close> of \<^verbatim>\<open>rustica/src/server.rs\<close>. Both validate the
  challenge, check the attestation, and hand the key to the authorizer; the two steps after the challenge are
  the same text in the source and one definition each here.
\<close>

section \<open>Operations\<close>

definition requester_ip_of :: "'a request \<Rightarrow> string" where
  "requester_ip_of req = (case remote_addr req of Some a \<Rightarrow> addr_string a | None \<Rightarrow> '''')"

text \<open>
  The attestation, verified or not, against the key of the challenge: the fingerprint and attestation
  to register, or the refusal.
\<close>

definition check_attestation ::
    "('pk, 'sk) ssh_lib \<Rightarrow> (key, rustica_server_error) result \<Rightarrow> 'pk \<Rightarrow> string list \<Rightarrow> string
     \<Rightarrow> ('pk, 'sk, 'ca, 'l) rustica_server
     \<Rightarrow> ('pk, 'sk, 'ca, 'l) rustica_server \<times> (string \<times> key_attestation option, status) result" where
  "check_attestation L verified ssh_pubkey ids requester_ip srv = (case verified of
     Panic \<Rightarrow> (srv, Panic)
   | Ok key \<Rightarrow>
       if pk_hash L ssh_pubkey \<noteq> k_fingerprint key then
         (rustica_warning (''Attestation fingerprint did not match challenge from host ['' @ requester_ip
            @ '']. Attestation: ['' @ pk_hash L ssh_pubkey @ ''] Challenge: ['' @ k_fingerprint key @ '']'') srv,
          Err (Status InvalidArgument ''Attestation did not match challenge''))
       else (srv, Ok (k_fingerprint key, k_attestation key))
   | Err _ \<Rightarrow>
       if \<not> require_attestation_chain srv then (srv, Ok (pk_hash L ssh_pubkey, None))
       else
         (send_log (KeyRegistrationFailure
            \<lparr>kf_key_info = \<lparr>ki_fingerprint = pk_hash L ssh_pubkey, ki_mtls_identities = ids\<rparr>,
             kf_message = ''Attempt to register a key with an invalid attestation chain''\<rparr>) srv,
          Err (Status Unavailable ''Could not register a key without valid attestation data'')))"

definition register_with_authorizer ::
    "('pk, 'sk, 'ca, 'l) server_env \<Rightarrow> register_key_request_properties \<Rightarrow> ('pk, 'sk, 'ca, 'l) rustica_server
     \<Rightarrow> ('pk, 'sk, 'ca, 'l) rustica_server \<times> (unit, status) result" where
  "register_with_authorizer E props srv =
     (let (dbs', r) = register_key_auth (e_crypto E) (e_author E) (srv_authorizer srv) (srv_databases srv) props;
          srv' = srv\<lparr>srv_databases := dbs'\<rparr>;
          info = \<lparr>ki_fingerprint = rk_fingerprint props, ki_mtls_identities = rk_mtls_identities props\<rparr>
      in case r of
           Panic \<Rightarrow> (srv', Panic)
         | Ok _ \<Rightarrow> (send_log (KeyRegistered info) srv', Ok ())
         | Err e \<Rightarrow>
             (send_log (KeyRegistrationFailure \<lparr>kf_key_info = info,
                kf_message = authorization_error_to_string e\<rparr>) srv',
              Err (Status Unavailable ''Could not register new key'')))"

definition register_attested ::
    "('pk, 'sk, 'ca, 'l) server_env \<Rightarrow> (key, rustica_server_error) result \<Rightarrow> 'pk \<Rightarrow> string list \<Rightarrow> string
     \<Rightarrow> ('pk, 'sk, 'ca, 'l) rustica_server \<Rightarrow> ('pk, 'sk, 'ca, 'l) rustica_server \<times> (unit, status) result" where
  "register_attested E verified ssh_pubkey ids requester_ip srv =
     (case check_attestation (e_ssh E) verified ssh_pubkey ids requester_ip srv of
        (srv', Panic) \<Rightarrow> (srv', Panic)
      | (srv', Err st) \<Rightarrow> (srv', Err st)
      | (srv', Ok (fingerprint, attestation)) \<Rightarrow>
          register_with_authorizer E \<lparr>rk_fingerprint = fingerprint,
            rk_pubkey = pk_to_string (e_ssh E) ssh_pubkey, rk_mtls_identities = ids,
            rk_requester_ip = requester_ip, rk_attestation = attestation\<rparr> srv')"

definition register_key_handler ::
    "('pk, 'sk, 'ca, 'l) server_env \<Rightarrow> u64 option \<Rightarrow> register_key_request request
     \<Rightarrow> ('pk, 'sk, 'ca, 'l) rustica_server \<Rightarrow> ('pk, 'sk, 'ca, 'l) rustica_server \<times> (unit, status) result" where
  "register_key_handler E now req srv = (let r = into_inner req in
     case (rq_challenge r, peer_certs req) of
       (Some ch, Some peers) \<Rightarrow>
         (case validate_request E now peers ch srv of
            (srv', Panic) \<Rightarrow> (srv', Panic)
          | (srv', Err e) \<Rightarrow>
              (rustica_error (''Could not validate request: '' @ debug_error e) srv', Err (Status Cancelled ''''))
          | (srv', Ok (ssh_pubkey, ids, _)) \<Rightarrow>
              register_attested E
                (verify_piv_certificate_chain (e_ssh E) (rq_certificate r) (rq_intermediate r))
                ssh_pubkey ids (requester_ip_of req) srv')
     | _ \<Rightarrow> (srv, Err permission_denied))"

definition register_u2f_key_handler ::
    "('pk, 'sk, 'ca, 'l) server_env \<Rightarrow> u64 option \<Rightarrow> register_u2f_key_request request
     \<Rightarrow> ('pk, 'sk, 'ca, 'l) rustica_server \<Rightarrow> ('pk, 'sk, 'ca, 'l) rustica_server \<times> (unit, status) result" where
  "register_u2f_key_handler E now req srv = (let r = into_inner req in
     case (ru_challenge r, peer_certs req) of
       (Some ch, Some peers) \<Rightarrow>
         (case validate_request E now peers ch srv of
            (srv', Panic) \<Rightarrow> (srv', Panic)
          | (srv', Err e) \<Rightarrow> (srv', Err (Status Cancelled (debug_error e)))
          | (srv', Ok (ssh_pubkey, ids, _)) \<Rightarrow>
              register_attested E
                (verify_u2f_certificate_chain (e_ssh E) (e_crypto E) (ru_auth_data r)
                   (ru_auth_data_signature r) (ru_intermediate r) (ru_alg r) (ru_u2f_challenge r)
                   (ru_sk_application r) (ru_u2f_challenge_hashed r))
                ssh_pubkey ids (requester_ip_of req) srv')
     | _ \<Rightarrow> (srv, Err permission_denied))"

section \<open>Lemmas\<close>

lemma check_attestation_Ok:
  "check_attestation L verified k ids ip srv = (srv', Ok (fp, att)) \<longleftrightarrow>
     srv' = srv \<and> fp = pk_hash L k \<and>
     ((\<exists>key. verified = Ok key \<and> k_fingerprint key = fp \<and> att = k_attestation key) \<or>
      (\<exists>e. verified = Err e) \<and> \<not> require_attestation_chain srv \<and> att = None)"
  by (auto simp: check_attestation_def split: result.splits if_splits)

lemma check_attestation_databases:
  "check_attestation L verified k ids ip srv = (srv', r) \<Longrightarrow>
     srv_databases srv' = srv_databases srv \<and> srv_authorizer srv' = srv_authorizer srv"
  by (auto simp: check_attestation_def rustica_warning_def send_log_def split: result.splits if_splits)

lemma register_with_authorizer_Ok:
  "register_with_authorizer E props srv = (srv', Ok u) \<longleftrightarrow>
     (\<exists>dbs. register_key_auth (e_crypto E) (e_author E) (srv_authorizer srv) (srv_databases srv) props
              = (dbs, Ok ()) \<and>
        srv' = send_log (KeyRegistered \<lparr>ki_fingerprint = rk_fingerprint props,
                 ki_mtls_identities = rk_mtls_identities props\<rparr>) (srv\<lparr>srv_databases := dbs\<rparr>))"
  by (auto simp: register_with_authorizer_def Let_def split: prod.splits result.splits)

lemma register_with_authorizer_fail:
  "register_with_authorizer E props srv = (srv', r) \<Longrightarrow> r \<noteq> Ok () \<Longrightarrow>
     srv_databases srv' = srv_databases srv"
  using mechanism.register_atomic
  by (fastforce simp: register_with_authorizer_def Let_def split: prod.splits result.splits)

lemma register_attested_fail:
  "register_attested E verified k ids ip srv = (srv', r) \<Longrightarrow> r \<noteq> Ok () \<Longrightarrow>
     srv_databases srv' = srv_databases srv"
  by (auto simp: register_attested_def dest!: register_with_authorizer_fail check_attestation_databases
           split: prod.splits result.splits)

lemma register_attested_Ok:
  "register_attested E verified k ids ip srv = (srv', Ok u) \<longleftrightarrow>
     (\<exists>att dbs.
        ((\<exists>key. verified = Ok key \<and> k_fingerprint key = pk_hash (e_ssh E) k \<and> att = k_attestation key) \<or>
         (\<exists>e. verified = Err e) \<and> \<not> require_attestation_chain srv \<and> att = None) \<and>
        register_key_auth (e_crypto E) (e_author E) (srv_authorizer srv) (srv_databases srv)
          \<lparr>rk_fingerprint = pk_hash (e_ssh E) k, rk_pubkey = pk_to_string (e_ssh E) k,
           rk_mtls_identities = ids, rk_requester_ip = ip, rk_attestation = att\<rparr> = (dbs, Ok ()) \<and>
        srv' = send_log (KeyRegistered \<lparr>ki_fingerprint = pk_hash (e_ssh E) k, ki_mtls_identities = ids\<rparr>)
                 (srv\<lparr>srv_databases := dbs\<rparr>))"
  (is "_ \<longleftrightarrow> ?R")
proof -
  have "register_attested E verified k ids ip srv = (srv', Ok u) \<longleftrightarrow>
     (\<exists>s fp att. check_attestation (e_ssh E) verified k ids ip srv = (s, Ok (fp, att)) \<and>
        register_with_authorizer E \<lparr>rk_fingerprint = fp, rk_pubkey = pk_to_string (e_ssh E) k,
          rk_mtls_identities = ids, rk_requester_ip = ip, rk_attestation = att\<rparr> s = (srv', Ok u))"
    by (auto simp: register_attested_def split: prod.splits result.splits)
  also have "\<dots> \<longleftrightarrow> ?R"
    unfolding check_attestation_Ok register_with_authorizer_Ok register_key_request_properties.simps by blast
  finally show ?thesis .
qed

lemma validate_request_databases:
  "validate_request E now peers ch srv = (srv', r) \<Longrightarrow> srv_databases srv' = srv_databases srv"
  by (auto simp: validate_request_def validate_certificate_def Let_def rustica_warning_def rustica_error_def
           split: list.splits result.splits sum.splits option.splits if_splits prod.splits)

lemma register_key_stages:
  "register_key_handler E now req srv = (srv', Ok u) \<longleftrightarrow>
     (\<exists>ch peers k ids refresh. rq_challenge (into_inner req) = Some ch \<and> peer_certs req = Some peers \<and>
        validate_request E now peers ch srv = (srv, Ok (k, ids, refresh)) \<and>
        register_attested E (verify_piv_certificate_chain (e_ssh E) (rq_certificate (into_inner req))
          (rq_intermediate (into_inner req))) k ids (requester_ip_of req) srv = (srv', Ok u))"
  by (auto simp: register_key_handler_def Let_def dest: validate_request_same
      split: option.splits prod.splits result.splits)

text \<open>
  C9: A PIV key is registered exactly when its challenge validates and the authorizer takes it: with the
  attestation when the chain verifies for this very key, and without one only if the chain does not
  verify and the server does not require it. A chain that verifies for another key is
  never registered. The server then changes by the authorizer's write and one log entry.
\<close>

theorem register_key_Ok:
  "register_key_handler E now req srv = (srv', Ok u) \<longleftrightarrow>
     (\<exists>ch peers k ids refresh att dbs.
        rq_challenge (into_inner req) = Some ch \<and> peer_certs req = Some peers \<and>
        validate_request E now peers ch srv = (srv, Ok (k, ids, refresh)) \<and>
        ((\<exists>key. verify_piv_certificate_chain (e_ssh E) (rq_certificate (into_inner req))
                   (rq_intermediate (into_inner req)) = Ok key \<and>
                k_fingerprint key = pk_hash (e_ssh E) k \<and> att = k_attestation key) \<or>
         (\<exists>e. verify_piv_certificate_chain (e_ssh E) (rq_certificate (into_inner req))
                   (rq_intermediate (into_inner req)) = Err e) \<and>
         \<not> require_attestation_chain srv \<and> att = None) \<and>
        register_key_auth (e_crypto E) (e_author E) (srv_authorizer srv) (srv_databases srv)
          \<lparr>rk_fingerprint = pk_hash (e_ssh E) k, rk_pubkey = pk_to_string (e_ssh E) k,
           rk_mtls_identities = ids, rk_requester_ip = requester_ip_of req, rk_attestation = att\<rparr>
          = (dbs, Ok ()) \<and>
        srv' = send_log (KeyRegistered \<lparr>ki_fingerprint = pk_hash (e_ssh E) k, ki_mtls_identities = ids\<rparr>)
                 (srv\<lparr>srv_databases := dbs\<rparr>))"
  unfolding register_key_stages register_attested_Ok by blast

text \<open>
  A registration that does not succeed (PIV or U2F, for whatever reason) leaves the
  databases as they were.
\<close>

theorem failed_registration_keeps_databases:
  assumes "register_key_handler E now req srv = (srv', r) \<or> register_u2f_key_handler E now ureq srv = (srv', r)"
    and "r \<noteq> Ok ()"
  shows "srv_databases srv' = srv_databases srv"
  using assms
  by (auto simp: register_key_handler_def register_u2f_key_handler_def Let_def rustica_error_def
      dest!: register_attested_fail validate_request_databases
      split: option.splits prod.splits result.splits)

end
