(* ===== verification/Server_Signers.thy ===== *)
theory Server_Signers
  imports Server_State
begin

text \<open>
  The handler \<^verbatim>\<open>allowed_signers\<close> of \<^verbatim>\<open>rustica/src/server.rs\<close> with its rate limiter and its cache.
  The handler gives up its locks twice (after the rate limiter, and between the read lock and the
  write lock on the cache), so it is modelled as three atomic sections; \<open>signers_step\<close>
  interleaves the sections of any number of calls with changes of the databases.
\<close>

section \<open>Operations\<close>

definition is_rate_limited ::
    "('pk, 'sk, 'ca, 'l) server_env \<Rightarrow> string \<Rightarrow> duration \<Rightarrow> ('pk, 'sk, 'ca, 'l) rustica_server
     \<Rightarrow> ('pk, 'sk, 'ca, 'l) rustica_server \<times> (bool, status) result" where
  "is_rate_limited E identities current_time srv =
     (case duration_add current_time (asc_rate_limit_cooldown (srv_allowed_signers srv)) of
        None \<Rightarrow> (srv, Panic)
      | Some until \<Rightarrow>
        let (l', removed_entry) = e_lru_push E (allowed_signers_rate_limiter srv) identities until
        in (srv\<lparr>allowed_signers_rate_limiter := l'\<rparr>,
            case removed_entry of
              None \<Rightarrow> Ok False
            | Some (k, v) \<Rightarrow> if k \<noteq> identities then Ok False else Ok (current_time < v)))"

text \<open>The first section: who asks, when, and whether too often.\<close>

definition signers_admit ::
    "('pk, 'sk, 'ca, 'l) server_env \<Rightarrow> duration option \<Rightarrow> unit request \<Rightarrow> ('pk, 'sk, 'ca, 'l) rustica_server
     \<Rightarrow> ('pk, 'sk, 'ca, 'l) rustica_server \<times> (duration, status) result" where
  "signers_admit E now req srv = (case (remote_addr req, peer_certs req) of
     (Some addr, Some (cert # _)) \<Rightarrow>
       (case extract_certificate_information E cert of
          Panic \<Rightarrow> (srv, Panic)
        | Err e \<Rightarrow> (rustica_error (''Could not validate request: '' @ debug_error e) srv,
                   Err (Status Cancelled ''''))
        | Ok info \<Rightarrow>
          (case now of
             None \<Rightarrow> (srv, Err permission_denied)
           | Some current_time \<Rightarrow>
             (case is_rate_limited E (join_with '','' (mi_identities info)) current_time srv of
                (srv', Ok limited) \<Rightarrow>
                  (srv', if limited then Err (Status ResourceExhausted '''') else Ok current_time)
              | (srv', Err st) \<Rightarrow> (srv', Err st)
              | (srv', Panic) \<Rightarrow> (srv', Panic))))
   | _ \<Rightarrow> (srv, Err permission_denied))"

text \<open>The second section, under the read lock: the cached reply, if it is still valid.\<close>

definition cached_reply :: "duration \<Rightarrow> ('pk, 'sk, 'ca, 'l) rustica_server \<Rightarrow> allowed_signers_response option" where
  "cached_reply current_time srv =
     (if current_time \<le> sc_expiry_timestamp (srv_allowed_signers_cache srv)
      then Some \<lparr>ar_compressed_allowed_signers =
                   sc_compressed_allowed_signers (srv_allowed_signers_cache srv)\<rparr>
      else None)"

text \<open>The content of an allowed signers file, and its compression.\<close>

definition allowed_signers_text :: "allowed_signers \<Rightarrow> string" where
  "allowed_signers_text a =
     join_with [CHR 0x0A] (map (\<lambda>s. as_identity s @ '' '' @ as_pubkey s) (as_allowed_signers a))"

definition compress ::
    "('pk, 'sk, 'ca, 'l) server_env \<Rightarrow> string \<Rightarrow> bytes option" where
  "compress E text = (case e_zstd_new E of
     None \<Rightarrow> None
   | Some enc \<Rightarrow> (case e_zstd_write E enc (as_bytes text) of
       None \<Rightarrow> None
     | Some enc' \<Rightarrow> e_zstd_finish E enc'))"

text \<open>
  The third section, under the write lock: look again, then ask the authorizer, compress and store. Beside the new
  state and the reply, the result says whether the authorizer was asked, and what it answered.
\<close>

type_synonym signers_answer = "(allowed_signers, authorization_error) result"

definition signers_refresh ::
    "('pk, 'sk, 'ca, 'l) server_env \<Rightarrow> duration \<Rightarrow> ('pk, 'sk, 'ca, 'l) rustica_server
     \<Rightarrow> ('pk, 'sk, 'ca, 'l) rustica_server \<times> signers_answer option \<times> (allowed_signers_response, status) result" where
  "signers_refresh E current_time srv = (case cached_reply current_time srv of
     Some reply \<Rightarrow> (srv, None, Ok reply)
   | None \<Rightarrow>
     let response = get_allowed_signers (e_author E) (srv_databases srv) (srv_authorizer srv) in
     (case response of
        Panic \<Rightarrow> (srv, Some response, Panic)
      | Err _ \<Rightarrow> (srv, Some response, Err permission_denied)
      | Ok a \<Rightarrow>
        (case compress E (allowed_signers_text a) of
           None \<Rightarrow> (srv, Some response, Err permission_denied)
         | Some compressed \<Rightarrow>
           (case duration_add current_time (asc_cache_validity_length (srv_allowed_signers srv)) of
              None \<Rightarrow> (srv, Some response, Panic)
            | Some expiry \<Rightarrow>
                (srv\<lparr>srv_allowed_signers_cache := \<lparr>sc_compressed_allowed_signers = compressed,
                       sc_expiry_timestamp = expiry\<rparr>\<rparr>,
                 Some response, Ok \<lparr>ar_compressed_allowed_signers = compressed\<rparr>)))))"

text \<open>The handler when nothing comes between its sections.\<close>

definition allowed_signers_handler ::
    "('pk, 'sk, 'ca, 'l) server_env \<Rightarrow> duration option \<Rightarrow> unit request \<Rightarrow> ('pk, 'sk, 'ca, 'l) rustica_server
     \<Rightarrow> ('pk, 'sk, 'ca, 'l) rustica_server \<times> (allowed_signers_response, status) result" where
  "allowed_signers_handler E now req srv = (case signers_admit E now req srv of
     (srv', Panic) \<Rightarrow> (srv', Panic)
   | (srv', Err st) \<Rightarrow> (srv', Err st)
   | (srv', Ok current_time) \<Rightarrow>
       (case cached_reply current_time srv' of
          Some reply \<Rightarrow> (srv', Ok reply)
        | None \<Rightarrow> (case signers_refresh E current_time srv' of (srv'', _, r) \<Rightarrow> (srv'', r))))"

section \<open>The rate limiter\<close>

text \<open>
  What the \<^verbatim>\<open>lru\<close> crate documents of \<^verbatim>\<open>push\<close>: the pair is in the cache afterwards; if the key was in the
  cache its old pair is returned; otherwise nothing or the pair evicted to make room is.
\<close>

definition lru_push_spec ::
    "('l \<Rightarrow> string \<Rightarrow> duration \<Rightarrow> 'l \<times> (string \<times> duration) option) \<Rightarrow> ('l \<Rightarrow> string \<Rightarrow> duration option) \<Rightarrow> bool"
    where
  "lru_push_spec push get \<longleftrightarrow> (\<forall>l k v l' r. push l k v = (l', r) \<longrightarrow>
     get l' k = Some v \<and>
     (case get l k of
        Some old \<Rightarrow> r = Some (k, old)
      | None \<Rightarrow> r = None \<or> (\<exists>k' v'. k' \<noteq> k \<and> r = Some (k', v'))))"

lemma lru_push_specD:
  assumes "lru_push_spec push get" and "push l k v = (l', r)"
  shows "get l' k = Some v"
    and "get l k = Some old \<Longrightarrow> r = Some (k, old)"
    and "get l k = None \<Longrightarrow> r = None \<or> (\<exists>k' v'. k' \<noteq> k \<and> r = Some (k', v'))"
proof -
  from assms have law: "get l' k = Some v \<and> (case get l k of
        Some old \<Rightarrow> r = Some (k, old)
      | None \<Rightarrow> r = None \<or> (\<exists>k' v'. k' \<noteq> k \<and> r = Some (k', v')))"
    unfolding lru_push_spec_def by blast
  then show "get l' k = Some v" by simp
  show "get l k = Some old \<Longrightarrow> r = Some (k, old)" using law by simp
  show "get l k = None \<Longrightarrow> r = None \<or> (\<exists>k' v'. k' \<noteq> k \<and> r = Some (k', v'))" using law by simp
qed

lemma is_rate_limited_spec:
  assumes "lru_push_spec (e_lru_push E) get"
    and "duration_add now (asc_rate_limit_cooldown (srv_allowed_signers srv)) = Some until"
  shows "\<exists>l'. is_rate_limited E ids now srv = (srv\<lparr>allowed_signers_rate_limiter := l'\<rparr>,
       Ok (case get (allowed_signers_rate_limiter srv) ids of None \<Rightarrow> False | Some d \<Rightarrow> now < d)) \<and>
     get l' ids = Some until"
proof -
  obtain l' r where push: "e_lru_push E (allowed_signers_rate_limiter srv) ids until = (l', r)"
    by (rule prod.exhaust)
  note D = lru_push_specD [OF assms(1) push]
  show ?thesis
    using push assms(2) D
    by (cases "get (allowed_signers_rate_limiter srv) ids")
       (auto simp: is_rate_limited_def split: option.splits)
qed

text \<open>
  C23: With an LRU cache as documented, a caller is limited exactly when its entry in the cache says so, and
  afterwards its entry is the current time plus the cooldown, whether it was limited or not:
  so a second call of the same identities within the cooldown of the first (as long as the
  entry was not evicted in between, and the sum with the cooldown does not overflow) is always limited, and calls that keep coming stay limited.
\<close>

theorem rate_limit_second_call:
  assumes "lru_push_spec (e_lru_push E) get"
    and "is_rate_limited E ids t1 srv = (srv1, Ok b)"
    and "get (allowed_signers_rate_limiter srv2) ids = get (allowed_signers_rate_limiter srv1) ids"
    and "t2 < t1 + asc_rate_limit_cooldown (srv_allowed_signers srv)"
    and "t2 + asc_rate_limit_cooldown (srv_allowed_signers srv2) < duration_max"
  shows "snd (is_rate_limited E ids t2 srv2) = Ok True"
proof -
  obtain until where until: "duration_add t1 (asc_rate_limit_cooldown (srv_allowed_signers srv)) = Some until"
    using assms(2) by (auto simp: is_rate_limited_def split: option.splits)
  then have u: "until = t1 + asc_rate_limit_cooldown (srv_allowed_signers srv)"
    by (auto simp: duration_add_def split: if_splits)
  have "get (allowed_signers_rate_limiter srv1) ids = Some until"
    using is_rate_limited_spec [OF assms(1) until, of ids] assms(2) by auto
  with assms(3) have get2: "get (allowed_signers_rate_limiter srv2) ids = Some until" by simp
  obtain until2 where "duration_add t2 (asc_rate_limit_cooldown (srv_allowed_signers srv2)) = Some until2"
    using assms(5) by (simp add: duration_add_def)
  from is_rate_limited_spec [OF assms(1) this, of ids] get2 u assms(4) show ?thesis by auto
qed

section \<open>Interleaved calls\<close>

text \<open>
  A call waits to be admitted, holds its clock reading while it waits for the read or the
  write lock, or has answered. Beside the server there is the external authorization service, which may change its
  answers at any time. The history has an entry for every time the authorizer was asked, latest first: the clock
  reading of the call that asked, what the authorizer knew at that moment, what it answered, and what the call replied.
\<close>

datatype call =
    Arrived "duration option" "unit request"
  | WaitRead duration
  | WaitWrite duration
  | Answered "duration option" "(allowed_signers_response, status) result"

record fetch =
  ft_time :: duration
  ft_author :: author_service
  ft_databases :: databases
  ft_answer :: signers_answer
  ft_reply :: "(allowed_signers_response, status) result"

record ('pk, 'sk, 'ca, 'l) signers_state =
  ss_server :: "('pk, 'sk, 'ca, 'l) rustica_server"
  ss_author :: author_service
  ss_calls :: "nat \<Rightarrow> call option"
  ss_history :: "fetch list"

definition asked ::
    "duration \<Rightarrow> author_service \<Rightarrow> databases \<Rightarrow> signers_answer option \<Rightarrow> (allowed_signers_response, status) result
     \<Rightarrow> fetch list" where
  "asked t author dbs response r = (case response of
     None \<Rightarrow> []
   | Some a \<Rightarrow> [\<lparr>ft_time = t, ft_author = author, ft_databases = dbs,
                 ft_answer = a, ft_reply = r\<rparr>])"

inductive signers_step ::
    "('pk, 'sk, 'ca, 'l) server_env \<Rightarrow> ('pk, 'sk, 'ca, 'l) signers_state \<Rightarrow> ('pk, 'sk, 'ca, 'l) signers_state
     \<Rightarrow> bool" for E where
  arrive: "ss_calls s i = None \<Longrightarrow>
     signers_step E s (s\<lparr>ss_calls := (ss_calls s)(i \<mapsto> Arrived now req)\<rparr>)"
| admit: "ss_calls s i = Some (Arrived now req) \<Longrightarrow> signers_admit E now req (ss_server s) = (srv', Ok t) \<Longrightarrow>
     signers_step E s (s\<lparr>ss_server := srv', ss_calls := (ss_calls s)(i \<mapsto> WaitRead t)\<rparr>)"
| reject: "ss_calls s i = Some (Arrived now req) \<Longrightarrow> signers_admit E now req (ss_server s) = (srv', r) \<Longrightarrow>
     \<not> is_ok r \<Longrightarrow> out = (case r of Err st \<Rightarrow> Err st | _ \<Rightarrow> Panic) \<Longrightarrow>
     signers_step E s (s\<lparr>ss_server := srv', ss_calls := (ss_calls s)(i \<mapsto> Answered now out)\<rparr>)"
| read_hit: "ss_calls s i = Some (WaitRead t) \<Longrightarrow> cached_reply t (ss_server s) = Some reply \<Longrightarrow>
     signers_step E s (s\<lparr>ss_calls := (ss_calls s)(i \<mapsto> Answered (Some t) (Ok reply))\<rparr>)"
| read_miss: "ss_calls s i = Some (WaitRead t) \<Longrightarrow> cached_reply t (ss_server s) = None \<Longrightarrow>
     signers_step E s (s\<lparr>ss_calls := (ss_calls s)(i \<mapsto> WaitWrite t)\<rparr>)"
| locked: "ss_calls s i = Some (WaitWrite t) \<Longrightarrow>
     signers_refresh (E\<lparr>e_author := ss_author s\<rparr>) t (ss_server s) = (srv', response, r) \<Longrightarrow>
     signers_step E s (s\<lparr>ss_server := srv', ss_calls := (ss_calls s)(i \<mapsto> Answered (Some t) r),
       ss_history := asked t (ss_author s) (srv_databases (ss_server s)) response r @ ss_history s\<rparr>)"
| others: "signers_step E s
     (s\<lparr>ss_server := (ss_server s)\<lparr>srv_databases := dbs, log_sender := ls\<rparr>, ss_author := author\<rparr>)"

text \<open>A call that comes to the write lock, and one that runs through all three sections, undisturbed.\<close>

lemma signers_waits:
  assumes "ss_calls s i = None" and "signers_admit E now req (ss_server s) = (srv1, Ok t)"
    and "cached_reply t srv1 = None"
  shows "(signers_step E)\<^sup>*\<^sup>* s (s\<lparr>ss_server := srv1, ss_calls := (ss_calls s)(i \<mapsto> WaitWrite t)\<rparr>)"
proof -
  let ?s1 = "s\<lparr>ss_calls := (ss_calls s)(i \<mapsto> Arrived now req)\<rparr>"
  let ?s2 = "s\<lparr>ss_server := srv1, ss_calls := (ss_calls s)(i \<mapsto> WaitRead t)\<rparr>"
  have "signers_step E s ?s1" using assms(1) by (rule arrive)
  moreover have "signers_step E ?s1 ?s2" using admit [of ?s1 i now req E srv1 t] assms(2) by simp
  moreover have "signers_step E ?s2 (s\<lparr>ss_server := srv1, ss_calls := (ss_calls s)(i \<mapsto> WaitWrite t)\<rparr>)"
    using read_miss [of ?s2 i t] assms(3) by simp
  ultimately show ?thesis by (blast intro: converse_rtranclp_into_rtranclp)
qed

lemma signers_call:
  assumes "ss_calls s i = None" and "signers_admit E now req (ss_server s) = (srv1, Ok t)"
    and "cached_reply t srv1 = None" and "signers_refresh (E\<lparr>e_author := ss_author s\<rparr>) t srv1 = (srv2, response, r)"
  shows "(signers_step E)\<^sup>*\<^sup>* s (s\<lparr>ss_server := srv2, ss_calls := (ss_calls s)(i \<mapsto> Answered (Some t) r),
     ss_history := asked t (ss_author s) (srv_databases srv1) response r @ ss_history s\<rparr>)"
  using signers_waits [OF assms(1-3)]
    locked [of "s\<lparr>ss_server := srv1, ss_calls := (ss_calls s)(i \<mapsto> WaitWrite t)\<rparr>" i t E srv2 response r] assms(4)
  by simp

text \<open>The state a configured server starts in: no calls, an empty cache that expired at time zero.\<close>

definition signers_initial :: "('pk, 'sk, 'ca, 'l) signers_state \<Rightarrow> bool" where
  "signers_initial s \<longleftrightarrow> ss_calls s = Map.empty \<and> ss_history s = [] \<and>
     srv_allowed_signers_cache (ss_server s) =
       \<lparr>sc_compressed_allowed_signers = [], sc_expiry_timestamp = 0\<rparr>"

text \<open>The file an authorizer's answer gives, compressed; nothing if it refused or compression failed.\<close>

definition compressed_list ::
    "('pk, 'sk, 'ca, 'l) server_env \<Rightarrow> author_service \<Rightarrow> databases \<Rightarrow> authorization_mechanism \<Rightarrow> bytes option" where
  "compressed_list E author dbs au = (case get_allowed_signers author dbs au of
     Ok a \<Rightarrow> compress E (allowed_signers_text a)
   | _ \<Rightarrow> None)"

lemma compress_author [simp]: "compress (E\<lparr>e_author := x\<rparr>) = compress E"
  by (simp add: compress_def fun_eq_iff split: option.split)

lemma compressed_list_author [simp]: "compressed_list (E\<lparr>e_author := x\<rparr>) = compressed_list E"
  by (simp add: compressed_list_def fun_eq_iff split: result.split)

text \<open>
  The invariant: every answer in the history is the authorizer's own, and a successful one was passed on as the
  compressed file; the cache holds the latest success until its time plus the validity (or is the initial one); the
  authorizer was never asked before the last success had expired; and every reply to a call after
  time zero is a success still valid at the call's time.
\<close>

definition genuine :: "('pk, 'sk, 'ca, 'l) server_env \<Rightarrow> authorization_mechanism \<Rightarrow> fetch \<Rightarrow> bool" where
  "genuine E au f \<longleftrightarrow> ft_answer f = get_allowed_signers (ft_author f) (ft_databases f) au \<and>
     (\<forall>reply. ft_reply f = Ok reply \<longrightarrow>
        compressed_list E (ft_author f) (ft_databases f) au = Some (ar_compressed_allowed_signers reply))"

fun last_success :: "fetch list \<Rightarrow> (duration \<times> bytes) option" where
  "last_success [] = None"
| "last_success (f # h) = (case ft_reply f of
     Ok reply \<Rightarrow> Some (ft_time f, ar_compressed_allowed_signers reply)
   | _ \<Rightarrow> last_success h)"

definition cache_inv :: "duration \<Rightarrow> fetch list \<Rightarrow> allowed_signers_cache \<Rightarrow> bool" where
  "cache_inv len h c = (case last_success h of
     None \<Rightarrow> c = \<lparr>sc_compressed_allowed_signers = [], sc_expiry_timestamp = 0\<rparr>
   | Some (t, b) \<Rightarrow> c = \<lparr>sc_compressed_allowed_signers = b, sc_expiry_timestamp = t + len\<rparr>)"

text \<open>The last success, and with it all earlier ones, had expired at the time \<open>t\<close>.\<close>

definition expired_by :: "duration \<Rightarrow> fetch list \<Rightarrow> duration \<Rightarrow> bool" where
  "expired_by len h t \<longleftrightarrow> 0 < t \<and> (\<forall>g \<in> set h. is_ok (ft_reply g) \<longrightarrow> ft_time g + len < t)"

fun spaced :: "duration \<Rightarrow> fetch list \<Rightarrow> bool" where
  "spaced len [] = True"
| "spaced len (f # h) = (expired_by len h (ft_time f) \<and> spaced len h)"

definition served :: "duration \<Rightarrow> fetch list \<Rightarrow> call \<Rightarrow> bool" where
  "served len h c = (case c of
     Answered (Some now) (Ok reply) \<Rightarrow>
       0 < now \<longrightarrow> (\<exists>f. f \<in> set h \<and> ft_reply f = Ok reply \<and> now \<le> ft_time f + len)
   | _ \<Rightarrow> True)"

definition signers_inv ::
    "('pk, 'sk, 'ca, 'l) server_env \<Rightarrow> authorization_mechanism \<Rightarrow> duration
     \<Rightarrow> ('pk, 'sk, 'ca, 'l) signers_state \<Rightarrow> bool" where
  "signers_inv E au len s \<longleftrightarrow>
     asc_cache_validity_length (srv_allowed_signers (ss_server s)) = len \<and>
     srv_authorizer (ss_server s) = au \<and>
     (\<forall>f \<in> set (ss_history s). genuine E au f) \<and>
     cache_inv len (ss_history s) (srv_allowed_signers_cache (ss_server s)) \<and>
     spaced len (ss_history s) \<and>
     (\<forall>i c. ss_calls s i = Some c \<longrightarrow> served len (ss_history s) c)"

lemma is_rate_limited_keeps:
  "is_rate_limited E ids t srv = (srv', r) \<Longrightarrow>
     srv_allowed_signers_cache srv' = srv_allowed_signers_cache srv \<and>
     srv_allowed_signers srv' = srv_allowed_signers srv \<and> srv_authorizer srv' = srv_authorizer srv"
  by (auto simp: is_rate_limited_def Let_def split: option.splits prod.splits)

lemma signers_admit_keeps:
  "signers_admit E now req srv = (srv', r) \<Longrightarrow>
     srv_allowed_signers_cache srv' = srv_allowed_signers_cache srv \<and>
     srv_allowed_signers srv' = srv_allowed_signers srv \<and> srv_authorizer srv' = srv_authorizer srv"
  by (auto simp: signers_admit_def rustica_error_def send_log_def dest: is_rate_limited_keeps
           split: option.splits list.splits result.splits prod.splits)

lemma signers_refresh_cases:
  assumes "signers_refresh E t srv = (srv', response, r)"
  obtains (hit) reply where "cached_reply t srv = Some reply" "srv' = srv" "response = None" "r = Ok reply"
    | (fetch) b where "cached_reply t srv = None"
        "response = Some (get_allowed_signers (e_author E) (srv_databases srv) (srv_authorizer srv))"
        "compressed_list E (e_author E) (srv_databases srv) (srv_authorizer srv) = Some b"
        "r = Ok \<lparr>ar_compressed_allowed_signers = b\<rparr>"
        "srv' = srv\<lparr>srv_allowed_signers_cache := \<lparr>sc_compressed_allowed_signers = b,
           sc_expiry_timestamp = t + asc_cache_validity_length (srv_allowed_signers srv)\<rparr>\<rparr>"
    | (failed) "cached_reply t srv = None" "\<not> is_ok r" "srv' = srv"
        "response = Some (get_allowed_signers (e_author E) (srv_databases srv) (srv_authorizer srv))"
proof (cases "cached_reply t srv")
  case (Some reply)
  with assms show thesis by (intro hit) (auto simp: signers_refresh_def)
next
  case None
  note unfold = assms [unfolded signers_refresh_def, simplified None option.case Let_def]
  show thesis
  proof (cases "is_ok r")
    case True
    then obtain a b x where
      "get_allowed_signers (e_author E) (srv_databases srv) (srv_authorizer srv) = Ok a"
      "compress E (allowed_signers_text a) = Some b"
      "duration_add t (asc_cache_validity_length (srv_allowed_signers srv)) = Some x"
      using unfold by (auto simp: is_ok_iff split: result.splits option.splits)
    with unfold None show thesis
      by (intro fetch [of b]) (auto simp: duration_add_def compressed_list_def split: if_splits)
  next
    case False
    with unfold have "srv' = srv"
      "response = Some (get_allowed_signers (e_author E) (srv_databases srv) (srv_authorizer srv))"
      by (auto split: result.splits option.splits)
    with None False show thesis by (intro failed)
  qed
qed

lemma cached_reply_None:
  "cached_reply t srv = None \<longleftrightarrow> sc_expiry_timestamp (srv_allowed_signers_cache srv) < t"
  by (auto simp: cached_reply_def)

lemma last_success_Some:
  "last_success h = Some (t, b) \<Longrightarrow>
     \<exists>f. f \<in> set h \<and> ft_time f = t \<and> ft_reply f = Ok \<lparr>ar_compressed_allowed_signers = b\<rparr>"
  by (induction h) (auto split: result.splits)

lemma last_success_None: "last_success h = None \<longleftrightarrow> (\<forall>f \<in> set h. \<not> is_ok (ft_reply f))"
  by (induction h) (auto split: result.splits)

lemma expired_trans: "expired_by len h t \<Longrightarrow> t \<le> t' \<Longrightarrow> expired_by len h t'"
  by (fastforce simp: expired_by_def)

text \<open>The cache has expired exactly when all successes have: the last one is the latest.\<close>

lemma last_success_latest:
  assumes "spaced len h" and "last_success h = Some (t, b)" and "f \<in> set h" and "is_ok (ft_reply f)"
  shows "ft_time f \<le> t"
  using assms
proof (induction h)
  case (Cons g h)
  show ?case
  proof (cases "is_ok (ft_reply g)")
    case True
    with Cons.prems(2) have "ft_time g = t" by (auto simp: is_ok_iff)
    with Cons.prems(1,3,4) show ?thesis by (fastforce simp: expired_by_def)
  next
    case False
    with Cons.prems(2) have "last_success h = Some (t, b)" by (cases "ft_reply g") simp_all
    with Cons False show ?thesis by auto
  qed
qed simp

lemma cache_expired_iff:
  assumes "cache_inv len h (srv_allowed_signers_cache srv)" and "spaced len h"
  shows "cached_reply t srv = None \<longleftrightarrow> expired_by len h t"
proof (cases "last_success h")
  case None
  with assms(1) show ?thesis
    by (auto simp: cache_inv_def cached_reply_None expired_by_def last_success_None)
next
  case (Some p)
  obtain t0 b where p: "p = (t0, b)" by (rule prod.exhaust)
  with Some assms(1) have "cached_reply t srv = None \<longleftrightarrow> t0 + len < t"
    by (simp add: cache_inv_def cached_reply_None)
  moreover have "\<exists>f. f \<in> set h \<and> ft_time f = t0 \<and> is_ok (ft_reply f)"
    using last_success_Some [of h t0 b] Some p by fastforce
  ultimately show ?thesis
    using last_success_latest [OF assms(2)] Some p by (fastforce simp: expired_by_def)
qed

lemma cached_reply_served:
  assumes "cache_inv len h (srv_allowed_signers_cache srv)" and "cached_reply t srv = Some reply"
  shows "served len h (Answered (Some t) (Ok reply))"
proof (cases "last_success h")
  case None
  with assms show ?thesis by (auto simp: cache_inv_def served_def cached_reply_def split: if_splits)
next
  case (Some p)
  obtain t0 b where p: "p = (t0, b)" by (rule prod.exhaust)
  with Some assms have "t \<le> t0 + len" "reply = \<lparr>ar_compressed_allowed_signers = b\<rparr>"
    by (auto simp: cache_inv_def cached_reply_def split: if_splits)
  with last_success_Some [of h t0 b] Some p show ?thesis by (auto simp: served_def)
qed

lemma served_mono: "served len h c \<Longrightarrow> set h \<subseteq> set h' \<Longrightarrow> served len h' c"
  by (fastforce simp: served_def split: call.splits option.splits result.splits)

lemma served_own: "served len (f # h) (Answered (Some (ft_time f)) (ft_reply f))"
  by (cases "ft_reply f") (auto simp: served_def)

lemma signers_inv_step: "signers_step E s s' \<Longrightarrow> signers_inv E au len s \<Longrightarrow> signers_inv E au len s'"
proof (induction rule: signers_step.induct)
  case (locked s i t srv' response r)
  let ?f = "\<lparr>ft_time = t, ft_author = ss_author s, ft_databases = srv_databases (ss_server s),
     ft_answer = get_allowed_signers (ss_author s) (srv_databases (ss_server s)) au, ft_reply = r\<rparr>"
  from locked have inv: "asc_cache_validity_length (srv_allowed_signers (ss_server s)) = len"
    "cache_inv len (ss_history s) (srv_allowed_signers_cache (ss_server s))"
    "\<forall>f \<in> set (ss_history s). genuine E au f" "srv_authorizer (ss_server s) = au"
    "spaced len (ss_history s)" "\<forall>i c. ss_calls s i = Some c \<longrightarrow> served len (ss_history s) c"
    by (auto simp: signers_inv_def)
  have served: "\<forall>i c. ss_calls s i = Some c \<longrightarrow> served len (?f # ss_history s) c"
    using inv(6) by (metis served_mono set_subset_Cons)
  have own: "served len (?f # ss_history s) (Answered (Some t) r)" using served_own [of len ?f] by simp
  from locked(2) show ?case
  proof (cases rule: signers_refresh_cases)
    case (hit reply)
    with inv cached_reply_served [OF inv(2) hit(1)] show ?thesis
      by (simp add: signers_inv_def asked_def)
  next
    case (fetch b)
    have "spaced len (?f # ss_history s)"
      using inv(5) fetch(1) cache_expired_iff [OF inv(2,5)] by simp
    moreover have "genuine E au ?f" using fetch inv(4) by (simp add: genuine_def)
    ultimately show ?thesis
      using fetch inv(1,3,4) served own by (simp add: signers_inv_def asked_def cache_inv_def)
  next
    case failed
    have "spaced len (?f # ss_history s)"
      using inv(5) failed(1) cache_expired_iff [OF inv(2,5)] by simp
    moreover have "genuine E au ?f" "last_success (?f # ss_history s) = last_success (ss_history s)"
      using failed(2) by (cases r; simp add: genuine_def)+
    ultimately show ?thesis
      using failed inv(1,2,3,4) served own by (simp add: signers_inv_def asked_def cache_inv_def)
  qed
next
  case (read_hit s i t reply)
  then show ?case using cached_reply_served by (fastforce simp: signers_inv_def)
next
  case (reject s i now req srv' r out)
  then have "served len (ss_history s) (Answered now out)"
    by (cases r) (auto simp: served_def split: option.split)
  with reject show ?case by (auto simp: signers_inv_def dest!: signers_admit_keeps)
qed (auto simp: signers_inv_def served_def dest!: signers_admit_keeps)

lemma signers_inv_reachable:
  "(signers_step E)\<^sup>*\<^sup>* s s' \<Longrightarrow> signers_inv E au len s \<Longrightarrow> signers_inv E au len s'"
  by (induction rule: rtranclp_induct) (auto intro: signers_inv_step)

lemma signers_initial_inv:
  "signers_initial s \<Longrightarrow> asc_cache_validity_length (srv_allowed_signers (ss_server s)) = len
     \<Longrightarrow> srv_authorizer (ss_server s) = au \<Longrightarrow> signers_inv E au len s"
  by (simp add: signers_initial_def signers_inv_def cache_inv_def)

text \<open>Every entry of the history was made in a state of the run, by a call that held the write lock there.\<close>

lemma history_from_run:
  assumes "(signers_step E)\<^sup>*\<^sup>* s s'" and "f \<in> set (ss_history s')"
  shows "f \<in> set (ss_history s) \<or> (\<exists>u i. (signers_step E)\<^sup>*\<^sup>* s u \<and> (signers_step E)\<^sup>*\<^sup>* u s' \<and>
     ss_calls u i = Some (WaitWrite (ft_time f)) \<and> ft_author f = ss_author u \<and>
     ft_databases f = srv_databases (ss_server u))"
  using assms
proof (induction rule: rtranclp_induct)
  case (step u v)
  show ?case
  proof (cases "f \<in> set (ss_history u)")
    case True
    with step show ?thesis by (meson rtranclp.rtrancl_into_rtrancl)
  next
    case False
    with step(2,4) have "\<exists>i. ss_calls u i = Some (WaitWrite (ft_time f)) \<and> ft_author f = ss_author u \<and>
        ft_databases f = srv_databases (ss_server u)"
      by (cases rule: signers_step.cases) (auto simp: asked_def split: option.splits)
    with step(1,2) show ?thesis by blast
  qed
qed simp

text \<open>
  C11: Under any interleaving of calls, changes of the databases and of the external service, starting from the
  configured server, every successful reply to a call made after time zero is the compressed list of what the
  authorizer knew in a state the run went through, in which a call held the write lock whose clock reading is
  no longer ago than the cache validity before this call's.
\<close>

theorem allowed_signers_fresh:
  assumes "signers_initial s" and "(signers_step E)\<^sup>*\<^sup>* s s'"
    and "ss_calls s' i = Some (Answered (Some now) (Ok reply))" and "0 < now"
  shows "\<exists>u j t a. (signers_step E)\<^sup>*\<^sup>* s u \<and> (signers_step E)\<^sup>*\<^sup>* u s' \<and> ss_calls u j = Some (WaitWrite t) \<and>
     now \<le> t + asc_cache_validity_length (srv_allowed_signers (ss_server s)) \<and>
     get_allowed_signers (ss_author u) (srv_databases (ss_server u)) (srv_authorizer (ss_server u)) = Ok a \<and>
     compress E (allowed_signers_text a) = Some (ar_compressed_allowed_signers reply)"
proof -
  let ?au = "srv_authorizer (ss_server s)"
  let ?len = "asc_cache_validity_length (srv_allowed_signers (ss_server s))"
  note inv = signers_inv_reachable [OF _ signers_initial_inv [OF assms(1) refl refl]]
  obtain f where f: "f \<in> set (ss_history s')" "ft_reply f = Ok reply" "now \<le> ft_time f + ?len"
    "genuine E ?au f"
    using inv [OF assms(2)] assms(3,4) by (fastforce simp: signers_inv_def served_def)
  from f(1) obtain u j where u: "(signers_step E)\<^sup>*\<^sup>* s u" "(signers_step E)\<^sup>*\<^sup>* u s'"
    "ss_calls u j = Some (WaitWrite (ft_time f))" "ft_author f = ss_author u"
    "ft_databases f = srv_databases (ss_server u)"
    using history_from_run [OF assms(2) f(1)] assms(1) unfolding signers_initial_def by auto
  have "srv_authorizer (ss_server u) = ?au" using inv [OF u(1)] by (simp add: signers_inv_def)
  moreover have "compressed_list E (ss_author u) (srv_databases (ss_server u)) ?au =
      Some (ar_compressed_allowed_signers reply)"
    using f(2,4) u(4,5) by (simp add: genuine_def)
  ultimately show ?thesis
    using u f(3) by (fastforce simp: compressed_list_def split: result.splits)
qed

text \<open>
  C12: The authorizer is asked exactly when it has to be: a step of a run asks it, and records what it answered, if and
  only if a call is answered under the write lock whose clock reading is after time zero and after the validity of
  every list fetched so far; so calls that waited for the write lock while another one refreshed the
  cache do not ask again, while failed questions may be repeated at once.
\<close>

theorem asked_exactly_when_expired:
  assumes "signers_initial s" and "(signers_step E)\<^sup>*\<^sup>* s u" and "signers_step E u v"
  shows "(\<exists>f. ss_history v = f # ss_history u \<and> ft_answer f =
        get_allowed_signers (ss_author u) (srv_databases (ss_server u)) (srv_authorizer (ss_server u))) \<longleftrightarrow>
     (\<exists>i t r. ss_calls u i = Some (WaitWrite t) \<and> ss_calls v i = Some (Answered (Some t) r) \<and>
        expired_by (asc_cache_validity_length (srv_allowed_signers (ss_server s))) (ss_history u) t)"
proof -
  let ?len = "asc_cache_validity_length (srv_allowed_signers (ss_server s))"
  have inv: "cache_inv ?len (ss_history u) (srv_allowed_signers_cache (ss_server u))" "spaced ?len (ss_history u)"
    using signers_inv_reachable [OF assms(2) signers_initial_inv [OF assms(1) refl refl]]
    by (simp_all add: signers_inv_def)
  from assms(3) show ?thesis
  proof (cases rule: signers_step.cases)
    case (locked i t srv' response r)
    note expired = cache_expired_iff [OF inv, of t, symmetric]
    from locked(3) show ?thesis
    proof (cases rule: signers_refresh_cases)
      case (hit reply)
      with locked(1,2) expired show ?thesis by (auto simp: asked_def split: if_splits)
    qed (use locked(1,2) expired in \<open>auto simp: asked_def\<close>)
  qed (auto split: if_splits)
qed

section \<open>What the cache promises\<close>




definition reply_of :: "call \<Rightarrow> (duration \<times> bytes) option" where
  "reply_of c = (case c of
     Answered (Some now) (Ok reply) \<Rightarrow> Some (now, ar_compressed_allowed_signers reply)
   | _ \<Rightarrow> None)"


lemma reply_of_simps [simp]:
  "reply_of (Arrived now req) = None" "reply_of (WaitRead t) = None" "reply_of (WaitWrite t) = None"
  "reply_of (Answered (Some t) (Ok reply)) = Some (t, ar_compressed_allowed_signers reply)"
  "\<not> is_ok r \<Longrightarrow> reply_of (Answered now r) = None"
  by (cases r; cases now; simp add: reply_of_def)+







end
