(* ===== verification/Agent_Client.thy ===== *)
theory Agent_Client
  imports Rustica_Proto
begin

text \<open>
  \<^verbatim>\<open>rustica-agent/src/rustica/\<close>: the client side of the service. A server is reached through a
  record of its calls (the gRPC transport is a parameter); a Yubikey through a record of what it answers.
  Functions that may notify the user return whether they did.
\<close>

section \<open>Data\<close>

record agent_server =
  ag_address :: string
  ag_ca_pem :: string
  ag_mtls_cert :: string
  ag_mtls_key :: string

record certificate_config =
  cc_principals :: "string list"
  cc_hosts :: "string list"
  cc_cert_type :: cert_type
  cc_duration :: u64
  cc_authority :: string

record 'pk yubikey_device =
  yd_reconnect :: bool
  yd_fetch_pubkey :: "slot_id \<Rightarrow> 'pk option"
  yd_sign :: "bytes \<Rightarrow> slot_id \<Rightarrow> bytes option"
  yd_generate_csr :: "slot_id \<Rightarrow> string \<Rightarrow> bytes option"
  yd_fetch_attestation :: "slot_id \<Rightarrow> string + bytes"
  yd_fetch_certificate :: "slot_id \<Rightarrow> bytes option"
  yd_attestation_slot :: slot_id
  yd_show_slot :: "slot_id \<Rightarrow> string"

datatype ('pk, 'sk) signatory = YubikeySignatory slot_id "'pk yubikey_device" | Direct 'sk

datatype server_error = ServerError (se_code: i64) (se_message: string)

datatype refresh_error =
    RE_TransportError
  | RE_SigningError
  | RE_ServerChallengeNotForClientKey
  | RE_UnsupportedMode
  | RE_InvalidUri
  | RE_ConfigurationError string
  | RE_TransportBadStatus status
  | RE_BadEncodedData string
  | RE_RusticaServerError server_error
  | RE_BadAllowedSigners
  | RE_UnknownError

text \<open>
  The errors of libraries that the question mark converts (of those of hex the text is kept), and the messages;
  the text of a transport status is a parameter.
\<close>

datatype foreign_error =
    TransportFailure
  | StatusFailure status
  | HexFailure string
  | PivFailure
  | RingUnspecified
  | RingKeyRejected

fun refresh_error_from :: "foreign_error \<Rightarrow> refresh_error" where
  "refresh_error_from TransportFailure = RE_TransportError"
| "refresh_error_from (StatusFailure st) = RE_TransportBadStatus st"
| "refresh_error_from (HexFailure e) = RE_BadEncodedData e"
| "refresh_error_from PivFailure = RE_SigningError"
| "refresh_error_from RingUnspecified = RE_SigningError"
| "refresh_error_from RingKeyRejected = RE_SigningError"

fun refresh_error_to_string :: "(status \<Rightarrow> string) \<Rightarrow> refresh_error \<Rightarrow> string" where
  "refresh_error_to_string _ (RE_ConfigurationError e) = ''Configuration is invalid: '' @ e"
| "refresh_error_to_string _ RE_TransportError = ''Transport Error. Generally a TLS issue''"
| "refresh_error_to_string _ RE_ServerChallengeNotForClientKey = ''Server challenge is not for your key''"
| "refresh_error_to_string _ RE_SigningError = ''Signing or verification failed''"
| "refresh_error_to_string _ RE_UnsupportedMode =
     ''Attempted to use a curve or cipher not supported by rustica-agent''"
| "refresh_error_to_string _ RE_InvalidUri = ''Provided address of remote service was invalid''"
| "refresh_error_to_string fmt (RE_TransportBadStatus st) = ''Bad status from server: '' @ fmt st"
| "refresh_error_to_string _ (RE_BadEncodedData e) = ''Bad hex encoding: '' @ e"
| "refresh_error_to_string _ (RE_RusticaServerError e) = ''Error from server: '' @ se_message e"
| "refresh_error_to_string _ RE_BadAllowedSigners = ''Bad allowed signers data''"
| "refresh_error_to_string _ RE_UnknownError = ''Unknown error occured''"

record rustica_cert =
  rc_cert :: string
  rc_comment :: string

record mtls_credentials =
  mc_certificate :: string
  mc_key :: string

record agent_piv_attestation =
  apa_certificate :: bytes
  apa_intermediate :: bytes

record agent_u2f_attestation =
  aua_auth_data :: bytes
  aua_auth_data_sig :: bytes
  aua_intermediate :: bytes
  aua_challenge :: bytes
  aua_alg :: i32

text \<open>The discriminants of \<^verbatim>\<open>CertType\<close>, as \<^verbatim>\<open>options.cert_type as u32\<close> reads them, are the protocol's.\<close>

fun cert_type_number :: "cert_type \<Rightarrow> u32" where
  "cert_type_number User = 1"
| "cert_type_number Host = 2"

text \<open>
  The transport: whether an address and its TLS settings work, the six calls, and the zstd decoder
  (whose output must be UTF-8).
\<close>

record rustica_api =
  api_uri_ok :: "string \<Rightarrow> bool"
  api_tls_ok :: "agent_server \<Rightarrow> bool"
  api_connect_ok :: "agent_server \<Rightarrow> bool"
  api_challenge :: "agent_server \<Rightarrow> challenge_request \<Rightarrow> status + challenge_response"
  api_certificate :: "agent_server \<Rightarrow> certificate_request \<Rightarrow> status + certificate_response"
  api_register_key :: "agent_server \<Rightarrow> register_key_request \<Rightarrow> status + unit"
  api_register_u2f_key :: "agent_server \<Rightarrow> register_u2f_key_request \<Rightarrow> status + unit"
  api_attested_x509 :: "agent_server \<Rightarrow> attested_x509_certificate_request
                          \<Rightarrow> status + attested_x509_certificate_response"
  api_allowed_signers :: "agent_server \<Rightarrow> status + allowed_signers_response"
  api_zstd_decoder :: "bytes \<Rightarrow> bytes option"
  api_zstd_read :: "bytes \<Rightarrow> bytes option"

section \<open>Operations\<close>

definition get_rustica_client :: "rustica_api \<Rightarrow> agent_server \<Rightarrow> (unit, refresh_error) result" where
  "get_rustica_client A srv =
     (if \<not> api_uri_ok A (ag_address srv) then Err RE_InvalidUri
      else if \<not> api_tls_ok A srv then Err (refresh_error_from TransportFailure)
      else if \<not> api_connect_ok A srv then Err (refresh_error_from TransportFailure)
      else Ok ())"

text \<open>A call's status, as the question mark converts it.\<close>

definition rpc :: "status + 'a \<Rightarrow> ('a, refresh_error) result" where
  "rpc r = (case r of Inl st \<Rightarrow> Err (refresh_error_from (StatusFailure st)) | Inr x \<Rightarrow> Ok x)"

fun signatory_pubkey ::
    "('pk, 'sk) ssh_lib \<Rightarrow> ('pk, 'sk) signatory \<Rightarrow> ('pk, refresh_error) result" where
  "signatory_pubkey L (YubikeySignatory slot yk) =
     (if \<not> yd_reconnect yk then Err (refresh_error_from PivFailure) else ok_or (yd_fetch_pubkey yk slot) RE_SigningError)"
| "signatory_pubkey L (Direct k) = Ok (sk_pubkey L k)"

fun resign ::
    "('pk, 'sk) ssh_lib \<Rightarrow> ('pk, 'sk) signatory \<Rightarrow> 'pk certificate \<Rightarrow> ('pk certificate, refresh_error) result" where
  "resign L (YubikeySignatory slot yk) cert =
     and_then (ok_or (yd_sign yk (cert_tbs L cert) slot) RE_SigningError)
       (\<lambda>sig. ok_or (cert_add_signature L sig cert) RE_SigningError)"
| "resign L (Direct k) cert = ok_or (cert_sign L k cert) RE_SigningError"

text \<open>The answer to a challenge; the flag tells whether the user was notified.\<close>

definition answer_challenge ::
    "('pk, 'sk) ssh_lib \<Rightarrow> ('pk, 'sk) signatory \<Rightarrow> 'pk \<Rightarrow> challenge_response
     \<Rightarrow> bool \<times> (challenge, refresh_error) result" where
  "answer_challenge L signatory ssh_pubkey response =
     (let reply = (\<lambda>c. \<lparr>ch_pubkey = pk_to_string L ssh_pubkey, ch_challenge = c,
                       ch_challenge_signature = '''', ch_challenge_time = cp_time response\<rparr>)
      in if cp_no_signature_required response then (False, Ok (reply (cp_challenge response)))
         else (case cert_from_string L (cp_challenge response) of
           Inl _ \<Rightarrow> (False, Err RE_SigningError)
         | Inr cert \<Rightarrow>
           let cert = cert\<lparr>c_signature_key := c_key cert\<rparr> in
           if pk_hash L (c_key cert) \<noteq> pk_hash L ssh_pubkey
           then (False, Err RE_ServerChallengeNotForClientKey)
           else (True, and_then (resign L signatory cert) (\<lambda>c. Ok (reply (cert_to_string L c))))))"

definition complete_rustica_challenge ::
    "('pk, 'sk) ssh_lib \<Rightarrow> rustica_api \<Rightarrow> agent_server \<Rightarrow> ('pk, 'sk) signatory
     \<Rightarrow> bool \<times> (challenge, refresh_error) result" where
  "complete_rustica_challenge L A srv signatory =
     (case signatory_pubkey L signatory of
        Panic \<Rightarrow> (False, Panic)
      | Err e \<Rightarrow> (False, Err e)
      | Ok ssh_pubkey \<Rightarrow>
        (case and_then (get_rustica_client A srv)
                (\<lambda>_. rpc (api_challenge A srv \<lparr>cq_pubkey = pk_to_string L ssh_pubkey\<rparr>)) of
           Panic \<Rightarrow> (False, Panic)
         | Err e \<Rightarrow> (False, Err e)
         | Ok response \<Rightarrow> answer_challenge L signatory ssh_pubkey response))"

definition certificate_request_for ::
    "('pk, 'sk) ssh_lib \<Rightarrow> certificate_config \<Rightarrow> u64 \<Rightarrow> challenge \<Rightarrow> certificate_request" where
  "certificate_request_for L options current_timestamp ch =
     \<lparr>cr_cert_type = cert_type_number (cc_cert_type options), cr_key_id = cc_authority options,
      cr_principals = cc_principals options, cr_servers = cc_hosts options,
      cr_extensions = standard_extensions L, cr_critical_options = [],
      cr_valid_after = current_timestamp,
      cr_valid_before = current_timestamp + cc_duration options, cr_challenge = Some ch\<rparr>"

text \<open>Reading the server's reply to a certificate request.\<close>

definition read_certificate_response ::
    "certificate_response \<Rightarrow> (rustica_cert \<times> mtls_credentials option, refresh_error) result" where
  "read_certificate_response r =
     (if ce_error_code r \<noteq> 0 then Err (RE_RusticaServerError (ServerError (ce_error_code r) (ce_error r)))
      else Ok (\<lparr>rc_cert = ce_certificate r, rc_comment = ''JITC''\<rparr>,
               if ce_new_client_certificate r \<noteq> [] then
                 Some \<lparr>mc_certificate = ce_new_client_certificate r, mc_key = ce_new_client_key r\<rparr>
               else None))"

definition refresh_certificate_async ::
    "('pk, 'sk) ssh_lib \<Rightarrow> rustica_api \<Rightarrow> u64 option \<Rightarrow> agent_server \<Rightarrow> ('pk, 'sk) signatory
     \<Rightarrow> certificate_config \<Rightarrow> bool \<times> (rustica_cert \<times> mtls_credentials option, refresh_error) result" where
  "refresh_certificate_async L A now srv signatory options =
     (let (notified, r) = complete_rustica_challenge L A srv signatory;
          current_timestamp = (case now of Some ts \<Rightarrow> ts | None \<Rightarrow> 0xFFFFFFFFFFFFFFFF)
      in (notified, and_then r (\<lambda>ch.
            and_then (rpc (api_certificate A srv (certificate_request_for L options current_timestamp ch)))
              read_certificate_response)))"

definition register_key_async ::
    "('pk, 'sk) ssh_lib \<Rightarrow> rustica_api \<Rightarrow> agent_server \<Rightarrow> ('pk, 'sk) signatory \<Rightarrow> agent_piv_attestation
     \<Rightarrow> (unit, refresh_error) result" where
  "register_key_async L A srv signatory att =
     and_then (snd (complete_rustica_challenge L A srv signatory)) (\<lambda>ch.
       rpc (api_register_key A srv \<lparr>rq_certificate = apa_certificate att,
              rq_intermediate = apa_intermediate att, rq_challenge = Some ch\<rparr>))"

definition register_u2f_key_async ::
    "('pk, 'sk) ssh_lib \<Rightarrow> rustica_api \<Rightarrow> agent_server \<Rightarrow> ('pk, 'sk) signatory \<Rightarrow> string
     \<Rightarrow> agent_u2f_attestation \<Rightarrow> (unit, refresh_error) result" where
  "register_u2f_key_async L A srv signatory application att =
     and_then (snd (complete_rustica_challenge L A srv signatory)) (\<lambda>ch.
       rpc (api_register_u2f_key A srv \<lparr>ru_auth_data = aua_auth_data att,
              ru_auth_data_signature = aua_auth_data_sig att, ru_sk_application = as_bytes application,
              ru_u2f_challenge = aua_challenge att, ru_intermediate = aua_intermediate att,
              ru_alg = aua_alg att, ru_challenge = Some ch, ru_u2f_challenge_hashed = True\<rparr>))"

text \<open>The X.509 request needs a Yubikey; \<^verbatim>\<open>reconnect().unwrap()\<close> may panic.\<close>

fun refresh_attested_x509_certificate_async ::
    "rustica_api \<Rightarrow> agent_server \<Rightarrow> ('pk, 'sk) signatory \<Rightarrow> (bytes, refresh_error) result" where
  "refresh_attested_x509_certificate_async A srv (Direct k) = Err RE_UnsupportedMode"
| "refresh_attested_x509_certificate_async A srv (YubikeySignatory slot yk) =
     and_then (ok_or (yd_generate_csr yk slot ''common_name'')
        (RE_ConfigurationError (''Could not generate CSR for slot '' @ yd_show_slot yk slot
           @ ''. Is it provisioned?''))) (\<lambda>csr.
     and_then (if yd_reconnect yk then Ok () else Panic) (\<lambda>_.
     and_then (case yd_fetch_attestation yk slot of
         Inr a \<Rightarrow> Ok a
       | Inl e \<Rightarrow> Err (RE_ConfigurationError (''Could not generate attestation for slot ''
           @ yd_show_slot yk slot @ ''. Is it attestable (not imported)? Error '' @ e))) (\<lambda>attestation.
     and_then (if yd_reconnect yk then Ok () else Panic) (\<lambda>_.
     and_then (ok_or (yd_fetch_certificate yk (yd_attestation_slot yk))
        (RE_ConfigurationError
           ''Could not fetch attestation intermediate. Have you manually removed it?'')) (\<lambda>intermediate.
     and_then (get_rustica_client A srv) (\<lambda>_.
     and_then (rpc (api_attested_x509 A srv \<lparr>ax_key_id = '''', ax_csr = csr, ax_attestation = attestation,
                 ax_attestation_intermediate = intermediate\<rparr>)) (\<lambda>r.
       if ay_error_code r = 0 then Ok (ay_certificate r)
       else Err (RE_RusticaServerError (ServerError (ay_error_code r) (ay_error r))))))))))"

definition get_allowed_signers_async ::
    "rustica_api \<Rightarrow> agent_server \<Rightarrow> (string, refresh_error) result" where
  "get_allowed_signers_async A srv =
     and_then (get_rustica_client A srv) (\<lambda>_.
     and_then (rpc (api_allowed_signers A srv)) (\<lambda>r.
     and_then (ok_or (api_zstd_decoder A (ar_compressed_allowed_signers r)) RE_UnknownError) (\<lambda>decoder.
     and_then (ok_or (api_zstd_read A decoder) RE_BadAllowedSigners) (\<lambda>content.
       ok_or (from_utf8 content) RE_BadAllowedSigners))))"

section \<open>Lemmas\<close>

lemma rpc_Ok [simp, ok_iff]: "rpc r = Ok x \<longleftrightarrow> r = Inr x"
  by (cases r) (simp_all add: rpc_def)

text \<open>
  C15: The agent never signs a certificate for a key that is not its own: whatever a server sends as a
  challenge, a signature is made only over a certificate whose key and signing key both are (by
  fingerprint) the agent's, and the user is notified when and only when one is made. A server that wants
  no signature gets its challenge back as it came.
\<close>

theorem answer_challenge_signs_own_key:
  assumes "answer_challenge L signatory k response = (notified, Ok ch)"
  shows "ch_pubkey ch = pk_to_string L k \<and> ch_challenge_time ch = cp_time response \<and>
     (if cp_no_signature_required response then \<not> notified \<and> ch_challenge ch = cp_challenge response
      else notified \<and>
        (\<exists>cert signed. cert_from_string L (cp_challenge response) = Inr cert \<and>
           pk_hash L (c_key cert) = pk_hash L k \<and>
           resign L signatory (cert\<lparr>c_signature_key := c_key cert\<rparr>) = Ok signed \<and>
           ch_challenge ch = cert_to_string L signed))"
  using assms by (auto simp: answer_challenge_def Let_def and_then_Ok split: if_splits sum.splits)

text \<open>
  A challenge for another key is refused with its own error, before anything is signed and
  without bothering the user.
\<close>

theorem foreign_challenge_refused:
  assumes "\<not> cp_no_signature_required response"
    and "cert_from_string L (cp_challenge response) = Inr cert"
    and "pk_hash L (c_key cert) \<noteq> pk_hash L k"
  shows "answer_challenge L signatory k response = (False, Err RE_ServerChallengeNotForClientKey)"
  using assms by (simp add: answer_challenge_def Let_def)

end
