(* ===== verification/Exchange.thy ===== *)
theory Exchange
  imports Server_Issue Server_Register Server_Signers Agent_Client
begin

text \<open>
  Agent and server together: the laws of the libraries that an exchange relies on, and the lemmas for the
  properties that span both sides.
\<close>

section \<open>What the libraries promise\<close>

text \<open>
  Two certificates agree when the fields the server looks at do. \<^verbatim>\<open>sshcerts\<close> builds a certificate with the keys it
  is given, signing only adds a signature, a signed certificate is printed and parsed back, and so are
  public keys.
\<close>

definition same_certificate :: "'pk certificate \<Rightarrow> 'pk certificate \<Rightarrow> bool" where
  "same_certificate a b \<longleftrightarrow>
     c_key a = c_key b \<and> c_key_id a = c_key_id b \<and> c_signature_key a = c_signature_key b"

definition sshcerts_laws :: "('pk, 'sk) ssh_lib \<Rightarrow> bool" where
  "sshcerts_laws L \<longleftrightarrow>
     (\<forall>k t ca c. cert_builder L k t ca = Some c \<longrightarrow> c_key c = k \<and> c_signature_key c = ca) \<and>
     (\<forall>sk c c'. cert_sign L sk c = Some c' \<longrightarrow> same_certificate c' c \<and>
        (\<exists>p. cert_from_string L (cert_to_string L c') = Inr p \<and> same_certificate p c')) \<and>
     (\<forall>s c c'. cert_add_signature L s c = Some c' \<longrightarrow> same_certificate c' c \<and>
        (\<exists>p. cert_from_string L (cert_to_string L c') = Inr p \<and> same_certificate p c')) \<and>
     (\<forall>k. pk_from_string L (pk_to_string L k) = Some k)"

text \<open>HMAC verification accepts what was signed, and hexadecimal is decoded to what was encoded.\<close>

definition crypto_laws :: "crypto_lib \<Rightarrow> bool" where
  "crypto_laws C \<longleftrightarrow> (\<forall>k m. hmac_verify C k m (hmac_sign C k m)) \<and> (\<forall>b. hex_decode C (hex_encode C b) = Some b)"

text \<open>The ideal of an unforgeable code: a tag is accepted for one message only.\<close>

definition hmac_ideal :: "crypto_lib \<Rightarrow> bool" where
  "hmac_ideal C \<longleftrightarrow> (\<forall>k m m'. hmac_verify C k m (hmac_sign C k m') \<longrightarrow> m = m')"

section \<open>The message under the HMAC\<close>

text \<open>
  The three parts can be told apart when no identity contains the dash or the comma (the public key may
  contain dashes).
\<close>

lemma first_char_unique:
  assumes "c \<notin> set a" and "c \<notin> set a'"
  shows "a @ c # b = a' @ c # b' \<longleftrightarrow> a = a' \<and> b = b'"
  using assms
proof (induction a arbitrary: a')
  case Nil
  then show ?case by (cases a') auto
next
  case (Cons x a)
  then show ?case by (cases a') auto
qed

lemma last_dash_unique:
  assumes "a @ CHR ''-'' # b = a' @ CHR ''-'' # b'" and "CHR ''-'' \<notin> set b" and "CHR ''-'' \<notin> set b'"
  shows "a = a' \<and> b = b'"
proof -
  from assms(1) have "rev b @ CHR ''-'' # rev a = rev b' @ CHR ''-'' # rev a'"
    by (metis append.assoc append_Cons append_Nil rev.simps(2) rev_append)
  then have "rev b = rev b' \<and> rev a = rev a'"
    using assms(2,3) first_char_unique [of "CHR ''-''" "rev b" "rev b'"] by simp
  then show ?thesis by simp
qed

lemma join_no_char: "c \<notin> set sep \<Longrightarrow> \<forall>i \<in> set ids. c \<notin> set i \<Longrightarrow> c \<notin> set (join_with sep ids)"
  by (induction sep ids rule: join_with.induct) auto

lemma join_comma_inj:
  assumes "join_with '','' xs = join_with '','' ys" and "xs \<noteq> []" and "ys \<noteq> []"
    and "\<forall>i \<in> set xs \<union> set ys. CHR '','' \<notin> set i"
  shows "xs = ys"
  using assms split_join [of xs "CHR '',''"] split_join [of ys "CHR '',''"] by (metis UnI1 UnI2)

lemma challenge_message_inj:
  assumes "challenge_message t p ids = challenge_message t' p' ids'"
    and "ids \<noteq> []" and "ids' \<noteq> []"
    and plain: "\<forall>i \<in> set ids \<union> set ids'. CHR ''-'' \<notin> set i \<and> CHR '','' \<notin> set i"
  shows "t = t' \<and> p = p' \<and> ids = ids'"
proof -
  have dash: "CHR ''-'' \<notin> set (show_u64 w)" for w by (rule show_u64_not_sign) simp
  have nodash: "CHR ''-'' \<notin> set (join_with '','' ids)" "CHR ''-'' \<notin> set (join_with '','' ids')"
    using plain by (simp_all add: join_no_char)
  from assms(1) have "show_u64 t = show_u64 t' \<and>
      p @ CHR ''-'' # join_with '','' ids = p' @ CHR ''-'' # join_with '','' ids'"
    using first_char_unique [OF dash dash] by (simp add: challenge_message_def)
  then have "t = t'" and "p = p' \<and> join_with '','' ids = join_with '','' ids'"
    using last_dash_unique [OF _ nodash] by auto
  with join_comma_inj [of ids ids'] assms(2,3) plain show ?thesis by blast
qed

section \<open>Answering a challenge\<close>

lemma resign_law:
  assumes "sshcerts_laws L" and "resign L signatory c = Ok c'"
  shows "\<exists>p. cert_from_string L (cert_to_string L c') = Inr p \<and> same_certificate p c"
proof -
  have "same_certificate c' c \<and> (\<exists>p. cert_from_string L (cert_to_string L c') = Inr p \<and> same_certificate p c')"
  proof (cases signatory)
    case (YubikeySignatory slot yk)
    with assms show ?thesis unfolding sshcerts_laws_def by (auto simp: and_then_Ok)
  next
    case (Direct k)
    with assms show ?thesis unfolding sshcerts_laws_def by simp
  qed
  then show ?thesis by (auto simp: same_certificate_def)
qed

lemma challenge_certificate_law:
  assumes "sshcerts_laws (e_ssh E)" and "challenge_certificate E srv k tag = Ok c"
  shows "\<exists>p. cert_from_string (e_ssh E) (cert_to_string (e_ssh E) c) = Inr p \<and> c_key p = k \<and>
     c_key_id p = hex_encode (e_crypto E) tag \<and> c_signature_key p = sk_pubkey (e_ssh E) (challenge_key srv)"
proof -
  from assms(2) obtain b where b: "cert_builder (e_ssh E) k Host (sk_pubkey (e_ssh E) (challenge_key srv)) = Some b"
    and s: "cert_sign (e_ssh E) (challenge_key srv)
         (b\<lparr>c_serial := 0xFEFEFEFEFEFEFEFE, c_key_id := hex_encode (e_crypto E) tag,
            c_valid_after := 0, c_valid_before := 0\<rparr>) = Some c"
    by (auto simp: challenge_certificate_Ok)
  from b assms(1) have "c_key b = k" "c_signature_key b = sk_pubkey (e_ssh E) (challenge_key srv)"
    unfolding sshcerts_laws_def by blast+
  moreover from s assms(1) obtain p where "cert_from_string (e_ssh E) (cert_to_string (e_ssh E) c) = Inr p"
    "same_certificate p c" "same_certificate c (b\<lparr>c_serial := 0xFEFEFEFEFEFEFEFE,
       c_key_id := hex_encode (e_crypto E) tag, c_valid_after := 0, c_valid_before := 0\<rparr>)"
    unfolding sshcerts_laws_def by blast
  ultimately show ?thesis by (auto simp: same_certificate_def)
qed

text \<open>The certificate an agent returns for a challenge, as the server parses it.\<close>

lemma answered_certificate:
  assumes "sshcerts_laws (e_ssh E)" and "challenge_certificate E srv k tag = Ok c"
    and "cp_challenge resp = cert_to_string (e_ssh E) c"
    and "answer_challenge (e_ssh E) signatory k' resp = (n, Ok ch)"
  shows "\<exists>p. cert_from_string (e_ssh E) (ch_challenge ch) = Inr p \<and> c_key p = k \<and>
     c_key_id p = hex_encode (e_crypto E) tag \<and>
     c_signature_key p = (if cp_no_signature_required resp then sk_pubkey (e_ssh E) (challenge_key srv) else k)"
proof -
  obtain q where q: "cert_from_string (e_ssh E) (cp_challenge resp) = Inr q" "c_key q = k"
    "c_key_id q = hex_encode (e_crypto E) tag" "c_signature_key q = sk_pubkey (e_ssh E) (challenge_key srv)"
    using challenge_certificate_law [OF assms(1,2)] assms(3) by auto
  show ?thesis
  proof (cases "cp_no_signature_required resp")
    case True
    with assms(4) q show ?thesis by (auto simp: answer_challenge_def Let_def)
  next
    case False
    with assms(4) q obtain s where s: "resign (e_ssh E) signatory (q\<lparr>c_signature_key := c_key q\<rparr>) = Ok s"
      "ch_challenge ch = cert_to_string (e_ssh E) s"
      by (auto simp: answer_challenge_def Let_def and_then_Ok split: if_splits)
    from resign_law [OF assms(1) s(1)] s(2) q False show ?thesis by (auto simp: same_certificate_def)
  qed
qed

lemma permission_row:
  assumes "permissions_of db fp a = Some (r # rs)"
  shows "\<exists>rows. db_permissions db = Some rows \<and> r \<in> set rows \<and> fp_pe_fingerprint r = fp \<and> fp_pe_authority r = a"
proof -
  from assms obtain rows where rows: "db_permissions db = Some rows"
    "filter (\<lambda>r. fp_pe_fingerprint r = fp \<and> fp_pe_authority r = a) rows = r # rs"
    by (auto simp: permissions_of_def)
  then have "r \<in> set (filter (\<lambda>r. fp_pe_fingerprint r = fp \<and> fp_pe_authority r = a) rows)" by simp
  with rows(1) show ?thesis by auto
qed

text \<open>
  An answered challenge validates, also when the server's other state changed in the meantime: only its two secrets
  and the demand for a proof of possession matter.
\<close>

lemma honest_exchange:
  assumes laws: "sshcerts_laws (e_ssh E)" "crypto_laws (e_crypto E)"
    and challenge: "challenge_handler E (Some t) req srv = (srv, Ok resp)"
    and key: "cq_pubkey (into_inner req) = pk_to_string (e_ssh E) k"
    and answer: "answer_challenge (e_ssh E) signatory k resp = (n, Ok ch)"
    and time: "unat t \<le> unat t'" "unat t' \<le> unat t + 5" and size: "length (ch_challenge ch) \<le> 1024"
    and later: "hmac_key srv1 = hmac_key srv" "challenge_key srv1 = challenge_key srv"
      "require_rustica_proof srv1 = require_rustica_proof srv"
  obtains peer rest info where "peer_certs req = Some (peer # rest)"
    "extract_certificate_information E peer = Ok info"
    "validate_request E (Some t') (peer # rest) ch srv1 = (srv1, Ok (k, mi_identities info,
       certificate_refresh srv1 t' (mi_expiry_timestamp info)))"
proof -
  obtain peer rest info c where
    peers: "peer_certs req = Some (peer # rest)" "extract_certificate_information E peer = Ok info"
    and c: "challenge_certificate E srv k (hmac_sign (e_crypto E) (hmac_key srv)
        (as_bytes (challenge_message t (pk_to_string (e_ssh E) k) (mi_identities info)))) = Ok c"
    and resp: "resp = \<lparr>cp_time = show_u64 t, cp_challenge = cert_to_string (e_ssh E) c,
        cp_no_signature_required = \<not> require_rustica_proof srv\<rparr>"
    using challenge laws(1) key by (auto simp: challenge_handler_Ok sshcerts_laws_def)
  have ch: "ch_pubkey ch = pk_to_string (e_ssh E) k" "ch_challenge_time ch = show_u64 t"
    using answer resp by (auto simp: answer_challenge_def Let_def and_then_Ok split: if_splits sum.splits)
  obtain p where p: "cert_from_string (e_ssh E) (ch_challenge ch) = Inr p" "c_key p = k"
    "c_key_id p = hex_encode (e_crypto E) (hmac_sign (e_crypto E) (hmac_key srv)
        (as_bytes (challenge_message t (pk_to_string (e_ssh E) k) (mi_identities info))))"
    "c_signature_key p = (if require_rustica_proof srv then k else sk_pubkey (e_ssh E) (challenge_key srv))"
    using answered_certificate [OF laws(1) c _ answer] resp by auto
  have window: "t' - t \<le> 5"
  proof -
    have "unat (t' - t) = unat t' - unat t" using time(1) by unat_arith
    then show ?thesis using time(2) by unat_arith
  qed
  have "pk_from_string (e_ssh E) (pk_to_string (e_ssh E) k) = Some k" using laws(1) by (simp add: sshcerts_laws_def)
  with laws(2) ch p peers window size later
  have "validate_request E (Some t') (peer # rest) ch srv1 = (srv1, Ok (k, mi_identities info,
       certificate_refresh srv1 t' (mi_expiry_timestamp info)))"
    by (auto simp: validate_request_stages validate_certificate_Ok check_proof_None crypto_laws_def intro!: exI)
  with peers show thesis by (rule that)
qed

section \<open>Properties\<close>

text \<open>
  C5: A challenge is good for what it was issued for only: if the code under the HMAC is unforgeable, a
  certificate that carries the tag of a challenge issued for some time, public key and identities is
  accepted only with that time, that public key, and over a connection with those identities
  (as long as there are identities, and they contain neither dash nor comma).
\<close>

theorem challenge_binding:
  assumes "hmac_ideal (e_crypto E)" and "crypto_laws (e_crypto E)"
    and "validate_request E now peers ch srv = (srv', Ok (k, ids, refresh))"
    and "cert_from_string (e_ssh E) (ch_challenge ch) = Inr cert"
    and "c_key_id cert = hex_encode (e_crypto E) (hmac_sign (e_crypto E) (hmac_key srv)
           (as_bytes (challenge_message t0 pubkey0 ids0)))"
    and "ids \<noteq> []" and "ids0 \<noteq> []"
    and "\<forall>i \<in> set ids \<union> set ids0. CHR ''-'' \<notin> set i \<and> CHR '','' \<notin> set i"
  shows "parse_u64 (ch_challenge_time ch) = Some t0 \<and> ch_pubkey ch = pubkey0 \<and> ids = ids0"
proof -
  obtain rt where rt: "parse_u64 (ch_challenge_time ch) = Some rt"
    "hmac_verify (e_crypto E) (hmac_key srv) (as_bytes (challenge_message rt (ch_pubkey ch) ids))
       (hmac_sign (e_crypto E) (hmac_key srv) (as_bytes (challenge_message t0 pubkey0 ids0)))"
    using assms(2-5) by (auto simp: validate_request_stages validate_certificate_Ok crypto_laws_def)
  then have "challenge_message rt (ch_pubkey ch) ids = challenge_message t0 pubkey0 ids0"
    using assms(1) unfolding hmac_ideal_def by (metis as_bytes_inj)
  from challenge_message_inj [OF this assms(6-8)] rt(1) show ?thesis by simp
qed

text \<open>
  With dashes in the identities the binding fails: two different pairs of public key and
  identities have the same message under the HMAC.
\<close>

theorem challenge_message_collision:
  "challenge_message t ''ecdsa-key'' [''ann-lee''] = challenge_message t ''ecdsa'' [''key-ann-lee'']"
  by (simp add: challenge_message_def)

text \<open>
  C6: A certificate issued on the word of the local database names only principals the database grants: there is a
  permission for the key's fingerprint and the authority that allows the certificate type, the principals are those
  the database lists for them (or, if the permission leaves them open, those requested), and the
  certificate ends at the database's time limit, counted from now.
\<close>

theorem local_certificate_principals:
  assumes "certificate_handler E now1 now2 (Some now3) req srv = (srv', Ok resp)" and "ce_error_code resp = 0"
    and "srv_authorizer srv = Local l"
  shows "\<exists>peers ch k ids refresh t db ps rows r tbs cert.
     peer_certs req = Some peers \<and> cr_challenge (into_inner req) = Some ch \<and>
     validate_request E now1 peers ch srv = (srv, Ok (k, ids, refresh)) \<and>
     requested_cert_type (cr_cert_type (into_inner req)) = Some t \<and>
     srv_databases srv (ld_path l) = Some db \<and> db_permissions db = Some rows \<and> r \<in> set rows \<and>
     fp_pe_fingerprint r = pk_hash (e_ssh E) k \<and>
     fp_pe_authority r = chosen_authority srv (cr_key_id (into_inner req)) \<and>
     (t = User \<longrightarrow> fp_pe_can_create_user_certs r) \<and> (t = Host \<longrightarrow> fp_pe_can_create_host_certs r) \<and>
     principals_of db (pk_hash (e_ssh E) k) (chosen_authority srv (cr_key_id (into_inner req))) = Some ps \<and>
     c_principals tbs = (if fp_pe_principal_unrestricted r then cr_principals (into_inner req) else ps) \<and>
     c_valid_before tbs = now3 + fp_pe_max_creation_time r \<and>
     mech_sign (srv_signer srv) (chosen_authority srv (cr_key_id (into_inner req))) tbs = Ok cert \<and>
     ce_certificate resp = cert_to_string (e_ssh E) cert"
proof -
  let ?a = "chosen_authority srv (cr_key_id (into_inner req))"
  obtain addr ch peers k ids refresh t ca auth tbs cert where
    request: "cr_challenge (into_inner req) = Some ch" "peer_certs req = Some peers"
      "validate_request E now1 peers ch srv = (srv, Ok (k, ids, refresh))"
      "requested_cert_type (cr_cert_type (into_inner req)) = Some t"
    and auth: "authorize_ssh_cert_local (srv_databases srv) (Some now3) l
       (ssh_auth_props (e_ssh E) (into_inner req) addr k ids t ?a) = Ok auth"
    and tbs: "certificate_to_sign (e_ssh E) k t ca auth (certificate_critical_options auth addr) = Some tbs"
    and cert: "mech_sign (srv_signer srv) (sa_authority auth) tbs = Ok cert"
      "ce_certificate resp = cert_to_string (e_ssh E) cert"
    using conjI [OF assms(1,2)] assms(3) 
    unfolding certificate_handler_success authorize_and_issue_success issue_certificate_success by auto
  have fields: "c_principals tbs = sa_principals auth" "c_valid_before tbs = sa_valid_before auth"
    using tbs by (auto simp: certificate_to_sign_def)
  obtain db ps r rs where db: "srv_databases srv (ld_path l) = Some db"
    "principals_of db (pk_hash (e_ssh E) k) ?a = Some ps"
    "permissions_of db (pk_hash (e_ssh E) k) ?a = Some (r # rs)"
    "t = User \<longrightarrow> fp_pe_can_create_user_certs r" "t = Host \<longrightarrow> fp_pe_can_create_host_certs r"
    "sa_principals auth = (if fp_pe_principal_unrestricted r then cr_principals (into_inner req) else ps)"
    "sa_valid_before auth = now3 + fp_pe_max_creation_time r" "sa_authority auth = ?a"
    using auth unfolding authorize_ssh_cert_local_Ok by (auto simp: ssh_auth_props_def)
  obtain rows where rows: "db_permissions db = Some rows" "r \<in> set rows"
    "fp_pe_fingerprint r = pk_hash (e_ssh E) k" "fp_pe_authority r = ?a"
    using permission_row [OF db(3)] by blast
  show ?thesis
    by (rule exI [of _ peers], rule exI [of _ ch], rule exI [of _ k], rule exI [of _ ids],
        rule exI [of _ refresh], rule exI [of _ t], rule exI [of _ db], rule exI [of _ ps],
        rule exI [of _ rows], rule exI [of _ r], rule exI [of _ tbs], rule exI [of _ cert])
       (use request db rows fields cert in simp)
qed

end
