(* ===== verification/Server_X509.thy ===== *)
theory Server_X509
  imports Server_State
begin

text \<open>
  The handler \<^verbatim>\<open>attested_x509_certificate\<close> of \<^verbatim>\<open>rustica/src/server.rs\<close>: an X.509 certificate for a key
  that lives in an attested hardware slot.
\<close>

section \<open>Operations\<close>

text \<open>\<^verbatim>\<open>i64::to_le_bytes\<close>\<close>

definition to_le_bytes :: "i64 \<Rightarrow> bytes" where
  "to_le_bytes w = map (\<lambda>i. ucast (drop_bit (8 * i) w)) [0..<8]"

text \<open>The single client certificate the handler accepts.\<close>

definition single_peer ::
    "string \<Rightarrow> bytes list \<Rightarrow> ('pk, 'sk, 'ca, 'l) rustica_server
     \<Rightarrow> ('pk, 'sk, 'ca, 'l) rustica_server \<times> (bytes, status) result" where
  "single_peer addr peers srv = (case peers of
     [] \<Rightarrow> (rustica_error ''No peer certificate was presented. Tonic issue?'' srv, Err permission_denied)
   | peer # _ \<Rightarrow>
       if length peers \<noteq> 1 then
         (rustica_warning (''Received request with multiple peer identities from '' @ addr) srv,
          Err permission_denied)
       else (srv, Ok peer))"

text \<open>The request's parameters with everything the authorizer decides written over them.\<close>

definition csr_params_for :: "'ca rcgen_lib \<Rightarrow> x509_authorization \<Rightarrow> cert_params \<Rightarrow> cert_params" where
  "csr_params_for R auth p =
     p\<lparr>subject_alt_names := [Rfc822Name (xa_common_name auth)],
       serial_number := Some (to_le_bytes (xa_serial auth)),
       params_is_ca := NoCa,
       key_usages := [DigitalSignature],
       extended_key_usages := [],
       name_constraints := None,
       custom_extensions := xa_extensions auth,
       distinguished_name :=
         dn_push R (dn_push R (dn_new R) OrganizationName (''Rustica-'' @ xa_authority auth))
           CommonName (xa_common_name auth),
       use_authority_key_identifier_extension := False,
       not_before := xa_valid_after auth,
       not_after := xa_valid_before auth\<rparr>"

definition x509_log ::
    "crypto_lib \<Rightarrow> string \<Rightarrow> string list \<Rightarrow> x509_authorization \<Rightarrow> log" where
  "x509_log C authority ids auth = X509CertificateIssued
     \<lparr>xi_authority = authority, xi_mtls_identities = ids, xi_serial = xa_serial auth,
      xi_extensions = hm_collect (map (\<lambda>e. (join_with ''.'' (map show_u64 (oid_components e)),
                                           hex_encode C (ext_content e))) (xa_extensions auth)),
      xi_valid_after = xa_valid_after auth, xi_valid_before = xa_valid_before auth\<rparr>"

text \<open>The checks on the signed certificate: it must carry the attested public key.\<close>

definition check_new_certificate ::
    "('pk, 'sk, 'ca, 'l) server_env \<Rightarrow> string list \<Rightarrow> bytes \<Rightarrow> bytes \<Rightarrow> ('pk, 'sk, 'ca, 'l) rustica_server
     \<Rightarrow> ('pk, 'sk, 'ca, 'l) rustica_server \<times> (unit, status) result" where
  "check_new_certificate E ids cert attestation srv = (case e_parse_x509 E cert of
     Inl e \<Rightarrow> (rustica_error (''Could not parse new certificate for ['' @ join_with '','' ids
                @ '']. Error: ['' @ e @ '']'') srv, Err permission_denied)
   | Inr new_certificate \<Rightarrow>
     (case e_parse_x509 E attestation of
        Inl e \<Rightarrow> (rustica_error (''Could not parse provided attestation for ['' @ join_with '','' ids
                   @ '']. Error: ['' @ e @ '']'') srv, Err permission_denied)
      | Inr leaf \<Rightarrow>
        if x_subject_pki new_certificate \<noteq> x_subject_pki leaf then
          (rustica_error (''A CSR was submitted that didn'' @ [CHR 0x27]
             @ ''t match their attestation chain by ['' @ join_with '','' ids @ '']'') srv,
           Err permission_denied)
        else (srv, Ok ())))"

text \<open>From the authorization on: the request's parameters, the signature, the checks, the log.\<close>

definition issue_x509 ::
    "('pk, 'sk, 'ca, 'l) server_env \<Rightarrow> attested_x509_certificate_request \<Rightarrow> string list \<Rightarrow> string
     \<Rightarrow> x509_authorization \<Rightarrow> ('pk, 'sk, 'ca, 'l) rustica_server
     \<Rightarrow> ('pk, 'sk, 'ca, 'l) rustica_server \<times> (attested_x509_certificate_response, status) result" where
  "issue_x509 E r ids authority auth srv = (let R = e_rcgen E in
     case csr_from_der R (ax_csr r) of
       Inl e \<Rightarrow> (rustica_warning (''Invalid CSR was provided by ['' @ join_with '','' ids
                  @ '']. Error: ['' @ e @ '']'') srv, Err permission_denied)
     | Inr csr \<Rightarrow>
       if \<not> time_ok R (xa_valid_after auth) \<or> \<not> time_ok R (xa_valid_before auth) then (srv, Panic)
       else let csr = csr\<lparr>csr_params := csr_params_for R auth (csr_params csr)\<rparr> in
       (case get_attested_x509_certificate_authority (srv_signer srv) (xa_authority auth) of
          Panic \<Rightarrow> (srv, Panic)
        | Err _ \<Rightarrow> (srv, Err (Status PermissionDenied ''message''))
        | Ok None \<Rightarrow> (rustica_error (''The requested authority '' @ xa_authority auth
                       @ '' does not exist or is not configured'') srv, Err permission_denied)
        | Ok (Some ca_cert) \<Rightarrow>
          (case csr_der_with_signer R csr ca_cert of
             None \<Rightarrow> (rustica_error (''Could not serialize attested x509 certificate for ''
                       @ xa_common_name auth) srv, Err permission_denied)
           | Some cert \<Rightarrow>
             (case check_new_certificate E ids cert (ax_attestation r) srv of
                (srv', Panic) \<Rightarrow> (srv', Panic)
              | (srv', Err st) \<Rightarrow> (srv', Err st)
              | (srv', Ok _) \<Rightarrow> (send_log (x509_log (e_crypto E) authority ids auth) srv',
                  Ok \<lparr>ay_certificate = cert, ay_error = '''', ay_error_code = 0\<rparr>)))))"

definition x509_auth_props ::
    "attested_x509_certificate_request \<Rightarrow> socket_addr \<Rightarrow> string list \<Rightarrow> string \<Rightarrow> key
     \<Rightarrow> x509_authorization_request" where
  "x509_auth_props r addr ids authority k =
     \<lparr>xr_authority = authority, xr_mtls_identities = ids, xr_requester_ip = addr_string addr,
      xr_attestation = ax_attestation r, xr_attestation_intermediate = ax_attestation_intermediate r,
      xr_key = k\<rparr>"

definition attested_x509_certificate_handler ::
    "('pk, 'sk, 'ca, 'l) server_env \<Rightarrow> u64 option \<Rightarrow> attested_x509_certificate_request request
     \<Rightarrow> ('pk, 'sk, 'ca, 'l) rustica_server
     \<Rightarrow> ('pk, 'sk, 'ca, 'l) rustica_server \<times> (attested_x509_certificate_response, status) result" where
  "attested_x509_certificate_handler E now req srv = (case (remote_addr req, peer_certs req) of
     (Some addr, Some peers) \<Rightarrow>
       (case single_peer (addr_string addr) peers srv of
          (srv', Panic) \<Rightarrow> (srv', Panic)
        | (srv', Err st) \<Rightarrow> (srv', Err st)
        | (srv', Ok peer) \<Rightarrow> (let r = into_inner req in
          case extract_certificate_information E peer of
            Panic \<Rightarrow> (srv', Panic)
          | Err _ \<Rightarrow> (srv', Err permission_denied)
          | Ok info \<Rightarrow> (let ids = mi_identities info in
            case verify_piv_certificate_chain (e_ssh E) (ax_attestation r) (ax_attestation_intermediate r) of
              Panic \<Rightarrow> (srv', Panic)
            | Err _ \<Rightarrow> (srv', Err (Status PermissionDenied ''Invalid attestation chain''))
            | Ok k \<Rightarrow> (let authority = (if ax_key_id r = [] then sm_default_authority (srv_signer srv')
                                        else ax_key_id r) in
              case authorize_attested_x509_cert (e_crypto E) (e_author E) (srv_databases srv') now
                     (srv_authorizer srv') (x509_auth_props r addr ids authority k) of
                Panic \<Rightarrow> (srv', Panic)
              | Err e \<Rightarrow> (rustica_warning (''Authorizer rejected ['' @ join_with '','' ids
                           @ ''] from fetching new X509 certificate. Error: [''
                           @ authorization_error_to_string e @ '']'') srv',
                         Err (Status PermissionDenied ''Not authorized''))
              | Ok auth \<Rightarrow> issue_x509 E r ids authority auth srv'))))
   | _ \<Rightarrow> (srv, Err permission_denied))"

section \<open>Lemmas\<close>

lemma single_peer_Ok [simp]: "single_peer addr peers srv = (srv', Ok p) \<longleftrightarrow> peers = [p] \<and> srv' = srv"
  by (cases peers) (auto simp: single_peer_def)

lemma check_new_certificate_Ok:
  "check_new_certificate E ids cert att srv = (srv', Ok u) \<longleftrightarrow>
     srv' = srv \<and> (\<exists>n l. e_parse_x509 E cert = Inr n \<and> e_parse_x509 E att = Inr l \<and>
        x_subject_pki n = x_subject_pki l)"
  by (auto simp: check_new_certificate_def split: sum.splits if_splits)

lemma issue_x509_Ok:
  "issue_x509 E r ids authority auth srv = (srv', Ok resp) \<longleftrightarrow>
     (\<exists>csr ca cert n l.
        csr_from_der (e_rcgen E) (ax_csr r) = Inr csr \<and>
        time_ok (e_rcgen E) (xa_valid_after auth) \<and> time_ok (e_rcgen E) (xa_valid_before auth) \<and>
        get_attested_x509_certificate_authority (srv_signer srv) (xa_authority auth) = Ok (Some ca) \<and>
        csr_der_with_signer (e_rcgen E)
          (csr\<lparr>csr_params := csr_params_for (e_rcgen E) auth (csr_params csr)\<rparr>) ca = Some cert \<and>
        e_parse_x509 E cert = Inr n \<and> e_parse_x509 E (ax_attestation r) = Inr l \<and>
        x_subject_pki n = x_subject_pki l \<and>
        resp = \<lparr>ay_certificate = cert, ay_error = '''', ay_error_code = 0\<rparr> \<and>
        srv' = send_log (x509_log (e_crypto E) authority ids auth) srv)"
  by (auto simp: issue_x509_def Let_def check_new_certificate_def
           split: sum.splits result.splits option.splits if_splits prod.splits)

text \<open>
  C10: An X.509 certificate is issued only over a connection with exactly one client certificate,
  for an attestation chain that verifies, after the authorizer approved the first identity of
  that client certificate; it carries the attested public key, and its subject, alternative name, serial,
  validity and extensions are the authorizer's, never the request's; it is no CA certificate.
\<close>

theorem attested_x509_certificate_issued:
  assumes "attested_x509_certificate_handler E now req srv = (srv', Ok resp)"
  shows "\<exists>addr peer info k au auth csr p ca n l.
    remote_addr req = Some addr \<and> peer_certs req = Some [peer] \<and>
    extract_certificate_information E peer = Ok info \<and>
    verify_piv_certificate_chain (e_ssh E) (ax_attestation (into_inner req))
       (ax_attestation_intermediate (into_inner req)) = Ok k \<and>
    au = (if ax_key_id (into_inner req) = [] then sm_default_authority (srv_signer srv)
          else ax_key_id (into_inner req)) \<and>
    authorize_attested_x509_cert (e_crypto E) (e_author E) (srv_databases srv) now (srv_authorizer srv)
       (x509_auth_props (into_inner req) addr (mi_identities info) au k) = Ok auth \<and>
    first_identity (mi_identities info) = Some (xa_common_name auth) \<and>
    csr_from_der (e_rcgen E) (ax_csr (into_inner req)) = Inr csr \<and>
    get_attested_x509_certificate_authority (srv_signer srv) (xa_authority auth) = Ok (Some ca) \<and>
    p = csr_params_for (e_rcgen E) auth (csr_params csr) \<and>
    subject_alt_names p = [Rfc822Name (xa_common_name auth)] \<and> params_is_ca p = NoCa \<and>
    not_before p = xa_valid_after auth \<and> not_after p = xa_valid_before auth \<and>
    custom_extensions p = xa_extensions auth \<and>
    csr_der_with_signer (e_rcgen E) (csr\<lparr>csr_params := p\<rparr>) ca = Some (ay_certificate resp) \<and>
    e_parse_x509 E (ay_certificate resp) = Inr n \<and>
    e_parse_x509 E (ax_attestation (into_inner req)) = Inr l \<and> x_subject_pki n = x_subject_pki l \<and>
    srv' = send_log (x509_log (e_crypto E) au (mi_identities info) auth) srv"
proof -
  let ?r = "into_inner req"
  define au where "au = (if ax_key_id ?r = [] then sm_default_authority (srv_signer srv) else ax_key_id ?r)"
  obtain addr peer info k auth where *: "remote_addr req = Some addr" "peer_certs req = Some [peer]"
    "extract_certificate_information E peer = Ok info"
    "verify_piv_certificate_chain (e_ssh E) (ax_attestation ?r) (ax_attestation_intermediate ?r) = Ok k"
    "authorize_attested_x509_cert (e_crypto E) (e_author E) (srv_databases srv) now (srv_authorizer srv)
       (x509_auth_props ?r addr (mi_identities info) au k) = Ok auth"
    "issue_x509 E ?r (mi_identities info) au auth srv = (srv', Ok resp)"
    using assms unfolding au_def
    by (auto simp: attested_x509_certificate_handler_def Let_def
        split: option.splits prod.splits result.splits)
  from *(5) have "first_identity (mi_identities info) = Some (xa_common_name auth)"
    using mechanism.x509_identity by (fastforce simp: x509_auth_props_def)
  with * show ?thesis
    unfolding issue_x509_Ok au_def [symmetric] by (auto simp: csr_params_for_def)
qed

end
