(* ===== verification/Auth_Schema.thy ===== *)
theory Auth_Schema
  imports Auth_Database
begin

text \<open>
  \<^verbatim>\<open>rustica/src/auth/database/schema.rs\<close>: the tables the local authorizer works on, as they are
  declared to diesel, and how the rows of \<^verbatim>\<open>models.rs\<close> fit them.

  A declaration has a name, the columns of its primary key, and the columns with their SQL types. A row of
  SQLite is a list of values in the order of the columns; the derived \<^verbatim>\<open>Queryable\<close> reads the columns by
  position into the fields of the struct, the derived \<^verbatim>\<open>Insertable\<close> writes them by name. The lemmas show
  that the records of the model are exactly the rows the declarations allow, that the authorizer decides by the
  columns the declarations name, and what the primary keys mean for its decisions.
\<close>

section \<open>Declarations\<close>

datatype sql_type = SqlText | SqlBool | SqlBigInt | SqlInteger | SqlNullable sql_type

datatype sql_value = TextV string | BoolV bool | BigIntV i64 | IntegerV i32 | NullV

fun has_sql_type :: "sql_value \<Rightarrow> sql_type \<Rightarrow> bool" where
  "has_sql_type NullV (SqlNullable t) = True"
| "has_sql_type v (SqlNullable t) = has_sql_type v t"
| "has_sql_type (TextV _) SqlText = True"
| "has_sql_type (BoolV _) SqlBool = True"
| "has_sql_type (BigIntV _) SqlBigInt = True"
| "has_sql_type (IntegerV _) SqlInteger = True"
| "has_sql_type _ _ = False"

record table =
  tbl_name :: string
  tbl_primary_key :: "string list"
  tbl_columns :: "(string \<times> sql_type) list"

definition fingerprint_critical_options_table :: table where
  "fingerprint_critical_options_table =
     \<lparr>tbl_name = ''fingerprint_critical_options'',
      tbl_primary_key = [''fingerprint'', ''critical_option_name'', ''authority''],
      tbl_columns = [(''fingerprint'', SqlText), (''critical_option_name'', SqlText),
        (''critical_option_value'', SqlNullable SqlText), (''authority'', SqlText)]\<rparr>"

definition fingerprint_extensions_table :: table where
  "fingerprint_extensions_table =
     \<lparr>tbl_name = ''fingerprint_extensions'',
      tbl_primary_key = [''fingerprint'', ''extension_name'', ''authority''],
      tbl_columns = [(''fingerprint'', SqlText), (''extension_name'', SqlText),
        (''extension_value'', SqlNullable SqlText), (''authority'', SqlText)]\<rparr>"

definition fingerprint_host_authorizations_table :: table where
  "fingerprint_host_authorizations_table =
     \<lparr>tbl_name = ''fingerprint_host_authorizations'',
      tbl_primary_key = [''fingerprint'', ''hostname'', ''authority''],
      tbl_columns = [(''fingerprint'', SqlText), (''hostname'', SqlText), (''authority'', SqlText)]\<rparr>"

definition fingerprint_permissions_table :: table where
  "fingerprint_permissions_table =
     \<lparr>tbl_name = ''fingerprint_permissions'',
      tbl_primary_key = [''fingerprint'', ''authority''],
      tbl_columns = [(''fingerprint'', SqlText), (''host_unrestricted'', SqlBool),
        (''principal_unrestricted'', SqlBool), (''can_create_host_certs'', SqlBool),
        (''can_create_user_certs'', SqlBool), (''max_creation_time'', SqlBigInt),
        (''authority'', SqlText)]\<rparr>"

definition fingerprint_principal_authorizations_table :: table where
  "fingerprint_principal_authorizations_table =
     \<lparr>tbl_name = ''fingerprint_principal_authorizations'',
      tbl_primary_key = [''fingerprint'', ''principal'', ''authority''],
      tbl_columns = [(''fingerprint'', SqlText), (''principal'', SqlText), (''authority'', SqlText)]\<rparr>"

definition hosts_table :: table where
  "hosts_table =
     \<lparr>tbl_name = ''hosts'', tbl_primary_key = [''hostname''],
      tbl_columns = [(''hostname'', SqlNullable SqlText), (''fingerprint'', SqlText)]\<rparr>"

definition registered_keys_table :: table where
  "registered_keys_table =
     \<lparr>tbl_name = ''registered_keys'', tbl_primary_key = [''fingerprint''],
      tbl_columns = [(''fingerprint'', SqlText), (''pubkey'', SqlText), (''user'', SqlText),
        (''pin_policy'', SqlNullable SqlText), (''touch_policy'', SqlNullable SqlText),
        (''hsm_serial'', SqlNullable SqlText), (''firmware'', SqlNullable SqlText),
        (''attestation_certificate'', SqlNullable SqlText),
        (''attestation_intermediate'', SqlNullable SqlText), (''auth_data'', SqlNullable SqlText),
        (''auth_data_signature'', SqlNullable SqlText), (''aaguid'', SqlNullable SqlText),
        (''challenge'', SqlNullable SqlText), (''alg'', SqlNullable SqlInteger),
        (''application'', SqlNullable SqlText)]\<rparr>"

definition x509_authorizations_table :: table where
  "x509_authorizations_table =
     \<lparr>tbl_name = ''x509_authorizations'', tbl_primary_key = [''user'', ''hsm_serial''],
      tbl_columns = [(''user'', SqlText), (''hsm_serial'', SqlText), (''require_touch'', SqlBool),
        (''authority'', SqlText)]\<rparr>"

text \<open>The tables that may appear in one query.\<close>

definition schema_tables :: "table list" where
  "schema_tables = [fingerprint_critical_options_table, fingerprint_extensions_table,
     fingerprint_host_authorizations_table, fingerprint_permissions_table,
     fingerprint_principal_authorizations_table, hosts_table, registered_keys_table,
     x509_authorizations_table]"

section \<open>Rows\<close>

type_synonym sql_row = "sql_value list"

definition conforms :: "table \<Rightarrow> sql_row \<Rightarrow> bool" where
  "conforms t row \<longleftrightarrow> list_all2 has_sql_type row (map snd (tbl_columns t))"

definition primary_key :: "table \<Rightarrow> sql_row \<Rightarrow> sql_value list" where
  "primary_key t row = map (\<lambda>c. case map_of (zip (map fst (tbl_columns t)) row) c of
     Some v \<Rightarrow> v | None \<Rightarrow> NullV) (tbl_primary_key t)"

definition table_wf :: "table \<Rightarrow> sql_row list \<Rightarrow> bool" where
  "table_wf t rows \<longleftrightarrow> list_all (conforms t) rows \<and> distinct (map (primary_key t) rows)"

text \<open>An insertion checks the primary key and appends.\<close>

definition table_insert :: "table \<Rightarrow> sql_row list \<Rightarrow> sql_row \<Rightarrow> sql_row list option" where
  "table_insert t rows row =
     (if primary_key t row \<in> set (map (primary_key t) rows) then None else Some (rows @ [row]))"

definition nullable :: "('a \<Rightarrow> sql_value) \<Rightarrow> 'a option \<Rightarrow> sql_value" where
  "nullable f x = (case x of None \<Rightarrow> NullV | Some v \<Rightarrow> f v)"

section \<open>The models as rows\<close>

text \<open>The model of the table of hosts; no query of the program loads it.\<close>

record host =
  h_hostname :: string
  h_fingerprint :: string

definition host_row :: "host \<Rightarrow> sql_row" where
  "host_row h = [TextV (h_hostname h), TextV (h_fingerprint h)]"

definition principal_row :: "fingerprint_principal_authorization \<Rightarrow> sql_row" where
  "principal_row r = [TextV (fp_pr_fingerprint r), TextV (fp_pr_principal r), TextV (fp_pr_authority r)]"

definition host_authorization_row :: "fingerprint_host_authorization \<Rightarrow> sql_row" where
  "host_authorization_row r =
     [TextV (fp_ho_fingerprint r), TextV (fp_ho_hostname r), TextV (fp_ho_authority r)]"

definition extension_row :: "fingerprint_extension \<Rightarrow> sql_row" where
  "extension_row r = [TextV (fp_ex_fingerprint r), TextV (fp_ex_extension_name r),
     nullable TextV (fp_ex_extension_value r), TextV (fp_ex_authority r)]"

definition permission_row_of :: "fingerprint_permission \<Rightarrow> sql_row" where
  "permission_row_of r = [TextV (fp_pe_fingerprint r), BoolV (fp_pe_host_unrestricted r),
     BoolV (fp_pe_principal_unrestricted r), BoolV (fp_pe_can_create_host_certs r),
     BoolV (fp_pe_can_create_user_certs r), BigIntV (fp_pe_max_creation_time r),
     TextV (fp_pe_authority r)]"

definition registered_key_row :: "registered_key \<Rightarrow> sql_row" where
  "registered_key_row r = [TextV (rg_fingerprint r), TextV (rg_pubkey r), TextV (rg_user r),
     nullable TextV (rg_pin_policy r), nullable TextV (rg_touch_policy r),
     nullable TextV (rg_hsm_serial r), nullable TextV (rg_firmware r),
     nullable TextV (rg_attestation_certificate r), nullable TextV (rg_attestation_intermediate r),
     nullable TextV (rg_auth_data r), nullable TextV (rg_auth_data_signature r),
     nullable TextV (rg_aaguid r), nullable TextV (rg_challenge r),
     nullable IntegerV (rg_alg r), nullable TextV (rg_application r)]"

definition x509_row :: "x509_authorization_row \<Rightarrow> sql_row" where
  "x509_row r = [TextV (xo_user r), TextV (xo_hsm_serial r), BoolV (xo_require_touch r), TextV (xo_authority r)]"

section \<open>Well-formed databases\<close>

text \<open>Every table that can be read holds rows with distinct primary keys.\<close>

definition database_wf :: "database \<Rightarrow> bool" where
  "database_wf db \<longleftrightarrow>
     (\<forall>rows. db_principals db = Some rows \<longrightarrow>
        table_wf fingerprint_principal_authorizations_table (map principal_row rows)) \<and>
     (\<forall>rows. db_hosts db = Some rows \<longrightarrow>
        table_wf fingerprint_host_authorizations_table (map host_authorization_row rows)) \<and>
     (\<forall>rows. db_extensions db = Some rows \<longrightarrow>
        table_wf fingerprint_extensions_table (map extension_row rows)) \<and>
     (\<forall>rows. db_permissions db = Some rows \<longrightarrow>
        table_wf fingerprint_permissions_table (map permission_row_of rows)) \<and>
     (\<forall>rows. db_x509 db = Some rows \<longrightarrow> table_wf x509_authorizations_table (map x509_row rows)) \<and>
     (\<forall>rows. db_registered_keys db = Inr rows \<longrightarrow>
        table_wf registered_keys_table (map registered_key_row rows))"

definition databases_wf :: "databases \<Rightarrow> bool" where
  "databases_wf dbs \<longleftrightarrow> (\<forall>path db. dbs path = Some db \<longrightarrow> database_wf db)"

section \<open>Lemmas\<close>

lemmas table_defs = fingerprint_critical_options_table_def fingerprint_extensions_table_def
  fingerprint_host_authorizations_table_def fingerprint_permissions_table_def
  fingerprint_principal_authorizations_table_def hosts_table_def registered_keys_table_def
  x509_authorizations_table_def

lemmas row_defs = principal_row_def host_authorization_row_def extension_row_def permission_row_of_def
  registered_key_row_def x509_row_def host_row_def

lemma sql_type_values:
  "has_sql_type v SqlText \<longleftrightarrow> (\<exists>s. v = TextV s)"
  "has_sql_type v SqlBool \<longleftrightarrow> (\<exists>b. v = BoolV b)"
  "has_sql_type v SqlBigInt \<longleftrightarrow> (\<exists>i. v = BigIntV i)"
  "has_sql_type v SqlInteger \<longleftrightarrow> (\<exists>i. v = IntegerV i)"
  by (cases v; simp)+

lemma sql_nullable_values:
  "has_sql_type v (SqlNullable SqlText) \<longleftrightarrow> (\<exists>x. v = nullable TextV x)"
  "has_sql_type v (SqlNullable SqlInteger) \<longleftrightarrow> (\<exists>x. v = nullable IntegerV x)"
  by (cases v; auto simp: nullable_def split: option.splits)+

lemma conforms_Cons:
  "list_all2 has_sql_type row (t # ts) \<longleftrightarrow> (\<exists>v vs. row = v # vs \<and> has_sql_type v t \<and> list_all2 has_sql_type vs ts)"
  by (cases row) auto

text \<open>The rows that fit a declaration are the rows of the models.\<close>

lemma conforms_principal:
  "conforms fingerprint_principal_authorizations_table row \<longleftrightarrow> row \<in> range principal_row"
proof
  assume "conforms fingerprint_principal_authorizations_table row"
  then obtain a b c where "row = [TextV a, TextV b, TextV c]"
    by (auto simp: conforms_def table_defs conforms_Cons sql_type_values)
  then show "row \<in> range principal_row"
    by (intro image_eqI [of _ _ "\<lparr>fp_pr_fingerprint = a, fp_pr_principal = b, fp_pr_authority = c\<rparr>"])
       (simp_all add: row_defs)
qed (auto simp: conforms_def table_defs row_defs)

lemma conforms_host_authorization:
  "conforms fingerprint_host_authorizations_table row \<longleftrightarrow> row \<in> range host_authorization_row"
proof
  assume "conforms fingerprint_host_authorizations_table row"
  then obtain a b c where "row = [TextV a, TextV b, TextV c]"
    by (auto simp: conforms_def table_defs conforms_Cons sql_type_values)
  then show "row \<in> range host_authorization_row"
    by (intro image_eqI [of _ _ "\<lparr>fp_ho_fingerprint = a, fp_ho_hostname = b, fp_ho_authority = c\<rparr>"])
       (simp_all add: row_defs)
qed (auto simp: conforms_def table_defs row_defs)

lemma conforms_extension:
  "conforms fingerprint_extensions_table row \<longleftrightarrow> row \<in> range extension_row"
proof
  assume "conforms fingerprint_extensions_table row"
  then obtain a b c d where "row = [TextV a, TextV b, nullable TextV c, TextV d]"
    by (auto simp: conforms_def table_defs conforms_Cons sql_type_values sql_nullable_values)
  then show "row \<in> range extension_row"
    by (intro image_eqI [of _ _ "\<lparr>fp_ex_fingerprint = a, fp_ex_extension_name = b,
          fp_ex_extension_value = c, fp_ex_authority = d\<rparr>"]) (simp_all add: row_defs)
qed (auto simp: conforms_def table_defs row_defs sql_nullable_values)

lemma conforms_permission:
  "conforms fingerprint_permissions_table row \<longleftrightarrow> row \<in> range permission_row_of"
proof
  assume "conforms fingerprint_permissions_table row"
  then obtain a b c d e f g where
    "row = [TextV a, BoolV b, BoolV c, BoolV d, BoolV e, BigIntV f, TextV g]"
    by (auto simp: conforms_def table_defs conforms_Cons sql_type_values)
  then show "row \<in> range permission_row_of"
    by (intro image_eqI [of _ _ "\<lparr>fp_pe_fingerprint = a, fp_pe_host_unrestricted = b,
          fp_pe_principal_unrestricted = c, fp_pe_can_create_host_certs = d, fp_pe_can_create_user_certs = e,
          fp_pe_max_creation_time = f, fp_pe_authority = g\<rparr>"]) (simp_all add: row_defs)
qed (auto simp: conforms_def table_defs row_defs)

lemma conforms_x509: "conforms x509_authorizations_table row \<longleftrightarrow> row \<in> range x509_row"
proof
  assume "conforms x509_authorizations_table row"
  then obtain a b c d where "row = [TextV a, TextV b, BoolV c, TextV d]"
    by (auto simp: conforms_def table_defs conforms_Cons sql_type_values)
  then show "row \<in> range x509_row"
    by (intro image_eqI [of _ _ "\<lparr>xo_user = a, xo_hsm_serial = b, xo_require_touch = c, xo_authority = d\<rparr>"])
       (simp_all add: row_defs)
qed (auto simp: conforms_def table_defs row_defs)

lemma conforms_registered_key: "conforms registered_keys_table row \<longleftrightarrow> row \<in> range registered_key_row"
proof
  assume "conforms registered_keys_table row"
  then obtain a b c d e f g h i j k l m n p where
    "row = [TextV a, TextV b, TextV c, nullable TextV d, nullable TextV e, nullable TextV f,
       nullable TextV g, nullable TextV h, nullable TextV i, nullable TextV j, nullable TextV k,
       nullable TextV l, nullable TextV m, nullable IntegerV n, nullable TextV p]"
    by (simp add: conforms_def table_defs conforms_Cons sql_type_values sql_nullable_values) blast
  then show "row \<in> range registered_key_row"
    by (intro image_eqI [of _ _ "\<lparr>rg_fingerprint = a, rg_pubkey = b, rg_user = c, rg_pin_policy = d,
          rg_touch_policy = e, rg_hsm_serial = f, rg_firmware = g, rg_attestation_certificate = h,
          rg_attestation_intermediate = i, rg_auth_data = j, rg_auth_data_signature = k, rg_aaguid = l,
          rg_challenge = m, rg_alg = n, rg_application = p\<rparr>"]) (simp_all add: row_defs)
qed (auto simp: conforms_def table_defs row_defs sql_nullable_values sql_type_values)

lemmas conforms_models = conforms_principal conforms_host_authorization conforms_extension
  conforms_permission conforms_x509 conforms_registered_key

lemma nullable_value_inj [simp]:
  "nullable TextV x = nullable TextV y \<longleftrightarrow> x = y" "nullable IntegerV u = nullable IntegerV v \<longleftrightarrow> u = v"
  by (auto simp: nullable_def split: option.splits)

text \<open>The primary keys, read off the declarations.\<close>

lemma primary_keys [simp]:
  "primary_key fingerprint_principal_authorizations_table (principal_row p) =
     [TextV (fp_pr_fingerprint p), TextV (fp_pr_principal p), TextV (fp_pr_authority p)]"
  "primary_key fingerprint_host_authorizations_table (host_authorization_row h) =
     [TextV (fp_ho_fingerprint h), TextV (fp_ho_hostname h), TextV (fp_ho_authority h)]"
  "primary_key fingerprint_extensions_table (extension_row x) =
     [TextV (fp_ex_fingerprint x), TextV (fp_ex_extension_name x), TextV (fp_ex_authority x)]"
  "primary_key fingerprint_permissions_table (permission_row_of r) =
     [TextV (fp_pe_fingerprint r), TextV (fp_pe_authority r)]"
  "primary_key registered_keys_table (registered_key_row k) = [TextV (rg_fingerprint k)]"
  "primary_key x509_authorizations_table (x509_row a) = [TextV (xo_user a), TextV (xo_hsm_serial a)]"
  by (simp_all add: primary_key_def table_defs row_defs)

text \<open>A table of model rows is well-formed when its keys are distinct.\<close>

lemma table_wf_models:
  "(\<And>r. conforms t (f r)) \<Longrightarrow> table_wf t (map f rows) \<longleftrightarrow> distinct (map (\<lambda>r. primary_key t (f r)) rows)"
  by (simp add: table_wf_def list_all_iff comp_def)

lemma table_insert_wf:
  "table_wf t rows \<Longrightarrow> conforms t row \<Longrightarrow> table_insert t rows row = Some rows' \<Longrightarrow> table_wf t rows'"
  by (auto simp: table_wf_def table_insert_def split: if_splits)

lemma distinct_key_filter:
  assumes "distinct (map key rows)" and "\<And>r. P r \<Longrightarrow> key r = k"
  shows "length (filter P rows) \<le> 1"
  using assms
proof (induction rows)
  case (Cons r rows)
  show ?case
  proof (cases "P r")
    case True
    with Cons.prems have "\<forall>x \<in> set rows. \<not> P x" by (auto simp: rev_image_eqI)
    then have "filter P rows = []" by (simp add: filter_empty_conv)
    with True show ?thesis by simp
  qed (use Cons in auto)
qed simp

text \<open>
  Registering a key is the insertion SQLite makes for the declared table: the same rows are
  refused, and the row is appended.
\<close>

lemma insert_registered_key_table:
  assumes "db_registered_keys db = Inr rows"
  shows "insert_registered_key db k =
     (case table_insert registered_keys_table (map registered_key_row rows) (registered_key_row k) of
        None \<Rightarrow> Inl (db_unique_error db)
      | Some _ \<Rightarrow> Inr (db\<lparr>db_registered_keys := Inr (rows @ [k])\<rparr>))"
  using assms by (auto simp: insert_registered_key_def table_insert_def comp_def image_iff)

lemma registered_keys_wf_schema: "database_wf db \<Longrightarrow> registered_keys_wf db"
  by (auto simp: database_wf_def registered_keys_wf_def table_wf_def comp_def distinct_map inj_on_def
      split: sum.splits)

lemma insert_registered_key_database_wf:
  assumes "insert_registered_key db k = Inr db'" and "database_wf db"
  shows "database_wf db'"
proof -
  obtain rows where rows: "db_registered_keys db = Inr rows" "rg_fingerprint k \<notin> set (map rg_fingerprint rows)"
    "db' = db\<lparr>db_registered_keys := Inr (rows @ [k])\<rparr>"
    using assms(1) by (auto simp: insert_registered_key_Inr)
  have "table_wf registered_keys_table (map registered_key_row (rows @ [k]))"
    using rows assms(2)
    by (auto simp: database_wf_def table_wf_def conforms_registered_key)
  with rows(3) assms(2) show ?thesis by (simp add: database_wf_def)
qed

lemma register_key_local_databases_wf:
  assumes "register_key_local C dbs l req = (dbs', r)" and "databases_wf dbs"
  shows "databases_wf dbs'"
  using assms insert_registered_key_database_wf
  by (fastforce simp: register_key_local_def databases_wf_def split: option.splits sum.splits if_splits)

section \<open>Properties\<close>

text \<open>
  The authorizer's queries in terms of SQL: the rows whose named columns have given values, and the value of a named
  column of a row (the text of a null is empty).
\<close>

definition column :: "table \<Rightarrow> string \<Rightarrow> sql_row \<Rightarrow> sql_value" where
  "column t c row = (case map_of (zip (map fst (tbl_columns t)) row) c of Some v \<Rightarrow> v | None \<Rightarrow> NullV)"

definition text_column :: "table \<Rightarrow> string \<Rightarrow> sql_row \<Rightarrow> string" where
  "text_column t c row = (case column t c row of TextV s \<Rightarrow> s | _ \<Rightarrow> [])"

definition sql_select :: "table \<Rightarrow> (string \<times> sql_value) list \<Rightarrow> sql_row list \<Rightarrow> sql_row list" where
  "sql_select t conds rows = filter (\<lambda>row. list_all (\<lambda>(c, v). column t c row = v) conds) rows"

definition rows_for :: "table \<Rightarrow> string \<Rightarrow> string \<Rightarrow> sql_row list \<Rightarrow> sql_row list" where
  "rows_for t fp au = sql_select t [(''fingerprint'', TextV fp), (''authority'', TextV au)]"

lemma columns_by_name [simp]:
  "column fingerprint_principal_authorizations_table ''fingerprint'' (principal_row p) = TextV (fp_pr_fingerprint p)"
  "column fingerprint_principal_authorizations_table ''authority'' (principal_row p) = TextV (fp_pr_authority p)"
  "text_column fingerprint_principal_authorizations_table ''principal'' (principal_row p) = fp_pr_principal p"
  "column fingerprint_host_authorizations_table ''fingerprint'' (host_authorization_row h) = TextV (fp_ho_fingerprint h)"
  "column fingerprint_host_authorizations_table ''authority'' (host_authorization_row h) = TextV (fp_ho_authority h)"
  "text_column fingerprint_host_authorizations_table ''hostname'' (host_authorization_row h) = fp_ho_hostname h"
  "column fingerprint_extensions_table ''fingerprint'' (extension_row x) = TextV (fp_ex_fingerprint x)"
  "column fingerprint_extensions_table ''authority'' (extension_row x) = TextV (fp_ex_authority x)"
  "text_column fingerprint_extensions_table ''extension_name'' (extension_row x) = fp_ex_extension_name x"
  "text_column fingerprint_extensions_table ''extension_value'' (extension_row x) =
     (case fp_ex_extension_value x of None \<Rightarrow> [] | Some v \<Rightarrow> v)"
  "column fingerprint_permissions_table ''fingerprint'' (permission_row_of r) = TextV (fp_pe_fingerprint r)"
  "column fingerprint_permissions_table ''authority'' (permission_row_of r) = TextV (fp_pe_authority r)"
  "column fingerprint_permissions_table ''host_unrestricted'' (permission_row_of r) = BoolV (fp_pe_host_unrestricted r)"
  "column fingerprint_permissions_table ''principal_unrestricted'' (permission_row_of r) =
     BoolV (fp_pe_principal_unrestricted r)"
  "column fingerprint_permissions_table ''can_create_user_certs'' (permission_row_of r) =
     BoolV (fp_pe_can_create_user_certs r)"
  "column fingerprint_permissions_table ''can_create_host_certs'' (permission_row_of r) =
     BoolV (fp_pe_can_create_host_certs r)"
  "column fingerprint_permissions_table ''max_creation_time'' (permission_row_of r) =
     BigIntV (fp_pe_max_creation_time r)"
  by (simp_all add: column_def text_column_def table_defs row_defs nullable_def split: option.split)

lemma rows_for_models:
  "rows_for fingerprint_principal_authorizations_table fp au (map principal_row ps) =
     map principal_row (filter (\<lambda>r. fp_pr_fingerprint r = fp \<and> fp_pr_authority r = au) ps)"
  "rows_for fingerprint_host_authorizations_table fp au (map host_authorization_row hs) =
     map host_authorization_row (filter (\<lambda>r. fp_ho_fingerprint r = fp \<and> fp_ho_authority r = au) hs)"
  "rows_for fingerprint_extensions_table fp au (map extension_row es) =
     map extension_row (filter (\<lambda>r. fp_ex_fingerprint r = fp \<and> fp_ex_authority r = au) es)"
  "rows_for fingerprint_permissions_table fp au (map permission_row_of rs) =
     map permission_row_of (filter (\<lambda>r. fp_pe_fingerprint r = fp \<and> fp_pe_authority r = au) rs)"
  by (simp_all add: rows_for_def sql_select_def filter_map comp_def)

lemma queries_by_column:
  "principals_of db fp au = map_option (\<lambda>ps. map (text_column fingerprint_principal_authorizations_table ''principal'')
     (rows_for fingerprint_principal_authorizations_table fp au (map principal_row ps))) (db_principals db)"
  "hosts_of db fp au = map_option (\<lambda>hs. map (text_column fingerprint_host_authorizations_table ''hostname'')
     (rows_for fingerprint_host_authorizations_table fp au (map host_authorization_row hs))) (db_hosts db)"
  "extensions_of db fp au = map_option (\<lambda>es. hm_collect (map (\<lambda>row.
       (text_column fingerprint_extensions_table ''extension_name'' row,
        text_column fingerprint_extensions_table ''extension_value'' row))
     (rows_for fingerprint_extensions_table fp au (map extension_row es)))) (db_extensions db)"
  by (simp_all add: rows_for_models principals_of_def hosts_of_def extensions_of_def comp_def)

text \<open>
  The rows of the tables with a key's grants, in the order of the tables of a database; the queries fail when one of
  the tables cannot be read.
\<close>

definition grant_tables :: "database \<Rightarrow> (sql_row list \<times> sql_row list \<times> sql_row list \<times> sql_row list) option" where
  "grant_tables db = (case (db_principals db, db_hosts db, db_extensions db, db_permissions db) of
     (Some ps, Some hs, Some es, Some rs) \<Rightarrow>
       Some (map principal_row ps, map host_authorization_row hs, map extension_row es, map permission_row_of rs)
   | _ \<Rightarrow> None)"

text \<open>
  C25: The local authorizer's decision on an SSH certificate is the one the tables, read by their declared column
  names, prescribe: it grants exactly when the first row of \<^verbatim>\<open>fingerprint_permissions\<close> for the key and the authority
  allows the type of certificate; the validity ends the row's \<^verbatim>\<open>max_creation_time\<close> from now; principals and hosts are
  the \<^verbatim>\<open>principal\<close> and \<^verbatim>\<open>hostname\<close> columns of the rows for that key and authority unless the row lifts the
  restriction, and extensions the names and values there. No two columns can be mixed up between a table
  and the struct it is loaded into.
\<close>

theorem local_grants_by_column:
  "authorize_ssh_cert_local dbs now l req = Ok a \<longleftrightarrow>
     (\<exists>db ps hs es rs row rest ends.
        dbs (ld_path l) = Some db \<and> grant_tables db = Some (ps, hs, es, rs) \<and>
        rows_for fingerprint_permissions_table (sr_fingerprint req) (sr_authority req) rs = row # rest \<and>
        column fingerprint_permissions_table
          (case sr_cert_type req of User \<Rightarrow> ''can_create_user_certs'' | Host \<Rightarrow> ''can_create_host_certs'') row = BoolV True \<and>
        column fingerprint_permissions_table ''max_creation_time'' row = BigIntV ends \<and>
        a = \<lparr>sa_serial = 0,
             sa_valid_before = (case now of Some t \<Rightarrow> t | None \<Rightarrow> 0xEFFFFFFFFFFFFFFF) + ends,
             sa_valid_after = sr_valid_after req,
             sa_principals =
               (if column fingerprint_permissions_table ''principal_unrestricted'' row = BoolV True
                then sr_principals req
                else map (text_column fingerprint_principal_authorizations_table ''principal'')
                  (rows_for fingerprint_principal_authorizations_table (sr_fingerprint req) (sr_authority req) ps)),
             sa_hosts =
               (if column fingerprint_permissions_table ''host_unrestricted'' row = BoolV True then None
                else Some (map (text_column fingerprint_host_authorizations_table ''hostname'')
                  (rows_for fingerprint_host_authorizations_table (sr_fingerprint req) (sr_authority req) hs))),
             sa_extensions = hm_collect (map (\<lambda>row. (text_column fingerprint_extensions_table ''extension_name'' row,
                 text_column fingerprint_extensions_table ''extension_value'' row))
               (rows_for fingerprint_extensions_table (sr_fingerprint req) (sr_authority req) es)),
             sa_force_command = None, sa_force_source_ip = False, sa_authority = sr_authority req\<rparr>)"
  (is "?l \<longleftrightarrow> ?r")
proof -
  let ?fp = "sr_fingerprint req" and ?au = "sr_authority req"
  show ?thesis
  proof (cases "\<exists>db ps hs es rs. dbs (ld_path l) = Some db \<and> db_principals db = Some ps \<and> db_hosts db = Some hs \<and>
      db_extensions db = Some es \<and> db_permissions db = Some rs")
    case False
    then have "\<not> ?l"
      by (auto simp: authorize_ssh_cert_local_def establish_connection_def and_then_Ok principals_of_def hosts_of_def
          extensions_of_def permissions_of_def Let_def)
    moreover from False have "\<not> ?r" by (auto simp: grant_tables_def split: option.splits)
    ultimately show ?thesis by blast
  next
    case True
    then obtain db ps hs es rs where t: "dbs (ld_path l) = Some db" "db_principals db = Some ps" "db_hosts db = Some hs"
      "db_extensions db = Some es" "db_permissions db = Some rs" by blast
    show ?thesis
    proof (cases "filter (\<lambda>r. fp_pe_fingerprint r = ?fp \<and> fp_pe_authority r = ?au) rs")
      case Nil
      then show ?thesis
        by (simp add: t grant_tables_def rows_for_models authorize_ssh_cert_local_def establish_connection_def
            queries_by_column permissions_of_def Let_def)
    next
      case (Cons r rest)
      then show ?thesis
        by (auto simp add: t grant_tables_def rows_for_models authorize_ssh_cert_local_def establish_connection_def
            queries_by_column permissions_of_def Let_def comp_def split: cert_type.splits)
    qed
  qed
qed

text \<open>
  The model of the table of hosts does not fit: the column may be null, the field may not (no query
  loads it).
\<close>

lemma host_model_misfit: "conforms hosts_table [NullV, TextV fp] \<and> [NullV, TextV fp] \<notin> range host_row"
  by (auto simp: conforms_def table_defs row_defs)

text \<open>
  C26: In a well-formed database the authorizer's decisions do not depend on the order of rows: a key has at most one
  permission per authority, a user at most one X.509 authorization per device, and that for one authority only; the
  principals and hosts granted to a key are listed once each.
\<close>

theorem grants_unambiguous:
  assumes "database_wf db"
  shows "(permissions_of db fp au = Some rs \<longrightarrow> length rs \<le> 1) \<and>
     (principals_of db fp au = Some ps \<longrightarrow> distinct ps) \<and>
     (hosts_of db fp au = Some hs \<longrightarrow> distinct hs) \<and>
     (db_x509 db = Some xs \<and> a \<in> set xs \<and> b \<in> set xs \<and> xo_user a = xo_user b \<and>
        xo_hsm_serial a = xo_hsm_serial b \<longrightarrow> a = b)"
proof (intro conjI impI)
  assume "permissions_of db fp au = Some rs"
  then show "length rs \<le> 1"
    using assms distinct_key_filter [of "\<lambda>r. [TextV (fp_pe_fingerprint r), TextV (fp_pe_authority r)]" _
      "\<lambda>r. fp_pe_fingerprint r = fp \<and> fp_pe_authority r = au" "[TextV fp, TextV au]"]
    by (auto simp: permissions_of_def database_wf_def table_wf_def comp_def)
next
  assume "principals_of db fp au = Some ps"
  then show "distinct ps"
    using assms by (auto simp: principals_of_def database_wf_def table_wf_def comp_def distinct_map inj_on_def
        dest: distinct_filter)
next
  assume "hosts_of db fp au = Some hs"
  then show "distinct hs"
    using assms by (auto simp: hosts_of_def database_wf_def table_wf_def comp_def distinct_map inj_on_def
        dest: distinct_filter)
next
  assume x: "db_x509 db = Some xs \<and> a \<in> set xs \<and> b \<in> set xs \<and> xo_user a = xo_user b \<and>
    xo_hsm_serial a = xo_hsm_serial b"
  with assms have "inj_on (\<lambda>r. [TextV (xo_user r), TextV (xo_hsm_serial r)]) (set xs)"
    by (auto simp: database_wf_def table_wf_def comp_def distinct_map)
  with x show "a = b" by (auto dest: inj_onD)
qed

end
