(* ===== verification/Server_System.thy ===== *)
theory Server_System
  imports Server_Issue Server_Register Server_X509 Server_Signers Auth_Schema
begin

text \<open>
  The running service: \<^verbatim>\<open>impl Rustica for RusticaServer\<close> (\<^verbatim>\<open>rustica/src/server.rs\<close>) as one labelled
  transition system. A call is one of the six methods with its request and the clock readings it
  makes; \<open>serve\<close> runs the handler, and \<open>server_run\<close> any sequence of calls, from any clients. A handler that
  panics ends its own task only, so a run goes on after it.

  Handlers of concurrent calls are run one after another here; the one handler that gives up a lock on shared state
  it reads again, \<^verbatim>\<open>allowed_signers\<close>, is interleaved in \<^verbatim>\<open>Server_Signers\<close>.
\<close>

section \<open>Calls and runs\<close>

datatype server_call =
    CallChallenge "u64 option" "challenge_request request"
  | CallCertificate "u64 option" "u64 option" "u64 option" "certificate_request request"
  | CallRegisterKey "u64 option" "register_key_request request"
  | CallRegisterU2fKey "u64 option" "register_u2f_key_request request"
  | CallAttestedX509 "u64 option" "attested_x509_certificate_request request"
  | CallAllowedSigners "duration option" "unit request"

datatype server_reply =
    ChallengeReply "(challenge_response, status) result"
  | CertificateReply "(certificate_response, status) result"
  | RegisterReply "(unit, status) result"
  | X509Reply "(attested_x509_certificate_response, status) result"
  | SignersReply "(allowed_signers_response, status) result"

fun serve ::
    "('pk, 'sk, 'ca, 'l) server_env \<Rightarrow> server_call \<Rightarrow> ('pk, 'sk, 'ca, 'l) rustica_server
     \<Rightarrow> ('pk, 'sk, 'ca, 'l) rustica_server \<times> server_reply" where
  "serve E (CallChallenge now req) srv = map_prod id ChallengeReply (challenge_handler E now req srv)"
| "serve E (CallCertificate now1 now2 now3 req) srv =
     map_prod id CertificateReply (certificate_handler E now1 now2 now3 req srv)"
| "serve E (CallRegisterKey now req) srv = map_prod id RegisterReply (register_key_handler E now req srv)"
| "serve E (CallRegisterU2fKey now req) srv = map_prod id RegisterReply (register_u2f_key_handler E now req srv)"
| "serve E (CallAttestedX509 now req) srv =
     map_prod id X509Reply (attested_x509_certificate_handler E now req srv)"
| "serve E (CallAllowedSigners now req) srv = map_prod id SignersReply (allowed_signers_handler E now req srv)"

fun server_run ::
    "('pk, 'sk, 'ca, 'l) server_env \<Rightarrow> ('pk, 'sk, 'ca, 'l) rustica_server \<Rightarrow> server_call list
     \<Rightarrow> ('pk, 'sk, 'ca, 'l) rustica_server \<times> server_reply list" where
  "server_run E srv [] = (srv, [])"
| "server_run E srv (c # cs) =
     (let (srv1, r) = serve E c srv; (srv2, rs) = server_run E srv1 cs in (srv2, r # rs))"

section \<open>The audit trail\<close>

text \<open>What the log says about what was given away, and what the calls and their replies say about it.\<close>

datatype audit =
    AuditCertificate string "string list"
  | AuditKey string "string list"
  | AuditX509 "string list"

fun audit_entry :: "log \<Rightarrow> audit option" where
  "audit_entry (CertificateIssued ci) = Some (AuditCertificate (ci_fingerprint ci) (ci_mtls_identities ci))"
| "audit_entry (KeyRegistered ki) = Some (AuditKey (ki_fingerprint ki) (ki_mtls_identities ki))"
| "audit_entry (X509CertificateIssued x) = Some (AuditX509 (xi_mtls_identities x))"
| "audit_entry _ = None"

definition peer_identities :: "('pk, 'sk, 'ca, 'l) server_env \<Rightarrow> 'a request \<Rightarrow> string list" where
  "peer_identities E req = (case peer_certs req of
     Some (peer # _) \<Rightarrow>
       (case extract_certificate_information E peer of Ok info \<Rightarrow> mi_identities info | _ \<Rightarrow> [])
   | _ \<Rightarrow> [])"

definition claimed_key :: "('pk, 'sk, 'ca, 'l) server_env \<Rightarrow> challenge option \<Rightarrow> 'pk option" where
  "claimed_key E ch = Option.bind ch (\<lambda>c. pk_from_string (e_ssh E) (ch_pubkey c))"

definition claimed_fingerprint :: "('pk, 'sk, 'ca, 'l) server_env \<Rightarrow> challenge option \<Rightarrow> string" where
  "claimed_fingerprint E ch = (case claimed_key E ch of None \<Rightarrow> '''' | Some k \<Rightarrow> pk_hash (e_ssh E) k)"

fun call_audit :: "('pk, 'sk, 'ca, 'l) server_env \<Rightarrow> server_call \<Rightarrow> server_reply \<Rightarrow> audit list" where
  "call_audit E (CallCertificate _ _ _ req) (CertificateReply (Ok resp)) =
     (if ce_error_code resp = 0
      then [AuditCertificate (claimed_fingerprint E (cr_challenge (into_inner req))) (peer_identities E req)]
      else [])"
| "call_audit E (CallRegisterKey _ req) (RegisterReply (Ok _)) =
     [AuditKey (claimed_fingerprint E (rq_challenge (into_inner req))) (peer_identities E req)]"
| "call_audit E (CallRegisterU2fKey _ req) (RegisterReply (Ok _)) =
     [AuditKey (claimed_fingerprint E (ru_challenge (into_inner req))) (peer_identities E req)]"
| "call_audit E (CallAttestedX509 _ req) (X509Reply (Ok _)) = [AuditX509 (peer_identities E req)]"
| "call_audit _ _ _ = []"

text \<open>The row a successful registration writes: fingerprint, public key, owner.\<close>

definition claimed_row ::
    "('pk, 'sk, 'ca, 'l) server_env \<Rightarrow> challenge option \<Rightarrow> 'a request \<Rightarrow> (string \<times> string \<times> string) list" where
  "claimed_row E ch req = (case claimed_key E ch of
     None \<Rightarrow> []
   | Some k \<Rightarrow> [(pk_hash (e_ssh E) k, pk_to_string (e_ssh E) k, join_with '','' (peer_identities E req))])"

fun call_rows ::
    "('pk, 'sk, 'ca, 'l) server_env \<Rightarrow> server_call \<Rightarrow> server_reply \<Rightarrow> (string \<times> string \<times> string) list" where
  "call_rows E (CallRegisterKey _ req) (RegisterReply (Ok _)) = claimed_row E (rq_challenge (into_inner req)) req"
| "call_rows E (CallRegisterU2fKey _ req) (RegisterReply (Ok _)) = claimed_row E (ru_challenge (into_inner req)) req"
| "call_rows _ _ _ = []"

section \<open>What a call changes\<close>

text \<open>
  The fields no handler writes: keys, authorizer, signer, and the rest of the configuration. A call leaves them, appends to
  the log, and may write the databases (the rate limiter and the cache are not restricted here).
\<close>

definition settings ::
    "('pk, 'sk, 'ca, 'l) rustica_server \<Rightarrow> bytes \<times> 'sk \<times> authorization_mechanism \<times>
       ('pk, 'ca) signing_mechanism \<times> bool \<times> bool \<times> client_authority_configuration \<times>
       allowed_signers_configuration" where
  "settings srv = (hmac_key srv, challenge_key srv, srv_authorizer srv, srv_signer srv,
     require_rustica_proof srv, require_attestation_chain srv, client_authority srv, srv_allowed_signers srv)"

definition effect ::
    "log list \<Rightarrow> databases \<Rightarrow> ('pk, 'sk, 'ca, 'l) rustica_server \<Rightarrow> ('pk, 'sk, 'ca, 'l) rustica_server \<Rightarrow> bool" where
  "effect ls dbs srv srv' \<longleftrightarrow>
     settings srv' = settings srv \<and> log_sender srv' = log_sender srv @ ls \<and> srv_databases srv' = dbs"

text \<open>A call that gives nothing away.\<close>

definition quiet :: "('pk, 'sk, 'ca, 'l) rustica_server \<Rightarrow> ('pk, 'sk, 'ca, 'l) rustica_server \<Rightarrow> bool" where
  "quiet srv srv' \<longleftrightarrow> (\<exists>ls. List.map_filter audit_entry ls = [] \<and> effect ls (srv_databases srv) srv srv')"

lemma map_filter_append [simp]:
  "List.map_filter f (xs @ ys) = List.map_filter f xs @ List.map_filter f ys"
  by (simp add: List.map_filter_def)

lemma map_filter_one [simp]: "List.map_filter f [x] = (case f x of None \<Rightarrow> [] | Some y \<Rightarrow> [y])"
  by (auto simp: List.map_filter_def split: option.split)

lemma map_filter_none [simp]: "List.map_filter f [] = []"
  by (simp add: List.map_filter_def)

lemma effect_trans: "effect ls dbs s s' \<Longrightarrow> effect ls' dbs' s' s'' \<Longrightarrow> effect (ls @ ls') dbs' s s''"
  by (simp add: effect_def)

lemma effect_refl: "effect [] (srv_databases s) s s"
  by (simp add: effect_def)

lemma effect_register: "effect [l] dbs s (send_log l (s\<lparr>srv_databases := dbs\<rparr>))"
  by (simp add: effect_def send_log_def settings_def)

lemma effect_send_log: "effect [l] (srv_databases s) s (send_log l s)"
  by (simp add: effect_def send_log_def settings_def)

lemma quiet_refl [simp]: "quiet s s"
  unfolding quiet_def by (rule exI [of _ "[]"]) (simp add: effect_refl)

lemma quiet_send_log [simp]: "audit_entry l = None \<Longrightarrow> quiet s (send_log l s)"
  unfolding quiet_def by (rule exI [of _ "[l]"]) (simp add: effect_send_log)

lemma quiet_messages [simp]: "quiet s (rustica_error m s)" "quiet s (rustica_warning m s)"
  by (simp_all add: rustica_error_def rustica_warning_def)

lemma quiet_updates [simp]:
  "quiet s (s\<lparr>allowed_signers_rate_limiter := l\<rparr>)" "quiet s (s\<lparr>srv_allowed_signers_cache := c\<rparr>)"
  by (auto simp: quiet_def effect_def settings_def intro: exI [of _ "[]"])

lemma quiet_trans [trans]:
  assumes "quiet s s'" and "quiet s' s''"
  shows "quiet s s''"
proof -
  obtain ls ls' where "List.map_filter audit_entry ls = []" "effect ls (srv_databases s) s s'"
    "List.map_filter audit_entry ls' = []" "effect ls' (srv_databases s') s' s''"
    using assms unfolding quiet_def by blast
  then show ?thesis
    unfolding quiet_def by (intro exI [of _ "ls @ ls'"]) (simp add: effect_def)
qed

subsection \<open>The handlers\<close>

lemma validate_request_quiet: "validate_request E now peers ch srv = (srv', r) \<Longrightarrow> quiet srv srv'"
  by (auto simp: validate_request_def validate_certificate_def Let_def
      split: list.splits result.splits sum.splits option.splits if_splits prod.splits)

lemma challenge_quiet: "challenge_handler E now req srv = (srv', r) \<Longrightarrow> quiet srv srv'"
  by (auto simp: challenge_handler_def Let_def split: option.splits list.splits result.splits if_splits)

lemma issue_certificate_quiet:
  "issue_certificate E addr k ids refresh t authority ca auth srv = (srv', r) \<Longrightarrow>
   \<not> (\<exists>resp. r = Ok resp \<and> ce_error_code resp = 0) \<Longrightarrow> quiet srv srv'"
  by (auto simp: issue_certificate_def Let_def split: option.splits result.splits sum.splits)

lemma authorize_and_issue_quiet:
  "authorize_and_issue E now2 now3 addr q v srv = (srv', r) \<Longrightarrow>
   \<not> (\<exists>resp. r = Ok resp \<and> ce_error_code resp = 0) \<Longrightarrow> quiet srv srv'"
  by (auto simp: authorize_and_issue_def Let_def dest: issue_certificate_quiet
      split: prod.splits option.splits result.splits if_splits)

lemma certificate_quiet:
  assumes "certificate_handler E now1 now2 now3 req srv = (srv', r)"
    and "\<not> (\<exists>resp. r = Ok resp \<and> ce_error_code resp = 0)"
  shows "quiet srv srv'"
  using assms
  by (auto simp: certificate_handler_def Let_def
      dest!: validate_request_quiet authorize_and_issue_quiet intro: quiet_trans
      split: option.splits prod.splits result.splits)

lemma check_attestation_quiet: "check_attestation L v k ids ip srv = (srv', r) \<Longrightarrow> quiet srv srv'"
  by (auto simp: check_attestation_def split: result.splits if_splits)

lemma register_with_authorizer_quiet:
  assumes "register_with_authorizer E props srv = (srv', r)" and "r \<noteq> Ok ()"
  shows "quiet srv srv'"
proof -
  obtain dbs q where q: "register_key_auth (e_crypto E) (e_author E) (srv_authorizer srv) (srv_databases srv) props
      = (dbs, q)" by fastforce
  with assms have "q \<noteq> Ok ()" by (auto simp: register_with_authorizer_def Let_def)
  with q have "dbs = srv_databases srv" by (rule mechanism.register_atomic)
  with q assms show ?thesis
    by (auto simp: register_with_authorizer_def Let_def split: result.splits)
qed

lemma register_attested_quiet:
  assumes "register_attested E v k ids ip srv = (srv', r)" and "r \<noteq> Ok ()"
  shows "quiet srv srv'"
  using assms
  by (auto simp: register_attested_def dest!: check_attestation_quiet register_with_authorizer_quiet
      intro: quiet_trans split: prod.splits result.splits)

lemma register_quiet:
  assumes "register_key_handler E now req srv = (srv', r) \<or> register_u2f_key_handler E now ureq srv = (srv', r)"
    and "r \<noteq> Ok ()"
  shows "quiet srv srv'"
  using assms
  by (auto simp: register_key_handler_def register_u2f_key_handler_def Let_def
      dest!: register_attested_quiet validate_request_quiet intro: quiet_trans quiet_messages
      split: option.splits prod.splits result.splits)

lemma check_new_certificate_quiet: "check_new_certificate E ids c a srv = (srv', r) \<Longrightarrow> quiet srv srv'"
  by (auto simp: check_new_certificate_def split: sum.splits if_splits)

lemma issue_x509_quiet:
  "issue_x509 E r ids authority auth srv = (srv', res) \<Longrightarrow> \<not> is_ok res \<Longrightarrow> quiet srv srv'"
  by (auto simp: issue_x509_def Let_def dest: check_new_certificate_quiet
      split: sum.splits result.splits option.splits if_splits prod.splits)

lemma single_peer_quiet: "single_peer a ps srv = (srv', r) \<Longrightarrow> quiet srv srv'"
  by (auto simp: single_peer_def split: list.splits if_splits)

lemma x509_quiet:
  assumes "attested_x509_certificate_handler E now req srv = (srv', r)" and "\<not> is_ok r"
  shows "quiet srv srv'"
  using assms
  by (auto simp: attested_x509_certificate_handler_def Let_def dest!: single_peer_quiet
      intro: quiet_trans issue_x509_quiet quiet_messages split: option.splits prod.splits result.splits)

lemma signers_admit_quiet: "signers_admit E now req srv = (srv', r) \<Longrightarrow> quiet srv srv'"
  by (auto simp: signers_admit_def is_rate_limited_def Let_def
      split: option.splits list.splits result.splits prod.splits if_splits)

lemma signers_refresh_quiet: "signers_refresh E t srv = (srv', response, r) \<Longrightarrow> quiet srv srv'"
  by (auto simp: signers_refresh_def Let_def split: option.splits result.splits)

lemma signers_quiet: "allowed_signers_handler E now req srv = (srv', r) \<Longrightarrow> quiet srv srv'"
  by (auto simp: allowed_signers_handler_def dest!: signers_admit_quiet signers_refresh_quiet
      intro: quiet_trans split: prod.splits result.splits option.splits)

text \<open>A validated request is for the key and the identities it claims.\<close>

lemma validated_claims:
  assumes "validate_request E now peers ch srv = (srv', Ok (k, ids, refresh))" and "peer_certs req = Some peers"
  shows "claimed_key E (Some ch) = Some k" "peer_identities E req = ids"
  using assms
  by (auto simp: validate_request_stages validate_certificate_Ok claimed_key_def peer_identities_def)

lemma certificate_effect:
  assumes "certificate_handler E now1 now2 now3 req srv = (srv', Ok resp)" and "ce_error_code resp = 0"
  shows "\<exists>l. audit_entry l = Some (AuditCertificate (claimed_fingerprint E (cr_challenge (into_inner req)))
     (peer_identities E req)) \<and> srv' = send_log l srv"
proof -
  obtain addr ch peers k ids refresh where
    req: "cr_challenge (into_inner req) = Some ch" "peer_certs req = Some peers"
      "validate_request E now1 peers ch srv = (srv, Ok (k, ids, refresh))"
    and issue: "authorize_and_issue E now2 now3 addr (into_inner req) (k, ids, refresh) srv = (srv', Ok resp)"
    using conjI [OF assms] unfolding certificate_handler_success by blast
  from conjI [OF issue assms(2)] obtain ca authority t auth crit where
    "srv' = send_log (certificate_issued_log (e_ssh E) k ca authority t ids auth crit refresh) srv"
    unfolding authorize_and_issue_success issue_certificate_success by blast
  moreover have "audit_entry (certificate_issued_log (e_ssh E) k ca authority t ids auth crit refresh) =
     Some (AuditCertificate (claimed_fingerprint E (cr_challenge (into_inner req))) (peer_identities E req))"
    using req(1) validated_claims [OF req(3,2)]
    by (simp add: certificate_issued_log_def claimed_fingerprint_def)
  ultimately show ?thesis by blast
qed

lemma x509_effect:
  assumes "attested_x509_certificate_handler E now req srv = (srv', Ok resp)"
  shows "\<exists>l. audit_entry l = Some (AuditX509 (peer_identities E req)) \<and> srv' = send_log l srv"
proof -
  obtain peer info authority auth where "peer_certs req = Some [peer]"
    "extract_certificate_information E peer = Ok info"
    "issue_x509 E (into_inner req) (mi_identities info) authority auth srv = (srv', Ok resp)"
    using assms
    by (auto simp: attested_x509_certificate_handler_def Let_def split: option.splits prod.splits result.splits)
  then have "srv' = send_log (x509_log (e_crypto E) authority (mi_identities info) auth) srv"
    and "mi_identities info = peer_identities E req"
    by (auto simp: issue_x509_Ok peer_identities_def)
  then show ?thesis
    by (intro exI [of _ "x509_log (e_crypto E) authority (mi_identities info) auth"]) (simp add: x509_log_def)
qed

lemma register_u2f_key_stages:
  "register_u2f_key_handler E now req srv = (srv', Ok u) \<longleftrightarrow>
     (\<exists>ch peers k ids refresh. ru_challenge (into_inner req) = Some ch \<and> peer_certs req = Some peers \<and>
        validate_request E now peers ch srv = (srv, Ok (k, ids, refresh)) \<and>
        register_attested E (verify_u2f_certificate_chain (e_ssh E) (e_crypto E)
          (ru_auth_data (into_inner req)) (ru_auth_data_signature (into_inner req))
          (ru_intermediate (into_inner req)) (ru_alg (into_inner req)) (ru_u2f_challenge (into_inner req))
          (ru_sk_application (into_inner req)) (ru_u2f_challenge_hashed (into_inner req)))
          k ids (requester_ip_of req) srv = (srv', Ok u))"
  by (auto simp: register_u2f_key_handler_def Let_def dest: validate_request_same
      split: option.splits prod.splits result.splits)

subsection \<open>One call\<close>

text \<open>How a successful registration changes the databases, and what a call that accounts for \<open>audits\<close> and \<open>rows\<close> does.\<close>

definition databases_step ::
    "('pk, 'sk, 'ca, 'l) server_env \<Rightarrow> authorization_mechanism \<Rightarrow> (string \<times> string \<times> string) list
     \<Rightarrow> databases \<Rightarrow> databases \<Rightarrow> bool" where
  "databases_step E au rows dbs dbs' \<longleftrightarrow> (rows = [] \<and> dbs' = dbs) \<or>
     (\<exists>props. register_key_auth (e_crypto E) (e_author E) au dbs props = (dbs', Ok ()) \<and>
        rows = [(rk_fingerprint props, rk_pubkey props, join_with '','' (rk_mtls_identities props))])"

definition accounted ::
    "('pk, 'sk, 'ca, 'l) server_env \<Rightarrow> audit list \<Rightarrow> (string \<times> string \<times> string) list
     \<Rightarrow> ('pk, 'sk, 'ca, 'l) rustica_server \<Rightarrow> ('pk, 'sk, 'ca, 'l) rustica_server \<Rightarrow> bool" where
  "accounted E audits rows srv srv' \<longleftrightarrow> (\<exists>ls. List.map_filter audit_entry ls = audits \<and>
     databases_step E (srv_authorizer srv) rows (srv_databases srv) (srv_databases srv') \<and>
     effect ls (srv_databases srv') srv srv')"

lemma accounted_quiet: "quiet srv srv' \<Longrightarrow> accounted E [] [] srv srv'"
  by (auto simp: quiet_def accounted_def databases_step_def effect_def)

lemma accounted_send: "audit_entry l = Some a \<Longrightarrow> accounted E [a] [] srv (send_log l srv)"
  unfolding accounted_def
  by (rule exI [of _ "[l]"]) (use effect_send_log [of l srv] in \<open>simp add: databases_step_def\<close>)

lemma accounted_registration:
  assumes "validate_request E now peers ch srv = (srv, Ok (k, ids, refresh))" and "peer_certs req = Some peers"
    and "register_attested E v k ids ip srv = (srv', Ok u)"
  shows "accounted E [AuditKey (claimed_fingerprint E (Some ch)) (peer_identities E req)]
     (claimed_row E (Some ch) req) srv srv'"
proof -
  note claims = validated_claims [OF assms(1,2)]
  obtain att dbs where reg: "register_key_auth (e_crypto E) (e_author E) (srv_authorizer srv) (srv_databases srv)
      \<lparr>rk_fingerprint = pk_hash (e_ssh E) k, rk_pubkey = pk_to_string (e_ssh E) k,
       rk_mtls_identities = ids, rk_requester_ip = ip, rk_attestation = att\<rparr> = (dbs, Ok ())"
    and srv': "srv' = send_log (KeyRegistered \<lparr>ki_fingerprint = pk_hash (e_ssh E) k, ki_mtls_identities = ids\<rparr>)
       (srv\<lparr>srv_databases := dbs\<rparr>)"
    using assms(3) unfolding register_attested_Ok by blast
  have "effect [KeyRegistered \<lparr>ki_fingerprint = pk_hash (e_ssh E) k, ki_mtls_identities = ids\<rparr>] dbs srv srv'"
    unfolding srv' by (rule effect_register)
  moreover have "databases_step E (srv_authorizer srv) (claimed_row E (Some ch) req) (srv_databases srv) dbs"
    using reg claims unfolding databases_step_def claimed_row_def by fastforce
  ultimately show ?thesis
    using claims unfolding accounted_def
    by (intro exI [of _ "[KeyRegistered \<lparr>ki_fingerprint = pk_hash (e_ssh E) k, ki_mtls_identities = ids\<rparr>]"])
       (auto simp: claimed_fingerprint_def effect_def)
qed

lemma register_call_accounted:
  assumes "register_key_handler E now req srv = (srv', r)"
  shows "accounted E (call_audit E (CallRegisterKey now req) (RegisterReply r))
     (call_rows E (CallRegisterKey now req) (RegisterReply r)) srv srv'"
proof (cases "r = Ok ()")
  case True
  with assms have ok: "register_key_handler E now req srv = (srv', Ok ())" by simp
  from ok [unfolded register_key_stages] obtain ch peers k ids refresh v where "rq_challenge (into_inner req) = Some ch"
    "validate_request E now peers ch srv = (srv, Ok (k, ids, refresh))" "peer_certs req = Some peers"
    "register_attested E v k ids (requester_ip_of req) srv = (srv', Ok ())"
    by blast
  with True accounted_registration show ?thesis by fastforce
next
  case False
  with assms register_quiet accounted_quiet show ?thesis by (cases r) fastforce+
qed

lemma register_u2f_call_accounted:
  assumes "register_u2f_key_handler E now req srv = (srv', r)"
  shows "accounted E (call_audit E (CallRegisterU2fKey now req) (RegisterReply r))
     (call_rows E (CallRegisterU2fKey now req) (RegisterReply r)) srv srv'"
proof (cases "r = Ok ()")
  case True
  with assms have ok: "register_u2f_key_handler E now req srv = (srv', Ok ())" by simp
  from ok [unfolded register_u2f_key_stages] obtain ch peers k ids refresh v where "ru_challenge (into_inner req) = Some ch"
    "validate_request E now peers ch srv = (srv, Ok (k, ids, refresh))" "peer_certs req = Some peers"
    "register_attested E v k ids (requester_ip_of req) srv = (srv', Ok ())"
    by blast
  with True accounted_registration show ?thesis by fastforce
next
  case False
  with assms register_quiet accounted_quiet show ?thesis by (cases r) fastforce+
qed

lemma certificate_call_accounted:
  assumes "certificate_handler E n1 n2 n3 req srv = (srv', r)"
  shows "accounted E (call_audit E (CallCertificate n1 n2 n3 req) (CertificateReply r)) [] srv srv'"
proof (cases "\<exists>resp. r = Ok resp \<and> ce_error_code resp = 0")
  case True
  with assms certificate_effect accounted_send show ?thesis by fastforce
next
  case False
  then have "call_audit E (CallCertificate n1 n2 n3 req) (CertificateReply r) = []" by (cases r) auto
  with accounted_quiet [OF certificate_quiet [OF assms False]] show ?thesis by simp
qed

lemma x509_call_accounted:
  assumes "attested_x509_certificate_handler E now req srv = (srv', r)"
  shows "accounted E (call_audit E (CallAttestedX509 now req) (X509Reply r)) [] srv srv'"
proof (cases r)
  case (Ok resp)
  with assms x509_effect accounted_send show ?thesis by fastforce
qed (use assms accounted_quiet [OF x509_quiet [OF assms]] in auto)

lemma serve_accounted:
  assumes "serve E c srv = (srv', r)"
  shows "accounted E (call_audit E c r) (call_rows E c r) srv srv'"
  using assms
  by (cases c) (auto simp: map_prod_def dest: register_call_accounted register_u2f_call_accounted
      certificate_call_accounted x509_call_accounted accounted_quiet [OF challenge_quiet]
      accounted_quiet [OF signers_quiet] simp del: call_audit.simps(1-4) call_rows.simps(1-2) split: prod.splits)

lemma validated_row:
  "validate_request E now peers ch srv = (srv', Ok (k, ids, refresh)) \<Longrightarrow> peer_certs req = Some peers
     \<Longrightarrow> claimed_row E (Some ch) req \<noteq> []"
  by (auto simp: claimed_row_def dest: validated_claims(1))

lemma registration_rows:
  assumes "serve E c srv = (srv', RegisterReply (Ok ()))"
  shows "call_rows E c (RegisterReply (Ok ())) \<noteq> []"
  using assms
  by (cases c) (auto simp: map_prod_def register_key_stages register_u2f_key_stages dest: validated_row
      split: prod.splits)

section \<open>Runs\<close>

lemma server_run_Cons:
  assumes "serve E c srv = (s, r)"
  shows "fst (server_run E srv (c # cs)) = fst (server_run E s cs)"
    and "snd (server_run E srv (c # cs)) = r # snd (server_run E s cs)"
  using assms by (simp_all add: Let_def split: prod.splits)

declare server_run.simps(2) [simp del]

text \<open>An invariant of every call is an invariant of every run.\<close>

lemma server_run_induct:
  assumes "I srv" and "\<And>c s s' r. serve E c s = (s', r) \<Longrightarrow> I s \<Longrightarrow> I s'"
  shows "I (fst (server_run E srv calls))"
  using assms(1)
proof (induction calls arbitrary: srv)
  case (Cons c cs)
  obtain s r where "serve E c srv = (s, r)" by fastforce
  with Cons assms(2) show ?case by (simp add: server_run_Cons)
qed simp

lemma server_run_settings: "settings (fst (server_run E srv calls)) = settings srv"
  by (rule server_run_induct [where I = "\<lambda>s. settings s = settings srv"])
     (auto dest!: serve_accounted simp: accounted_def effect_def)

lemma length_server_run [simp]: "length (snd (server_run E srv calls)) = length calls"
proof (induction calls arbitrary: srv)
  case (Cons c cs)
  obtain s r where "serve E c srv = (s, r)" by fastforce
  with Cons show ?case by (simp add: server_run_Cons)
qed simp

lemma server_run_append:
  "server_run E srv (cs @ ds) =
     (let (srv1, rs) = server_run E srv cs; (srv2, ss) = server_run E srv1 ds in (srv2, rs @ ss))"
  by (induction cs arbitrary: srv) (auto simp: server_run.simps(2) Let_def split: prod.splits)

lemma register_key_auth_databases_wf:
  "register_key_auth C A au dbs props = (dbs', r) \<Longrightarrow> databases_wf dbs \<Longrightarrow> databases_wf dbs'"
  by (cases au) (auto dest: register_key_local_databases_wf)

lemma databases_step_wf: "databases_step E au rows dbs dbs' \<Longrightarrow> databases_wf dbs \<Longrightarrow> databases_wf dbs'"
  by (auto simp: databases_step_def dest: register_key_auth_databases_wf)

lemma databases_step_local:
  assumes "databases_step E (Local l) rows dbs dbs'" and "dbs (ld_path l) = Some db"
    and "db_registered_keys db = Inr old"
  shows "\<exists>new. dbs' = dbs(ld_path l \<mapsto> db\<lparr>db_registered_keys := Inr (old @ new)\<rparr>) \<and>
     map (\<lambda>k. (rg_fingerprint k, rg_pubkey k, rg_user k)) new = rows"
proof (cases "rows = [] \<and> dbs' = dbs")
  case True
  with assms show ?thesis by (intro exI [of _ "[]"]) (auto simp: fun_upd_idem)
next
  case False
  then obtain props where props: "register_key_local (e_crypto E) dbs l props = (dbs', Ok ())"
    "rows = [(rk_fingerprint props, rk_pubkey props, join_with '','' (rk_mtls_identities props))]"
    using assms(1) by (auto simp: databases_step_def)
  then have "dbs' = dbs(ld_path l \<mapsto> db\<lparr>db_registered_keys := Inr (old @ [new_registered_key (e_crypto E) props])\<rparr>)"
    using assms(2,3) by (auto simp: register_key_local_Ok insert_registered_key_Inr)
  with props(2) show ?thesis by (intro exI [of _ "[new_registered_key (e_crypto E) props]"]) simp
qed

text \<open>
  C7: The log is a complete and truthful audit trail: whatever calls arrive in whatever order, the entries for issued
  certificates and registered keys in the log are exactly those of the calls that were answered with success, in their
  order, each for the key and the identities of its call; and no call changes the server's keys, its
  authorizer, its signers or the rest of its configuration.
\<close>

theorem audit_trail_exact:
  "(\<exists>logs. log_sender (fst (server_run E srv calls)) = log_sender srv @ logs \<and>
      List.map_filter audit_entry logs = concat (map2 (call_audit E) calls (snd (server_run E srv calls)))) \<and>
   settings (fst (server_run E srv calls)) = settings srv"
proof (rule conjI [OF _ server_run_settings])
  show "\<exists>logs. log_sender (fst (server_run E srv calls)) = log_sender srv @ logs \<and>
      List.map_filter audit_entry logs = concat (map2 (call_audit E) calls (snd (server_run E srv calls)))"
  proof (induction calls arbitrary: srv)
    case (Cons c cs)
    obtain s r where s: "serve E c srv = (s, r)" by fastforce
    then obtain ls where ls: "log_sender s = log_sender srv @ ls" "List.map_filter audit_entry ls = call_audit E c r"
      using serve_accounted [OF s] by (auto simp: accounted_def effect_def)
    obtain logs where "log_sender (fst (server_run E s cs)) = log_sender s @ logs"
      "List.map_filter audit_entry logs = concat (map2 (call_audit E) cs (snd (server_run E s cs)))"
      using Cons.IH by blast
    with s ls show ?case
      by (intro exI [of _ "ls @ logs"]) (simp add: server_run_Cons)
  qed simp
qed

lemma server_run_databases_wf:
  assumes "databases_wf (srv_databases srv)"
  shows "databases_wf (srv_databases (fst (server_run E srv calls)))"
  by (rule server_run_induct [where I = "\<lambda>s. databases_wf (srv_databases s)"])
     (use assms databases_step_wf serve_accounted in \<open>fastforce simp: accounted_def\<close>)+

lemma server_run_rows:
  assumes "srv_authorizer srv = Local l" and "srv_databases srv (ld_path l) = Some db"
    and "db_registered_keys db = Inr old"
  shows "\<exists>new. srv_databases (fst (server_run E srv calls)) =
       (srv_databases srv)(ld_path l \<mapsto> db\<lparr>db_registered_keys := Inr (old @ new)\<rparr>) \<and>
     map (\<lambda>k. (rg_fingerprint k, rg_pubkey k, rg_user k)) new =
       concat (map2 (call_rows E) calls (snd (server_run E srv calls)))"
  using assms
proof (induction calls arbitrary: srv db old)
  case Nil
  then show ?case by (intro exI [of _ "[]"]) (auto simp: fun_upd_idem)
next
  case (Cons c cs)
  obtain s r where s: "serve E c srv = (s, r)" by fastforce
  then have step: "databases_step E (Local l) (call_rows E c r) (srv_databases srv) (srv_databases s)"
    "srv_authorizer s = Local l"
    using serve_accounted [OF s] Cons.prems(1) by (auto simp: accounted_def effect_def settings_def)
  from databases_step_local [OF step(1) Cons.prems(2,3)] obtain new where
    new: "srv_databases s = (srv_databases srv)(ld_path l \<mapsto> db\<lparr>db_registered_keys := Inr (old @ new)\<rparr>)"
      "map (\<lambda>k. (rg_fingerprint k, rg_pubkey k, rg_user k)) new = call_rows E c r" by blast
  let ?db = "db\<lparr>db_registered_keys := Inr (old @ new)\<rparr>"
  have "srv_databases s (ld_path l) = Some ?db" "db_registered_keys ?db = Inr (old @ new)" using new(1) by simp_all
  from Cons.IH [OF step(2) this] obtain new' where
    new': "srv_databases (fst (server_run E s cs)) =
       (srv_databases s)(ld_path l \<mapsto> ?db\<lparr>db_registered_keys := Inr ((old @ new) @ new')\<rparr>)"
    "map (\<lambda>k. (rg_fingerprint k, rg_pubkey k, rg_user k)) new' =
       concat (map2 (call_rows E) cs (snd (server_run E s cs)))" by blast
  have "srv_databases (fst (server_run E s cs)) =
       (srv_databases srv)(ld_path l \<mapsto> db\<lparr>db_registered_keys := Inr (old @ new @ new')\<rparr>)"
    unfolding new'(1) unfolding new(1) by simp
  with s new(2) new'(2) show ?case
    by (intro exI [of _ "new @ new'"]) (simp add: server_run_Cons del: fun_upd_apply)
qed

text \<open>
  C8: The database of registered keys changes in a run by exactly the successful registrations: a row for each of them, in
  their order, with the fingerprint and text of the key that answered the challenge and the identities of the client that
  registered it; no other table and no other database changes, no row is changed or removed, and
  well-formed databases (rows that fit their tables, distinct primary keys) stay so.
\<close>

theorem registrations_exact:
  assumes "srv_authorizer srv = Local l" and "srv_databases srv (ld_path l) = Some db"
    and "db_registered_keys db = Inr old" and "databases_wf (srv_databases srv)"
  shows "\<exists>new. srv_databases (fst (server_run E srv calls)) =
       (srv_databases srv)(ld_path l \<mapsto> db\<lparr>db_registered_keys := Inr (old @ new)\<rparr>) \<and>
     map (\<lambda>k. (rg_fingerprint k, rg_pubkey k, rg_user k)) new =
       concat (map2 (call_rows E) calls (snd (server_run E srv calls))) \<and>
     databases_wf (srv_databases (fst (server_run E srv calls)))"
  using server_run_rows [OF assms(1-3)] server_run_databases_wf [OF assms(4)] by blast

text \<open>
  C24: A key that was registered, over PIV or U2F, with a server that keeps its own database is among the allowed signers the
  server lists, under the identities of the client certificate it was registered with, and stays so whatever
  calls follow.
\<close>

theorem registered_key_stays_listed:
  assumes "serve E c srv = (srv', RegisterReply (Ok ()))" and "srv_authorizer srv = Local l"
  shows "\<exists>fp pubkey user a. call_rows E c (RegisterReply (Ok ())) = [(fp, pubkey, user)] \<and>
     get_allowed_signers (e_author E) (srv_databases (fst (server_run E srv' calls)))
       (srv_authorizer (fst (server_run E srv' calls))) = Ok a \<and>
     \<lparr>as_identity = user, as_pubkey = pubkey\<rparr> \<in> set (as_allowed_signers a)"
proof -
  have step: "accounted E (call_audit E c (RegisterReply (Ok ()))) (call_rows E c (RegisterReply (Ok ()))) srv srv'"
    using serve_accounted [OF assms(1)] .
  then have au: "srv_authorizer srv' = Local l"
    using assms(2) by (auto simp: accounted_def effect_def settings_def)
  from step registration_rows [OF assms(1)] assms(2) obtain props where props:
    "register_key_local (e_crypto E) (srv_databases srv) l props = (srv_databases srv', Ok ())"
    "call_rows E c (RegisterReply (Ok ())) =
       [(rk_fingerprint props, rk_pubkey props, join_with '','' (rk_mtls_identities props))]"
    by (auto simp: accounted_def databases_step_def)
  then obtain db old where db: "srv_databases srv' (ld_path l) = Some db"
    "db_registered_keys db = Inr (old @ [new_registered_key (e_crypto E) props])"
    by (auto simp: register_key_local_Ok insert_registered_key_Inr)
  from server_run_rows [OF au db, of E calls] obtain new where
    "srv_databases (fst (server_run E srv' calls)) (ld_path l) = Some (db\<lparr>db_registered_keys :=
       Inr ((old @ [new_registered_key (e_crypto E) props]) @ new)\<rparr>)" by auto
  moreover have "srv_authorizer (fst (server_run E srv' calls)) = Local l"
    using server_run_settings [of E srv' calls] au by (simp add: settings_def)
  ultimately show ?thesis
    using props(2) by (auto simp: get_allowed_signers_local_def establish_connection_def)
qed

end
