(* ===== verification/Agent_Config.thy ===== *)
theory Agent_Config
  imports Agent_Client
begin

text \<open>
  \<^verbatim>\<open>rustica-agent/src/config/mod.rs\<close>: the agent's configuration file, in its two versions, and the copy in
  memory that is written back when a server hands out new credentials. TOML is a parameter.
\<close>

record agent_options =
  op_principals :: "string list option"
  op_hosts :: "string list option"
  op_kind :: "string option"
  op_duration :: "u64 option"
  op_authority :: "string option"

record agent_config =
  ac_version :: u64
  ac_servers :: "agent_server list"
  ac_slot :: "string option"
  ac_key :: "string option"
  ac_options :: "agent_options option"
  ac_socket :: "string option"

record agent_config_v1 =
  v1_server :: string
  v1_ca_pem :: string
  v1_mtls_cert :: string
  v1_mtls_key :: string
  v1_slot :: "string option"
  v1_key :: "string option"
  v1_options :: "agent_options option"
  v1_socket :: "string option"

datatype library_error =
    LE_CouldNotOpenYubikey u32
  | LE_CouldNotEnumerateYubikeys string
  | LE_NoServersReturnedCertificate
  | LE_ServerReturnedInvalidCertificate string
  | LE_NoServersCouldRegisterKey
  | LE_CouldNotReadConfigurationFile string
  | LE_BadConfiguration string
  | LE_UnknownConfigurationVersion u64
  | LE_NoServersReturnedAllowedSigners

fun library_error_to_string :: "library_error \<Rightarrow> string" where
  "library_error_to_string (LE_CouldNotOpenYubikey sn) =
     ''Could not open Yubikey with serial: '' @ show_nat (unat sn)"
| "library_error_to_string (LE_CouldNotEnumerateYubikeys e) = ''Could not enumerate Yubikeys: '' @ e"
| "library_error_to_string LE_NoServersReturnedCertificate =
     ''All servers failed to return a certificate when requested''"
| "library_error_to_string (LE_ServerReturnedInvalidCertificate e) =
     ''The requested server returned an invalid SSH certificate: '' @ e"
| "library_error_to_string LE_NoServersCouldRegisterKey =
     ''All servers failed to register the requested key''"
| "library_error_to_string (LE_CouldNotReadConfigurationFile e) =
     ''Could not read configuration file: '' @ e"
| "library_error_to_string (LE_BadConfiguration e) = ''The configuration could not be parsed: '' @ e"
| "library_error_to_string (LE_UnknownConfigurationVersion v) =
     ''Cannot use configuration version: '' @ show_u64 v"
| "library_error_to_string LE_NoServersReturnedAllowedSigners =
     ''All servers failed to return allowed signers when requested''"

text \<open>
  TOML and the file: parsing as just a version, as either configuration, printing; reading
  the file (with the error's text), and what becomes of writing a content. Writing a file first empties it: it can fail
  before that, or later, with the file holding a part of the content.
\<close>

datatype write_outcome = Written | NotOpened | CutOff nat

record agent_fs =
  toml_version :: "string \<Rightarrow> u64 option"
  toml_v1 :: "string \<Rightarrow> string + agent_config_v1"
  toml_v2 :: "string \<Rightarrow> string + agent_config"
  toml_print :: "agent_config \<Rightarrow> string option"
  read_to_string :: "string \<Rightarrow> string + string"
  write_outcome :: "string \<Rightarrow> string \<Rightarrow> write_outcome"

text \<open>\<open>uc_disk\<close> is what the last write left in the file, if there was one.\<close>

record updatable_configuration =
  uc_path :: string
  uc_configuration :: agent_config
  uc_disk :: "string option"

section \<open>Operations\<close>

definition parse_v1_config :: "agent_fs \<Rightarrow> string \<Rightarrow> (agent_config, library_error) result" where
  "parse_v1_config F config = (case toml_v1 F config of
     Inl e \<Rightarrow> Err (LE_BadConfiguration e)
   | Inr c \<Rightarrow> Ok \<lparr>ac_version = 2,
       ac_servers = [\<lparr>ag_address = v1_server c, ag_ca_pem = v1_ca_pem c, ag_mtls_cert = v1_mtls_cert c,
                      ag_mtls_key = v1_mtls_key c\<rparr>],
       ac_slot = v1_slot c, ac_key = v1_key c, ac_options = v1_options c, ac_socket = v1_socket c\<rparr>)"

definition parse_v2_config :: "agent_fs \<Rightarrow> string \<Rightarrow> (agent_config, library_error) result" where
  "parse_v2_config F config = (case toml_v2 F config of
     Inl e \<Rightarrow> Err (LE_BadConfiguration e) | Inr c \<Rightarrow> Ok c)"

definition parse_config :: "agent_fs \<Rightarrow> string \<Rightarrow> (agent_config, library_error) result" where
  "parse_config F config = (case toml_version F config of
     None \<Rightarrow> parse_v1_config F config
   | Some v \<Rightarrow> if v = 2 then parse_v2_config F config else Err (LE_UnknownConfigurationVersion v))"

definition parse_config_path :: "agent_fs \<Rightarrow> string \<Rightarrow> (agent_config, library_error) result" where
  "parse_config_path F path = (case read_to_string F path of
     Inl e \<Rightarrow> Err (LE_CouldNotReadConfigurationFile e) | Inr s \<Rightarrow> parse_config F s)"

definition new_updatable_configuration ::
    "agent_fs \<Rightarrow> string \<Rightarrow> (updatable_configuration, library_error) result" where
  "new_updatable_configuration F path = and_then (parse_config_path F path) (\<lambda>c.
     Ok \<lparr>uc_path = path, uc_configuration = c, uc_disk = None\<rparr>)"

definition write_configuration ::
    "agent_fs \<Rightarrow> updatable_configuration \<Rightarrow> updatable_configuration \<times> (unit, unit) result" where
  "write_configuration F uc = (case toml_print F (uc_configuration uc) of
     None \<Rightarrow> (uc, Panic)
   | Some contents \<Rightarrow>
       (case write_outcome F (uc_path uc) contents of
          Written \<Rightarrow> (uc\<lparr>uc_disk := Some contents\<rparr>, Ok ())
        | NotOpened \<Rightarrow> (uc, Err ())
        | CutOff n \<Rightarrow> (uc\<lparr>uc_disk := Some (take n contents)\<rparr>, Err ())))"

definition update_servers ::
    "agent_fs \<Rightarrow> agent_server list \<Rightarrow> updatable_configuration \<Rightarrow> updatable_configuration \<times> (unit, unit) result"
    where
  "update_servers F servers uc =
     write_configuration F (uc\<lparr>uc_configuration := (uc_configuration uc)\<lparr>ac_servers := servers\<rparr>\<rparr>)"

text \<open>The certificate settings of the command line options, with their defaults.\<close>

definition certificate_config_from ::
    "('pk, 'sk) ssh_lib \<Rightarrow> agent_options option \<Rightarrow> certificate_config" where
  "certificate_config_from L co = (case co of
     None \<Rightarrow> \<lparr>cc_principals = [], cc_hosts = [], cc_cert_type = User, cc_duration = 10, cc_authority = ''''\<rparr>
   | Some o1 \<Rightarrow>
       \<lparr>cc_principals = (case op_principals o1 of None \<Rightarrow> [] | Some ps \<Rightarrow> ps),
        cc_hosts = (case op_hosts o1 of None \<Rightarrow> [] | Some hs \<Rightarrow> hs),
        cc_cert_type = (case cert_type_from_string L
            (case op_kind o1 of None \<Rightarrow> ''user'' | Some k \<Rightarrow> k) of None \<Rightarrow> User | Some t \<Rightarrow> t),
        cc_duration = (case op_duration o1 of None \<Rightarrow> 10 | Some d \<Rightarrow> d),
        cc_authority = (case op_authority o1 of None \<Rightarrow> '''' | Some a \<Rightarrow> a)\<rparr>)"

section \<open>Properties\<close>

text \<open>
  A configuration is accepted exactly when it either names version 2 and parses as such, and is then taken as it
  is, or names no version and parses as version 1, and is then upgraded in memory to version 2
  with one server, every other setting kept. Any other version is refused.
\<close>

theorem parse_config_Ok:
  "parse_config F s = Ok c \<longleftrightarrow>
     (toml_version F s = Some 2 \<and> toml_v2 F s = Inr c) \<or>
     (\<exists>v1. toml_version F s = None \<and> toml_v1 F s = Inr v1 \<and> ac_version c = 2 \<and>
        ac_servers c = [\<lparr>ag_address = v1_server v1, ag_ca_pem = v1_ca_pem v1,
          ag_mtls_cert = v1_mtls_cert v1, ag_mtls_key = v1_mtls_key v1\<rparr>] \<and>
        ac_slot c = v1_slot v1 \<and> ac_key c = v1_key v1 \<and> ac_options c = v1_options v1 \<and>
        ac_socket c = v1_socket v1)"
  by (auto simp: parse_config_def parse_v1_config_def parse_v2_config_def
      split: option.splits sum.splits if_splits)

lemma parse_config_no_panic: "parse_config F s \<noteq> Panic"
  by (auto simp: parse_config_def parse_v1_config_def parse_v2_config_def split: option.splits sum.splits)

text \<open>What the TOML crate promises of a printed configuration: it is read back as it was.\<close>

definition toml_round_trip :: "agent_fs \<Rightarrow> bool" where
  "toml_round_trip F \<longleftrightarrow> (\<forall>c t. toml_print F c = Some t \<longrightarrow>
     toml_version F t = Some (ac_version c) \<and> toml_v2 F t = Inr c)"

text \<open>What is in the file after writing a configuration, unless printing it panicked.\<close>

definition file_after :: "agent_fs \<Rightarrow> string \<Rightarrow> agent_config \<Rightarrow> string option \<Rightarrow> string option \<Rightarrow> bool" where
  "file_after F path c before after \<longleftrightarrow> (\<exists>t. toml_print F c = Some t \<and>
     (case write_outcome F path t of
        Written \<Rightarrow> after = Some t \<and> parse_config F t = Ok c
      | NotOpened \<Rightarrow> after = before
      | CutOff n \<Rightarrow> after = Some (take n t)))"

lemma write_configuration_file:
  assumes "write_configuration F uc = (uc', r)" and "r \<noteq> Panic" and "toml_round_trip F"
    and "ac_version (uc_configuration uc) = 2"
  shows "uc_configuration uc' = uc_configuration uc \<and>
     file_after F (uc_path uc) (uc_configuration uc) (uc_disk uc) (uc_disk uc')"
  using assms
  by (auto simp: write_configuration_def file_after_def parse_config_def parse_v2_config_def toml_round_trip_def
      split: option.splits write_outcome.splits)

end
