(* ===== verification/Agent_Protocol.thy ===== *)
theory Agent_Protocol
  imports Library_Env
begin

text \<open>
  \<^verbatim>\<open>rustica-agent/src/sshagent/protocol.rs\<close> and \<^verbatim>\<open>error.rs\<close>: the wire format of the SSH agent protocol. A
  stream is the list of bytes still to be read; reading past its end is an I/O error. The locale
  \<open>codec\<close> states what a pair of writer and reader promises; the composite formats are derived in it.
\<close>

unbundle bit_operations_syntax

datatype agent_error = IoError | AgentError string

section \<open>Words and messages\<close>

definition read_u8 :: "bytes \<Rightarrow> (u8 \<times> bytes, agent_error) result" where
  "read_u8 s = (case s of [] \<Rightarrow> Err IoError | b # r \<Rightarrow> Ok (b, r))"

definition read_u32 :: "bytes \<Rightarrow> (u32 \<times> bytes, agent_error) result" where
  "read_u32 s = (case s of
     a # b # c # d # r \<Rightarrow>
       Ok (push_bit 24 (ucast a) OR push_bit 16 (ucast b) OR push_bit 8 (ucast c) OR ucast d, r)
   | _ \<Rightarrow> Err IoError)"

definition write_u32 :: "u32 \<Rightarrow> bytes" where
  "write_u32 w = [ucast (drop_bit 24 w), ucast (drop_bit 16 w), ucast (drop_bit 8 w), ucast w]"

definition read_message :: "bytes \<Rightarrow> (bytes \<times> bytes, agent_error) result" where
  "read_message s = and_then (read_u32 s) (\<lambda>(len, r).
     if unat len \<le> length r then Ok (take (unat len) r, drop (unat len) r) else Err IoError)"

text \<open>\<^verbatim>\<open>string.len() as u32\<close> truncates.\<close>

definition write_message :: "bytes \<Rightarrow> bytes" where
  "write_message b = write_u32 (of_nat (length b)) @ b"

section \<open>Requests\<close>

datatype message_request =
    MIdentities | MSign | MAddIdentity | MRemoveIdentity | MRemoveAllIdentities | MAddIdConstrained
  | MAddSmartcardKey | MRemoveSmartcardKey | MLock | MUnlock | MAddSmartcardKeyConstrained | MExtension
  | MUnknown

definition from_u8 :: "u8 \<Rightarrow> message_request" where
  "from_u8 v = (if v = 11 then MIdentities else if v = 13 then MSign else if v = 17 then MAddIdentity
     else if v = 18 then MRemoveIdentity else if v = 19 then MRemoveAllIdentities
     else if v = 25 then MAddIdConstrained else if v = 20 then MAddSmartcardKey
     else if v = 21 then MRemoveSmartcardKey else if v = 22 then MLock else if v = 23 then MUnlock
     else if v = 26 then MAddSmartcardKeyConstrained else if v = 27 then MExtension else MUnknown)"

datatype 'sk agent_request =
    RIdentities
  | RSign (pubkey_blob: bytes) (sign_data: bytes) (sign_flags: u32)
  | RAddIdentity 'sk
  | RUnknown

definition parse_request ::
    "('pk, 'sk) ssh_lib \<Rightarrow> bytes \<Rightarrow> ('sk agent_request, agent_error) result" where
  "parse_request L raw = and_then (read_u8 raw) (\<lambda>(msg, buf).
     case from_u8 msg of
       MIdentities \<Rightarrow> Ok RIdentities
     | MSign \<Rightarrow>
         and_then (read_message buf) (\<lambda>(blob, buf).
         and_then (read_message buf) (\<lambda>(data, buf).
         and_then (read_u32 buf) (\<lambda>(flags, buf). Ok (RSign blob data flags))))
     | MAddIdentity \<Rightarrow>
         (case sk_from_bytes L buf of Some k \<Rightarrow> Ok (RAddIdentity k) | None \<Rightarrow> Ok RUnknown)
     | _ \<Rightarrow> Ok RUnknown)"

definition read_request ::
    "('pk, 'sk) ssh_lib \<Rightarrow> bytes \<Rightarrow> ('sk agent_request \<times> bytes, agent_error) result" where
  "read_request L stream = and_then (read_message stream) (\<lambda>(raw, rest).
     and_then (parse_request L raw) (\<lambda>r. Ok (r, rest)))"

section \<open>Responses\<close>

record identity =
  key_blob :: bytes
  key_comment :: string

datatype agent_response =
    RespSuccess | RespFailure | RespIdentities "identity list" | RespSign bytes

definition write_identity :: "identity \<Rightarrow> bytes" where
  "write_identity i = write_message (key_blob i) @ write_message (as_bytes (key_comment i))"

fun response_body :: "agent_response \<Rightarrow> bytes" where
  "response_body RespSuccess = [6]"
| "response_body RespFailure = [5]"
| "response_body (RespIdentities ids) =
     [12] @ write_u32 (of_nat (length ids)) @ concat (map write_identity ids)"
| "response_body (RespSign sig) = [14] @ write_message sig"

definition write_response :: "agent_response \<Rightarrow> bytes" where
  "write_response r = write_u32 (of_nat (length (response_body r))) @ response_body r"

section \<open>Writers and readers that belong together\<close>

text \<open>
  Values that satisfy \<open>fits\<close> come back unchanged, and the reader stops exactly where the writer
  stopped. Two codecs in sequence, and a codec repeated, are codecs.
\<close>

locale codec =
  fixes write_val :: "'a \<Rightarrow> bytes" and read_val :: "bytes \<Rightarrow> ('a \<times> bytes, agent_error) result"
    and fits :: "'a \<Rightarrow> bool"
  assumes round_trip: "fits x \<Longrightarrow> read_val (write_val x @ rest) = Ok (x, rest)"
begin

fun read_many :: "nat \<Rightarrow> bytes \<Rightarrow> ('a list \<times> bytes, agent_error) result" where
  "read_many 0 s = Ok ([], s)"
| "read_many (Suc n) s = and_then (read_val s) (\<lambda>(x, r). and_then (read_many n r) (\<lambda>(xs, r'). Ok (x # xs, r')))"

lemma read_many_round_trip:
  "list_all fits xs \<Longrightarrow> read_many (length xs) (concat (map write_val xs) @ rest) = Ok (xs, rest)"
  by (induction xs) (simp_all add: round_trip)

lemma injective: "fits x \<Longrightarrow> fits y \<Longrightarrow> write_val x @ r = write_val y @ s \<Longrightarrow> x = y \<and> r = s"
  by (metis round_trip prod.inject result.inject(1))

end

lemma u32_bytes:
  "push_bit 24 (ucast (ucast (drop_bit 24 w) :: u8)) OR push_bit 16 (ucast (ucast (drop_bit 16 w) :: u8))
     OR push_bit 8 (ucast (ucast (drop_bit 8 w) :: u8)) OR ucast (ucast w :: u8) = (w :: u32)"
  (is "?bytes = w")
proof (rule bit_word_eqI)
  fix n
  assume "n < LENGTH(32)"
  then have "n < 8 \<or> 8 \<le> n \<and> n < 16 \<or> 16 \<le> n \<and> n < 24 \<or> 24 \<le> n \<and> n < 32" by auto
  then show "bit ?bytes n = bit w n"
    by (elim disjE) (auto simp: bit_simps)
qed

interpretation u32_codec: codec write_u32 read_u32 "\<lambda>_. True"
  by unfold_locales (simp add: write_u32_def read_u32_def u32_bytes)

lemma unat_length: "length b < 2 ^ 32 \<Longrightarrow> unat (of_nat (length b) :: u32) = length b"
  by (simp add: unat_of_nat)

interpretation message_codec: codec write_message read_message "\<lambda>b. length b < 2 ^ 32"
proof unfold_locales
  fix b rest :: bytes
  assume "length b < 2 ^ 32"
  then show "read_message (write_message b @ rest) = Ok (b, rest)"
    by (simp add: read_message_def write_message_def u32_codec.round_trip unat_length)
qed

section \<open>The other side of the wire\<close>

text \<open>
  What an SSH client writes and reads, after the protocol's specification: the requests the agent
  understands, and the reader of the agent's responses.
\<close>

definition request_body :: "bytes \<Rightarrow> bytes \<Rightarrow> u32 \<Rightarrow> bytes" where
  "request_body blob data flags = [13] @ write_message blob @ write_message data @ write_u32 flags"

definition read_identity :: "bytes \<Rightarrow> (identity \<times> bytes, agent_error) result" where
  "read_identity s = and_then (read_message s) (\<lambda>(b, s).
     and_then (read_message s) (\<lambda>(c, s). Ok (\<lparr>key_blob = b, key_comment = from_bytes c\<rparr>, s)))"

definition fits_identity :: "identity \<Rightarrow> bool" where
  "fits_identity i \<longleftrightarrow> length (key_blob i) < 2 ^ 32 \<and> length (key_comment i) < 2 ^ 32"

interpretation identity_codec: codec write_identity read_identity fits_identity
proof unfold_locales
  fix i :: identity and rest
  assume "fits_identity i"
  then show "read_identity (write_identity i @ rest) = Ok (i, rest)"
    by (simp add: fits_identity_def read_identity_def write_identity_def message_codec.round_trip)
qed

definition parse_response :: "bytes \<Rightarrow> (agent_response, agent_error) result" where
  "parse_response raw = and_then (read_u8 raw) (\<lambda>(code, buf).
     if code = 6 then Ok RespSuccess
     else if code = 5 then Ok RespFailure
     else if code = 12 then
       and_then (read_u32 buf) (\<lambda>(n, buf).
       and_then (identity_codec.read_many (unat n) buf) (\<lambda>(ids, _). Ok (RespIdentities ids)))
     else if code = 14 then and_then (read_message buf) (\<lambda>(sig, _). Ok (RespSign sig))
     else Err IoError)"

fun fits_response :: "agent_response \<Rightarrow> bool" where
  "fits_response (RespIdentities ids) \<longleftrightarrow> length ids < 2 ^ 32 \<and> list_all fits_identity ids"
| "fits_response (RespSign sig) \<longleftrightarrow> length sig < 2 ^ 32"
| "fits_response _ \<longleftrightarrow> True"

section \<open>Properties\<close>

lemma unat_of_nat_u32: "n < 2 ^ 32 \<Longrightarrow> unat (of_nat n :: u32) = n"
  by (simp add: unat_of_nat)

lemma write_response_frame: "write_response r = write_message (response_body r)"
  by (simp add: write_response_def write_message_def)

lemma parse_response_body: "fits_response r \<Longrightarrow> parse_response (response_body r) = Ok r"
proof (cases r)
  case (RespIdentities ids)
  assume "fits_response r"
  with RespIdentities show ?thesis
    using u32_codec.round_trip [of "of_nat (length ids)" "concat (map write_identity ids)"]
      identity_codec.read_many_round_trip [of ids "[]"]
    by (simp add: parse_response_def read_u8_def unat_of_nat_u32)
next
  case (RespSign sig)
  assume "fits_response r"
  with RespSign show ?thesis
    using message_codec.round_trip [of sig "[]"] by (simp add: parse_response_def read_u8_def)
qed (simp_all add: parse_response_def read_u8_def)

text \<open>
  C19: What the agent answers is read back by a client as it was meant: every response whose parts fit
  32-bit lengths is framed and encoded so that a reader of the protocol recovers the response and
  continues at the next frame.
\<close>

theorem response_round_trip:
  assumes "fits_response r" and "length (response_body r) < 2 ^ 32"
  shows "and_then (read_message (write_response r @ rest)) (\<lambda>(raw, rest').
           and_then (parse_response raw) (\<lambda>r'. Ok (r', rest'))) = Ok (r, rest)"
  using assms
  by (simp add: write_response_frame message_codec.round_trip parse_response_body)

lemma parse_sign_request_body:
  assumes "length (request_body blob data flags) < 2 ^ 32"
  shows "parse_request L (request_body blob data flags) = Ok (RSign blob data flags)"
proof -
  have fit: "length blob < 2 ^ 32" "length data < 2 ^ 32"
    using assms by (simp_all add: request_body_def write_message_def)
  show ?thesis
    using u32_codec.round_trip [of flags "[]"]
    by (simp add: parse_request_def request_body_def read_u8_def from_u8_def
        message_codec.round_trip [OF fit(1)] message_codec.round_trip [OF fit(2)])
qed

text \<open>
  A framed sign request is read as the key blob, the data and the flags the client wrote,
  and the stream is left at the next request.
\<close>

theorem sign_request_round_trip:
  assumes "length (request_body blob data flags) < 2 ^ 32"
  shows "read_request L (write_message (request_body blob data flags) @ rest) = Ok (RSign blob data flags, rest)"
  using assms by (simp add: read_request_def message_codec.round_trip parse_sign_request_body)

text \<open>
  Reading a request never panics, and a message kind the agent does not implement is an
  unknown request, not an error: only the three implemented kinds are looked into.
\<close>

theorem unimplemented_requests_unknown:
  assumes "length (c # body) < 2 ^ 32" and "c \<notin> {11, 13, 17}"
  shows "read_request L (write_message (c # body) @ rest) = Ok (RUnknown, rest)"
  using assms
  by (simp add: read_request_def message_codec.round_trip parse_request_def read_u8_def from_u8_def)

lemma read_u32_no_panic [simp]: "read_u32 s \<noteq> Panic"
  by (simp add: read_u32_def split: list.split)

lemma read_message_no_panic [simp]: "read_message s \<noteq> Panic"
  by (auto simp: read_message_def and_then_def split: result.splits)

lemma read_request_no_panic: "read_request L s \<noteq> Panic"
proof -
  have "parse_request L raw \<noteq> Panic" for raw
    by (auto simp: parse_request_def read_u8_def and_then_def
        split: list.splits message_request.splits option.splits result.splits)
  then show ?thesis by (auto simp: read_request_def and_then_def split: result.splits)
qed

text \<open>Every request takes at least its length field off the stream, so a client loop makes progress.\<close>

lemma read_message_shrinks: "read_message s = Ok (b, r) \<Longrightarrow> length r < length s"
  by (auto simp: read_message_def read_u32_def and_then_Ok split: list.splits if_splits)

lemma read_request_shrinks: "read_request L s = Ok (q, r) \<Longrightarrow> length r < length s"
  by (auto simp: read_request_def and_then_Ok dest: read_message_shrinks)

lemma read_message_length: "read_message s = Ok (b, r) \<Longrightarrow> length s = 4 + length b + length r"
  by (auto simp: read_message_def read_u32_def and_then_Ok split: list.splits if_splits)

lemma parse_request_nonempty: "parse_request L raw = Ok q \<Longrightarrow> 1 \<le> length raw"
  by (cases raw) (simp_all add: parse_request_def read_u8_def)

text \<open>The length field and the kind: no request is shorter than five bytes.\<close>

lemma read_request_length: "read_request L s = Ok (q, r) \<Longrightarrow> length r + 5 \<le> length s"
  by (fastforce simp: read_request_def and_then_Ok dest: read_message_length parse_request_nonempty)

end
