(* ===== verification/Agent_Handler.thy ===== *)
theory Agent_Handler
  imports Agent_Config Agent_Protocol
begin

text \<open>
  \<^verbatim>\<open>rustica-agent/src/lib.rs\<close>: the agent itself. It caches a certificate, fetches a new one from the
  first server that gives one, lists its identities, signs, and keeps added keys. Mutexes serialize the
  operations, so each is one state transformer; \<open>hd_notified\<close> counts calls of the notification
  function. \<open>nows i\<close> is the clock the request to the \<open>i\<close>-th server reads.
\<close>

section \<open>Data\<close>

record 'pk piv_descriptor =
  pv_serial :: u32
  pv_slot :: slot_id
  pv_public_key :: 'pk
  pv_pin :: "string option"
  pv_subject :: string

record ('pk, 'sk) handler =
  hd_configuration :: updatable_configuration
  hd_cert :: "'pk certificate option"
  hd_pubkey :: 'pk
  hd_signatory :: "('pk, 'sk) signatory"
  hd_stale_at :: u64
  hd_certificate_options :: certificate_config
  hd_identities :: "(bytes, 'sk) hashmap"
  hd_piv_identities :: "(bytes, 'pk piv_descriptor) hashmap"
  hd_notification_function :: bool
  hd_certificate_priority :: bool
  hd_notified :: nat

text \<open>Yubikeys opened by serial number (for other PIV identities).\<close>

record piv_device =
  pd_unlock :: "bytes \<Rightarrow> bytes \<Rightarrow> bool"
  pd_pin_retries :: bool
  pd_sign :: "bytes \<Rightarrow> slot_id \<Rightarrow> bytes option"

record ('pk, 'sk) agent_env =
  ae_ssh :: "('pk, 'sk) ssh_lib"
  ae_api :: rustica_api
  ae_fs :: agent_fs
  ae_open_yubikey :: "u32 \<Rightarrow> piv_device option"
  ae_debug_slot :: "slot_id \<Rightarrow> string"
  ae_mgm_key :: bytes

section \<open>Trying servers in order\<close>

text \<open>
  The loops over the configured servers: the first success is the result, errors are printed and the next
  server is asked.
\<close>

fun try_servers :: "('s \<Rightarrow> ('a, 'e) result) \<Rightarrow> 'f \<Rightarrow> 's list \<Rightarrow> ('a, 'f) result" where
  "try_servers attempt none [] = Err none"
| "try_servers attempt none (s # ss) = (case attempt s of
     Ok x \<Rightarrow> Ok x | Err _ \<Rightarrow> try_servers attempt none ss | Panic \<Rightarrow> Panic)"

definition fetch_new_attested_x509_certificate ::
    "rustica_api \<Rightarrow> agent_server list \<Rightarrow> ('pk, 'sk) signatory \<Rightarrow> (bytes, library_error) result" where
  "fetch_new_attested_x509_certificate A servers signatory =
     try_servers (\<lambda>s. refresh_attested_x509_certificate_async A s signatory)
       LE_NoServersReturnedCertificate servers"

definition agent_register_u2f_key ::
    "('pk, 'sk) ssh_lib \<Rightarrow> rustica_api \<Rightarrow> agent_server list \<Rightarrow> ('pk, 'sk) signatory \<Rightarrow> string
     \<Rightarrow> agent_u2f_attestation \<Rightarrow> (unit, library_error) result" where
  "agent_register_u2f_key L A servers signatory app_name att =
     try_servers (\<lambda>s. register_u2f_key_async L A s signatory app_name att) LE_NoServersCouldRegisterKey servers"

definition agent_register_key ::
    "('pk, 'sk) ssh_lib \<Rightarrow> rustica_api \<Rightarrow> agent_server list \<Rightarrow> ('pk, 'sk) signatory
     \<Rightarrow> agent_piv_attestation \<Rightarrow> (unit, library_error) result" where
  "agent_register_key L A servers signatory att =
     try_servers (\<lambda>s. register_key_async L A s signatory att) LE_NoServersCouldRegisterKey servers"

definition agent_get_allowed_signers ::
    "rustica_api \<Rightarrow> agent_server list \<Rightarrow> (string, library_error) result" where
  "agent_get_allowed_signers A servers =
     try_servers (get_allowed_signers_async A) LE_NoServersReturnedAllowedSigners servers"

section \<open>Fetching a certificate\<close>

definition strip_cr :: "string \<Rightarrow> string" where
  "strip_cr s = filter (\<lambda>c. c \<noteq> CHR 0x0D) s"

text \<open>The server entry with the credentials it was sent.\<close>

definition update_credentials :: "mtls_credentials \<Rightarrow> agent_server \<Rightarrow> agent_server" where
  "update_credentials m s =
     (let s = (if mc_certificate m \<noteq> [] then s\<lparr>ag_mtls_cert := strip_cr (mc_certificate m)\<rparr> else s)
      in if mc_key m \<noteq> [] then s\<lparr>ag_mtls_key := strip_cr (mc_key m)\<rparr> else s)"

definition set_server :: "nat \<Rightarrow> agent_server \<Rightarrow> updatable_configuration \<Rightarrow> updatable_configuration" where
  "set_server i s uc = uc\<lparr>uc_configuration := (uc_configuration uc)
     \<lparr>ac_servers := (ac_servers (uc_configuration uc))[i := s]\<rparr>\<rparr>"

text \<open>
  The loop from server \<open>i\<close> on, with the number of notifications so far. A server that answers with
  something that does not parse ends the loop with an error.
\<close>

fun fetch_from ::
    "('pk, 'sk) agent_env \<Rightarrow> (nat \<Rightarrow> u64 option) \<Rightarrow> ('pk, 'sk) signatory \<Rightarrow> certificate_config \<Rightarrow> nat
     \<Rightarrow> agent_server list \<Rightarrow> nat \<Rightarrow> updatable_configuration
     \<Rightarrow> updatable_configuration \<times> nat \<times> ('pk certificate, library_error) result" where
  "fetch_from E nows signatory options i [] notified uc =
     (uc, notified, Err LE_NoServersReturnedCertificate)"
| "fetch_from E nows signatory options i (server # servers) notified uc =
     (let (n, r) = refresh_certificate_async (ae_ssh E) (ae_api E) (nows i) server signatory options;
          notified = (if n then Suc notified else notified)
      in case r of
           Panic \<Rightarrow> (uc, notified, Panic)
         | Err _ \<Rightarrow> fetch_from E nows signatory options (Suc i) servers notified uc
         | Ok (cert, credentials) \<Rightarrow>
           (case cert_from_string (ae_ssh E) (rc_cert cert) of
              Inl e \<Rightarrow> (uc, notified, Err (LE_ServerReturnedInvalidCertificate e))
            | Inr parsed \<Rightarrow>
              (case credentials of
                 None \<Rightarrow> (uc, notified, Ok parsed)
               | Some m \<Rightarrow>
                 (case write_configuration (ae_fs E) (set_server i (update_credentials m server) uc) of
                    (uc', Panic) \<Rightarrow> (uc', notified, Panic)
                  | (uc', _) \<Rightarrow> (uc', notified, Ok parsed)))))"

definition fetch_new_certificate ::
    "('pk, 'sk) agent_env \<Rightarrow> (nat \<Rightarrow> u64 option) \<Rightarrow> ('pk, 'sk) signatory \<Rightarrow> certificate_config
     \<Rightarrow> updatable_configuration
     \<Rightarrow> updatable_configuration \<times> nat \<times> ('pk certificate, library_error) result" where
  "fetch_new_certificate E nows signatory options uc =
     fetch_from E nows signatory options 0 (ac_servers (uc_configuration uc)) 0 uc"

section \<open>The handler\<close>

definition notify_times :: "nat \<Rightarrow> ('pk, 'sk) handler \<Rightarrow> ('pk, 'sk) handler" where
  "notify_times n h = (if hd_notification_function h then h\<lparr>hd_notified := hd_notified h + n\<rparr> else h)"

text \<open>The cached certificate, five seconds of slack included (the sum wraps).\<close>

definition cached_certificate :: "u64 \<Rightarrow> ('pk, 'sk) handler \<Rightarrow> 'pk certificate option" where
  "cached_certificate timestamp h = (case hd_cert h of
     Some c \<Rightarrow> if timestamp + 5 < hd_stale_at h then Some c else None
   | None \<Rightarrow> None)"

definition get_certificate_async ::
    "('pk, 'sk) agent_env \<Rightarrow> u64 option \<Rightarrow> (nat \<Rightarrow> u64 option) \<Rightarrow> bool \<Rightarrow> ('pk, 'sk) handler
     \<Rightarrow> ('pk, 'sk) handler \<times> ('pk certificate option, library_error) result" where
  "get_certificate_async E now nows fetch h = (case now of
     None \<Rightarrow> (h, Panic)
   | Some timestamp \<Rightarrow>
     if \<not> fetch then (h, Ok (cached_certificate timestamp h))
     else (case cached_certificate timestamp h of
       Some c \<Rightarrow> (h, Ok (Some c))
     | None \<Rightarrow>
       (case fetch_new_certificate E nows (hd_signatory h) (hd_certificate_options h) (hd_configuration h) of
          (uc, n, r) \<Rightarrow>
            let h' = notify_times n (h\<lparr>hd_configuration := uc\<rparr>) in
            (case r of
               Ok cert \<Rightarrow> (h'\<lparr>hd_cert := Some cert, hd_stale_at := c_valid_before cert\<rparr>, Ok (Some cert))
             | Err e \<Rightarrow> (h', Err e)
             | Panic \<Rightarrow> (h', Panic)))))"

definition add_identity ::
    "('pk, 'sk) agent_env \<Rightarrow> 'sk \<Rightarrow> ('pk, 'sk) handler
     \<Rightarrow> ('pk, 'sk) handler \<times> (agent_response, agent_error) result" where
  "add_identity E k h =
     (h\<lparr>hd_identities := hm_insert (pk_encode (ae_ssh E) (sk_pubkey (ae_ssh E) k)) k (hd_identities h)\<rparr>,
      Ok RespSuccess)"

definition added_identities :: "('pk, 'sk) agent_env \<Rightarrow> ('pk, 'sk) handler \<Rightarrow> identity list" where
  "added_identities E h =
     map (\<lambda>(_, k). \<lparr>key_blob = pk_encode (ae_ssh E) (sk_pubkey (ae_ssh E) k),
                    key_comment = sk_comment (ae_ssh E) k\<rparr>) (hd_identities h)
     @ map (\<lambda>(_, d). \<lparr>key_blob = pk_encode (ae_ssh E) (pv_public_key d),
                      key_comment = ''Yubikey Serial: '' @ show_nat (unat (pv_serial d))
                        @ '' Slot: '' @ ae_debug_slot E (pv_slot d)\<rparr>) (hd_piv_identities h)"

definition identities ::
    "('pk, 'sk) agent_env \<Rightarrow> u64 option \<Rightarrow> (nat \<Rightarrow> u64 option) \<Rightarrow> ('pk, 'sk) handler
     \<Rightarrow> ('pk, 'sk) handler \<times> (agent_response, agent_error) result" where
  "identities E now nows h =
     (let (h', r) = get_certificate_async E now nows True h;
          blob = pk_encode (ae_ssh E) (hd_pubkey h);
          key = \<lparr>key_blob = blob, key_comment = ''''\<rparr>;
          only_key = [\<lparr>key_blob = blob,
            key_comment = ''No server returned valid certificate. Only your key is available''\<rparr>]
      in case r of
           Panic \<Rightarrow> (h', Panic)
         | Err _ \<Rightarrow> (h', Ok (RespIdentities (added_identities E h @ only_key)))
         | Ok None \<Rightarrow> (h', Ok (RespIdentities (added_identities E h @ only_key)))
         | Ok (Some c) \<Rightarrow>
             let cert = \<lparr>key_blob = c_serialized c,
                         key_comment = (case c_comment c of None \<Rightarrow> '''' | Some s \<Rightarrow> s)\<rparr>
             in (h', Ok (RespIdentities (added_identities E h @
                   (if hd_certificate_priority h then [cert, key] else [key, cert])))))"

definition request_fingerprint ::
    "('pk, 'sk) ssh_lib \<Rightarrow> bytes \<Rightarrow> fingerprint option" where
  "request_fingerprint L blob = (case cert_from_bytes L blob of
     Some c \<Rightarrow> Some (pk_fingerprint L (c_key c))
   | None \<Rightarrow> map_option (pk_fingerprint L) (pk_from_bytes L blob))"

definition sign_with :: "bytes option \<Rightarrow> string \<Rightarrow> (agent_response, agent_error) result" where
  "sign_with sig err = (case sig of Some s \<Rightarrow> Ok (RespSign s) | None \<Rightarrow> Err (AgentError err))"

text \<open>Signing with a PIV key of another Yubikey: unlock it if a PIN is known, then sign.\<close>

definition sign_with_descriptor ::
    "('pk, 'sk) agent_env \<Rightarrow> 'pk piv_descriptor \<Rightarrow> bytes \<Rightarrow> ('pk, 'sk) handler
     \<Rightarrow> ('pk, 'sk) handler \<times> (agent_response, agent_error) result" where
  "sign_with_descriptor E d data h = (case ae_open_yubikey E (pv_serial d) of
     None \<Rightarrow> (h, Err (AgentError ''Unable to open Yubikey''))
   | Some yk \<Rightarrow>
       (notify_times 1 h,
        case pv_pin d of
          Some pin \<Rightarrow>
            if \<not> pd_unlock yk (as_bytes pin) (ae_mgm_key E) then
              if pd_pin_retries yk then Err (AgentError ''Yubikey unlocking error'')
              else Err (AgentError ''Could not fetch pin retries'')
            else sign_with (pd_sign yk data (pv_slot d)) ''Yubikey signing error''
        | None \<Rightarrow> sign_with (pd_sign yk data (pv_slot d)) ''Yubikey signing error''))"

definition sign_with_signatory ::
    "('pk, 'sk) ssh_lib \<Rightarrow> fingerprint \<Rightarrow> bytes \<Rightarrow> ('pk, 'sk) handler
     \<Rightarrow> ('pk, 'sk) handler \<times> (agent_response, agent_error) result" where
  "sign_with_signatory L fp data h = (case hd_signatory h of
     Direct k \<Rightarrow>
       if pk_fingerprint L (sk_pubkey L k) \<noteq> fp then (h, Err (AgentError ''No such key''))
       else (if sk_is_sk L k then notify_times 1 h else h, sign_with (sk_sign L k data) ''Signing Error'')
   | YubikeySignatory slot yk \<Rightarrow>
       (case yd_fetch_pubkey yk slot of
          None \<Rightarrow> (h, Err (AgentError ''Yubikey fetch certificate error''))
        | Some pk \<Rightarrow>
            if pk_fingerprint L pk \<noteq> fp then (h, Err (AgentError ''No such key''))
            else (notify_times 1 h, sign_with (yd_sign yk data slot) ''Yubikey signing error'')))"

definition sign_request ::
    "('pk, 'sk) agent_env \<Rightarrow> bytes \<Rightarrow> bytes \<Rightarrow> u32 \<Rightarrow> ('pk, 'sk) handler
     \<Rightarrow> ('pk, 'sk) handler \<times> (agent_response, agent_error) result" where
  "sign_request E blob data flags h = (let L = ae_ssh E in
     case request_fingerprint L blob of
       None \<Rightarrow> (h, Err (AgentError ''Invalid key blob''))
     | Some fp \<Rightarrow>
       (case map_of (hd_identities h) blob of
          Some k \<Rightarrow> (h, sign_with (sk_sign L k data) ''Signing Error'')
        | None \<Rightarrow>
          (case map_of (hd_piv_identities h) blob of
             Some d \<Rightarrow> sign_with_descriptor E d data h
           | None \<Rightarrow> sign_with_signatory L fp data h)))"

section \<open>Lemmas\<close>

text \<open>
  Trying servers in order succeeds exactly with the answer of the first server that gives one, all
  servers before it having failed, and fails only when every server failed; this is what registering a
  key, fetching an X.509 certificate and fetching the allowed signers do.
\<close>

theorem try_servers_first:
  "(try_servers attempt none ss = Ok x \<longleftrightarrow>
      (\<exists>pre s post. ss = pre @ s # post \<and> (\<forall>p \<in> set pre. \<exists>e. attempt p = Err e) \<and> attempt s = Ok x)) \<and>
   (try_servers attempt none ss = Err f \<longleftrightarrow> f = none \<and> (\<forall>p \<in> set ss. \<exists>e. attempt p = Err e))"
proof (induction ss)
  case Nil
  show ?case by auto
next
  case (Cons s ss)
  then show ?case
    unfolding split_first_Cons [where P = "\<lambda>p. \<exists>e. attempt p = Err e" and Q = "\<lambda>p. attempt p = Ok x"]
    by (cases "attempt s") auto
qed

text \<open>A successful fetch came from one server, all before it having failed without a trace.\<close>

lemma update_credentials_fields:
  "update_credentials m s = s
     \<lparr>ag_mtls_cert := if mc_certificate m = [] then ag_mtls_cert s else filter (\<lambda>c. c \<noteq> CHR 0x0D) (mc_certificate m),
      ag_mtls_key := if mc_key m = [] then ag_mtls_key s else filter (\<lambda>c. c \<noteq> CHR 0x0D) (mc_key m)\<rparr>"
  by (simp add: update_credentials_def strip_cr_def)

lemma fetch_from_Ok:
  assumes "fetch_from E nows sg opts i ss n uc = (uc', n', Ok cert)"
  shows "\<exists>j rc creds b. j < length ss \<and>
     refresh_certificate_async (ae_ssh E) (ae_api E) (nows (i + j)) (ss ! j) sg opts = (b, Ok (rc, creds)) \<and>
     cert_from_string (ae_ssh E) (rc_cert rc) = Inr cert \<and>
     (\<forall>l < j. \<exists>b e. refresh_certificate_async (ae_ssh E) (ae_api E) (nows (i + l)) (ss ! l) sg opts = (b, Err e)) \<and>
     (case creds of
        None \<Rightarrow> uc' = uc
      | Some m \<Rightarrow> \<exists>r. r \<noteq> Panic \<and>
          write_configuration (ae_fs E) (set_server (i + j) (update_credentials m (ss ! j)) uc) = (uc', r))"
  using assms
proof (induction ss arbitrary: i n)
  case Nil
  then show ?case by simp
next
  case (Cons s ss)
  obtain b r where r: "refresh_certificate_async (ae_ssh E) (ae_api E) (nows i) s sg opts = (b, r)"
    by (rule prod.exhaust)
  show ?case
  proof (cases r)
    case (Ok x)
    then obtain rc creds where x: "r = Ok (rc, creds)" by (cases x) simp
    with r Cons.prems show ?thesis
      by (intro exI [of _ 0]) (auto simp: Let_def split: sum.splits option.splits prod.splits result.splits)
  next
    case (Err e)
    with r Cons.prems have "fetch_from E nows sg opts (Suc i) ss (if b then Suc n else n) uc = (uc', n', Ok cert)"
      by simp
    from Cons.IH [OF this] obtain j rc creds b' where j: "j < length ss"
      "refresh_certificate_async (ae_ssh E) (ae_api E) (nows (Suc i + j)) (ss ! j) sg opts = (b', Ok (rc, creds))"
      "cert_from_string (ae_ssh E) (rc_cert rc) = Inr cert"
      "\<forall>l < j. \<exists>b e. refresh_certificate_async (ae_ssh E) (ae_api E) (nows (Suc i + l)) (ss ! l) sg opts = (b, Err e)"
      "case creds of None \<Rightarrow> uc' = uc
       | Some m \<Rightarrow> \<exists>r. r \<noteq> Panic \<and>
           write_configuration (ae_fs E) (set_server (Suc i + j) (update_credentials m (ss ! j)) uc) = (uc', r)"
      by blast
    have "\<exists>b e. refresh_certificate_async (ae_ssh E) (ae_api E) (nows (i + l)) ((s # ss) ! l) sg opts = (b, Err e)"
      if "l < Suc j" for l
      using that j(4) r Err by (cases l) auto
    with j show ?thesis by (intro exI [of _ "Suc j"]) (auto split: option.splits)
  next
    case Panic
    with r Cons.prems show ?thesis by simp
  qed
qed

text \<open>
  C18: New credentials are kept: a certificate that was fetched came from the first server that answered with one, all servers
  before it having failed; if that server sent credentials, they replace the ones of that server and of no other
  in the configuration in memory (an empty one leaves the old one, carriage returns are dropped), and the
  configuration is written: if that succeeds the file holds what parses back to the configuration in memory, if the file
  could not be opened it is what it was, and if writing was cut off it holds a part of the text.
\<close>

theorem fetched_credentials_kept:
  assumes "fetch_new_certificate E nows sg opts uc = (uc', n, Ok cert)"
    and "toml_round_trip (ae_fs E)" and "ac_version (uc_configuration uc) = 2"
  shows "\<exists>j rc creds b. j < length (ac_servers (uc_configuration uc)) \<and>
     refresh_certificate_async (ae_ssh E) (ae_api E) (nows j) (ac_servers (uc_configuration uc) ! j) sg opts
       = (b, Ok (rc, creds)) \<and>
     cert_from_string (ae_ssh E) (rc_cert rc) = Inr cert \<and>
     (\<forall>l < j. \<exists>b e. refresh_certificate_async (ae_ssh E) (ae_api E) (nows l)
        (ac_servers (uc_configuration uc) ! l) sg opts = (b, Err e)) \<and>
     (case creds of
        None \<Rightarrow> uc' = uc
      | Some m \<Rightarrow>
          uc_configuration uc' = (uc_configuration uc)\<lparr>ac_servers := (ac_servers (uc_configuration uc))
            [j := (ac_servers (uc_configuration uc) ! j)
              \<lparr>ag_mtls_cert := if mc_certificate m = [] then ag_mtls_cert (ac_servers (uc_configuration uc) ! j)
                               else filter (\<lambda>c. c \<noteq> CHR 0x0D) (mc_certificate m),
               ag_mtls_key := if mc_key m = [] then ag_mtls_key (ac_servers (uc_configuration uc) ! j)
                              else filter (\<lambda>c. c \<noteq> CHR 0x0D) (mc_key m)\<rparr>]\<rparr> \<and>
          file_after (ae_fs E) (uc_path uc) (uc_configuration uc') (uc_disk uc) (uc_disk uc'))"
proof -
  let ?ss = "ac_servers (uc_configuration uc)"
  from assms(1) obtain j rc creds b where j: "j < length ?ss"
    "refresh_certificate_async (ae_ssh E) (ae_api E) (nows j) (?ss ! j) sg opts = (b, Ok (rc, creds))"
    "cert_from_string (ae_ssh E) (rc_cert rc) = Inr cert"
    "\<forall>l < j. \<exists>b e. refresh_certificate_async (ae_ssh E) (ae_api E) (nows l) (?ss ! l) sg opts = (b, Err e)"
    and w: "case creds of None \<Rightarrow> uc' = uc
       | Some m \<Rightarrow> \<exists>r. r \<noteq> Panic \<and>
           write_configuration (ae_fs E) (set_server j (update_credentials m (?ss ! j)) uc) = (uc', r)"
    unfolding fetch_new_certificate_def using fetch_from_Ok [of E nows sg opts 0 ?ss 0 uc uc' n cert, unfolded add_0] by blast
  have "uc_configuration uc' = (uc_configuration uc)\<lparr>ac_servers := ?ss[j := update_credentials m (?ss ! j)]\<rparr> \<and>
      file_after (ae_fs E) (uc_path uc) (uc_configuration uc') (uc_disk uc) (uc_disk uc')"
    if m: "creds = Some m" for m
  proof -
    let ?uc = "set_server j (update_credentials m (?ss ! j)) uc"
    from w m obtain r where r: "write_configuration (ae_fs E) ?uc = (uc', r)" "r \<noteq> Panic" by auto
    have "uc_disk ?uc = uc_disk uc" "ac_version (uc_configuration ?uc) = 2" "uc_path ?uc = uc_path uc"
      using assms(3) by (simp_all add: set_server_def)
    with write_configuration_file [OF r assms(2)] show ?thesis by (simp add: set_server_def)
  qed
  with w have "case creds of
        None \<Rightarrow> uc' = uc
      | Some m \<Rightarrow>
          uc_configuration uc' = (uc_configuration uc)\<lparr>ac_servers := ?ss[j := update_credentials m (?ss ! j)]\<rparr> \<and>
          file_after (ae_fs E) (uc_path uc) (uc_configuration uc') (uc_disk uc) (uc_disk uc')"
    by (cases creds) auto
  with j show ?thesis unfolding update_credentials_fields by blast
qed

text \<open>The invariant of the handler: a cached certificate goes stale when it expires.\<close>

definition handler_inv :: "('pk, 'sk) handler \<Rightarrow> bool" where
  "handler_inv h \<longleftrightarrow> (\<forall>c. hd_cert h = Some c \<longrightarrow> hd_stale_at h = c_valid_before c)"

lemma notify_times_simps [simp]:
  "hd_cert (notify_times n h) = hd_cert h" "hd_stale_at (notify_times n h) = hd_stale_at h"
  "hd_identities (notify_times n h) = hd_identities h" "hd_pubkey (notify_times n h) = hd_pubkey h"
  "hd_piv_identities (notify_times n h) = hd_piv_identities h"
  "hd_signatory (notify_times n h) = hd_signatory h"
  by (simp_all add: notify_times_def)

lemma cached_certificate_Some:
  "cached_certificate t h = Some c \<longleftrightarrow> hd_cert h = Some c \<and> t + 5 < hd_stale_at h"
  by (auto simp: cached_certificate_def split: option.splits)

lemma get_certificate_inv:
  assumes "handler_inv h" and "get_certificate_async E now nows fetch h = (h', r)"
  shows "handler_inv h'"
  using assms
  by (auto simp: get_certificate_async_def handler_inv_def Let_def
      split: option.splits if_splits prod.splits result.splits)

lemma sign_with_signatory_keeps:
  "sign_with_signatory L fp data h = (h', r) \<Longrightarrow>
     hd_cert h' = hd_cert h \<and> hd_stale_at h' = hd_stale_at h \<and> hd_identities h' = hd_identities h"
  by (auto simp: sign_with_signatory_def split: signatory.splits option.splits if_splits)

lemma sign_with_descriptor_keeps:
  "sign_with_descriptor E d data h = (h', r) \<Longrightarrow>
     hd_cert h' = hd_cert h \<and> hd_stale_at h' = hd_stale_at h \<and> hd_identities h' = hd_identities h"
  by (auto simp: sign_with_descriptor_def split: option.splits)

lemma sign_request_keeps:
  "sign_request E blob data flags h = (h', r) \<Longrightarrow>
     hd_cert h' = hd_cert h \<and> hd_stale_at h' = hd_stale_at h \<and> hd_identities h' = hd_identities h"
  by (auto simp: sign_request_def Let_def split: option.splits
      dest: sign_with_descriptor_keeps sign_with_signatory_keeps)

lemma sign_with_Ok: "sign_with sig err = Ok r \<longleftrightarrow> (\<exists>s. sig = Some s \<and> r = RespSign s)"
  by (auto simp: sign_with_def split: option.splits)

text \<open>
  C37: The certificate the agent works with is the cached one if there is one with more than five seconds left, and then
  no server is asked and nothing changes; otherwise it was fetched just now, and is the cached one, with its own
  expiry, from then on.
\<close>

theorem get_certificate_Ok:
  assumes "handler_inv h" and "get_certificate_async E (Some t) nows True h = (h', Ok (Some c))"
  shows "hd_cert h' = Some c \<and> hd_stale_at h' = c_valid_before c \<and>
     (if \<exists>old. hd_cert h = Some old \<and> t + 5 < c_valid_before old
      then h' = h
      else \<exists>uc n. fetch_new_certificate E nows (hd_signatory h) (hd_certificate_options h)
             (hd_configuration h) = (uc, n, Ok c) \<and> hd_configuration h' = uc \<and> hd_notified h' = hd_notified h +
               (if hd_notification_function h then n else 0))"
  using assms
  by (auto simp: get_certificate_async_def handler_inv_def cached_certificate_def notify_times_def Let_def
      split: option.splits prod.splits result.splits if_splits)

text \<open>
  C16: The agent signs only with a key that was asked for: an added key stored under exactly this blob, a
  PIV key stored under it, or its own key when the blob (a key or a certificate) has its fingerprint.
\<close>

theorem sign_request_Ok:
  assumes "sign_request E blob data flags h = (h', Ok r)"
  shows "\<exists>sig fp. r = RespSign sig \<and> request_fingerprint (ae_ssh E) blob = Some fp \<and>
     ((\<exists>k. map_of (hd_identities h) blob = Some k \<and> sk_sign (ae_ssh E) k data = Some sig) \<or>
      (\<exists>d yk. map_of (hd_identities h) blob = None \<and> map_of (hd_piv_identities h) blob = Some d \<and>
         ae_open_yubikey E (pv_serial d) = Some yk \<and> pd_sign yk data (pv_slot d) = Some sig \<and>
         (\<forall>pin. pv_pin d = Some pin \<longrightarrow> pd_unlock yk (as_bytes pin) (ae_mgm_key E))) \<or>
      (\<exists>k. hd_signatory h = Direct k \<and> pk_fingerprint (ae_ssh E) (sk_pubkey (ae_ssh E) k) = fp \<and>
         sk_sign (ae_ssh E) k data = Some sig) \<or>
      (\<exists>slot yk pk. hd_signatory h = YubikeySignatory slot yk \<and> yd_fetch_pubkey yk slot = Some pk \<and>
         pk_fingerprint (ae_ssh E) pk = fp \<and> yd_sign yk data slot = Some sig))"
proof -
  obtain fp where fp: "request_fingerprint (ae_ssh E) blob = Some fp"
    using assms by (auto simp: sign_request_def Let_def split: option.splits)
  show ?thesis
  proof (cases "map_of (hd_identities h) blob")
    case (Some k)
    with assms fp show ?thesis by (auto simp: sign_request_def Let_def sign_with_Ok)
  next
    case no_key: None
    show ?thesis
    proof (cases "map_of (hd_piv_identities h) blob")
      case (Some d)
      with assms fp no_key show ?thesis
        by (auto simp: sign_request_def Let_def sign_with_descriptor_def sign_with_Ok
            split: option.splits if_splits)
    next
      case None
      with assms fp no_key show ?thesis
        by (auto simp: sign_request_def Let_def sign_with_signatory_def sign_with_Ok
            split: signatory.splits option.splits if_splits)
    qed
  qed
qed

text \<open>
  A key that was added is used: signing with its blob then signs with it, whatever else the agent
  holds (given that the blob is readable as a key or certificate).
\<close>

theorem add_then_sign:
  assumes "add_identity E k h = (h', r)"
    and "request_fingerprint (ae_ssh E) (pk_encode (ae_ssh E) (sk_pubkey (ae_ssh E) k)) \<noteq> None"
    and "sk_sign (ae_ssh E) k data = Some sig"
  shows "r = Ok RespSuccess \<and>
     sign_request E (pk_encode (ae_ssh E) (sk_pubkey (ae_ssh E) k)) data flags h' = (h', Ok (RespSign sig))"
  using assms by (auto simp: add_identity_def sign_request_def Let_def sign_with_def)

end
