(* ===== verification/Service.thy ===== *)
theory Service
  imports Exchange Server_System Agent_Handler
begin

text \<open>
  The agent connected to the service: the agent's view of a server (\<open>rustica_api\<close>) made of the server's own handlers.
  An agent asks for a challenge and comes back with the answer; in between the server serves whatever
  other calls arrive. All requests go over one connection, with the client certificate of the TLS session.
\<close>

section \<open>The connection\<close>

record connection =
  cn_addr :: socket_addr
  cn_peers :: "bytes list"

definition over :: "connection \<Rightarrow> 'a \<Rightarrow> 'a request" where
  "over conn x = \<lparr>remote_addr = Some (cn_addr conn), peer_certs = Some (cn_peers conn), into_inner = x\<rparr>"

text \<open>What a client sees of a handler's result; a handler that panicked shows as some status of the transport.\<close>

definition wire :: "status \<Rightarrow> ('a, status) result \<Rightarrow> status + 'a" where
  "wire down r = (case r of Ok x \<Rightarrow> Inr x | Err st \<Rightarrow> Inl st | Panic \<Rightarrow> Inl down)"

text \<open>
  The server's clock: for the challenge, and for the request that follows (in the validation, in the handler, in the
  authorizer, and, with nanoseconds, in the handler of the allowed signers).
\<close>

record clock =
  ck_challenge :: "u64 option"
  ck_validate :: "u64 option"
  ck_handler :: "u64 option"
  ck_authorizer :: "u64 option"
  ck_signers :: "duration option"

text \<open>The challenge is served in the state \<open>srv\<close>, the other requests in the state \<open>srv1\<close>.\<close>

definition service_api ::
    "('pk, 'sk, 'ca, 'l) server_env \<Rightarrow> connection \<Rightarrow> status \<Rightarrow> clock \<Rightarrow> ('pk, 'sk, 'ca, 'l) rustica_server
     \<Rightarrow> ('pk, 'sk, 'ca, 'l) rustica_server \<Rightarrow> rustica_api \<Rightarrow> rustica_api" where
  "service_api E conn down ck srv srv1 A =
     A\<lparr>api_challenge := (\<lambda>_ q. wire down (snd (challenge_handler E (ck_challenge ck) (over conn q) srv))),
       api_certificate := (\<lambda>_ q. wire down
         (snd (certificate_handler E (ck_validate ck) (ck_handler ck) (ck_authorizer ck) (over conn q) srv1))),
       api_register_key := (\<lambda>_ q. wire down (snd (register_key_handler E (ck_validate ck) (over conn q) srv1))),
       api_register_u2f_key :=
         (\<lambda>_ q. wire down (snd (register_u2f_key_handler E (ck_validate ck) (over conn q) srv1))),
       api_attested_x509 :=
         (\<lambda>_ q. wire down (snd (attested_x509_certificate_handler E (ck_authorizer ck) (over conn q) srv1))),
       api_allowed_signers :=
         (\<lambda>_. wire down (snd (allowed_signers_handler E (ck_signers ck) (over conn ()) srv1)))\<rparr>"

lemma over_simps [simp]:
  "remote_addr (over conn x) = Some (cn_addr conn)" "peer_certs (over conn x) = Some (cn_peers conn)"
  "into_inner (over conn x) = x"
  by (simp_all add: over_def)

lemma wire_Ok [simp]: "wire down (Ok x) = Inr x"
  by (simp add: wire_def)

lemma wire_Inr: "wire down r = Inr x \<longleftrightarrow> r = Ok x"
  by (cases r) (simp_all add: wire_def)

lemma service_client [simp]:
  "get_rustica_client (service_api E conn down ck srv srv1 A) s = get_rustica_client A s"
  by (simp add: get_rustica_client_def service_api_def)

section \<open>A session\<close>

text \<open>
  An agent with the key \<open>k\<close> in the middle of an exchange: the server handed out the challenge \<open>resp\<close> in the state \<open>srv\<close>, the agent
  answers it with \<open>ch\<close> (notifying its user or not), and within five seconds, after whatever other calls, sends its request.
\<close>

definition session ::
    "('pk, 'sk, 'ca, 'l) server_env \<Rightarrow> connection \<Rightarrow> ('pk, 'sk) signatory \<Rightarrow> 'pk \<Rightarrow> challenge_response \<Rightarrow> challenge
     \<Rightarrow> bool \<Rightarrow> clock \<Rightarrow> server_call list \<Rightarrow> ('pk, 'sk, 'ca, 'l) rustica_server
     \<Rightarrow> ('pk, 'sk, 'ca, 'l) rustica_server \<Rightarrow> bool" where
  "session E conn signatory k resp ch notified ck calls srv srv1 \<longleftrightarrow>
     sshcerts_laws (e_ssh E) \<and> crypto_laws (e_crypto E) \<and>
     signatory_pubkey (e_ssh E) signatory = Ok k \<and>
     challenge_handler E (ck_challenge ck) (over conn \<lparr>cq_pubkey = pk_to_string (e_ssh E) k\<rparr>) srv = (srv, Ok resp) \<and>
     answer_challenge (e_ssh E) signatory k resp = (notified, Ok ch) \<and> length (ch_challenge ch) \<le> 1024 \<and>
     srv1 = fst (server_run E srv calls) \<and>
     (\<exists>t t'. ck_challenge ck = Some t \<and> ck_validate ck = Some t' \<and> unat t \<le> unat t' \<and> unat t' \<le> unat t + 5)"

text \<open>What the server makes of the answer: the agent's key, the identities of its client certificate, and a refresh.\<close>

definition validated_session ::
    "('pk, 'sk, 'ca, 'l) server_env \<Rightarrow> connection \<Rightarrow> clock \<Rightarrow> ('pk, 'sk, 'ca, 'l) rustica_server \<Rightarrow> 'pk \<Rightarrow> 'pk validated \<Rightarrow> bool"
    where
  "validated_session E conn ck srv1 k v \<longleftrightarrow> (\<exists>peer rest info t'. cn_peers conn = peer # rest \<and>
     extract_certificate_information E peer = Ok info \<and> ck_validate ck = Some t' \<and>
     v = (k, mi_identities info, certificate_refresh srv1 t' (mi_expiry_timestamp info)))"

lemma session_validated:
  assumes "session E conn signatory k resp ch notified ck calls srv srv1"
  obtains v where "validated_session E conn ck srv1 k v" "fst v = k"
    "validate_request E (ck_validate ck) (cn_peers conn) ch srv1 = (srv1, Ok v)"
proof -
  obtain t t' where laws: "sshcerts_laws (e_ssh E)" "crypto_laws (e_crypto E)"
    and challenge: "challenge_handler E (Some t) (over conn \<lparr>cq_pubkey = pk_to_string (e_ssh E) k\<rparr>) srv = (srv, Ok resp)"
    and answer: "answer_challenge (e_ssh E) signatory k resp = (notified, Ok ch)"
    and size: "length (ch_challenge ch) \<le> 1024" and later: "srv1 = fst (server_run E srv calls)"
    and time: "ck_validate ck = Some t'" "unat t \<le> unat t'" "unat t' \<le> unat t + 5"
    using assms unfolding session_def by auto
  have "settings srv1 = settings srv" using later server_run_settings by simp
  then have "hmac_key srv1 = hmac_key srv" "challenge_key srv1 = challenge_key srv"
    "require_rustica_proof srv1 = require_rustica_proof srv" by (simp_all add: settings_def)
  from honest_exchange [OF laws challenge _ answer time(2,3) size this] obtain peer rest info where
    "cn_peers conn = peer # rest" "extract_certificate_information E peer = Ok info"
    "validate_request E (Some t') (peer # rest) ch srv1 = (srv1, Ok (k, mi_identities info,
       certificate_refresh srv1 t' (mi_expiry_timestamp info)))" by auto
  with time(1) show thesis
    by (intro that [of "(k, mi_identities info, certificate_refresh srv1 t' (mi_expiry_timestamp info))"])
       (auto simp: validated_session_def)
qed

lemma session_challenge:
  assumes "session E conn signatory k resp ch notified ck calls srv srv1" and "get_rustica_client A s = Ok ()"
  shows "complete_rustica_challenge (e_ssh E) (service_api E conn down ck srv srv1 A) s signatory = (notified, Ok ch)"
proof -
  have "rpc (api_challenge (service_api E conn down ck srv srv1 A) s \<lparr>cq_pubkey = pk_to_string (e_ssh E) k\<rparr>) = Ok resp"
    using assms(1) by (simp add: session_def service_api_def)
  with assms show ?thesis by (simp add: complete_rustica_challenge_def session_def rpc_def)
qed

lemma session_refresh:
  assumes session: "session E conn signatory k resp ch notified ck calls srv srv1"
    and client: "get_rustica_client A s = Ok ()"
    and valid: "validate_request E (ck_validate ck) (cn_peers conn) ch srv1 = (srv1, Ok v)"
  shows "refresh_certificate_async (e_ssh E) (service_api E conn down ck srv srv1 A) now s signatory options =
     (notified, and_then (rpc (wire down (snd (authorize_and_issue E (ck_handler ck) (ck_authorizer ck) (cn_addr conn)
         (certificate_request_for (e_ssh E) options (case now of Some ts \<Rightarrow> ts | None \<Rightarrow> 0xFFFFFFFFFFFFFFFF) ch)
         v srv1)))) read_certificate_response)"
  using session_challenge [OF session client, of down] valid
  by (simp add: refresh_certificate_async_def) (simp add: service_api_def certificate_handler_def certificate_request_for_def)

lemma session_register:
  assumes session: "session E conn signatory k resp ch notified ck calls srv srv1"
    and client: "get_rustica_client A s = Ok ()"
    and valid: "validate_request E (ck_validate ck) (cn_peers conn) ch srv1 = (srv1, Ok (k, ids, refresh))"
  shows "register_key_async (e_ssh E) (service_api E conn down ck srv srv1 A) s signatory att =
       rpc (wire down (snd (register_attested E
         (verify_piv_certificate_chain (e_ssh E) (apa_certificate att) (apa_intermediate att))
         k ids (addr_string (cn_addr conn)) srv1)))"
  using session_challenge [OF session client, of down] valid
  by (simp add: register_key_async_def) (simp add: service_api_def register_key_handler_def requester_ip_of_def)

section \<open>Properties\<close>

text \<open>
  C3: The exchange is transparent: an agent that can answer the server's challenges gets, for its request, exactly what the
  server's authorizer and signers decide for the agent's own key and the identities of its client certificate, whatever
  the server was asked by others between the challenge and the request: a certificate request is a direct question
  to authorization and issue, a registration a direct registration of the key.
\<close>

theorem service_transparent:
  assumes "session E conn signatory k resp ch notified ck calls srv srv1" and "get_rustica_client A s = Ok ()"
  shows "\<exists>ids refresh. validated_session E conn ck srv1 k (k, ids, refresh) \<and>
     refresh_certificate_async (e_ssh E) (service_api E conn down ck srv srv1 A) (Some ts) s signatory options =
       (notified, and_then (rpc (wire down (snd (authorize_and_issue E (ck_handler ck) (ck_authorizer ck) (cn_addr conn)
             (certificate_request_for (e_ssh E) options ts ch) (k, ids, refresh) srv1))))
           read_certificate_response) \<and>
     register_key_async (e_ssh E) (service_api E conn down ck srv srv1 A) s signatory att =
       rpc (wire down (snd (register_attested E
         (verify_piv_certificate_chain (e_ssh E) (apa_certificate att) (apa_intermediate att))
         k ids (addr_string (cn_addr conn)) srv1)))"
proof -
  obtain ids refresh where v: "validated_session E conn ck srv1 k (k, ids, refresh)"
    "validate_request E (ck_validate ck) (cn_peers conn) ch srv1 = (srv1, Ok (k, ids, refresh))"
    by (rule session_validated [OF assms(1)]) (metis prod.collapse)
  with session_refresh [OF assms v(2), where now = "Some ts"] session_register [OF assms v(2)] show ?thesis by auto
qed

text \<open>
  C4: From the SSH client to the authority and back: when an SSH client asks the agent for its identities, the agent's cached
  certificate is used up, and the first configured server is the service, grants the request and sends no new mTLS
  credentials along, the list the client gets contains the certificate the service issued, which the agent keeps, and uses without asking again until
  five seconds before it expires.
\<close>

theorem identities_from_service:
  assumes session: "session E conn (hd_signatory h) k resp ch notified ck calls srv srv1"
    and agent: "ae_ssh G = e_ssh E" "ae_api G = service_api E conn down ck srv srv1 A"
    and client: "ac_servers (uc_configuration (hd_configuration h)) = s # ss" "get_rustica_client A s = Ok ()"
      "cached_certificate t0 h = None" "nows 0 = Some ts"
    and granted: "\<And>v. validated_session E conn ck srv1 k v \<Longrightarrow>
       snd (authorize_and_issue E (ck_handler ck) (ck_authorizer ck) (cn_addr conn)
         (certificate_request_for (e_ssh E) (hd_certificate_options h) ts ch) v srv1) = Ok reply"
    and reply: "ce_error_code reply = 0" "ce_new_client_certificate reply = ''''"
      "cert_from_string (e_ssh E) (ce_certificate reply) = Inr cert"
  shows "\<exists>h' ids. identities G (Some t0) nows h = (h', Ok (RespIdentities ids)) \<and>
     (\<exists>comment. \<lparr>key_blob = c_serialized cert, key_comment = comment\<rparr> \<in> set ids) \<and>
     hd_cert h' = Some cert \<and>
     (\<forall>t1. t1 + 5 < c_valid_before cert \<longrightarrow> get_certificate_async G (Some t1) nows True h' = (h', Ok (Some cert)))"
proof -
  obtain v where v: "validated_session E conn ck srv1 k v"
    "validate_request E (ck_validate ck) (cn_peers conn) ch srv1 = (srv1, Ok v)"
    by (rule session_validated [OF session])
  have "refresh_certificate_async (ae_ssh G) (ae_api G) (nows 0) s (hd_signatory h) (hd_certificate_options h) =
     (notified, Ok (\<lparr>rc_cert = ce_certificate reply, rc_comment = ''JITC''\<rparr>, None))"
    using session_refresh [OF session client(2) v(2), of down "Some ts" "hd_certificate_options h"] granted [OF v(1)]
      reply(1,2) client(4)
    by (simp add: agent read_certificate_response_def rpc_def)
  then have "fetch_new_certificate G nows (hd_signatory h) (hd_certificate_options h) (hd_configuration h) =
     (hd_configuration h, if notified then 1 else 0, Ok cert)"
    using reply(3) client(1) by (simp add: fetch_new_certificate_def agent)
  then have "get_certificate_async G (Some t0) nows True h =
     ((notify_times (if notified then 1 else 0) h)\<lparr>hd_cert := Some cert, hd_stale_at := c_valid_before cert\<rparr>,
      Ok (Some cert))"
    using client(3) by (simp add: get_certificate_async_def Let_def notify_times_def)
  then show ?thesis
    by (auto simp: identities_def Let_def get_certificate_async_def cached_certificate_def)
qed

text \<open>
  C36: What the agent shows as the allowed signers is the server's list: when the service answers and its cache had expired,
  the agent has the list of the authorizer, one line per signer with identity and key separated by a space, given that
  the decoder undoes the compression and the text is valid UTF-8.
\<close>

theorem allowed_signers_delivered:
  assumes "get_rustica_client A s = Ok ()" and "ck_signers ck = Some now"
    and "allowed_signers_handler E (Some now) (over conn ()) srv1 = (srv2, Ok reply)"
    and "sc_expiry_timestamp (srv_allowed_signers_cache srv1) < now"
    and "\<And>text b. compress E text = Some b \<Longrightarrow>
           \<exists>d. api_zstd_decoder A b = Some d \<and> api_zstd_read A d = Some (as_bytes text)"
    and "\<And>a. get_allowed_signers (e_author E) (srv_databases srv1) (srv_authorizer srv1) = Ok a \<Longrightarrow>
           utf8_valid (as_bytes (allowed_signers_text a))"
  shows "\<exists>a. get_allowed_signers (e_author E) (srv_databases srv1) (srv_authorizer srv1) = Ok a \<and>
     get_allowed_signers_async (service_api E conn down ck srv srv1 A) s = Ok (allowed_signers_text a)"
proof -
  obtain srv' where admit: "signers_admit E (Some now) (over conn ()) srv1 = (srv', Ok now)"
    using assms(3) by (auto simp: allowed_signers_handler_def signers_admit_def is_rate_limited_def Let_def
        split: prod.splits result.splits option.splits list.splits if_splits)
  note same = signers_admit_keeps [OF admit]
  have dbs: "srv_databases srv' = srv_databases srv1"
    using signers_admit_quiet [OF admit] by (auto simp: quiet_def effect_def)
  have "cached_reply now srv' = None" using assms(4) same by (simp add: cached_reply_def)
  with assms(3) admit obtain response where "signers_refresh E now srv' = (srv2, response, Ok reply)"
    by (auto simp: allowed_signers_handler_def split: prod.splits)
  then obtain a b where a: "get_allowed_signers (e_author E) (srv_databases srv1) (srv_authorizer srv1) = Ok a"
    "compress E (allowed_signers_text a) = Some b" "reply = \<lparr>ar_compressed_allowed_signers = b\<rparr>"
    using same dbs \<open>cached_reply now srv' = None\<close>
    by (auto simp: signers_refresh_def Let_def split: result.splits option.splits)
  moreover have "api_allowed_signers (service_api E conn down ck srv srv1 A) s = Inr reply"
    using assms(2,3) by (simp add: service_api_def)
  ultimately show ?thesis
    using assms(1) assms(5) [OF a(2)] assms(6) [OF a(1)]
    by (auto simp: get_allowed_signers_async_def rpc_def from_utf8_def) (auto simp: service_api_def)
qed

text \<open>
  A refusal reaches the user as it was meant: the text of the server's error, after what tells that it is the server's.
\<close>

lemma refusal_reported:
  assumes "e \<noteq> Success"
  shows "\<exists>err. read_certificate_response (create_response e) = Err err \<and>
     refresh_error_to_string fmt err = ''Error from server: '' @ debug_error e"
  using assms create_response_code [of e]
  by (auto simp: read_certificate_response_def create_response_def)

end
