(* ===== verification/Server_Config.thy ===== *)
theory Server_Config
  imports Server_Issue Server_Signers
begin

text \<open>
  \<^verbatim>\<open>rustica/src/config/mod.rs\<close> and the start of \<^verbatim>\<open>rustica/src/main.rs\<close>: building a server from its
  configuration. Reading the file, the TOML parser, the parser of socket addresses and the random keys
  are parameters; the command line is given by the path and the number of \<^verbatim>\<open>-v\<close> flags.
\<close>

record 'sk configuration =
  cf_server_cert :: string
  cf_server_key :: string
  cf_client_authority :: client_authority_configuration
  cf_listen_address :: string
  cf_authorization :: authorization_configuration
  cf_signing :: "'sk signing_configuration"
  cf_require_rustica_proof :: bool
  cf_require_attestation_chain :: bool
  cf_logging :: logging_configuration
  cf_allowed_signers :: allowed_signers_configuration

record ('pk, 'sk, 'ca, 'l) rustica_settings =
  rs_server :: "('pk, 'sk, 'ca, 'l) rustica_server"
  rs_client_ca_cert :: string
  rs_server_cert :: string
  rs_server_key :: string
  rs_address :: socket_addr
  rs_logging_configuration :: logging_configuration

datatype configuration_error =
    CE_FileError
  | CE_ParsingError
  | CE_SSHKeyError
  | CE_InvalidListenAddress
  | CE_AuthorizerError
  | CE_SigningMechanismError signing_error
  | CE_ValidateOnly
  | CE_DefaultAuthorityDoesNotHaveSSHKeys
  | CE_NoSuchSigningMechanismForClientCa string "string list"

fun configuration_error_to_string :: "configuration_error \<Rightarrow> string" where
  "configuration_error_to_string CE_FileError = ''Could not read configuration file''"
| "configuration_error_to_string CE_ParsingError = ''Could not parse the configuration file''"
| "configuration_error_to_string CE_SSHKeyError = ''Could not parse the provided SSH keys file''"
| "configuration_error_to_string CE_InvalidListenAddress = ''Invalid address and/or port to listen on''"
| "configuration_error_to_string CE_AuthorizerError = ''Configuration for authorization was invalid''"
| "configuration_error_to_string (CE_SigningMechanismError e) = signing_error_to_string e"
| "configuration_error_to_string CE_ValidateOnly = ''Configuration was validated''"
| "configuration_error_to_string CE_DefaultAuthorityDoesNotHaveSSHKeys =
     ''The default authority must provide SSH keys''"
| "configuration_error_to_string (CE_NoSuchSigningMechanismForClientCa chosen options) =
     ''The requested signing mechanism to issue client certificates ('' @ chosen
     @ '') is not configured. Options are: '' @ join_with '', '' options"

record ('sk, 'l) config_env =
  read_file :: "string \<Rightarrow> bytes option"
  parse_toml :: "bytes \<Rightarrow> 'sk configuration option"
  parse_socket_addr :: "string \<Rightarrow> socket_addr option"
  generate_hmac_key :: "bytes option"
  new_challenge_key :: "'sk option"
  lru_new :: "nat \<Rightarrow> 'l"
  local_db_feature :: bool
  disk_databases :: databases

section \<open>Operations\<close>

text \<open>The PEM of the client certificate authority, which also is the root clients are checked against.\<close>

definition client_ca_pem ::
    "'ca rcgen_lib \<Rightarrow> ('pk, 'ca) signing_mechanism \<Rightarrow> string \<Rightarrow> (string, configuration_error) result" where
  "client_ca_pem R signer authority =
     and_then (map_err CE_SigningMechanismError (get_client_certificate_authority signer authority)) (\<lambda>ca.
     and_then (ok_or ca (CE_NoSuchSigningMechanismForClientCa authority (get_authorities signer))) (\<lambda>c.
       case ca_pem R c of
         Inr pem \<Rightarrow> Ok pem
       | Inl e \<Rightarrow> Err (CE_SigningMechanismError (AccessError
           (''Could not create a PEM from the requested signing system: '' @ e)))))"

definition new_server ::
    "('sk, 'l) config_env \<Rightarrow> 'sk configuration \<Rightarrow> authorization_mechanism \<Rightarrow> ('pk, 'ca) signing_mechanism
     \<Rightarrow> bytes \<Rightarrow> 'sk \<Rightarrow> ('pk, 'sk, 'ca, 'l) rustica_server" where
  "new_server F cfg mech signer hk ck =
     \<lparr>log_sender = [], hmac_key = hk, challenge_key = ck, srv_authorizer = mech, srv_signer = signer,
      require_rustica_proof = cf_require_rustica_proof cfg,
      require_attestation_chain = cf_require_attestation_chain cfg,
      client_authority = cf_client_authority cfg, srv_allowed_signers = cf_allowed_signers cfg,
      allowed_signers_rate_limiter = lru_new F (asc_lru_rate_limiter_size (cf_allowed_signers cfg)),
      srv_allowed_signers_cache = \<lparr>sc_compressed_allowed_signers = [], sc_expiry_timestamp = 0\<rparr>,
      srv_databases = disk_databases F\<rparr>"

definition configure ::
    "('pk, 'sk) ssh_lib \<Rightarrow> ('pk, 'ca) signer_env \<Rightarrow> ('sk, 'l) config_env \<Rightarrow> string \<Rightarrow> nat
     \<Rightarrow> (('pk, 'sk, 'ca, 'l) rustica_settings, configuration_error) result" where
  "configure L S F path validate =
     and_then (ok_or (read_file F path) CE_FileError) (\<lambda>content.
     and_then (ok_or (parse_toml F content) CE_ParsingError) (\<lambda>cfg.
     if validate = 1 then Err CE_ValidateOnly else
     and_then (ok_or (parse_socket_addr F (cf_listen_address cfg)) CE_InvalidListenAddress) (\<lambda>address.
     and_then (map_err (\<lambda>_. CE_AuthorizerError)
                 (try_into_mechanism (local_db_feature F) (cf_authorization cfg))) (\<lambda>mech.
     and_then (map_err CE_SigningMechanismError (convert_to_signing_mechanism L S (cf_signing cfg))) (\<lambda>signer.
     if \<not> is_ok (get_signer_public_key signer (sm_default_authority signer) User)
     then Err CE_DefaultAuthorityDoesNotHaveSSHKeys else
     and_then (unwrap (generate_hmac_key F)) (\<lambda>hk.
     and_then (unwrap (new_challenge_key F)) (\<lambda>ck.
     and_then (client_ca_pem (se_rcgen S) signer (cac_authority (cf_client_authority cfg))) (\<lambda>client_ca_cert.
     if validate > 1 then Err CE_ValidateOnly else
       Ok \<lparr>rs_server = new_server F cfg mech signer hk ck, rs_client_ca_cert = client_ca_cert,
           rs_server_cert = cf_server_cert cfg, rs_server_key = cf_server_key cfg,
           rs_address = address, rs_logging_configuration = cf_logging cfg\<rparr>))))))))"

text \<open>
  What \<^verbatim>\<open>main\<close> does with the outcome: start serving, leave quietly after a validation, or fail.
  Before serving it prints the signers, which may panic.
\<close>

datatype ('pk, 'sk, 'ca, 'l) started =
    Serving "('pk, 'sk, 'ca, 'l) rustica_settings" "string list"
  | Validated
  | StartFailed configuration_error
  | StartPanicked

definition start ::
    "('pk, 'sk) ssh_lib \<Rightarrow> ('pk, 'ca) signer_env \<Rightarrow> ('sk, 'l) config_env \<Rightarrow> string \<Rightarrow> nat
     \<Rightarrow> ('pk, 'sk, 'ca, 'l) started" where
  "start L S F path validate = (case configure L S F path validate of
     Panic \<Rightarrow> StartPanicked
   | Err CE_ValidateOnly \<Rightarrow> Validated
   | Err e \<Rightarrow> StartFailed e
   | Ok settings \<Rightarrow>
       (case signing_mechanism_to_string L (se_rcgen S) (sm_authorities (srv_signer (rs_server settings))) of
          Ok text \<Rightarrow> Serving settings [''Starting Rustica on: '' @ addr_string (rs_address settings),
                                       text, authorizer_info (srv_authorizer (rs_server settings))]
        | _ \<Rightarrow> StartPanicked))"

text \<open>
  The command line of the service: the path of the configuration, with a default, and how often
  \<^verbatim>\<open>--validate-config\<close> was given.
\<close>

record server_args =
  sg_config :: "string option"
  sg_validate :: nat

definition config_path_of :: "server_args \<Rightarrow> string" where
  "config_path_of args = (case sg_config args of None \<Rightarrow> ''/etc/rustica/rustica.toml'' | Some p \<Rightarrow> p)"

definition rustica_main ::
    "('pk, 'sk) ssh_lib \<Rightarrow> ('pk, 'ca) signer_env \<Rightarrow> ('sk, 'l) config_env \<Rightarrow> server_args
     \<Rightarrow> ('pk, 'sk, 'ca, 'l) started" where
  "rustica_main L S F args = start L S F (config_path_of args) (sg_validate args)"

section \<open>Lemmas\<close>

text \<open>Whatever kind of signer a configuration names, the object built from it keeps the contract.\<close>

lemma file_into_signer_object:
  "file_into_signer L K R cfg = Ok s \<Longrightarrow> \<exists>fs. s = file_signer_object L fs"
  by (auto simp: file_into_signer_def and_then_Ok)

lemma kms_into_signer_object:
  "kms_into_signer L M R cfg = Ok s \<Longrightarrow> \<exists>kg. s = kms_signer_object L M kg"
  by (auto simp: kms_into_signer_def and_then_Ok Let_def)

lemma yubikey_into_signer_object:
  "yubikey_into_signer L Y R cfg = Ok s \<Longrightarrow> \<exists>yg. s = yubikey_signer_object L Y yg"
  by (auto simp: yubikey_into_signer_def and_then_Ok)

lemma into_signer_contract:
  assumes "into_signer L S c = Ok s"
  shows "ssh_signer (sg_sign s) (sg_public_key s)"
proof (cases c)
  case (File x)
  with assms obtain fs where "s = file_signer_object L fs" by (auto dest: file_into_signer_object)
  then show ?thesis by (simp add: file_signer_object_def file_signer.ssh_signer_axioms)
next
  case (Yubikey x)
  with assms obtain yg where "s = yubikey_signer_object L (se_yubikey S) yg"
    by (auto dest: yubikey_into_signer_object)
  then show ?thesis by (simp add: yubikey_signer_object_def yubikey_signer.ssh_signer_axioms)
next
  case (AmazonKMS x)
  with assms obtain kg where "s = kms_signer_object L (se_kms S) kg" by (auto dest: kms_into_signer_object)
  then show ?thesis by (simp add: kms_signer_object_def kms_signer.ssh_signer_axioms)
qed

lemma converted_signer:
  assumes "convert_authorities L into cfgs pks [] = Ok conv" and "map_of conv a = Some s"
  shows "\<exists>c. into c = Ok s"
proof -
  from assms(1) obtain signers where signers: "map (\<lambda>x. into (snd x)) cfgs = map Ok signers"
    and conv: "conv = hm_collect (zip (map fst cfgs) signers)"
    by (auto simp: convert_authorities_Ok hm_collect_def)
  from assms(2) conv have "(a, s) \<in> set (rev (zip (map fst cfgs) signers))"
    by (metis hm_collect_get map_of_SomeD)
  then have "s \<in> set signers" by (auto dest: set_zip_rightD)
  then have "Ok s \<in> set (map (\<lambda>x. into (snd x)) cfgs)" using signers by auto
  then show ?thesis by auto
qed

lemma mechanism_signer_contract:
  assumes "convert_to_signing_mechanism L S cfg = Ok m" and "map_of (sm_authorities m) a = Some s"
  shows "ssh_signer (sg_sign s) (sg_public_key s)"
  using assms converted_signer into_signer_contract
  by (fastforce simp: convert_to_signing_mechanism_def and_then_Ok)

lemma configure_Ok:
  "configure L S F path validate = Ok settings \<longleftrightarrow>
     (\<exists>content cfg address mech signer hk ck pem.
        read_file F path = Some content \<and> parse_toml F content = Some cfg \<and> validate = 0 \<and>
        parse_socket_addr F (cf_listen_address cfg) = Some address \<and>
        try_into_mechanism (local_db_feature F) (cf_authorization cfg) = Ok mech \<and>
        convert_to_signing_mechanism L S (cf_signing cfg) = Ok signer \<and>
        is_ok (get_signer_public_key signer (sm_default_authority signer) User) \<and>
        generate_hmac_key F = Some hk \<and> new_challenge_key F = Some ck \<and>
        client_ca_pem (se_rcgen S) signer (cac_authority (cf_client_authority cfg)) = Ok pem \<and>
        settings = \<lparr>rs_server = new_server F cfg mech signer hk ck, rs_client_ca_cert = pem,
           rs_server_cert = cf_server_cert cfg, rs_server_key = cf_server_key cfg,
           rs_address = address, rs_logging_configuration = cf_logging cfg\<rparr>)"
proof (cases "validate = 0")
  case True
  then show ?thesis unfolding configure_def ok_iff result.inject not_not by simp blast
next
  case False
  then have "validate = 1 \<or> validate > 1" by auto
  then show ?thesis using False unfolding configure_def ok_iff by auto
qed

lemma configured_facts:
  assumes "configure L S F path validate = Ok settings"
  shows "\<exists>sc. convert_to_signing_mechanism L S sc = Ok (srv_signer (rs_server settings)) \<and>
     is_ok (get_signer_public_key (srv_signer (rs_server settings))
       (sm_default_authority (srv_signer (rs_server settings))) User) \<and>
     client_ca_pem (se_rcgen S) (srv_signer (rs_server settings))
       (cac_authority (client_authority (rs_server settings))) = Ok (rs_client_ca_cert settings)"
proof -
  from assms [unfolded configure_Ok] obtain cfg mech signer hk ck pem where
    "convert_to_signing_mechanism L S (cf_signing cfg) = Ok signer"
    "is_ok (get_signer_public_key signer (sm_default_authority signer) User)"
    "client_ca_pem (se_rcgen S) signer (cac_authority (cf_client_authority cfg)) = Ok pem"
    "rs_server settings = new_server F cfg mech signer hk ck" "rs_client_ca_cert settings = pem"
    by (elim exE conjE) simp
  then show ?thesis by (auto simp: new_server_def intro!: exI [of _ "cf_signing cfg"])
qed

lemma client_ca_pem_Ok:
  "client_ca_pem R m a = Ok pem \<longleftrightarrow>
     (\<exists>ca. get_client_certificate_authority m a = Ok (Some ca) \<and> ca_pem R ca = Inr pem)"
  by (auto simp: client_ca_pem_def and_then_Ok case_sum_Ok)

text \<open>
  The default authority of a server that was configured signs both kinds of SSH certificates (only
  the user key is checked, but no signer has one key without the other).
\<close>

theorem configured_default_authority:
  assumes "configure L S F path validate = Ok settings"
  shows "\<exists>u h. get_signer_public_key (srv_signer (rs_server settings))
                 (sm_default_authority (srv_signer (rs_server settings))) User = Ok u \<and>
               get_signer_public_key (srv_signer (rs_server settings))
                 (sm_default_authority (srv_signer (rs_server settings))) Host = Ok h"
proof -
  define m where "m = srv_signer (rs_server settings)"
  obtain sc where m: "convert_to_signing_mechanism L S sc = Ok m"
    "is_ok (get_signer_public_key m (sm_default_authority m) User)"
    using configured_facts [OF assms] by (auto simp: m_def)
  then obtain s u where s: "map_of (sm_authorities m) (sm_default_authority m) = Some s"
    "sg_public_key s User = Some u"
    by (auto simp: get_signer_public_key_def is_ok_iff split: option.splits)
  have "ssh_signer (sg_sign s) (sg_public_key s)" by (rule mechanism_signer_contract [OF m(1) s(1)])
  with s(2) obtain h where "sg_public_key s Host = Some h"
    using ssh_signer.both_or_none [of "sg_sign s" "sg_public_key s"]
    by (cases "sg_public_key s Host") auto
  with s show ?thesis by (simp add: get_signer_public_key_def m_def)
qed

text \<open>
  A configured server has the client certificate authority it is told to use, and the root
  it checks clients against is that authority's certificate.
\<close>

theorem configured_client_ca:
  assumes "configure L S F path validate = Ok settings"
  shows "\<exists>ca. get_client_certificate_authority (srv_signer (rs_server settings))
                (cac_authority (client_authority (rs_server settings))) = Ok (Some ca) \<and>
              ca_pem (se_rcgen S) ca = Inr (rs_client_ca_cert settings)"
  using configured_facts [OF assms] by (auto simp: client_ca_pem_Ok)

text \<open>
  C38: On a configured server, whenever a client certificate is due it is issued and signed by that authority,
  and otherwise none is: the flag in the log and the reply agree.
\<close>

theorem configured_refresh:
  assumes "configure L S F path validate = Ok settings"
    and "srv_signer srv = srv_signer (rs_server settings)"
    and "client_authority srv = client_authority (rs_server settings)"
    and "refresh_client_certificate E srv ids refresh = Ok (nk, nc)"
  shows "(refresh = None \<and> nk = '''' \<and> nc = '''') \<or>
     (\<exists>settings' ca new. refresh = Some settings' \<and>
        get_client_certificate_authority (srv_signer srv) (cac_authority (client_authority srv)) = Ok (Some ca) \<and>
        nk = ca_key_pem (e_rcgen E) new \<and> ca_pem_with_signer (e_rcgen E) new ca = Some nc)"
proof -
  obtain ca where ca: "get_client_certificate_authority (srv_signer srv)
      (cac_authority (client_authority srv)) = Ok (Some ca)"
    using configured_facts [OF assms(1)] assms(2,3) by (auto simp: client_ca_pem_Ok)
  with assms(4) show ?thesis
    by (cases refresh) (auto simp: refresh_client_certificate_def Let_def if_Panic_Ok and_then_Ok)
qed

end
