(* ===== verification/Agent_Loop.thy ===== *)
theory Agent_Loop
  imports Agent_Handler
begin

text \<open>
  \<^verbatim>\<open>rustica-agent/src/sshagent/handler.rs\<close> and \<^verbatim>\<open>agent.rs\<close>: dispatching requests to a handler, the loop over one
  client's connection, and the loop that accepts connections. The trait \<^verbatim>\<open>SshAgentHandler\<close> is a record
  of its methods, each of which also takes what it reads from outside (\<open>'i\<close>, here the clocks).
\<close>

record ('s, 'sk, 'i) ssh_agent_handler =
  sah_add_identity :: "'i \<Rightarrow> 'sk \<Rightarrow> 's \<Rightarrow> 's \<times> (agent_response, agent_error) result"
  sah_identities :: "'i \<Rightarrow> 's \<Rightarrow> 's \<times> (agent_response, agent_error) result"
  sah_sign_request :: "'i \<Rightarrow> bytes \<Rightarrow> bytes \<Rightarrow> u32 \<Rightarrow> 's \<Rightarrow> 's \<times> (agent_response, agent_error) result"

fun handle_request ::
    "('s, 'sk, 'i) ssh_agent_handler \<Rightarrow> 'i \<Rightarrow> 'sk agent_request \<Rightarrow> 's
     \<Rightarrow> 's \<times> (agent_response, agent_error) result" where
  "handle_request H i RIdentities s = sah_identities H i s"
| "handle_request H i (RSign blob data flags) s = sah_sign_request H i blob data flags s"
| "handle_request H i (RAddIdentity k) s = sah_add_identity H i k s"
| "handle_request H i RUnknown s = (s, Ok RespFailure)"

text \<open>
  One client: read a request, handle it, write the response, until something fails (at the latest when the
  client closes the stream). \<open>ins n\<close> is what the \<open>n\<close>-th request reads from outside; \<open>can_write\<close>
  tells whether the client still takes an answer.
\<close>

function handle_client ::
    "('pk, 'sk) ssh_lib \<Rightarrow> ('s, 'sk, 'i) ssh_agent_handler \<Rightarrow> (nat \<Rightarrow> 'i) \<Rightarrow> (nat \<Rightarrow> bool) \<Rightarrow> nat \<Rightarrow> bytes \<Rightarrow> 's
     \<Rightarrow> 's \<times> agent_response list \<times> (unit, agent_error) result" where
  "handle_client L H ins can_write n stream s = (case read_request L stream of
     Panic \<Rightarrow> (s, [], Panic)
   | Err e \<Rightarrow> (s, [], Err e)
   | Ok (req, rest) \<Rightarrow>
     (case handle_request H (ins n) req s of
        (s', Panic) \<Rightarrow> (s', [], Panic)
      | (s', Err e) \<Rightarrow> (s', [], Err e)
      | (s', Ok response) \<Rightarrow>
          if \<not> can_write n then (s', [], Err IoError)
          else let (s'', out, e) = handle_client L H ins can_write (Suc n) rest s'
               in (s'', response # out, e)))"
  by auto
termination
  by (relation "measure (\<lambda>(L, H, ins, cw, n, stream, s). length stream)")
     (auto dest: read_request_shrinks)

declare handle_client.simps [simp del]

text \<open>
  The listener: with a termination channel it stops at the first message there; it stops too when accepting
  fails; every accepted connection is served by a task of its own.
\<close>

datatype listen_event = Terminate | Accepted nat | AcceptFailed

datatype listen_end = StillListening | Stopped | BindPanicked

fun listen :: "bool \<Rightarrow> listen_event list \<Rightarrow> nat list \<times> listen_end" where
  "listen term_channel [] = ([], StillListening)"
| "listen term_channel (Terminate # evs) = (if term_channel then ([], Stopped) else listen term_channel evs)"
| "listen term_channel (AcceptFailed # evs) = ([], Stopped)"
| "listen term_channel (Accepted c # evs) =
     (let (cs, e) = listen term_channel evs in (c # cs, e))"

definition run_with_termination_channel :: "bool \<Rightarrow> bool \<Rightarrow> listen_event list \<Rightarrow> nat list \<times> listen_end" where
  "run_with_termination_channel bind_ok term_channel evs =
     (if bind_ok then listen term_channel evs else ([], BindPanicked))"

section \<open>The loop on requests instead of bytes\<close>

text \<open>
  The reference for the client loop: the requests as values, one after the other, until the handler
  fails, an answer cannot be delivered, or the requests are used up (\<open>end_result\<close>).
\<close>

fun serve_requests ::
    "('s, 'sk, 'i) ssh_agent_handler \<Rightarrow> (nat \<Rightarrow> 'i) \<Rightarrow> (nat \<Rightarrow> bool) \<Rightarrow> (unit, agent_error) result \<Rightarrow> nat
     \<Rightarrow> 'sk agent_request list \<Rightarrow> 's \<Rightarrow> 's \<times> agent_response list \<times> (unit, agent_error) result" where
  "serve_requests H ins can_write end_result n [] s = (s, [], end_result)"
| "serve_requests H ins can_write end_result n (q # qs) s =
     (case handle_request H (ins n) q s of
        (s', Panic) \<Rightarrow> (s', [], Panic)
      | (s', Err e) \<Rightarrow> (s', [], Err e)
      | (s', Ok response) \<Rightarrow>
          if \<not> can_write n then (s', [], Err IoError)
          else let (s'', out, e) = serve_requests H ins can_write end_result (Suc n) qs s'
               in (s'', response # out, e))"

text \<open>A stream of framed message bodies.\<close>

definition framed :: "bytes list \<Rightarrow> bytes" where
  "framed bodies = concat (map write_message bodies)"

lemma framed_simps [simp]: "framed [] = []" "framed (b # bs) = write_message b @ framed bs"
  by (simp_all add: framed_def)

definition carries :: "('pk, 'sk) ssh_lib \<Rightarrow> bytes \<Rightarrow> 'sk agent_request \<Rightarrow> bool" where
  "carries L body q \<longleftrightarrow> length body < 2 ^ 32 \<and> parse_request L body = Ok q"

lemma carries_read: "carries L body q \<Longrightarrow> read_request L (write_message body @ rest) = Ok (q, rest)"
  by (simp add: carries_def read_request_def message_codec.round_trip)

text \<open>
  C20: The loop over a client's bytes does what the loop over its requests does: for every sequence of
  framed bodies that parse as requests, followed by bytes that are no request, the handler sees these
  requests in their order and nothing else, the client gets the same responses, and the loop ends the same
  way, wherever in the sequence it ends.
\<close>

theorem client_loop_equivalence:
  assumes "list_all2 (carries L) bodies qs" and "read_request L rest = Err e"
  shows "handle_client L H ins can_write n (framed bodies @ rest) s =
     serve_requests H ins can_write (Err e) n qs s"
  using assms
proof (induction bodies qs arbitrary: n s rule: list_all2_induct)
  case Nil
  then show ?case by (simp add: handle_client.simps)
next
  case (Cons b bs q qs)
  from Cons(1) have "read_request L (framed (b # bs) @ rest) = Ok (q, framed bs @ rest)"
    by (simp add: carries_read)
  with Cons(3) [OF Cons.prems] show ?case
    by (subst handle_client.simps) (simp split: prod.split result.split)
qed

text \<open>
  C21: The client loop ends on every stream, after at most one response for every five bytes the client
  sent.
\<close>

theorem client_responses_bound:
  "5 * length (fst (snd (handle_client L H ins can_write n stream s))) \<le> length stream"
proof (induction "length stream" arbitrary: n stream s rule: less_induct)
  case less
  show ?case
  proof (cases "read_request L stream")
    case (Ok qr)
    obtain q rest where q: "read_request L stream = Ok (q, rest)" using Ok by (cases qr) simp
    note shorter = less.hyps [OF read_request_shrinks [OF q], of "Suc n"]
    obtain s' r where r: "handle_request H (ins n) q s = (s', r)" by (rule prod.exhaust)
    obtain s'' out e where rec: "handle_client L H ins can_write (Suc n) rest s' = (s'', out, e)"
      by (rule prod_cases3)
    have "5 * length out + 5 \<le> length stream"
      using shorter [of s'] rec read_request_length [OF q] by simp
    with q r rec show ?thesis
      by (subst handle_client.simps) (auto split: result.splits)
  qed (simp_all add: handle_client.simps [of L H ins can_write n stream s])
qed

section \<open>The contract of a handler\<close>

text \<open>
  A handler answers each kind of request with its kind of response, keeps an invariant of its own, and
  listing never fails with an error.
\<close>

locale agent_handler =
  fixes H :: "('s, 'sk, 'i) ssh_agent_handler" and inv :: "'s \<Rightarrow> bool"
  assumes add_identity_kind: "sah_add_identity H i k s = (s', Ok r) \<Longrightarrow> r = RespSuccess"
    and identities_kind: "sah_identities H i s = (s', Ok r) \<Longrightarrow> \<exists>ids. r = RespIdentities ids"
    and identities_no_error: "sah_identities H i s \<noteq> (s', Err e)"
    and sign_kind: "sah_sign_request H i blob data flags s = (s', Ok r) \<Longrightarrow> \<exists>sig. r = RespSign sig"
    and add_identity_inv: "inv s \<Longrightarrow> inv (fst (sah_add_identity H i k s))"
    and identities_inv: "inv s \<Longrightarrow> inv (fst (sah_identities H i s))"
    and sign_inv: "inv s \<Longrightarrow> inv (fst (sah_sign_request H i blob data flags s))"
begin

fun answers :: "'sk agent_request \<Rightarrow> agent_response \<Rightarrow> bool" where
  "answers RIdentities r \<longleftrightarrow> (\<exists>ids. r = RespIdentities ids)"
| "answers (RSign _ _ _) r \<longleftrightarrow> (\<exists>sig. r = RespSign sig)"
| "answers (RAddIdentity _) r \<longleftrightarrow> r = RespSuccess"
| "answers RUnknown r \<longleftrightarrow> r = RespFailure"

lemma handle_request_answers: "handle_request H i q s = (s', Ok r) \<Longrightarrow> answers q r"
  by (cases q) (auto dest: add_identity_kind identities_kind sign_kind)

lemma handle_request_inv: "inv s \<Longrightarrow> inv (fst (handle_request H i q s))"
  by (cases q) (auto intro: add_identity_inv identities_inv sign_inv)

lemma handle_client_inv: "inv s \<Longrightarrow> inv (fst (handle_client L H ins cw n stream s))"
proof (induction "length stream" arbitrary: n stream s rule: less_induct)
  case less
  show ?case
  proof (cases "read_request L stream")
    case (Ok qr)
    obtain q rest where q: "read_request L stream = Ok (q, rest)" using Ok by (cases qr) simp
    obtain s' r where r: "handle_request H (ins n) q s = (s', r)" by (rule prod.exhaust)
    with handle_request_inv [OF less.prems, of "ins n" q] have s': "inv s'" by simp
    from less.hyps [OF read_request_shrinks [OF q] s', of "Suc n"]
    have "inv (fst (handle_client L H ins cw (Suc n) rest s'))" .
    with q r s' show ?thesis
      by (subst handle_client.simps) (auto split: result.splits prod.splits)
  qed (use less.prems in \<open>simp_all add: handle_client.simps [of L H ins cw n stream s]\<close>)
qed

text \<open>A request that is not understood never reaches the handler and changes nothing.\<close>

lemma unknown_request_harmless: "handle_request H i RUnknown s = (s, Ok RespFailure)"
  by simp

end

section \<open>The agent's handler keeps it\<close>

text \<open>The handler of the agent: its clocks are read per request.\<close>

definition rustica_handler ::
    "('pk, 'sk) agent_env \<Rightarrow> (('pk, 'sk) handler, 'sk, u64 option \<times> (nat \<Rightarrow> u64 option)) ssh_agent_handler" where
  "rustica_handler E =
     \<lparr>sah_add_identity = (\<lambda>i k h. add_identity E k h),
      sah_identities = (\<lambda>i h. identities E (fst i) (snd i) h),
      sah_sign_request = (\<lambda>i blob data flags h. sign_request E blob data flags h)\<rparr>"

lemma identities_inv: "handler_inv h \<Longrightarrow> handler_inv (fst (identities E now nows h))"
proof -
  assume inv: "handler_inv h"
  obtain h' r where g: "get_certificate_async E now nows True h = (h', r)" by (rule prod.exhaust)
  with get_certificate_inv [OF inv g] show ?thesis
    by (auto simp: identities_def Let_def split: result.split option.split)
qed

lemma sign_request_inv: "handler_inv h \<Longrightarrow> handler_inv (fst (sign_request E blob data flags h))"
  using sign_request_keeps [of E blob data flags h]
  by (cases "sign_request E blob data flags h") (auto simp: handler_inv_def)

lemma add_identity_inv: "handler_inv h \<Longrightarrow> handler_inv (fst (add_identity E k h))"
  by (simp add: add_identity_def handler_inv_def)

lemma identities_kinds:
  "identities E now nows h = (h', Ok r) \<Longrightarrow> \<exists>ids. r = RespIdentities ids"
  "identities E now nows h \<noteq> (h', Err e)"
  by (auto simp: identities_def Let_def split: prod.splits result.splits option.splits)

lemma sign_request_kind: "sign_request E blob data flags h = (h', Ok r) \<Longrightarrow> \<exists>sig. r = RespSign sig"
  by (auto simp: sign_request_def Let_def sign_with_Ok sign_with_descriptor_def
      sign_with_signatory_def split: option.splits signatory.splits if_splits)

interpretation rustica_agent: agent_handler "rustica_handler E" handler_inv for E
  by unfold_locales
     (simp_all add: rustica_handler_def identities_inv sign_request_inv add_identity_inv identities_kinds
        sign_request_kind, simp_all add: add_identity_def)

text \<open>
  C17: Serving a client, for however many requests and however the connection ends, keeps the handler's
  invariant: the expiry the agent goes by is its cached certificate's.
\<close>

theorem client_keeps_handler_inv:
  assumes "handler_inv h"
  shows "handler_inv (fst (handle_client L (rustica_handler E) ins can_write n stream h))"
  using rustica_agent.handle_client_inv [OF assms] .

text \<open>
  Every request gets the kind of answer the protocol has for it: a list of identities, a signature,
  a success, and a failure for requests that are not understood, which change nothing.
\<close>

theorem request_answer_kinds:
  "handle_request (rustica_handler E) i q h = (h', Ok r) \<Longrightarrow>
     (case q of
        RIdentities \<Rightarrow> \<exists>ids. r = RespIdentities ids
      | RSign _ _ _ \<Rightarrow> \<exists>sig. r = RespSign sig
      | RAddIdentity _ \<Rightarrow> r = RespSuccess
      | RUnknown \<Rightarrow> r = RespFailure \<and> h' = h)"
  using rustica_agent.handle_request_answers [of E i q h h' r] by (cases q) auto

text \<open>
  The agent always lists its own key: a request for the identities is answered (given a clock after the
  epoch, and a configuration that can be printed), never with an error, and the agent's public key
  is in the answer even when no server gives a certificate.
\<close>

theorem identities_list_own_key:
  assumes "identities E now nows h = (h', r)" and "r \<noteq> Panic"
  shows "\<exists>ids. r = Ok (RespIdentities ids) \<and>
     pk_encode (ae_ssh E) (hd_pubkey h) \<in> set (map key_blob ids)"
  using assms
  by (auto simp: identities_def Let_def split: prod.splits result.splits option.splits if_splits)

text \<open>
  After a termination message no connection is accepted any more, and until then every accepted
  connection is served.
\<close>

theorem listener_stops:
  "run_with_termination_channel True True (map Accepted cs @ Terminate # evs) = (cs, Stopped)"
  by (simp add: run_with_termination_channel_def) (induction cs, auto)

end
