(* ===== verification/Example_Env.thy ===== *)
theory Example_Env
  imports Server_Issue Server_Register Server_X509 Server_Config Agent_Loop
begin

text \<open>
  A small concrete world: keys are names, a certificate is printed as its key, key id and signing key, the
  HMAC of a message is the key followed by it, compression does nothing. It models no code of the
  repository; the examples evaluate the model's definitions in it, and show that the laws the
  properties assume of the libraries can hold together.
\<close>

section \<open>Libraries\<close>

definition ex_certificate :: "string \<Rightarrow> cert_type \<Rightarrow> string \<Rightarrow> string \<Rightarrow> string certificate" where
  "ex_certificate k t ca key_id =
     \<lparr>c_key = k, c_serial = 0, c_cert_type = t, c_key_id = key_id, c_principals = [], c_valid_after = 0,
      c_valid_before = 0, c_critical_options = [], c_extensions = [], c_signature_key = ca,
      c_signature = [], c_comment = None, c_serialized = []\<rparr>"

definition ex_print :: "string certificate \<Rightarrow> string" where
  "ex_print c = join_with ''|'' [c_key c, c_key_id c, c_signature_key c]"

definition ex_parse :: "string \<Rightarrow> string + string certificate" where
  "ex_parse s = (case split_on CHR ''|'' s of
     [k, i, ca] \<Rightarrow> Inr (ex_certificate k User ca i)
   | _ \<Rightarrow> Inl ''not a certificate'')"

definition ex_sign :: "string \<Rightarrow> string certificate \<Rightarrow> string certificate option" where
  "ex_sign k c =
     (if k = c_signature_key c \<and> CHR ''|'' \<notin> set (c_key c @ c_key_id c @ c_signature_key c)
      then Some c else None)"

definition ex_ssh :: "(string, string) ssh_lib" where
  "ex_ssh = \<lparr>pk_from_string = (\<lambda>s. if s = [] then None else Some s),
     pk_from_bytes = (\<lambda>b. if b = [] then None else Some (from_bytes b)),
     pk_to_string = (\<lambda>k. k), pk_encode = as_bytes,
     pk_fingerprint = (\<lambda>k. \<lparr>fp_hash = k, fp_kind = 0\<rparr>),
     sk_from_string = Some, sk_from_bytes = (\<lambda>b. Some (from_bytes b)),
     sk_pubkey = (\<lambda>k. k), sk_comment = (\<lambda>_. ''comment''), sk_is_sk = (\<lambda>_. False),
     sk_sign = (\<lambda>k d. Some (as_bytes k @ d)),
     cert_from_string = ex_parse, cert_from_bytes = (\<lambda>_. None), cert_to_string = ex_print,
     cert_builder = (\<lambda>k t ca. Some (ex_certificate k t ca '''')),
     cert_sign = ex_sign, cert_tbs = (\<lambda>_. []), cert_add_signature = (\<lambda>_ c. Some c),
     cert_type_to_string = (\<lambda>t. case t of User \<Rightarrow> ''user'' | Host \<Rightarrow> ''host''),
     cert_type_from_string = (\<lambda>s. if s = ''host'' then Some Host else if s = ''user'' then Some User else None),
     standard_extensions = [],
     verify_certificate_chain = (\<lambda>c i. if c = [] then None
        else Some \<lparr>pd_public_key = from_bytes c, pd_pin_policy = 1, pd_touch_policy = 2,
                   pd_serial = 7, pd_firmware = ''5''\<rparr>),
     verify_auth_data = (\<lambda>_ _ _ _ _. None)\<rparr>"

definition ex_crypto :: crypto_lib where
  "ex_crypto = \<lparr>hmac_sign = (\<lambda>k m. k @ m), hmac_verify = (\<lambda>k m t. t = k @ m), sha256 = (\<lambda>b. b),
     hex_encode = from_bytes, hex_decode = (\<lambda>s. Some (as_bytes s))\<rparr>"

definition ex_params :: "string list \<Rightarrow> cert_params" where
  "ex_params sans = \<lparr>subject_alt_names = map DnsName sans, serial_number = None, params_is_ca = NoCa,
     key_usages = [], extended_key_usages = [], name_constraints = None, custom_extensions = [],
     distinguished_name = [], use_authority_key_identifier_extension = False, not_before = 0, not_after = 0,
     params_alg = PKCS_ECDSA_P256_SHA256, params_key_pair = None\<rparr>"

definition ex_rcgen :: "string rcgen_lib" where
  "ex_rcgen = \<lparr>params_new = ex_params, dn_new = [], dn_push = (\<lambda>dn t s. dn @ [(t, s)]),
     time_ok = (\<lambda>_. True), ca_from_params = (\<lambda>p. Some (concat (map snd (distinguished_name p)))),
     ca_key_pem = (\<lambda>c. ''key of '' @ c), ca_pem = (\<lambda>c. Inr (''pem of '' @ c)),
     ca_pem_with_signer = (\<lambda>c ca. Some (c @ '' by '' @ ca)),
     csr_from_der = (\<lambda>b. Inr \<lparr>csr_params = ex_params [], csr_public_key = b\<rparr>),
     csr_der_with_signer = (\<lambda>csr ca. Some (csr_public_key csr))\<rparr>"

definition ex_author :: author_service where
  "ex_author = \<lparr>uri_ok = (\<lambda>_. False), tls_ok = (\<lambda>_. False), connect_ok = (\<lambda>_. False),
     author_authorize = (\<lambda>_. Inl (Status Unavailable '''')),
     author_add_identity_data = (\<lambda>_. Inl (Status Unavailable '''')),
     author_get_allowed_signers = Inl (Status Unavailable ''''), status_text = st_message,
     parse_oid = (\<lambda>_. None), asn1_utf8 = (\<lambda>_. None)\<rparr>"

text \<open>A client certificate is the name of its owner.\<close>

definition ex_parse_x509 :: "bytes \<Rightarrow> string + x509" where
  "ex_parse_x509 b = (if b = [] then Inl ''empty'' else
     Inr \<lparr>x_not_after = 1000000, x_subject = [[\<lparr>attr_type = oid_common_name, attr_str = Some (from_bytes b)\<rparr>]],
          x_subject_pki = b\<rparr>)"

definition ex_lru_push :: "(string \<times> duration) list \<Rightarrow> string \<Rightarrow> duration
    \<Rightarrow> (string \<times> duration) list \<times> (string \<times> duration) option" where
  "ex_lru_push l k v = ((k, v) # l, map_option (Pair k) (map_of l k))"

type_synonym ex_env = "(string, string, string, (string \<times> duration) list) server_env"
type_synonym ex_server = "(string, string, string, (string \<times> duration) list) rustica_server"

definition ex_env :: ex_env where
  "ex_env = \<lparr>e_ssh = ex_ssh, e_crypto = ex_crypto, e_rcgen = ex_rcgen, e_author = ex_author,
     e_parse_x509 = ex_parse_x509, e_lru_push = ex_lru_push, e_zstd_new = Some [],
     e_zstd_write = (\<lambda>e b. Some (e @ b)), e_zstd_finish = Some\<rparr>"

section \<open>A configured server\<close>

definition ex_signer_env :: "(string, string) signer_env" where
  "ex_signer_env =
     \<lparr>se_codec = \<lparr>base64_decode = (\<lambda>s. Some (as_bytes s)), keypair_from_der = Some\<rparr>, se_rcgen = ex_rcgen,
      se_kms = \<lparr>kms_get_public_key = (\<lambda>_ _. None), kms_sign = (\<lambda>_ _ _ _. Inl ''''), spec_from = UnknownSpec,
        der_to_ssh_public_key = (\<lambda>_. None), format_signature_for_ssh = (\<lambda>_ _. None),
        keypair_from_remote = (\<lambda>_. None)\<rparr>,
      se_yubikey = \<lparr>yk_serial = None, yk_fetch_pubkey = (\<lambda>_. None), yk_cert_signer = (\<lambda>_ _. None),
        yk_poisoned = None, yk_csr_algorithm = (\<lambda>_ _. PKCS_ECDSA_P256_SHA256), yk_csr_keypair = (\<lambda>_ _. None),
        slot_try_from = Some, show_slot = (\<lambda>_. '''')\<rparr>\<rparr>"

definition ex_signing :: "string signing_configuration" where
  "ex_signing = \<lparr>sc_default_authority = ''prod'', sc_authority_configurations = [(''prod'',
     File \<lparr>fc_user_key = Some ''user-ca'', fc_host_key = Some ''host-ca'', fc_x509_private_key = Some ''x'',
       fc_x509_private_key_algorithm = Some ''p256'',
       fc_client_certificate_authority_private_key = Some ''c'',
       fc_client_certificate_authority_private_key_algorithm = Some ''p384'',
       fc_client_certificate_authority_common_name = Some ''client-ca''\<rparr>)]\<rparr>"

definition ex_database :: database where
  "ex_database = \<lparr>db_principals = Some [\<lparr>fp_pr_fingerprint = ''key'', fp_pr_principal = ''root'', fp_pr_authority = ''prod''\<rparr>],
     db_hosts = Some [], db_extensions = Some [],
     db_permissions = Some [\<lparr>fp_pe_fingerprint = ''key'', fp_pe_host_unrestricted = True,
       fp_pe_principal_unrestricted = False, fp_pe_can_create_host_certs = False,
       fp_pe_can_create_user_certs = True, fp_pe_max_creation_time = 60, fp_pe_authority = ''prod''\<rparr>],
     db_x509 = Some [\<lparr>xo_user = ''ann'', xo_hsm_serial = ''7'', xo_require_touch = True, xo_authority = ''prod''\<rparr>],
     db_registered_keys = Inr [], db_unique_error = ''UNIQUE''\<rparr>"

definition ex_config :: "string configuration" where
  "ex_config = \<lparr>cf_server_cert = ''sc'', cf_server_key = ''sk'',
     cf_client_authority = \<lparr>cac_authority = ''prod'', cac_validity_length = 3600, cac_expiration_renewal_period = 60\<rparr>,
     cf_listen_address = ''addr'',
     cf_authorization = \<lparr>ac_database = Some \<lparr>ld_path = ''db''\<rparr>, ac_external = None\<rparr>,
     cf_signing = ex_signing, cf_require_rustica_proof = True, cf_require_attestation_chain = True,
     cf_logging = \<lparr>lc_identifier = None, lc_heartbeat_interval = None, lc_stdout = Some (), lc_influx = None,
       lc_splunk = None, lc_webhook = None\<rparr>,
     cf_allowed_signers = \<lparr>asc_cache_validity_length = 10, asc_lru_rate_limiter_size = 8,
       asc_rate_limit_cooldown = 5\<rparr>\<rparr>"

definition ex_addr :: socket_addr where
  "ex_addr = \<lparr>addr_string = ''1.2.3.4:5'', addr_ip = ''1.2.3.4''\<rparr>"

definition ex_config_env :: "(string, (string \<times> duration) list) config_env" where
  "ex_config_env = \<lparr>read_file = (\<lambda>_. Some []), parse_toml = (\<lambda>_. Some ex_config),
     parse_socket_addr = (\<lambda>_. Some ex_addr), generate_hmac_key = Some [1, 2, 3],
     new_challenge_key = Some ''challenge-key'', lru_new = (\<lambda>_. []), local_db_feature = True,
     disk_databases = (\<lambda>p. if p = ''db'' then Some ex_database else None)\<rparr>"

definition ex_mechanism :: "(string, string) signing_mechanism" where
  "ex_mechanism = \<lparr>sm_default_authority = ''prod'', sm_authorities = [(''prod'', file_signer_object ex_ssh
     \<lparr>fs_ssh_keys = Some \<lparr>fk_user = ''user-ca'', fk_host = ''host-ca''\<rparr>,
      fs_x509_certificate = Some ''Rustica'', fs_client_certificate_authority = Some ''client-ca''\<rparr>)]\<rparr>"

definition ex_server :: ex_server where
  "ex_server = new_server ex_config_env ex_config (Local \<lparr>ld_path = ''db''\<rparr>) ex_mechanism [1, 2, 3] ''challenge-key''"

definition ex_settings :: "(string, string, string, (string \<times> duration) list) rustica_settings" where
  "ex_settings = \<lparr>rs_server = ex_server, rs_client_ca_cert = ''pem of client-ca'', rs_server_cert = ''sc'',
     rs_server_key = ''sk'', rs_address = ex_addr, rs_logging_configuration = cf_logging ex_config\<rparr>"

lemma ex_convert: "convert_to_signing_mechanism ex_ssh ex_signer_env ex_signing = Ok ex_mechanism"
  by (simp add: ex_signing_def ex_signer_env_def ex_mechanism_def convert_to_signing_mechanism_def
      file_into_signer_def rcgen_certificate_from_private_key_def ca_base_params_def ex_rcgen_def ex_params_def
      add_authority_def remember_key_def file_signer_object_def file_get_signer_public_key_def ex_ssh_def
      ok_or_def Let_def)

lemma ex_client_ca_pem: "client_ca_pem ex_rcgen ex_mechanism ''prod'' = Ok ''pem of client-ca''"
  by (simp add: client_ca_pem_def get_client_certificate_authority_def ex_mechanism_def
      file_signer_object_def ex_rcgen_def)

lemma ex_default_key: "get_signer_public_key ex_mechanism ''prod'' User = Ok ''user-ca''"
  by (simp add: get_signer_public_key_def ex_mechanism_def file_signer_object_def
      file_get_signer_public_key_def ex_ssh_def)

lemma ex_configure: "configure ex_ssh ex_signer_env ex_config_env ''path'' 0 = Ok ex_settings"
proof -
  have "sm_default_authority ex_mechanism = ''prod''" "se_rcgen ex_signer_env = ex_rcgen"
    by (simp_all add: ex_mechanism_def ex_signer_env_def)
  then show ?thesis
    unfolding configure_def
    by (simp add: ex_config_env_def ex_config_def try_into_mechanism_def ex_convert ex_default_key
        ex_client_ca_pem) (simp add: ex_settings_def ex_server_def ex_config_env_def ex_config_def)
qed

end
