(* ===== verification/Example_Runs.thy ===== *)
theory Example_Runs
  imports Example_Env Exchange
begin

text \<open>
  Runs of the model in the concrete world of \<open>Example_Env\<close>: a challenge is requested, answered and validated, a
  certificate issued, a key registered, an X.509 certificate issued, the allowed signers fetched twice.
  The examples of the properties use them.
\<close>

section \<open>The laws hold\<close>

lemma as_from_bytes [simp]: "as_bytes (from_bytes b) = b"
proof -
  have "(of_char (char_of (unat w)) :: u8) = w" for w :: u8
  proof -
    have "(of_char (char_of (unat w)) :: u8) = of_nat (of_char (char_of (unat w)))" by (simp only: of_nat_of_char)
    moreover have "unat w < 2 ^ 8" using unsigned_less [of w] by simp
    then have "(of_char (char_of (unat w)) :: nat) = unat w" by simp
    ultimately show ?thesis by simp
  qed
  then show ?thesis by (induction b) (simp_all add: as_bytes_def from_bytes_def)
qed

lemma ex_parse_print:
  assumes "CHR ''|'' \<notin> set (c_key c @ c_key_id c @ c_signature_key c)"
  shows "\<exists>p. ex_parse (ex_print c) = Inr p \<and> same_certificate p c"
proof -
  have "split_on CHR ''|'' (ex_print c) = [c_key c, c_key_id c, c_signature_key c]"
    unfolding ex_print_def using assms by (intro split_join) auto
  then show ?thesis by (simp add: ex_parse_def same_certificate_def ex_certificate_def)
qed

lemma ex_crypto_laws: "crypto_laws ex_crypto" "hmac_ideal ex_crypto"
  by (simp_all add: crypto_laws_def hmac_ideal_def ex_crypto_def)

text \<open>The laws of \<^verbatim>\<open>sshcerts\<close> hold of \<open>ex_ssh\<close> without remote signatures and for keys that are not empty.\<close>

definition ex_ssh_direct :: "(string, string) ssh_lib" where
  "ex_ssh_direct = ex_ssh\<lparr>pk_from_string := Some, cert_add_signature := (\<lambda>_ _. None)\<rparr>"

lemma ex_sshcerts_laws: "sshcerts_laws ex_ssh_direct"
proof -
  have "ex_sign sk c = Some c' \<Longrightarrow> same_certificate c' c \<and>
      (\<exists>p. ex_parse (ex_print c') = Inr p \<and> same_certificate p c')" for sk c c'
    using ex_parse_print by (auto simp: ex_sign_def same_certificate_def split: if_splits)
  then show ?thesis
    by (simp add: sshcerts_laws_def ex_ssh_direct_def ex_ssh_def ex_certificate_def)
qed

lemma ex_ssh_keys:
  "pk_hash ex_ssh_direct k = k" "sk_pubkey ex_ssh_direct k = k" "pk_encode ex_ssh_direct k = as_bytes k"
  "pk_from_bytes ex_ssh_direct (as_bytes ''piv'') = Some ''piv''"
  by (simp_all add: ex_ssh_direct_def ex_ssh_def)

definition ex_env_direct :: ex_env where
  "ex_env_direct = ex_env\<lparr>e_ssh := ex_ssh_direct\<rparr>"

lemma ex_env_direct_simps [simp]:
  "e_ssh ex_env_direct = ex_ssh_direct" "e_crypto ex_env_direct = ex_crypto"
  by (simp_all add: ex_env_direct_def ex_env_def)

section \<open>A challenge, answered and validated\<close>

definition ex_request :: "'a \<Rightarrow> 'a request" where
  "ex_request x = \<lparr>remote_addr = Some ex_addr, peer_certs = Some [as_bytes ''ann''], into_inner = x\<rparr>"

definition ex_tag :: string where
  "ex_tag = from_bytes [1, 2, 3] @ ''100-key-ann''"

definition ex_response :: challenge_response where
  "ex_response = \<lparr>cp_time = ''100'', cp_challenge = ''key|'' @ ex_tag @ ''|challenge-key'',
     cp_no_signature_required = False\<rparr>"

definition ex_answer :: challenge where
  "ex_answer = \<lparr>ch_pubkey = ''key'', ch_challenge = ''key|'' @ ex_tag @ ''|key'', ch_challenge_signature = '''',
     ch_challenge_time = ''100''\<rparr>"

text \<open>What evaluates strings, bytes and the library of the example.\<close>

lemmas ex_strings = as_bytes_def from_bytes_def char_of_def bit_0
lemmas ex_sshcerts = ex_ssh_direct_def ex_ssh_def ex_parse_def ex_sign_def ex_print_def ex_certificate_def

lemma ex_show_100: "show_u64 100 = ''100''"
  by (simp add: show_u64_def show_nat.simps digit_char_def char_of_def)

lemma ex_answer_size: "length (ch_challenge ex_answer) \<le> 1024"
  by (simp add: ex_answer_def ex_tag_def from_bytes_def)

lemma ex_challenge: "snd (challenge_handler ex_env_direct (Some 100) (ex_request \<lparr>cq_pubkey = ''key''\<rparr>) ex_server)
    = Ok ex_response"
  by (simp add: challenge_handler_def challenge_certificate_def challenge_message_def extract_certificate_information_def
      ex_request_def ex_server_def new_server_def ex_config_def ex_env_direct_def ex_env_def ex_crypto_def ex_parse_x509_def
      ex_response_def ex_tag_def ex_show_100 ex_sshcerts ex_strings Let_def)

lemma ex_challenge_server:
  "challenge_handler ex_env_direct (Some 100) (ex_request \<lparr>cq_pubkey = ''key''\<rparr>) ex_server = (ex_server, Ok ex_response)"
  using ex_challenge challenge_handler_Ok
  by (metis prod.collapse)

lemma ex_answered: "answer_challenge ex_ssh_direct (Direct ''key'') ''key'' ex_response = (True, Ok ex_answer)"
  by (simp add: answer_challenge_def ex_response_def ex_answer_def ex_tag_def ex_sshcerts ex_strings Let_def)

lemma ex_parse_100: "parse_u64 ''100'' = Some 100"
  by (simp add: parse_u64_def parse_digits_def strip_plus_def digit_val_def)

lemma ex_extract:
  assumes "e_parse_x509 E = ex_parse_x509"
  shows "extract_certificate_information E (as_bytes ''ann'') =
     Ok \<lparr>mi_identities = [''ann''], mi_expiry_timestamp = 1000000\<rparr>"
  using assms by (simp add: extract_certificate_information_def ex_parse_x509_def)

lemma ex_answer_parsed: "ex_parse (ch_challenge ex_answer) = Inr (ex_certificate ''key'' User ''key'' ex_tag)"
  by (simp add: ex_answer_def ex_tag_def ex_parse_def ex_strings)

lemma ex_tag_message: "as_bytes ex_tag = [1, 2, 3] @ as_bytes (challenge_message 100 ''key'' [''ann''])"
  by (simp add: ex_tag_def challenge_message_def ex_show_100 ex_strings)

lemma ex_no_refresh: "certificate_refresh ex_server 102 1000000 = None"
  by (simp add: certificate_refresh_def ex_server_def new_server_def ex_config_def)

lemma ex_validated:
  "validate_request ex_env_direct (Some 102) [as_bytes ''ann''] ex_answer ex_server
     = (ex_server, Ok (''key'', [''ann''], None))"
proof -
  have lib: "e_parse_x509 ex_env_direct = ex_parse_x509" "cert_from_string ex_ssh_direct = ex_parse"
    "hex_decode ex_crypto s = Some (as_bytes s)" "hmac_verify ex_crypto key m tag \<longleftrightarrow> tag = key @ m"
    "pk_from_string ex_ssh_direct s = Some s" "pk_hash ex_ssh_direct s = s"
    for s key m tag
    by (simp_all add: ex_env_direct_def ex_env_def ex_ssh_direct_def ex_ssh_def ex_crypto_def)
  have srv: "hmac_key ex_server = [1, 2, 3]" "require_rustica_proof ex_server"
    by (simp_all add: ex_server_def new_server_def ex_config_def)
  have ch: "ch_pubkey ex_answer = ''key''" "ch_challenge_time ex_answer = ''100''"
    by (simp_all add: ex_answer_def)
  have "validate_certificate ex_env_direct ex_answer 100 102
      \<lparr>mi_identities = [''ann''], mi_expiry_timestamp = 1000000\<rparr> (ex_certificate ''key'' User ''key'' ex_tag) ex_server
    = (ex_server, Ok (''key'', [''ann''], None))"
    by (simp add: validate_certificate_def lib srv ch check_proof_def ex_tag_message ex_no_refresh ex_certificate_def)
  with ex_answer_size show ?thesis
    by (simp add: validate_request_def ex_extract lib request_times_def ch ex_parse_100 challenge_expired_def
        ex_answer_parsed)
qed

section \<open>A certificate\<close>

definition ex_cert_request :: certificate_request where
  "ex_cert_request = \<lparr>cr_cert_type = 1, cr_key_id = '''', cr_principals = [''admin''], cr_servers = [],
     cr_extensions = [], cr_critical_options = [], cr_valid_after = 102, cr_valid_before = 200,
     cr_challenge = Some ex_answer\<rparr>"

definition ex_cert_response :: certificate_response where
  "ex_cert_response = \<lparr>ce_certificate = ''key|Rustica-JITC-for-key|user-ca'', ce_error = '''', ce_error_code = 0,
     ce_new_client_certificate = '''', ce_new_client_key = ''''\<rparr>"

lemma ex_issued:
  "snd (authorize_and_issue ex_env_direct (Some 102) (Some 103) ex_addr ex_cert_request
     (''key'', [''ann''], None) ex_server) = Ok ex_cert_response"
  by code_simp

lemma ex_certificate_handler:
  "\<exists>srv'. certificate_handler ex_env_direct (Some 102) (Some 102) (Some 103) (ex_request ex_cert_request) ex_server
     = (srv', Ok ex_cert_response)"
proof -
  have "cr_challenge ex_cert_request = Some ex_answer" by (simp add: ex_cert_request_def)
  then have "certificate_handler ex_env_direct (Some 102) (Some 102) (Some 103) (ex_request ex_cert_request) ex_server
     = authorize_and_issue ex_env_direct (Some 102) (Some 103) ex_addr ex_cert_request (''key'', [''ann''], None) ex_server"
    by (simp add: certificate_handler_def ex_request_def ex_validated)
  with ex_issued show ?thesis by (metis prod.collapse)
qed

section \<open>Registration and X.509\<close>

definition ex_register_request :: register_key_request where
  "ex_register_request = \<lparr>rq_certificate = as_bytes ''key'', rq_intermediate = [1], rq_challenge = Some ex_answer\<rparr>"

lemma ex_registered:
  "snd (register_attested ex_env_direct (verify_piv_certificate_chain ex_ssh_direct (as_bytes ''key'') [1])
     ''key'' [''ann''] ''1.2.3.4:5'' ex_server) = Ok ()"
  by code_simp

lemma ex_register_handler:
  "\<exists>srv'. register_key_handler ex_env_direct (Some 102) (ex_request ex_register_request) ex_server = (srv', Ok ())"
proof -
  have "requester_ip_of (ex_request ex_register_request) = ''1.2.3.4:5''"
    by (simp add: requester_ip_of_def ex_request_def ex_addr_def)
  then have "register_key_handler ex_env_direct (Some 102) (ex_request ex_register_request) ex_server =
     register_attested ex_env_direct (verify_piv_certificate_chain ex_ssh_direct (as_bytes ''key'') [1])
       ''key'' [''ann''] ''1.2.3.4:5'' ex_server"
    by (simp add: register_key_handler_def ex_register_request_def)
       (simp add: ex_request_def ex_validated)
  with ex_registered show ?thesis by (metis prod.collapse)
qed

definition ex_x509_request :: attested_x509_certificate_request where
  "ex_x509_request = \<lparr>ax_key_id = '''', ax_csr = as_bytes ''leaf'', ax_attestation = as_bytes ''leaf'',
     ax_attestation_intermediate = [1]\<rparr>"

lemma ex_x509:
  "snd (attested_x509_certificate_handler ex_env_direct (Some 50) (ex_request ex_x509_request) ex_server) =
     Ok \<lparr>ay_certificate = as_bytes ''leaf'', ay_error = '''', ay_error_code = 0\<rparr>"
  by code_simp

section \<open>Two fetches of the allowed signers\<close>

definition ex_state :: "(string, string, string, (string \<times> duration) list) signers_state" where
  "ex_state = \<lparr>ss_server = ex_server, ss_author = ex_author, ss_calls = Map.empty, ss_history = []\<rparr>"

text \<open>The databases with given registered keys, and the server of the example with given rate limiter, cache and keys.\<close>

definition ex_databases_with :: "registered_key list \<Rightarrow> databases" where
  "ex_databases_with keys = (\<lambda>p. if p = ''db'' then Some (ex_database\<lparr>db_registered_keys := Inr keys\<rparr>) else None)"

definition ex_server_with :: "(string \<times> duration) list \<Rightarrow> bytes \<Rightarrow> duration \<Rightarrow> registered_key list \<Rightarrow> ex_server" where
  "ex_server_with l b expiry keys = ex_server\<lparr>allowed_signers_rate_limiter := l,
     srv_allowed_signers_cache := \<lparr>sc_compressed_allowed_signers = b, sc_expiry_timestamp = expiry\<rparr>,
     srv_databases := ex_databases_with keys\<rparr>"

definition ex_ann_key :: registered_key where
  "ex_ann_key = \<lparr>rg_fingerprint = ''key'', rg_pubkey = ''key'', rg_user = ''ann'', rg_pin_policy = None, rg_touch_policy = None,
     rg_hsm_serial = None, rg_firmware = None, rg_attestation_certificate = None, rg_attestation_intermediate = None,
     rg_auth_data = None, rg_auth_data_signature = None, rg_aaguid = None, rg_challenge = None, rg_alg = None,
     rg_application = None\<rparr>"

lemma ex_server_with_0: "ex_server = ex_server_with [] [] 0 []"
proof -
  have "ex_database\<lparr>db_registered_keys := Inr []\<rparr> = ex_database" by (simp add: ex_database_def)
  then have "ex_databases_with [] = disk_databases ex_config_env"
    by (simp add: ex_databases_with_def ex_config_env_def cong: if_cong)
  then show ?thesis by (simp add: ex_server_with_def ex_server_def new_server_def) (simp add: ex_config_env_def)
qed

lemma ex_server_with_simps [simp]:
  "asc_rate_limit_cooldown (srv_allowed_signers (ex_server_with l b x ks)) = 5"
  "asc_cache_validity_length (srv_allowed_signers (ex_server_with l b x ks)) = 10"
  "allowed_signers_rate_limiter (ex_server_with l b x ks) = l"
  "srv_authorizer (ex_server_with l b x ks) = Local \<lparr>ld_path = ''db''\<rparr>"
  "srv_databases (ex_server_with l b x ks) = ex_databases_with ks"
  "srv_allowed_signers_cache (ex_server_with l b x ks) =
     \<lparr>sc_compressed_allowed_signers = b, sc_expiry_timestamp = x\<rparr>"
  by (simp_all add: ex_server_with_def ex_server_def new_server_def ex_config_def)

lemma ex_admit:
  assumes "t + 5 < duration_max" and "\<And>d. map_of l ''ann'' = Some d \<Longrightarrow> d \<le> t"
  shows "signers_admit ex_env_direct (Some t) (ex_request ()) (ex_server_with l b x ks)
     = (ex_server_with ((''ann'', t + 5) # l) b x ks, Ok t)"
proof -
  have facts: "e_lru_push ex_env_direct = ex_lru_push" "e_parse_x509 ex_env_direct = ex_parse_x509"
    by (simp_all add: ex_env_direct_def ex_env_def)
  have "is_rate_limited ex_env_direct ''ann'' t (ex_server_with l b x ks)
      = (ex_server_with ((''ann'', t + 5) # l) b x ks, Ok False)"
    using assms by (auto simp: is_rate_limited_def facts duration_add_def ex_lru_push_def not_less
        split: option.splits) (simp_all add: ex_server_with_def)
  then show ?thesis by (simp add: signers_admit_def ex_request_def ex_extract [OF facts(2)])
qed

lemma ex_signers:
  "get_allowed_signers au (ex_databases_with ks) (Local \<lparr>ld_path = ''db''\<rparr>) =
     Ok \<lparr>as_allowed_signers = map (\<lambda>k. \<lparr>as_identity = rg_user k, as_pubkey = rg_pubkey k\<rparr>) ks\<rparr>"
  by (simp add: get_allowed_signers_local_def establish_connection_def ex_databases_with_def)

definition ex_file :: "registered_key list \<Rightarrow> bytes" where
  "ex_file ks = as_bytes (allowed_signers_text
     \<lparr>as_allowed_signers = map (\<lambda>k. \<lparr>as_identity = rg_user k, as_pubkey = rg_pubkey k\<rparr>) ks\<rparr>)"

lemma ex_compress: "compress ex_env_direct t = Some (as_bytes t)"
  by (simp add: compress_def ex_env_direct_def ex_env_def)

lemma ex_file_ann: "ex_file [ex_ann_key] = as_bytes ''ann key''"
  by (simp add: ex_file_def allowed_signers_text_def ex_ann_key_def)

lemma ex_refresh:
  assumes "x < t" and "t + 10 < duration_max"
  shows "signers_refresh (ex_env_direct\<lparr>e_author := au\<rparr>) t (ex_server_with l b x ks)
     = (ex_server_with l (ex_file ks) (t + 10) ks,
        Some (get_allowed_signers au (ex_databases_with ks) (Local \<lparr>ld_path = ''db''\<rparr>)),
        Ok \<lparr>ar_compressed_allowed_signers = ex_file ks\<rparr>)"
  using assms
  by (simp add: signers_refresh_def cached_reply_def duration_add_def ex_compress Let_def ex_file_def
      ex_signers [unfolded get_allowed_signers.simps]) (simp add: ex_server_with_def)

text \<open>The list is fetched at time 100, a key is registered, and the list is fetched again at time 200.\<close>

definition ex_call :: "duration \<Rightarrow> registered_key list \<Rightarrow> call" where
  "ex_call t ks = Answered (Some t) (Ok \<lparr>ar_compressed_allowed_signers = ex_file ks\<rparr>)"

definition ex_fetch :: "duration \<Rightarrow> registered_key list \<Rightarrow> fetch" where
  "ex_fetch t ks = \<lparr>ft_time = t, ft_author = ex_author, ft_databases = ex_databases_with ks,
     ft_answer = get_allowed_signers ex_author (ex_databases_with ks) (Local \<lparr>ld_path = ''db''\<rparr>),
     ft_reply = Ok \<lparr>ar_compressed_allowed_signers = ex_file ks\<rparr>\<rparr>"

definition ex_state_mid :: "registered_key list \<Rightarrow> (string, string, string, (string \<times> duration) list) signers_state" where
  "ex_state_mid ks = \<lparr>ss_server = ex_server_with [(''ann'', 105)] (ex_file []) 110 ks, ss_author = ex_author,
     ss_calls = [0 \<mapsto> ex_call 100 []], ss_history = [ex_fetch 100 []]\<rparr>"

definition ex_state_after :: "(string, string, string, (string \<times> duration) list) signers_state" where
  "ex_state_after =
     \<lparr>ss_server = ex_server_with [(''ann'', 205), (''ann'', 105)] (ex_file [ex_ann_key]) 210 [ex_ann_key],
      ss_author = ex_author, ss_calls = [0 \<mapsto> ex_call 100 [], 1 \<mapsto> ex_call 200 [ex_ann_key]],
      ss_history = [ex_fetch 200 [ex_ann_key], ex_fetch 100 []]\<rparr>"

lemma ex_miss: "x < t \<Longrightarrow> cached_reply t (ex_server_with l b x ks) = None"
  by (simp add: cached_reply_def)

lemma ex_max: "(300::nat) < duration_max"
  by (simp add: duration_max_def)

lemma ex_two_calls: "(signers_step ex_env_direct)\<^sup>*\<^sup>* ex_state ex_state_after"
proof -
  have admit1: "signers_admit ex_env_direct (Some 100) (ex_request ()) (ss_server ex_state) =
      (ex_server_with [(''ann'', 105)] [] 0 [], Ok 100)"
    using ex_admit [of 100 "[]"] ex_max by (simp add: ex_state_def ex_server_with_0)
  have refresh1: "signers_refresh (ex_env_direct\<lparr>e_author := ss_author ex_state\<rparr>) 100 (ex_server_with [(''ann'', 105)] [] 0 []) =
      (ex_server_with [(''ann'', 105)] (ex_file []) 110 [], Some (ft_answer (ex_fetch 100 [])), ft_reply (ex_fetch 100 []))"
    using ex_refresh [of 0 100] ex_max by (simp add: ex_state_def ex_fetch_def)
  have "(signers_step ex_env_direct)\<^sup>*\<^sup>* ex_state (ex_state_mid [])"
    using signers_call [of ex_state 0, OF _ admit1 ex_miss refresh1]
    by (simp add: ex_state_def ex_state_mid_def asked_def ex_fetch_def ex_call_def)
  also have "signers_step ex_env_direct (ex_state_mid []) (ex_state_mid [ex_ann_key])"
    using others [of ex_env_direct "ex_state_mid []" ex_author "log_sender ex_server" "ex_databases_with [ex_ann_key]"]
    by (simp add: ex_state_mid_def ex_server_with_def)
  also have "(signers_step ex_env_direct)\<^sup>*\<^sup>* (ex_state_mid [ex_ann_key]) ex_state_after"
  proof -
    have admit2: "signers_admit ex_env_direct (Some 200) (ex_request ()) (ss_server (ex_state_mid [ex_ann_key])) =
        (ex_server_with [(''ann'', 205), (''ann'', 105)] (ex_file []) 110 [ex_ann_key], Ok 200)"
      using ex_admit [of 200 "[(''ann'', 105)]"] ex_max by (simp add: ex_state_mid_def)
    have refresh2: "signers_refresh (ex_env_direct\<lparr>e_author := ss_author (ex_state_mid [ex_ann_key])\<rparr>) 200
          (ex_server_with [(''ann'', 205), (''ann'', 105)] (ex_file []) 110 [ex_ann_key]) =
        (ex_server_with [(''ann'', 205), (''ann'', 105)] (ex_file [ex_ann_key]) 210 [ex_ann_key],
         Some (ft_answer (ex_fetch 200 [ex_ann_key])), ft_reply (ex_fetch 200 [ex_ann_key]))"
      using ex_refresh [of 110 200] ex_max by (simp add: ex_state_mid_def ex_fetch_def)
    show ?thesis
      using signers_call [of "ex_state_mid [ex_ann_key]" 1, OF _ admit2 ex_miss refresh2]
      by (simp add: ex_state_mid_def ex_state_after_def asked_def ex_fetch_def ex_call_def)
  qed
  finally show ?thesis .
qed

end
