(* ===== verification/Server_Witnesses.thy ===== *)
theory Server_Witnesses
  imports Example_Runs
begin

text \<open>
  The properties of the server's parts that have hypotheses, each applied to a run in the concrete world of
  \<open>Example_Env\<close>: the hypotheses hold there.
\<close>

section \<open>The local database\<close>

definition ex_databases :: databases where
  "ex_databases p = (if p = ''db'' then Some ex_database else None)"

definition ex_registration :: "string \<Rightarrow> register_key_request_properties" where
  "ex_registration pubkey = \<lparr>rk_fingerprint = ''f'', rk_pubkey = pubkey, rk_mtls_identities = [''ann'', ''bob''],
     rk_requester_ip = ''1.2.3.4:5'', rk_attestation = None\<rparr>"

definition ex_databases_after :: databases where
  "ex_databases_after = fst (register_key_local ex_crypto ex_databases \<lparr>ld_path = ''db''\<rparr> (ex_registration ''key''))"

lemma ex_registered_local:
  "register_key_local ex_crypto ex_databases \<lparr>ld_path = ''db''\<rparr> (ex_registration ''key'') = (ex_databases_after, Ok ())"
  by (simp add: ex_databases_after_def register_key_local_def ex_databases_def insert_registered_key_def ex_database_def)

theorem register_then_list_witness:
  "\<exists>a. get_allowed_signers_local ex_databases \<lparr>ld_path = ''db''\<rparr> = Ok a \<and>
     get_allowed_signers_local ex_databases_after \<lparr>ld_path = ''db''\<rparr> = Ok \<lparr>as_allowed_signers = as_allowed_signers a @
       [\<lparr>as_identity = ''ann,bob'', as_pubkey = ''key''\<rparr>]\<rparr>"
  using register_then_list [OF ex_registered_local] by (simp add: ex_registration_def)

theorem register_once_witness:
  "\<exists>e. register_key_local ex_crypto ex_databases_after \<lparr>ld_path = ''db''\<rparr> (ex_registration ''other'')
     = (ex_databases_after, Err (AE_DatabaseError e))"
  using register_once [OF ex_registered_local, of ex_database "ex_registration ''other''"]
  by (simp add: ex_databases_def registered_keys_wf_def ex_database_def ex_registration_def)

section \<open>Signing and configuration\<close>

theorem authority_keys_unique_witness:
  "\<exists>s. map_of (sm_authorities ex_mechanism) ''prod'' = Some s \<and> sg_public_key s User = Some ''user-ca'' \<and>
     sg_public_key s Host = Some ''host-ca'' \<and> pk_hash ex_ssh ''user-ca'' \<noteq> pk_hash ex_ssh ''host-ca''"
proof -
  obtain s where s: "map_of (sm_authorities ex_mechanism) ''prod'' = Some s"
    "sg_public_key s User = Some ''user-ca''" "sg_public_key s Host = Some ''host-ca''"
    by (simp add: ex_mechanism_def file_signer_object_def file_get_signer_public_key_def ex_ssh_def)
  with authority_keys_unique [OF ex_convert s(1,2) s(1,3)] show ?thesis by blast
qed

theorem configured_default_authority_witness:
  "\<exists>u h. get_signer_public_key ex_mechanism ''prod'' User = Ok u \<and> get_signer_public_key ex_mechanism ''prod'' Host = Ok h"
  using configured_default_authority [OF ex_configure]
  by (simp add: ex_settings_def ex_server_def new_server_def) (simp add: ex_mechanism_def)

section \<open>Logging\<close>

text \<open>The serializer writes heartbeats; Splunk's refuses every log.\<close>

definition ex_json :: json_lib where
  "ex_json = \<lparr>json_log = (\<lambda>wl. Inr (wl_identifier wl)), json_splunk_event = (\<lambda>_. Inl ''no'')\<rparr>"

definition ex_logging :: logging_configuration where
  "ex_logging = \<lparr>lc_identifier = Some ''ca-1'', lc_heartbeat_interval = None, lc_stdout = Some (), lc_influx = None,
     lc_splunk = Some \<lparr>sp_token = ''t'', sp_url = ''https://splunk'', sp_timeout = 5\<rparr>,
     lc_webhook = Some \<lparr>wh_auth_header = Some ''Bearer b'', wh_url = ''https://hook'', wh_timeout = 3\<rparr>\<rparr>"

definition ex_logs :: "(received \<times> u64 option) list" where
  "ex_logs = [(Received (InternalMessage \<lparr>im_severity = Error, im_message = ''boom''\<rparr>), Some 7), (Timeout, Some 8)]"

definition ex_hook :: log_output where
  "ex_hook = Post \<lparr>hp_client = \<lparr>hc_accept_invalid_certs = False, hc_timeout = 3\<rparr>, hp_url = ''https://hook'',
     hp_headers = [(''Content-Type'', ''application/x-www-form-urlencoded''), (''Content-Length'', ''4''),
       (''Authorization'', ''Bearer b'')], hp_body = ''ca-1''\<rparr>"

theorem logging_thread_delivers_witness:
  "snd (start_logging_thread ex_json ex_logging ex_logs) =
     ([Line Error ''boom'', Line Error ''Could not send logs to Splunk'', ex_hook,
       Line Error ''Could not send logs to Splunk'', ex_hook], StillRunning)"
proof -
  have four: "show_nat (length ''ca-1'') = ''4''" by code_simp
  show ?thesis
    using logging_thread_delivers [of ex_logs ex_json ex_logging]
    by (simp add: ex_logs_def ex_logging_def ex_json_def ex_hook_def due_outputs_def due_splunk_def due_webhook_def
      due_post_def four [simplified])
qed

section \<open>Requests\<close>

theorem extract_accepts_no_common_name_witness:
  "\<exists>E :: ex_env. extract_certificate_information E [] = Ok \<lparr>mi_identities = [], mi_expiry_timestamp = 9\<rparr>"
proof
  let ?E = "ex_env\<lparr>e_parse_x509 := \<lambda>_. Inr \<lparr>x_not_after = 9, x_subject = [], x_subject_pki = []\<rparr>\<rparr>"
  show "extract_certificate_information ?E [] = Ok \<lparr>mi_identities = [], mi_expiry_timestamp = 9\<rparr>"
    using extract_accepts_no_common_name [of ?E "[]" "\<lparr>x_not_after = 9, x_subject = [], x_subject_pki = []\<rparr>"] by simp
qed

theorem challenge_window_witness: "\<not> challenge_expired 102 100 \<and> challenge_expired 106 100 \<and> challenge_expired 99 100"
  using challenge_window [of 102 100] challenge_window [of 106 100] challenge_window [of 99 100] by simp

theorem validate_request_only_logs_witness:
  "\<exists>ls. length ls \<le> 1 \<and> ex_server = ex_server\<lparr>log_sender := log_sender ex_server @ ls\<rparr>"
  using validate_request_only_logs [OF ex_validated] .

theorem certificate_refusal_witness:
  "\<exists>resp. snd (certificate_handler ex_env_direct (Some 102) (Some 102) (Some 103)
       (ex_request (ex_cert_request\<lparr>cr_challenge := None\<rparr>)) ex_server) = Ok resp \<and>
     ce_error_code resp \<noteq> 0 \<and> ce_certificate resp = '''' \<and> ce_new_client_key resp = ''''"
proof -
  let ?req = "ex_request (ex_cert_request\<lparr>cr_challenge := None\<rparr>)"
  have "certificate_handler ex_env_direct (Some 102) (Some 102) (Some 103) ?req ex_server
      = (ex_server, Ok (create_response BadRequest))"
    by (simp add: certificate_handler_def ex_request_def)
  with certificate_refusal [OF this] show ?thesis by (simp add: create_response_code)
qed

theorem failed_registration_keeps_databases_witness:
  "srv_databases (fst (register_key_handler ex_env_direct (Some 102)
     (ex_request \<lparr>rq_certificate = [], rq_intermediate = [], rq_challenge = None\<rparr>) ex_server)) = srv_databases ex_server"
  using failed_registration_keeps_databases [of ex_env_direct "Some 102"
      "ex_request \<lparr>rq_certificate = [], rq_intermediate = [], rq_challenge = None\<rparr>" ex_server]
  by (simp add: register_key_handler_def ex_request_def)

theorem attested_x509_certificate_issued_witness:
  "\<exists>resp k auth. verify_piv_certificate_chain ex_ssh_direct (as_bytes ''leaf'') [1] = Ok k \<and>
     first_identity [''ann''] = Some (xa_common_name auth) \<and> resp = as_bytes ''leaf'' \<and>
     authorize_attested_x509_cert ex_crypto (e_author ex_env_direct) (srv_databases ex_server) (Some 50)
       (srv_authorizer ex_server) (x509_auth_props ex_x509_request ex_addr [''ann''] ''prod'' k) = Ok auth"
proof -
  obtain srv' where "attested_x509_certificate_handler ex_env_direct (Some 50) (ex_request ex_x509_request) ex_server
      = (srv', Ok \<lparr>ay_certificate = as_bytes ''leaf'', ay_error = '''', ay_error_code = 0\<rparr>)"
    using ex_x509 by (metis prod.collapse)
  from attested_x509_certificate_issued [OF this] ex_extract [of ex_env_direct] show ?thesis
    by (auto simp: ex_request_def ex_x509_request_def ex_server_def new_server_def ex_mechanism_def
        ex_env_direct_def ex_env_def)
qed

theorem configured_refresh_witness:
  "refresh_client_certificate ex_env ex_server [''ann''] (Some \<lparr>crs_not_after = 2, crs_not_before = 1\<rparr>)
     = Ok (''key of ann'', ''ann by client-ca'')"
proof -
  let ?r = "Some \<lparr>crs_not_after = 2, crs_not_before = 1\<rparr>"
  have run: "refresh_client_certificate ex_env ex_server [''ann''] ?r = Ok (''key of ann'', ''ann by client-ca'')"
    by (simp add: refresh_client_certificate_def get_client_certificate_authority_def ex_server_def new_server_def ex_env_def
        ex_rcgen_def ex_config_def ex_mechanism_def file_signer_object_def ex_params_def Let_def)
  have "srv_signer ex_server = srv_signer (rs_server ex_settings)"
    "client_authority ex_server = client_authority (rs_server ex_settings)"
    by (simp_all add: ex_settings_def)
  from configured_refresh [OF ex_configure this run] run show ?thesis by simp
qed

section \<open>The allowed signers\<close>

theorem rate_limit_second_call_witness:
  "snd (is_rate_limited ex_env_direct ''ann'' 104 (ex_server_with [(''ann'', 105)] [] 0 [])) = Ok True"
proof -
  have spec: "lru_push_spec (e_lru_push ex_env_direct) (\<lambda>l k. map_of l k)"
    by (simp add: lru_push_spec_def ex_env_direct_def ex_env_def ex_lru_push_def split: option.split)
  have "is_rate_limited ex_env_direct ''ann'' 100 (ex_server_with [] [] 0 []) = (ex_server_with [(''ann'', 105)] [] 0 [], Ok False)"
    using ex_max by (simp add: is_rate_limited_def duration_add_def ex_env_direct_def ex_env_def ex_lru_push_def)
      (simp add: ex_server_with_def)
  from rate_limit_second_call [OF spec this, of "ex_server_with [(''ann'', 105)] [] 0 []" 104] show ?thesis
    using ex_max by simp
qed

lemma ex_initial: "signers_initial ex_state"
  by (simp add: signers_initial_def ex_state_def ex_server_def new_server_def)

lemma ex_validity: "asc_cache_validity_length (srv_allowed_signers (ss_server ex_state)) = 10"
  by (simp add: ex_state_def ex_server_def new_server_def ex_config_def)

theorem allowed_signers_fresh_witness:
  "\<exists>u j t a. (signers_step ex_env_direct)\<^sup>*\<^sup>* ex_state u \<and> ss_calls u j = Some (WaitWrite t) \<and> 200 \<le> t + 10 \<and>
     get_allowed_signers (ss_author u) (srv_databases (ss_server u)) (srv_authorizer (ss_server u)) = Ok a \<and>
     allowed_signers_text a = ''ann key''"
proof -
  have "ss_calls ex_state_after 1 =
      Some (Answered (Some 200) (Ok \<lparr>ar_compressed_allowed_signers = as_bytes ''ann key''\<rparr>))"
    by (simp add: ex_state_after_def ex_call_def ex_file_ann)
  from allowed_signers_fresh [OF ex_initial ex_two_calls this] show ?thesis
    by (simp add: ex_validity ex_compress) blast
qed

theorem asked_exactly_when_expired_witness:
  "\<exists>u v f. (signers_step ex_env_direct)\<^sup>*\<^sup>* ex_state u \<and> signers_step ex_env_direct u v \<and> ss_history v = [f] \<and>
     ft_answer f = Ok \<lparr>as_allowed_signers = []\<rparr>"
proof -
  let ?srv = "ex_server_with [(''ann'', 105)] [] 0 []"
  let ?u = "ex_state\<lparr>ss_server := ?srv, ss_calls := [0 \<mapsto> WaitWrite 100]\<rparr>"
  have "signers_admit ex_env_direct (Some 100) (ex_request ()) (ss_server ex_state) = (?srv, Ok 100)"
    using ex_admit [of 100 "[]"] ex_max by (simp add: ex_state_def ex_server_with_0)
  from signers_waits [of ex_state 0, OF _ this ex_miss]
  have run: "(signers_step ex_env_direct)\<^sup>*\<^sup>* ex_state ?u" by (simp add: ex_state_def)
  obtain srv' response r where
    refresh: "signers_refresh (ex_env_direct\<lparr>e_author := ex_author\<rparr>) 100 ?srv = (srv', response, r)" by (rule prod_cases3)
  define v where "v = ?u\<lparr>ss_server := srv', ss_calls := [0 \<mapsto> Answered (Some 100) r],
     ss_history := asked 100 ex_author (ex_databases_with []) response r\<rparr>"
  have step: "signers_step ex_env_direct ?u v"
    using locked [of ?u 0 100 ex_env_direct srv' response r] refresh by (simp add: v_def ex_state_def)
  have "ss_calls ?u 0 = Some (WaitWrite 100)" "ss_calls v 0 = Some (Answered (Some 100) r)" "expired_by 10 (ss_history ?u) 100"
    by (simp_all add: v_def ex_state_def expired_by_def)
  with asked_exactly_when_expired [OF ex_initial run step] obtain f where f: "ss_history v = f # ss_history ?u"
    "ft_answer f = get_allowed_signers (ss_author ?u) (srv_databases (ss_server ?u)) (srv_authorizer (ss_server ?u))"
    unfolding ex_validity by blast
  then have "ss_history v = [f]" "ft_answer f = Ok \<lparr>as_allowed_signers = []\<rparr>"
    using ex_signers [of ex_author "[]"] by (simp_all add: ex_state_def)
  with run step show ?thesis by blast
qed


section \<open>Agent and server together\<close>

theorem challenge_binding_witness:
  "parse_u64 (ch_challenge_time ex_answer) = Some 100 \<and> ch_pubkey ex_answer = ''key'' \<and> [''ann''] = [''ann'']"
proof -
  have "cert_from_string (e_ssh ex_env_direct) (ch_challenge ex_answer) = Inr (ex_certificate ''key'' User ''key'' ex_tag)"
    by (simp add: ex_ssh_direct_def ex_ssh_def ex_answer_parsed)
  moreover have "hex_encode ex_crypto (hmac_sign ex_crypto (hmac_key ex_server)
      (as_bytes (challenge_message 100 ''key'' [''ann'']))) = ex_tag"
    by (simp add: challenge_message_def ex_crypto_def ex_server_def new_server_def ex_show_100 ex_tag_def ex_strings)
  ultimately show ?thesis
    using challenge_binding [OF _ _ ex_validated, of "ex_certificate ''key'' User ''key'' ex_tag" 100 "''key''" "[''ann'']"]
      ex_crypto_laws by (simp add: ex_certificate_def)
qed

theorem local_certificate_principals_witness:
  "\<exists>tbs cert. c_principals tbs = [''root''] \<and> c_valid_before tbs = 163 \<and> mech_sign ex_mechanism ''prod'' tbs = Ok cert \<and>
     ce_certificate ex_cert_response = cert_to_string ex_ssh_direct cert"
proof -
  obtain srv' where run: "certificate_handler ex_env_direct (Some 102) (Some 102) (Some 103) (ex_request ex_cert_request)
      ex_server = (srv', Ok ex_cert_response)"
    using ex_certificate_handler by blast
  have code: "ce_error_code ex_cert_response = 0" by (simp add: ex_cert_response_def)
  have srv: "srv_authorizer ex_server = Local \<lparr>ld_path = ''db''\<rparr>" "srv_databases ex_server ''db'' = Some ex_database"
    "srv_signer ex_server = ex_mechanism" "chosen_authority ex_server '''' = ''prod''"
    by (simp_all add: ex_server_def new_server_def ex_config_env_def chosen_authority_def ex_mechanism_def)
  have req: "cr_key_id (into_inner (ex_request ex_cert_request)) = ''''"
    "cr_challenge (into_inner (ex_request ex_cert_request)) = Some ex_answer"
    "peer_certs (ex_request ex_cert_request) = Some [as_bytes ''ann'']"
    by (simp_all add: ex_request_def ex_cert_request_def)
  have db: "principals_of ex_database ''key'' ''prod'' = Some [''root'']"
    "db_permissions ex_database = Some rows \<Longrightarrow> r \<in> set rows \<Longrightarrow>
       \<not> fp_pe_principal_unrestricted r \<and> fp_pe_max_creation_time r = 60" for rows r
    by (auto simp: principals_of_def ex_database_def)
  have hash: "pk_hash ex_ssh_direct ''key'' = ''key''" by (simp add: ex_ssh_direct_def ex_ssh_def)
  from local_certificate_principals [OF run code srv(1)] show ?thesis
    by (auto simp: req srv db(1) hash ex_validated dest!: db(2))
qed

end
