(* ===== verification/Agent_Witnesses.thy ===== *)
theory Agent_Witnesses
  imports Example_Runs
begin

text \<open>
  The properties of the agent that have hypotheses, each applied to a run in the concrete world of
  \<open>Example_Env\<close>: a server that answers, a key in a file, a client that asks.
\<close>

section \<open>A reachable server\<close>

definition ex_agent_server :: "string \<Rightarrow> agent_server" where
  "ex_agent_server a = \<lparr>ag_address = a, ag_ca_pem = ''ca'', ag_mtls_cert = ''cert'', ag_mtls_key = ''mkey''\<rparr>"

definition ex_api :: rustica_api where
  "ex_api = \<lparr>api_uri_ok = (\<lambda>a. a \<noteq> ''bad''), api_tls_ok = (\<lambda>_. True), api_connect_ok = (\<lambda>_. True),
     api_challenge = (\<lambda>_ _. Inr ex_response),
     api_certificate = (\<lambda>_ _. Inr (ex_cert_response\<lparr>ce_new_client_certificate := ''new'', ce_new_client_key := ''new key''\<rparr>)),
     api_register_key = (\<lambda>_ _. Inr ()), api_register_u2f_key = (\<lambda>_ _. Inr ()),
     api_attested_x509 = (\<lambda>_ _. Inl (Status Unavailable '''')),
     api_allowed_signers = (\<lambda>_. Inr \<lparr>ar_compressed_allowed_signers = as_bytes ''ann key''\<rparr>),
     api_zstd_decoder = Some, api_zstd_read = Some\<rparr>"

text \<open>TOML that keeps what it printed in the address of the one server: enough to read it back.\<close>

definition ex_agent_config :: agent_config where
  "ex_agent_config = \<lparr>ac_version = 2, ac_servers = [ex_agent_server ''bad'', ex_agent_server ''good''],
     ac_slot = None, ac_key = None, ac_options = None, ac_socket = None\<rparr>"

definition ex_new_config :: agent_config where
  "ex_new_config = ex_agent_config\<lparr>ac_servers := [ex_agent_server ''bad'',
     (ex_agent_server ''good'')\<lparr>ag_mtls_cert := ''new'', ag_mtls_key := ''new key''\<rparr>]\<rparr>"

definition ex_agent_fs :: agent_fs where
  "ex_agent_fs = \<lparr>toml_version = (\<lambda>s. if s = ''new'' then Some 2 else None),
     toml_v1 = (\<lambda>_. Inl ''no''), toml_v2 = (\<lambda>s. if s = ''new'' then Inr ex_new_config else Inl ''no''),
     toml_print = (\<lambda>c. if c = ex_new_config then Some ''new'' else None),
     read_to_string = (\<lambda>_. Inl ''no''), write_outcome = (\<lambda>_ _. Written)\<rparr>"

definition ex_agent_env :: "(string, string) agent_env" where
  "ex_agent_env = \<lparr>ae_ssh = ex_ssh_direct, ae_api = ex_api, ae_fs = ex_agent_fs, ae_open_yubikey = (\<lambda>_. None),
     ae_debug_slot = (\<lambda>_. ''slot''), ae_mgm_key = []\<rparr>"

definition ex_uc :: "agent_config \<Rightarrow> updatable_configuration" where
  "ex_uc c = \<lparr>uc_path = ''path'', uc_configuration = c, uc_disk = None\<rparr>"

definition ex_options :: certificate_config where
  "ex_options = \<lparr>cc_principals = [], cc_hosts = [], cc_cert_type = User, cc_duration = 10, cc_authority = ''''\<rparr>"

definition ex_handler :: "(string, string) handler" where
  "ex_handler = \<lparr>hd_configuration = ex_uc ex_agent_config, hd_cert = None, hd_pubkey = ''key'', hd_signatory = Direct ''key'',
     hd_stale_at = 0, hd_certificate_options = ex_options, hd_identities = [], hd_piv_identities = [],
     hd_notification_function = True, hd_certificate_priority = True, hd_notified = 0\<rparr>"

lemma ex_handler_inv: "handler_inv ex_handler"
  by (simp add: handler_inv_def ex_handler_def)

lemma ex_toml: "toml_round_trip ex_agent_fs"
  by (simp add: toml_round_trip_def ex_agent_fs_def) (simp add: ex_new_config_def ex_agent_config_def)

section \<open>Answering challenges\<close>

theorem answer_challenge_signs_own_key_witness:
  "\<exists>cert signed. cert_from_string ex_ssh_direct (cp_challenge ex_response) = Inr cert \<and>
     pk_hash ex_ssh_direct (c_key cert) = pk_hash ex_ssh_direct ''key'' \<and>
     resign ex_ssh_direct (Direct ''key'') (cert\<lparr>c_signature_key := c_key cert\<rparr>) = Ok signed \<and>
     ch_challenge ex_answer = cert_to_string ex_ssh_direct signed"
  using answer_challenge_signs_own_key [OF ex_answered] by (simp add: ex_response_def)

section \<open>Fetching\<close>

lemma ex_fetched_certificate:
  "fetch_new_certificate ex_agent_env (\<lambda>_. Some 102) (Direct ''key'') ex_options (ex_uc ex_agent_config)
     = ((ex_uc ex_new_config)\<lparr>uc_disk := Some ''new''\<rparr>, 1, Ok (ex_certificate ''key'' User ''user-ca'' ''Rustica-JITC-for-key''))"
  by code_simp

theorem fetched_credentials_kept_witness:
  "\<exists>uc'. fst (fetch_new_certificate ex_agent_env (\<lambda>_. Some 102) (Direct ''key'') ex_options (ex_uc ex_agent_config)) = uc' \<and>
     ag_mtls_key (ac_servers (uc_configuration uc') ! 1) = ''new key'' \<and>
     file_after ex_agent_fs ''path'' (uc_configuration uc') None (uc_disk uc')"
proof -
  have uc: "uc_configuration (ex_uc c) = c" "uc_disk (ex_uc c) = None" "uc_path (ex_uc c) = ''path''" for c
    by (simp_all add: ex_uc_def)
  have "(ex_uc ex_new_config)\<lparr>uc_disk := Some ''new''\<rparr> \<noteq> ex_uc ex_agent_config" by (simp add: ex_uc_def)
  moreover have "ac_version (uc_configuration (ex_uc ex_agent_config)) = 2" by (simp add: ex_uc_def ex_agent_config_def)
  moreover have "ae_fs ex_agent_env = ex_agent_fs" by (simp add: ex_agent_env_def)
  ultimately have "file_after ex_agent_fs ''path'' ex_new_config None (Some ''new'')"
    using fetched_credentials_kept [OF ex_fetched_certificate] ex_toml
    by (auto simp: uc split: option.splits)
  then show ?thesis
    by (simp add: ex_fetched_certificate uc) (simp add: ex_new_config_def ex_agent_server_def)
qed

text \<open>With no certificate the agent fetches one; with one that is still good it does not, even if no server would answer.\<close>

theorem get_certificate_Ok_witness:
  "(\<exists>h'. get_certificate_async ex_agent_env (Some 102) (\<lambda>_. Some 102) True ex_handler
       = (h', Ok (Some (ex_certificate ''key'' User ''user-ca'' ''Rustica-JITC-for-key''))) \<and>
     hd_cert h' = Some (ex_certificate ''key'' User ''user-ca'' ''Rustica-JITC-for-key'') \<and> hd_stale_at h' = 0) \<and>
   (let c = (ex_certificate ''key'' User ''user-ca'' ''id'')\<lparr>c_valid_before := 200\<rparr>;
        h = ex_handler\<lparr>hd_cert := Some c, hd_stale_at := 200\<rparr>
    in get_certificate_async ex_agent_env (Some 102) (\<lambda>_. Some 102) True h = (h, Ok (Some c)))"
proof -
  let ?c = "ex_certificate ''key'' User ''user-ca'' ''Rustica-JITC-for-key''"
  let ?old = "(ex_certificate ''key'' User ''user-ca'' ''id'')\<lparr>c_valid_before := 200\<rparr>"
  let ?h = "ex_handler\<lparr>hd_cert := Some ?old, hd_stale_at := 200\<rparr>"
  obtain h' where run: "get_certificate_async ex_agent_env (Some 102) (\<lambda>_. Some 102) True ex_handler = (h', Ok (Some ?c))"
    using ex_fetched_certificate
    by (simp add: get_certificate_async_def cached_certificate_def ex_handler_def Let_def)
  obtain h2 where run2: "get_certificate_async ex_agent_env (Some 102) (\<lambda>_. Some 102) True ?h = (h2, Ok (Some ?old))"
    by (simp add: get_certificate_async_def cached_certificate_def)
  have "handler_inv ?h" by (simp add: handler_inv_def)
  from get_certificate_Ok [OF this run2] have "h2 = ?h" by simp
  with run2 get_certificate_Ok [OF ex_handler_inv run] run show ?thesis by (auto simp: ex_certificate_def Let_def)
qed

section \<open>Signing\<close>

theorem sign_request_Ok_witness:
  "\<exists>sig fp. RespSign (as_bytes ''key'' @ [1]) = RespSign sig \<and> request_fingerprint ex_ssh_direct (as_bytes ''key'') = Some fp"
proof -
  have "sign_request ex_agent_env (as_bytes ''key'') [1] 0 ex_handler = (ex_handler, Ok (RespSign (as_bytes ''key'' @ [1])))"
    by (simp add: sign_request_def request_fingerprint_def ex_agent_env_def ex_ssh_direct_def ex_ssh_def ex_handler_def
        sign_with_signatory_def sign_with_def Let_def)
  from sign_request_Ok [OF this] show ?thesis by (auto simp: ex_agent_env_def)
qed

theorem add_then_sign_witness:
  "snd (sign_request ex_agent_env (as_bytes ''k2'') [7] 0 (fst (add_identity ex_agent_env ''k2'' ex_handler)))
     = Ok (RespSign (as_bytes ''k2'' @ [7]))"
  using add_then_sign [of ex_agent_env "''k2''" ex_handler "fst (add_identity ex_agent_env ''k2'' ex_handler)"
      "Ok RespSuccess" "[7]" "as_bytes ''k2'' @ [7]" 0]
  by (simp add: add_identity_def ex_agent_env_def ex_ssh_direct_def ex_ssh_def request_fingerprint_def as_bytes_def)

theorem try_servers_first_witness:
  "\<exists>pre s post. [ex_agent_server ''bad'', ex_agent_server ''good''] = pre @ s # post \<and>
     register_key_async ex_ssh_direct ex_api s (Direct ''key'') \<lparr>apa_certificate = [], apa_intermediate = []\<rparr> = Ok ()"
proof -
  let ?att = "\<lparr>apa_certificate = [], apa_intermediate = []\<rparr>"
  have "try_servers (\<lambda>s. register_key_async ex_ssh_direct ex_api s (Direct ''key'') ?att) LE_NoServersCouldRegisterKey
      [ex_agent_server ''bad'', ex_agent_server ''good''] = Ok ()"
    by (simp add: register_key_async_def complete_rustica_challenge_def get_rustica_client_def ex_api_def ex_agent_server_def
        ex_answered ex_ssh_keys rpc_def)
  with try_servers_first [of "\<lambda>s. register_key_async ex_ssh_direct ex_api s (Direct ''key'') ?att"
      LE_NoServersCouldRegisterKey "[ex_agent_server ''bad'', ex_agent_server ''good'']" "()"]
  show ?thesis by blast
qed

section \<open>Serving clients\<close>

theorem client_keeps_handler_inv_witness:
  "handler_inv (fst (handle_client ex_ssh_direct (rustica_handler ex_agent_env) (\<lambda>_. (Some 102, \<lambda>_. Some 102)) (\<lambda>_. True) 0
     (write_message [11] @ write_message [99]) ex_handler))"
  using client_keeps_handler_inv [OF ex_handler_inv] .

theorem request_answer_kinds_witness:
  "fst (handle_request (rustica_handler ex_agent_env) (Some 102, \<lambda>_. Some 102) RUnknown ex_handler) = ex_handler"
  using request_answer_kinds [of ex_agent_env "(Some 102, \<lambda>_. Some 102)" RUnknown ex_handler ex_handler RespFailure] by simp

theorem identities_list_own_key_witness:
  "\<exists>ids. snd (identities ex_agent_env (Some 102) (\<lambda>_. Some 102) ex_handler) = Ok (RespIdentities ids) \<and>
     as_bytes ''key'' \<in> set (map key_blob ids)"
proof -
  obtain h' r where run: "identities ex_agent_env (Some 102) (\<lambda>_. Some 102) ex_handler = (h', r)" by (rule prod.exhaust)
  moreover have "snd (identities ex_agent_env (Some 102) (\<lambda>_. Some 102) ex_handler) \<noteq> Panic"
    using ex_fetched_certificate
    by (simp add: identities_def get_certificate_async_def cached_certificate_def ex_handler_def Let_def)
  ultimately show ?thesis
    using identities_list_own_key [OF run] by (auto simp: ex_agent_env_def ex_handler_def ex_ssh_direct_def ex_ssh_def)
qed

theorem response_round_trip_witness:
  "and_then (read_message (write_response (RespIdentities [\<lparr>key_blob = [1, 2], key_comment = ''c''\<rparr>]) @ [9])) (\<lambda>(raw, rest').
     and_then (parse_response raw) (\<lambda>r'. Ok (r', rest'))) = Ok (RespIdentities [\<lparr>key_blob = [1, 2], key_comment = ''c''\<rparr>], [9])"
  using response_round_trip [of "RespIdentities [\<lparr>key_blob = [1, 2], key_comment = ''c''\<rparr>]" "[9]"]
  by (simp add: fits_identity_def write_identity_def write_message_def write_u32_def as_bytes_def)

theorem sign_request_round_trip_witness:
  "read_request ex_ssh_direct (write_message (request_body [1] [2, 3] 4) @ [9]) = Ok (RSign [1] [2, 3] 4, [9])"
  using sign_request_round_trip [of "[1]" "[2, 3]" 4 ex_ssh_direct "[9]"]
  by (simp add: request_body_def write_message_def write_u32_def)

end
