(* ===== verification/Service_Witnesses.thy ===== *)
theory Service_Witnesses
  imports Service Server_Witnesses Agent_Witnesses
begin

text \<open>
  The properties of the running service, applied in the concrete world of \<open>Example_Env\<close>: a registration followed by
  other calls, and an agent that fetches a certificate from the service.
\<close>

section \<open>A well-formed database\<close>

lemma ex_database_wf: "database_wf ex_database"
  by (simp add: database_wf_def ex_database_def table_wf_def conforms_models)

lemma ex_server_databases: "srv_databases ex_server = ex_databases"
  by (auto simp: ex_server_def new_server_def ex_config_env_def ex_databases_def)

lemma ex_server_authorizer: "srv_authorizer ex_server = Local \<lparr>ld_path = ''db''\<rparr>"
  by (simp add: ex_server_def new_server_def)

theorem grants_unambiguous_witness:
  "\<exists>rs. permissions_of ex_database ''key'' ''prod'' = Some rs \<and> rs \<noteq> [] \<and> length rs \<le> 1"
proof -
  obtain r where "permissions_of ex_database ''key'' ''prod'' = Some [r]"
    by (simp add: permissions_of_def ex_database_def)
  with grants_unambiguous [OF ex_database_wf] show ?thesis by blast
qed

section \<open>A run with a registration\<close>

definition ex_calls :: "server_call list" where
  "ex_calls = [CallRegisterKey (Some 102) (ex_request ex_register_request),
     CallChallenge (Some 103) (ex_request \<lparr>cq_pubkey = ''key''\<rparr>)]"

lemma ex_claims:
  "call_rows ex_env_direct (CallRegisterKey (Some 102) (ex_request ex_register_request)) (RegisterReply (Ok ()))
     = [(''key'', ''key'', ''ann'')]"
proof -
  have "e_parse_x509 ex_env_direct = ex_parse_x509" by (simp add: ex_env_direct_def ex_env_def)
  then show ?thesis
    by (simp add: claimed_row_def claimed_key_def peer_identities_def ex_request_def ex_register_request_def
        ex_answer_def ex_extract ex_ssh_direct_def ex_ssh_def)
qed

lemma ex_register_served:
  "\<exists>srv'. serve ex_env_direct (CallRegisterKey (Some 102) (ex_request ex_register_request)) ex_server
     = (srv', RegisterReply (Ok ()))"
  using ex_register_handler by auto

theorem registrations_exact_witness:
  "\<exists>new. srv_databases (fst (server_run ex_env_direct ex_server ex_calls)) =
       ex_databases(''db'' \<mapsto> ex_database\<lparr>db_registered_keys := Inr new\<rparr>) \<and>
     map (\<lambda>k. (rg_fingerprint k, rg_pubkey k, rg_user k)) new = [(''key'', ''key'', ''ann'')]"
proof -
  obtain srv' where srv': "serve ex_env_direct (CallRegisterKey (Some 102) (ex_request ex_register_request)) ex_server
     = (srv', RegisterReply (Ok ()))" using ex_register_served by blast
  obtain s r where s: "serve ex_env_direct (CallChallenge (Some 103) (ex_request \<lparr>cq_pubkey = ''key''\<rparr>)) srv' = (s, r)"
    by fastforce
  have "snd (server_run ex_env_direct ex_server ex_calls) = [RegisterReply (Ok ()), r]"
    by (simp add: ex_calls_def server_run_Cons [OF srv'] server_run_Cons [OF s])
  then have rows: "concat (map2 (call_rows ex_env_direct) ex_calls (snd (server_run ex_env_direct ex_server ex_calls)))
     = [(''key'', ''key'', ''ann'')]"
    using ex_claims by (simp add: ex_calls_def)
  have "databases_wf (srv_databases ex_server)"
    using ex_database_wf by (simp add: databases_wf_def ex_server_databases ex_databases_def)
  moreover have "srv_databases ex_server (ld_path \<lparr>ld_path = ''db''\<rparr>) = Some ex_database"
    "db_registered_keys ex_database = Inr []"
    by (simp_all add: ex_server_databases ex_databases_def ex_database_def)
  ultimately show ?thesis
    using registrations_exact [OF ex_server_authorizer, of ex_database "[]" ex_env_direct ex_calls]
    unfolding rows ex_server_databases by (auto simp del: fun_upd_apply)
qed

theorem registered_key_stays_listed_witness:
  "\<exists>srv' :: ex_server. \<exists>a. get_allowed_signers (e_author ex_env_direct)
       (srv_databases (fst (server_run ex_env_direct srv' ex_calls)))
       (srv_authorizer (fst (server_run ex_env_direct srv' ex_calls))) = Ok a \<and>
     \<lparr>as_identity = ''ann'', as_pubkey = ''key''\<rparr> \<in> set (as_allowed_signers a)"
proof -
  obtain srv' where srv': "serve ex_env_direct (CallRegisterKey (Some 102) (ex_request ex_register_request)) ex_server
     = (srv', RegisterReply (Ok ()))" using ex_register_served by blast
  from registered_key_stays_listed [OF srv' ex_server_authorizer, of ex_calls] show ?thesis
    unfolding ex_claims by blast
qed

section \<open>An agent fetches a certificate\<close>

definition ex_connection :: connection where
  "ex_connection = \<lparr>cn_addr = ex_addr, cn_peers = [as_bytes ''ann'']\<rparr>"

definition ex_service_options :: certificate_config where
  "ex_service_options = \<lparr>cc_principals = [''admin''], cc_hosts = [], cc_cert_type = User, cc_duration = 98, cc_authority = ''''\<rparr>"

definition ex_clock :: clock where
  "ex_clock = \<lparr>ck_challenge = Some 100, ck_validate = Some 102, ck_handler = Some 102, ck_authorizer = Some 103,
     ck_signers = Some 100\<rparr>"

definition ex_service :: "ex_server \<Rightarrow> rustica_api \<Rightarrow> rustica_api" where
  "ex_service = service_api ex_env_direct ex_connection (Status Unavailable '''') ex_clock ex_server"

lemma ex_over: "over ex_connection x = ex_request x"
  by (simp add: over_def ex_connection_def ex_request_def)

lemma ex_session:
  "session ex_env_direct ex_connection (Direct ''key'') ''key'' ex_response ex_answer True ex_clock [] ex_server ex_server"
proof -
  have "signatory_pubkey ex_ssh_direct (Direct ''key'') = Ok ''key''" "pk_to_string ex_ssh_direct ''key'' = ''key''"
    by (simp_all add: ex_ssh_direct_def ex_ssh_def)
  then show ?thesis
    using ex_answer_size ex_sshcerts_laws ex_crypto_laws(1) ex_challenge_server ex_answered
    by (simp add: session_def ex_clock_def ex_over)
qed

lemma ex_validated_session:
  "validated_session ex_env_direct ex_connection ex_clock ex_server ''key'' v \<longleftrightarrow> v = (''key'', [''ann''], None)"
proof -
  have "e_parse_x509 ex_env_direct = ex_parse_x509" by (simp add: ex_env_direct_def ex_env_def)
  then show ?thesis
    by (auto simp: validated_session_def ex_connection_def ex_clock_def ex_extract ex_no_refresh)
qed

lemma ex_client: "get_rustica_client ex_api (ex_agent_server ''good'') = Ok ()"
  by (simp add: ex_api_def get_rustica_client_def ex_agent_server_def)

lemma ex_service_request: "certificate_request_for ex_ssh_direct ex_service_options 102 ex_answer = ex_cert_request"
  by (simp add: certificate_request_for_def ex_service_options_def ex_cert_request_def ex_ssh_direct_def ex_ssh_def)

lemma ex_granted:
  "snd (authorize_and_issue ex_env_direct (ck_handler ex_clock) (ck_authorizer ex_clock) (cn_addr ex_connection)
     (certificate_request_for ex_ssh_direct ex_service_options 102 ex_answer) (''key'', [''ann''], None) ex_server)
   = Ok ex_cert_response"
  using ex_issued by (simp add: ex_service_request ex_clock_def ex_connection_def)

theorem service_transparent_witness:
  "refresh_certificate_async ex_ssh_direct (ex_service ex_server ex_api) (Some 102) (ex_agent_server ''good'')
     (Direct ''key'') ex_service_options = (True, Ok (\<lparr>rc_cert = ''key|Rustica-JITC-for-key|user-ca'', rc_comment = ''JITC''\<rparr>, None))"
  using service_transparent [OF ex_session ex_client, of "Status Unavailable ''''" 102 ex_service_options]
  by (auto simp: ex_validated_session ex_granted ex_service_def read_certificate_response_def ex_cert_response_def rpc_def)

theorem identities_from_service_witness:
  "\<exists>h' ids. identities (ex_agent_env\<lparr>ae_api := ex_service ex_server ex_api\<rparr>) (Some 102) (\<lambda>_. Some 102)
       (ex_handler\<lparr>hd_certificate_options := ex_service_options, hd_configuration := ex_uc (ex_agent_config\<lparr>ac_servers := [ex_agent_server ''good'']\<rparr>)\<rparr>)
       = (h', Ok (RespIdentities ids)) \<and>
     hd_cert h' = Some (ex_certificate ''key'' User ''user-ca'' ''Rustica-JITC-for-key'')"
proof -
  let ?h = "ex_handler\<lparr>hd_certificate_options := ex_service_options,
     hd_configuration := ex_uc (ex_agent_config\<lparr>ac_servers := [ex_agent_server ''good'']\<rparr>)\<rparr>"
  let ?G = "ex_agent_env\<lparr>ae_api := ex_service ex_server ex_api\<rparr>"
  have h: "hd_signatory ?h = Direct ''key''" "hd_certificate_options ?h = ex_service_options"
    "ac_servers (uc_configuration (hd_configuration ?h)) = ex_agent_server ''good'' # []"
    "cached_certificate 102 ?h = None"
    by (simp_all add: ex_handler_def ex_uc_def ex_agent_config_def cached_certificate_def)
  have G: "ae_ssh ?G = e_ssh ex_env_direct"
    "ae_api ?G = service_api ex_env_direct ex_connection (Status Unavailable '''') ex_clock ex_server ex_server ex_api"
    by (simp_all add: ex_agent_env_def ex_service_def)
  have granted: "snd (authorize_and_issue ex_env_direct (ck_handler ex_clock) (ck_authorizer ex_clock) (cn_addr ex_connection)
       (certificate_request_for (e_ssh ex_env_direct) (hd_certificate_options ?h) 102 ex_answer) v ex_server) = Ok ex_cert_response"
    if "validated_session ex_env_direct ex_connection ex_clock ex_server ''key'' v" for v
    using that ex_granted by (simp add: ex_validated_session h(2))
  have cert: "cert_from_string (e_ssh ex_env_direct) (ce_certificate ex_cert_response) =
     Inr (ex_certificate ''key'' User ''user-ca'' ''Rustica-JITC-for-key'')"
    by (simp add: ex_ssh_direct_def ex_ssh_def ex_parse_def ex_cert_response_def)
  have reply: "ce_error_code ex_cert_response = 0" "ce_new_client_certificate ex_cert_response = ''''"
    by (simp_all add: ex_cert_response_def)
  have "session ex_env_direct ex_connection (hd_signatory ?h) ''key'' ex_response ex_answer True ex_clock [] ex_server ex_server"
    unfolding h(1) by (rule ex_session)
  from identities_from_service [OF this G h(3) ex_client h(4) refl granted reply cert] show ?thesis by blast
qed

section \<open>An agent lists the allowed signers\<close>

theorem allowed_signers_delivered_witness:
  "get_allowed_signers_async (ex_service (ex_server_with [] [] 0 [ex_ann_key]) ex_api) (ex_agent_server ''good'') = Ok ''ann key''"
proof -
  let ?srv = "ex_server_with [] [] 0 [ex_ann_key]"
  let ?a = "\<lparr>as_allowed_signers = [\<lparr>as_identity = ''ann'', as_pubkey = ''key''\<rparr>]\<rparr>"
  have signers: "get_allowed_signers (e_author ex_env_direct) (srv_databases ?srv) (srv_authorizer ?srv) = Ok ?a"
    using ex_signers [of "e_author ex_env_direct" "[ex_ann_key]"] by (simp add: ex_ann_key_def)
  have content: "allowed_signers_text ?a = ''ann key''" by (simp add: allowed_signers_text_def)
  have utf8: "utf8_valid (as_bytes ''ann key'')" by (simp add: as_bytes_def)
  have "signers_admit ex_env_direct (Some 100) (over ex_connection ()) ?srv =
      (ex_server_with [(''ann'', 105)] [] 0 [ex_ann_key], Ok 100)"
    using ex_admit [of 100 "[]"] ex_max by (simp add: ex_over)
  moreover have "signers_refresh ex_env_direct 100 (ex_server_with [(''ann'', 105)] [] 0 [ex_ann_key]) =
      (ex_server_with [(''ann'', 105)] (as_bytes ''ann key'') 110 [ex_ann_key],
       Some (get_allowed_signers (e_author ex_env_direct) (ex_databases_with [ex_ann_key]) (Local \<lparr>ld_path = ''db''\<rparr>)),
       Ok \<lparr>ar_compressed_allowed_signers = as_bytes ''ann key''\<rparr>)"
    using ex_refresh [of 0 100 "e_author ex_env_direct"] ex_max by (simp add: ex_file_ann)
  ultimately obtain srv2 where handled: "allowed_signers_handler ex_env_direct (Some 100) (over ex_connection ()) ?srv
     = (srv2, Ok \<lparr>ar_compressed_allowed_signers = as_bytes ''ann key''\<rparr>)"
    by (simp add: allowed_signers_handler_def ex_miss)
  have clock: "ck_signers ex_clock = Some 100" by (simp add: ex_clock_def)
  have expired: "sc_expiry_timestamp (srv_allowed_signers_cache ?srv) < 100" by simp
  have decoder: "api_zstd_decoder ex_api = Some" "api_zstd_read ex_api = Some" by (simp_all add: ex_api_def)
  show ?thesis
    using allowed_signers_delivered [OF ex_client clock handled expired, of "Status Unavailable ''''" ex_server]
    by (simp only: signers ex_compress decoder content ex_service_def) (simp add: content utf8)
qed

end
