(* ===== verification/Agent_Keys.thy ===== *)
theory Agent_Keys
  imports Agent_Handler Signer_Yubikey
begin

text \<open>
  The part of \<^verbatim>\<open>rustica-agent/src/lib.rs\<close> that deals with the slots of Yubikeys: reading a slot's name,
  provisioning a key, listing devices and the keys in their retired slots. Devices and the process
  environment are parameters.
\<close>

section \<open>Devices and environment\<close>

record 'pk open_yubikey =
  oy_fetch_pubkey :: "slot_id \<Rightarrow> 'pk option"
  oy_fetch_subject :: "slot_id \<Rightarrow> string option"

text \<open>
  \<open>ke_readers\<close> is the outcome of \<^verbatim>\<open>Context::open\<close>: an error, or what listing the readers gives (\<open>None\<close>
  when that fails), each reader with the serial of the Yubikey in it if it can be opened.
\<close>

record 'pk key_env =
  ke_slot_try_from :: "u8 \<Rightarrow> slot_id option"
  ke_retired_try_from :: "u8 \<Rightarrow> slot_id option"
  ke_hex_decode :: "string \<Rightarrow> bytes option"
  ke_readers :: "string + u32 option list option"
  ke_env_var :: "string \<Rightarrow> string option"
  ke_open :: "u32 \<Rightarrow> 'pk open_yubikey option"

datatype algorithm_id = EccP384
datatype yk_touch_policy = YkTouchNever | YkTouchCached | YkTouchAlways
datatype yk_pin_policy = YkPinAlways | YkPinOnce | YkPinNever

text \<open>A Yubikey that can be provisioned: unlocking it, and the device with a new key in a slot.\<close>

record 'pk provisionable =
  pr_unlock :: "bytes \<Rightarrow> bytes \<Rightarrow> bool"
  pr_provision :: "slot_id \<Rightarrow> string \<Rightarrow> algorithm_id \<Rightarrow> yk_touch_policy \<Rightarrow> yk_pin_policy \<Rightarrow> 'pk yubikey_device option"

section \<open>Operations\<close>

definition slot_parser :: "'pk key_env \<Rightarrow> string \<Rightarrow> (slot_id option, 'e) result" where
  "slot_parser K slot =
     (if (length slot = 2 \<or> length slot = 3) \<and> starts_with ''R'' slot then
        (case parse_u8 (drop 1 slot) of
           Some v \<Rightarrow> if v \<le> 20 then and_then (unwrap (ke_slot_try_from K (0x81 + v))) (\<lambda>s. Ok (Some s)) else Ok None
         | None \<Rightarrow> Ok None)
      else if length slot = 4 \<and> starts_with ''0x'' slot then
        and_then (unwrap (ke_hex_decode K (drop 2 slot))) (\<lambda>b.
        and_then (case b of [] \<Rightarrow> Panic | w # _ \<Rightarrow> Ok w) (\<lambda>slot_value.
        and_then (unwrap (ke_slot_try_from K slot_value)) (\<lambda>s. Ok (Some s))))
      else Ok None)"

definition slot_validator :: "'pk key_env \<Rightarrow> string \<Rightarrow> (unit, string) result" where
  "slot_validator K slot = and_then (slot_parser K slot) (\<lambda>s. case s of
     Some _ \<Rightarrow> Ok ()
   | None \<Rightarrow> Err ''Provided slot was not valid. Should be R1 - R20 or a raw hex identifier'')"

definition provision_new_key ::
    "'pk provisionable \<Rightarrow> slot_id \<Rightarrow> string \<Rightarrow> string \<Rightarrow> bytes \<Rightarrow> bool \<Rightarrow> yk_pin_policy
     \<Rightarrow> (agent_piv_attestation option, 'e) result" where
  "provision_new_key yk slot pin subj mgm_key require_touch pin_policy =
     (if \<not> pr_unlock yk (as_bytes pin) mgm_key then Ok None
      else (case pr_provision yk slot subj EccP384 (if require_touch then YkTouchAlways else YkTouchCached) pin_policy of
        None \<Rightarrow> Panic
      | Some yk' \<Rightarrow>
          Ok (case (yd_fetch_attestation yk' slot, yd_fetch_certificate yk' (yd_attestation_slot yk')) of
            (Inr certificate, Some intermediate) \<Rightarrow>
              Some \<lparr>apa_certificate = certificate, apa_intermediate = intermediate\<rparr>
          | _ \<Rightarrow> None)))"

definition list_yubikey_serials :: "'pk key_env \<Rightarrow> (i64 list, library_error) result" where
  "list_yubikey_serials K = (case ke_readers K of
     Inl e \<Rightarrow> Err (LE_CouldNotEnumerateYubikeys e)
   | Inr readers \<Rightarrow> and_then (unwrap readers) (\<lambda>rs. Ok (map ucast (List.map_filter id rs))))"

text \<open>The PIN for a device: the variable with its serial, otherwise the one for all devices.\<close>

definition pin_for :: "'pk key_env \<Rightarrow> i64 \<Rightarrow> string option" where
  "pin_for K serial = (case ke_env_var K (''YK_PIN_'' @ show_int (sint serial)) of
     Some pin \<Rightarrow> Some pin | None \<Rightarrow> ke_env_var K ''YK_PIN'')"

definition retired_slots :: "u8 list" where
  "retired_slots = map of_nat [0x82..<0x96]"

fun collect_slots ::
    "('pk, 'sk) ssh_lib \<Rightarrow> 'pk key_env \<Rightarrow> u32 \<Rightarrow> string option \<Rightarrow> 'pk open_yubikey \<Rightarrow> u8 list
     \<Rightarrow> (bytes, 'pk piv_descriptor) hashmap \<Rightarrow> ((bytes, 'pk piv_descriptor) hashmap, library_error) result" where
  "collect_slots L K serial pin yk [] all_keys = Ok all_keys"
| "collect_slots L K serial pin yk (b # bs) all_keys =
     and_then (unwrap (ke_retired_try_from K b)) (\<lambda>slot.
       collect_slots L K serial pin yk bs (case oy_fetch_pubkey yk slot of
           None \<Rightarrow> all_keys
         | Some pubkey \<Rightarrow> hm_insert (pk_encode L pubkey)
             \<lparr>pv_serial = serial, pv_slot = slot, pv_public_key = pubkey, pv_pin = pin,
              pv_subject = (case oy_fetch_subject yk slot of None \<Rightarrow> '''' | Some s \<Rightarrow> s)\<rparr> all_keys))"

fun collect_devices ::
    "('pk, 'sk) ssh_lib \<Rightarrow> 'pk key_env \<Rightarrow> i64 list \<Rightarrow> (bytes, 'pk piv_descriptor) hashmap
     \<Rightarrow> ((bytes, 'pk piv_descriptor) hashmap, library_error) result" where
  "collect_devices L K [] all_keys = Ok all_keys"
| "collect_devices L K (serial # serials) all_keys = (case ke_open K (ucast serial) of
     None \<Rightarrow> Err (LE_CouldNotOpenYubikey (ucast serial))
   | Some yk \<Rightarrow> and_then (collect_slots L K (ucast serial) (pin_for K serial) yk retired_slots all_keys)
                  (collect_devices L K serials))"

definition get_all_piv_keys ::
    "('pk, 'sk) ssh_lib \<Rightarrow> 'pk key_env \<Rightarrow> ((bytes, 'pk piv_descriptor) hashmap, library_error) result" where
  "get_all_piv_keys L K = and_then (list_yubikey_serials K) (\<lambda>serials. collect_devices L K serials [])"

definition git_config_from_public_key :: "('pk, 'sk) ssh_lib \<Rightarrow> 'pk \<Rightarrow> string" where
  "git_config_from_public_key L public_key = (let base = ''git config --local'' in
     base @ '' gpg.format ssh && '' @ base @ '' commit.gpgsign true && '' @ base
       @ '' user.signingKey '' @ [CHR 0x22] @ ''key::'' @ pk_to_string L public_key @ [CHR 0x22])"

section \<open>Slots\<close>

text \<open>
  The slots of the PIV standard, as the \<^verbatim>\<open>yubikey\<close> crate converts them: authentication, signature, key
  management, card authentication, attestation, and the twenty retired ones.
\<close>

definition piv_slots :: "('pk, 'z) key_env_scheme \<Rightarrow> bool" where
  "piv_slots K \<longleftrightarrow> (\<forall>b. ke_slot_try_from K b =
     (if b \<in> {0x9A, 0x9C, 0x9D, 0x9E, 0xF9} \<or> 0x82 \<le> b \<and> b \<le> 0x95 then Some b else None))"

text \<open>
  The agent and the server read the name of a slot alike: with the same conversions of bytes and hexadecimal,
  the server's deserializer accepts a name exactly when the agent's parser does, as the same slot, refuses it
  when the agent's does, and panics when it does.
\<close>

theorem slot_parsers_agree:
  assumes "\<And>b. slot_try_from Y b = ke_slot_try_from K b" and "\<And>s. hex_decode C s = ke_hex_decode K s"
  shows "parse_option_slot C Y (Some name) =
     (case slot_parser K name of
        Ok (Some s) \<Rightarrow> Ok (Some s) | Ok None \<Rightarrow> Err ''Invalid Slot'' | Err e \<Rightarrow> Err e | Panic \<Rightarrow> Panic)"
  using assms
  by (simp add: parse_option_slot_def slot_parser_def and_then_def unwrap_def
      split: option.split list.split)

lemma show_nat_short: "n < 100 \<Longrightarrow> length (show_nat n) = 1 \<or> length (show_nat n) = 2"
  by (subst (1 2) show_nat.simps) (auto simp: show_nat.simps [of "n div 10"])

lemma parse_u8_show: "n < 256 \<Longrightarrow> parse_u8 (show_nat n) = Some (of_nat n)"
  by (simp add: parse_u8_def)

text \<open>
  The names \<^verbatim>\<open>R1\<close> to \<^verbatim>\<open>R20\<close> are the retired slots, in order, and nothing panics on them; but \<^verbatim>\<open>R0\<close>,
  which the range check lets through, panics instead of being refused.
\<close>

theorem retired_slot_names:
  assumes "piv_slots K" and "1 \<le> n" and "n \<le> 20"
  shows "slot_parser K (CHR ''R'' # show_nat n) = Ok (Some (0x81 + of_nat n)) \<and> slot_parser K ''R0'' = Panic"
proof
  have n: "(of_nat n :: u8) \<le> 20" "unat (0x81 + of_nat n :: u8) = 129 + n"
    using assms(3) by (simp_all add: word_le_nat_alt unat_word_ariths unat_of_nat)
  then have "0x82 \<le> (0x81 + of_nat n :: u8)" "(0x81 + of_nat n :: u8) \<le> 0x95"
    using assms(2,3) by (simp_all add: word_le_nat_alt)
  then have "ke_slot_try_from K (0x81 + of_nat n) = Some (0x81 + of_nat n)"
    using assms(1) by (simp add: piv_slots_def)
  then show "slot_parser K (CHR ''R'' # show_nat n) = Ok (Some (0x81 + of_nat n))"
    using show_nat_short [of n] assms(3) n(1) by (auto simp: slot_parser_def parse_u8_show)
  have "ke_slot_try_from K 0x81 = None" using assms(1) by (simp add: piv_slots_def)
  then show "slot_parser K ''R0'' = Panic"
    by (simp add: slot_parser_def parse_u8_def parse_digits_def strip_plus_def digit_val_def)
qed

section \<open>The keys on all devices\<close>

text \<open>What the map of keys says of its entries, and which entries it has.\<close>

definition piv_entry ::
    "('pk, 'sk) ssh_lib \<Rightarrow> 'pk key_env \<Rightarrow> bytes \<Rightarrow> 'pk piv_descriptor \<Rightarrow> bool" where
  "piv_entry L K blob d \<longleftrightarrow> blob = pk_encode L (pv_public_key d) \<and>
     pv_pin d = pin_for K (ucast (pv_serial d)) \<and>
     (\<exists>b \<in> set retired_slots. ke_retired_try_from K b = Some (pv_slot d)) \<and>
     (\<exists>yk. ke_open K (pv_serial d) = Some yk \<and> oy_fetch_pubkey yk (pv_slot d) = Some (pv_public_key d))"

definition piv_entries ::
    "('pk, 'sk) ssh_lib \<Rightarrow> 'pk key_env \<Rightarrow> (bytes, 'pk piv_descriptor) hashmap \<Rightarrow> bool" where
  "piv_entries L K m \<longleftrightarrow> (\<forall>blob d. map_of m blob = Some d \<longrightarrow> piv_entry L K blob d)"

lemma piv_entries_insert:
  "piv_entries L K m \<Longrightarrow> piv_entry L K blob d \<Longrightarrow> piv_entries L K (hm_insert blob d m)"
  by (simp add: piv_entries_def update_conv')

lemma collect_slots_step:
  "ke_retired_try_from K b = Some slot \<Longrightarrow> oy_fetch_pubkey yk slot = None \<Longrightarrow>
     collect_slots L K serial pin yk (b # bs) m = collect_slots L K serial pin yk bs m"
  "ke_retired_try_from K b = Some slot \<Longrightarrow> oy_fetch_pubkey yk slot = Some pubkey \<Longrightarrow>
     collect_slots L K serial pin yk (b # bs) m = collect_slots L K serial pin yk bs
       (hm_insert (pk_encode L pubkey) \<lparr>pv_serial = serial, pv_slot = slot, pv_public_key = pubkey, pv_pin = pin,
          pv_subject = (case oy_fetch_subject yk slot of None \<Rightarrow> '''' | Some s \<Rightarrow> s)\<rparr> m)"
  by simp_all

lemma collect_slots_entries:
  assumes "collect_slots L K serial pin yk bs m = Ok m'" and "piv_entries L K m"
    and "ke_open K serial = Some yk" and "pin = pin_for K (ucast serial)" and "set bs \<subseteq> set retired_slots"
  shows "piv_entries L K m'"
  using assms
proof (induction bs arbitrary: m)
  case Nil
  then show ?case by simp
next
  case (Cons b bs)
  from Cons.prems(1) obtain slot where slot: "ke_retired_try_from K b = Some slot"
    by (auto simp: and_then_Ok)
  show ?case
  proof (cases "oy_fetch_pubkey yk slot")
    case None
    with Cons slot show ?thesis by simp
  next
    case (Some pubkey)
    let ?d = "\<lparr>pv_serial = serial, pv_slot = slot, pv_public_key = pubkey, pv_pin = pin,
              pv_subject = (case oy_fetch_subject yk slot of None \<Rightarrow> '''' | Some s \<Rightarrow> s)\<rparr>"
    have "piv_entry L K (pk_encode L pubkey) ?d"
      using Some slot Cons.prems(3-5) by (auto simp: piv_entry_def)
    with Cons.prems slot Some show ?thesis
      by (intro Cons.IH [of "hm_insert (pk_encode L pubkey) ?d m"]) (auto intro: piv_entries_insert)
  qed
qed

lemma collect_slots_keys:
  assumes "collect_slots L K serial pin yk bs m = Ok m'"
  shows "dom (map_of m') = dom (map_of m) \<union>
     {pk_encode L pubkey |pubkey b slot. b \<in> set bs \<and> ke_retired_try_from K b = Some slot \<and>
        oy_fetch_pubkey yk slot = Some pubkey}"
  using assms
proof (induction bs arbitrary: m)
  case Nil
  then show ?case by simp
next
  case (Cons b bs)
  from Cons.prems obtain slot m1 where slot: "ke_retired_try_from K b = Some slot"
    and m1: "collect_slots L K serial pin yk bs m1 = Ok m'"
      "dom (map_of m1) = dom (map_of m) \<union> {pk_encode L pubkey |pubkey. oy_fetch_pubkey yk slot = Some pubkey}"
    by (cases "ke_retired_try_from K b") (auto simp: update_conv' split: option.splits)
  show ?case unfolding Cons.IH [OF m1(1)] m1(2) using slot by auto
qed

lemma u32_of_i64: "ucast (ucast u :: i64) = (u :: u32)"
  by (rule bit_word_eqI) (simp add: bit_simps)

lemma collect_devices_entries:
  assumes "collect_devices L K serials m = Ok m'" and "piv_entries L K m"
    and "\<forall>s \<in> set serials. \<exists>u :: u32. s = ucast u"
  shows "piv_entries L K m'"
  using assms
proof (induction serials arbitrary: m)
  case Nil
  then show ?case by simp
next
  case (Cons s serials)
  from Cons.prems(3) obtain u :: u32 where u: "s = ucast u" by auto
  then have u32_again: "ucast s = u" by (simp add: u32_of_i64)
  with Cons.prems(1) obtain yk m1 where m1: "ke_open K u = Some yk"
    "collect_slots L K u (pin_for K s) yk retired_slots m = Ok m1" "collect_devices L K serials m1 = Ok m'"
    by (auto simp: and_then_Ok split: option.splits)
  then have "piv_entries L K m1" using collect_slots_entries [OF m1(2) Cons.prems(2) m1(1)] u by simp
  with Cons.IH m1(3) Cons.prems(3) show ?case by simp
qed

lemma collect_devices_keys:
  assumes "collect_devices L K serials m = Ok m'"
  shows "dom (map_of m') = dom (map_of m) \<union>
     {pk_encode L pubkey |pubkey s yk b slot. s \<in> set serials \<and> ke_open K (ucast s) = Some yk \<and>
        b \<in> set retired_slots \<and> ke_retired_try_from K b = Some slot \<and> oy_fetch_pubkey yk slot = Some pubkey}"
  using assms
proof (induction serials arbitrary: m)
  case Nil
  then show ?case by simp
next
  case (Cons s serials)
  from Cons.prems obtain yk m1 where m1: "ke_open K (ucast s) = Some yk"
    "collect_slots L K (ucast s) (pin_for K s) yk retired_slots m = Ok m1" "collect_devices L K serials m1 = Ok m'"
    by (auto simp: and_then_Ok split: option.splits)
  show ?case
    unfolding Cons.IH [OF m1(3)] collect_slots_keys [OF m1(2)] using m1(1) by fastforce
qed

lemma get_all_piv_keys_Ok:
  "get_all_piv_keys L K = Ok m \<longleftrightarrow> (\<exists>rs. ke_readers K = Inr (Some rs) \<and>
     collect_devices L K (map ucast (List.map_filter id rs)) [] = Ok m)"
  by (auto simp: get_all_piv_keys_def list_yubikey_serials_def and_then_Ok split: sum.splits)

lemma map_filter_serials: "set (map ucast (List.map_filter id rs) :: i64 list) = ucast ` {u :: u32. Some u \<in> set rs}"
  by (force simp: List.map_filter_def image_iff)

lemma get_all_piv_keys_entries: "get_all_piv_keys L K = Ok m \<Longrightarrow> piv_entries L K m"
proof -
  assume "get_all_piv_keys L K = Ok m"
  then obtain rs :: "u32 option list" where run: "collect_devices L K (map ucast (List.map_filter id rs)) [] = Ok m"
    by (auto simp: get_all_piv_keys_Ok)
  show ?thesis
    by (rule collect_devices_entries [OF run]) (simp add: piv_entries_def, use map_filter_serials in blast)
qed

text \<open>
  C35: The listing of the PIV keys is exact: its keys are the encodings of precisely the public keys found in the
  retired slots of the Yubikeys in the readers, and every entry describes a slot of an open device that
  holds that very key, with the PIN set for that device (or else the one for all devices).
\<close>

theorem all_piv_keys_exact:
  assumes "get_all_piv_keys L K = Ok m" and "ke_readers K = Inr (Some rs)"
  shows "dom (map_of m) = {pk_encode L pubkey |pubkey serial yk b slot. Some serial \<in> set rs \<and>
       ke_open K serial = Some yk \<and> b \<in> set retired_slots \<and> ke_retired_try_from K b = Some slot \<and>
       oy_fetch_pubkey yk slot = Some pubkey} \<and>
     piv_entries L K m"
proof
  show "piv_entries L K m" using assms(1) by (rule get_all_piv_keys_entries)
  have run: "collect_devices L K (map ucast (List.map_filter id rs)) [] = Ok m"
    using assms by (auto simp: get_all_piv_keys_Ok)
  show "dom (map_of m) = {pk_encode L pubkey |pubkey serial yk b slot. Some serial \<in> set rs \<and>
       ke_open K serial = Some yk \<and> b \<in> set retired_slots \<and> ke_retired_try_from K b = Some slot \<and>
       oy_fetch_pubkey yk slot = Some pubkey}"
    unfolding collect_devices_keys [OF run] map_filter_serials by (auto simp: u32_of_i64)
qed

end
