(* ===== verification/Cli_Config.thy ===== *)
theory Cli_Config
  imports Agent_Keys Agent_Loop
begin

text \<open>
  \<^verbatim>\<open>rustica-agent-cli/src/config/\<close>: what each subcommand does with its arguments. The argument parser is a
  parameter (\<open>arg_matches\<close> is what it returns: the values of arguments, defaults included, and the
  flags); so are files, directories, Yubikeys and the temporary directory.
\<close>

section \<open>Arguments, files, errors\<close>

record arg_matches =
  value_of :: "string \<Rightarrow> string option"
  is_present :: "string \<Rightarrow> bool"
  pin_policy_of :: "yk_pin_policy option"

text \<open>
  \<open>cl_read_dir\<close> lists the paths of a directory, \<open>None\<close> for an entry that cannot be read;
  \<open>cl_temp_file\<close> is a file of the given name in the temporary directory.
\<close>

record ('pk, 'sk) cli_env =
  cl_ssh :: "('pk, 'sk) ssh_lib"
  cl_fs :: agent_fs
  cl_keys :: "'pk key_env"
  cl_yubikey_new :: "'pk yubikey_device option"
  cl_yubikey_open :: "u32 \<Rightarrow> 'pk yubikey_device option"
  cl_private_from_path :: "string \<Rightarrow> string + 'sk"
  cl_public_from_path :: "string \<Rightarrow> string + 'pk"
  cl_set_device_path :: "string \<Rightarrow> 'sk \<Rightarrow> 'sk"
  cl_read_dir :: "string \<Rightarrow> string + string option list"
  cl_temp_file :: "string \<Rightarrow> string"
  cl_process_id :: u32

datatype multimode_error =
    ME_NoCertificateKey
  | ME_NoKeyDir
  | ME_BadKeyDir string
  | ME_CertificateIsUnknownKey string
  | ME_UnknownPublicKey string
  | ME_RusticaAgentError library_error

datatype cli_error =
    CE_BadConfiguration library_error
  | CE_BadSlot
  | CE_CannotAttestFileBasedKey
  | CE_CannotProvisionFile
  | CE_CannotReadFile string
  | CE_MissingSSHKey
  | CE_ParsingError
  | CE_YubikeyManagementKeyInvalid
  | CE_YubikeyNoKeypairFound
  | CE_InvalidFidoKeyName
  | CE_MultiModeError multimode_error
  | CE_NoMode
  | CE_YubikeyError string
  | CE_UnableToDetermineKey

section \<open>What to run\<close>

record ('pk, 'sk) run_config =
  rn_socket_path :: string
  rn_pubkey :: 'pk
  rn_handler :: "('pk, 'sk) handler"

record ('pk, 'sk) immediate_config =
  ic_updatable_configuration :: updatable_configuration
  ic_certificate_options :: certificate_config
  ic_signatory :: "('pk, 'sk) signatory"
  ic_out :: "string option"

record 'pk provision_piv_config =
  pp_slot :: slot_id
  pp_yubikey :: "'pk yubikey_device"
  pp_pin :: string
  pp_management_key :: bytes
  pp_require_touch :: bool
  pp_pin_policy :: yk_pin_policy
  pp_subject :: string

record ('pk, 'sk) register_config =
  rg_updatable_configuration :: updatable_configuration
  rg_signatory :: "('pk, 'sk) signatory"
  rg_attestation :: agent_piv_attestation

datatype sk_type = SKEd25519 | SKEcdsa

record provision_and_register_fido_config =
  pf_updatable_configuration :: updatable_configuration
  pf_app_name :: string
  pf_comment :: string
  pf_key_type :: sk_type
  pf_pin :: "string option"
  pf_out :: "string option"

record ('pk, 'sk) refresh_attested_x509_config =
  rx_updatable_configuration :: updatable_configuration
  rx_signatory :: "('pk, 'sk) signatory"
  rx_pin :: string
  rx_management_key :: bytes

datatype ('pk, 'sk) rustica_agent_action =
    ActRun "('pk, 'sk) run_config"
  | ActImmediate "('pk, 'sk) immediate_config"
  | ActProvisionPIV "'pk provision_piv_config"
  | ActRegister "('pk, 'sk) register_config"
  | ActProvisionAndRegisterFido provision_and_register_fido_config
  | ActListPIVKeys bool
  | ActListFidoDevices
  | ActGitConfig 'pk
  | ActRefreshAttestedX509 "('pk, 'sk) refresh_attested_x509_config"
  | ActGetAllowedSigners updatable_configuration

section \<open>Shared parts\<close>

text \<open>A slot on the first Yubikey; \<^verbatim>\<open>Yubikey::new().unwrap()\<close> panics when there is none.\<close>

definition slot_signatory ::
    "('pk, 'sk) cli_env \<Rightarrow> string \<Rightarrow> (('pk, 'sk) signatory, cli_error) result" where
  "slot_signatory E slot = and_then (slot_parser (cl_keys E) slot) (\<lambda>s. case s of
     Some s \<Rightarrow> and_then (unwrap (cl_yubikey_new E)) (\<lambda>yk. Ok (YubikeySignatory s yk))
   | None \<Rightarrow> Err CE_BadSlot)"

definition cli_get_signatory ::
    "('pk, 'sk) cli_env \<Rightarrow> string option \<Rightarrow> string option \<Rightarrow> string option \<Rightarrow> string option
     \<Rightarrow> (('pk, 'sk) signatory, cli_error) result" where
  "cli_get_signatory E cmd_slot config_slot file config_key = (case cmd_slot of
     Some slot \<Rightarrow> slot_signatory E slot
   | None \<Rightarrow> (case file of
       Some f \<Rightarrow> (case cl_private_from_path E f of
           Inr p \<Rightarrow> Ok (Direct p)
         | Inl e \<Rightarrow> Err (CE_CannotReadFile (e @ '': '' @ f)))
     | None \<Rightarrow> (case config_slot of
         Some slot \<Rightarrow> slot_signatory E slot
       | None \<Rightarrow> (case config_key of
           Some key \<Rightarrow> and_then (ok_or (sk_from_string (cl_ssh E) key) CE_ParsingError) (\<lambda>p. Ok (Direct p))
         | None \<Rightarrow> Err CE_MissingSSHKey))))"

definition parse_config_from_args ::
    "('pk, 'sk) cli_env \<Rightarrow> arg_matches \<Rightarrow> (updatable_configuration, cli_error) result" where
  "parse_config_from_args E m = and_then (unwrap (value_of m ''config'')) (\<lambda>path.
     map_err CE_BadConfiguration (new_updatable_configuration (cl_fs E) path))"

definition parse_certificate_config_from_args ::
    "('pk, 'sk) cli_env \<Rightarrow> arg_matches \<Rightarrow> agent_config \<Rightarrow> certificate_config" where
  "parse_certificate_config_from_args E m config =
     (let o1 = certificate_config_from (cl_ssh E) (ac_options config);
          o2 = (case value_of m ''principals'' of
                  Some ps \<Rightarrow> o1\<lparr>cc_principals := split_on CHR '','' ps\<rparr> | None \<Rightarrow> o1);
          o3 = (case value_of m ''kind'' of
                  Some kind \<Rightarrow> o2\<lparr>cc_cert_type :=
                    (case cert_type_from_string (cl_ssh E) kind of Some t \<Rightarrow> t | None \<Rightarrow> User)\<rparr> | None \<Rightarrow> o2);
          o4 = (case value_of m ''duration'' of
                  Some d \<Rightarrow> o3\<lparr>cc_duration := (case parse_u64 d of Some n \<Rightarrow> n | None \<Rightarrow> 10)\<rparr> | None \<Rightarrow> o3)
      in case value_of m ''authority'' of Some a \<Rightarrow> o4\<lparr>cc_authority := a\<rparr> | None \<Rightarrow> o4)"

definition parse_socket_path_from_args ::
    "('pk, 'sk) cli_env \<Rightarrow> arg_matches \<Rightarrow> agent_config \<Rightarrow> string" where
  "parse_socket_path_from_args E m config = (case (value_of m ''socket'', ac_socket config) of
     (Some socket, _) \<Rightarrow> socket
   | (None, Some socket) \<Rightarrow> socket
   | (None, None) \<Rightarrow> cl_temp_file E (''rustica.'' @ show_nat (unat (cl_process_id E))))"

section \<open>The subcommands\<close>

definition configure_immediate ::
    "('pk, 'sk) cli_env \<Rightarrow> arg_matches \<Rightarrow> (('pk, 'sk) rustica_agent_action, cli_error) result" where
  "configure_immediate E m = and_then (parse_config_from_args E m) (\<lambda>uc.
     let config = uc_configuration uc in
     and_then (cli_get_signatory E (value_of m ''slot'') (ac_slot config) (value_of m ''file'') (ac_key config)) (\<lambda>sg.
       Ok (ActImmediate \<lparr>ic_updatable_configuration = uc,
             ic_certificate_options = parse_certificate_config_from_args E m config,
             ic_signatory = sg, ic_out = value_of m ''out''\<rparr>)))"

text \<open>The key of a signatory, and the signatory with the path of its FIDO device set.\<close>

definition single_signatory ::
    "('pk, 'sk) cli_env \<Rightarrow> arg_matches \<Rightarrow> ('pk, 'sk) signatory
     \<Rightarrow> ('pk \<times> ('pk, 'sk) signatory, cli_error) result" where
  "single_signatory E m sg = (case sg of
     YubikeySignatory slot yk \<Rightarrow>
       and_then (ok_or (yd_fetch_pubkey yk slot) CE_YubikeyNoKeypairFound) (\<lambda>k. Ok (k, sg))
   | Direct k \<Rightarrow>
       (let k' = (case value_of m ''fido-device-path'' of Some p \<Rightarrow> cl_set_device_path E p k | None \<Rightarrow> k)
        in Ok (sk_pubkey (cl_ssh E) k', Direct k')))"

definition configure_singlemode ::
    "('pk, 'sk) cli_env \<Rightarrow> arg_matches \<Rightarrow> (('pk, 'sk) rustica_agent_action, cli_error) result" where
  "configure_singlemode E m = and_then (parse_config_from_args E m) (\<lambda>uc.
     let config = uc_configuration uc in
     and_then (cli_get_signatory E (value_of m ''slot'') (ac_slot config) (value_of m ''file'') (ac_key config)) (\<lambda>sg.
     and_then (single_signatory E m sg) (\<lambda>(pubkey, sg').
       Ok (ActRun \<lparr>rn_socket_path = parse_socket_path_from_args E m config, rn_pubkey = pubkey,
             rn_handler = \<lparr>hd_configuration = uc, hd_cert = None, hd_pubkey = pubkey, hd_signatory = sg',
               hd_stale_at = 0, hd_certificate_options = parse_certificate_config_from_args E m config,
               hd_identities = [], hd_piv_identities = [], hd_notification_function = True,
               hd_certificate_priority = is_present m ''certificate-priority'', hd_notified = 0\<rparr>\<rparr>))))"

subsection \<open>Many keys\<close>

definition ends_with :: "string \<Rightarrow> string \<Rightarrow> bool" where
  "ends_with suffix s = starts_with (rev suffix) (rev s)"

fun load_keys :: "('pk, 'sk) cli_env \<Rightarrow> string option list \<Rightarrow> 'pk list \<times> 'sk list" where
  "load_keys E [] = ([], [])"
| "load_keys E (None # ps) = load_keys E ps"
| "load_keys E (Some p # ps) = (let (pubs, privs) = load_keys E ps in
     if ends_with ''.pub'' p then
       (case cl_public_from_path E p of Inr k \<Rightarrow> (k # pubs, privs) | Inl _ \<Rightarrow> (pubs, privs))
     else
       (case cl_private_from_path E p of Inr k \<Rightarrow> (pubs, k # privs) | Inl _ \<Rightarrow> (pubs, privs)))"

definition get_keys_from_dir :: "('pk, 'sk) cli_env \<Rightarrow> string \<Rightarrow> ('pk list \<times> 'sk list, multimode_error) result" where
  "get_keys_from_dir E directory = (case cl_read_dir E directory of
     Inl e \<Rightarrow> Err (ME_BadKeyDir e) | Inr entries \<Rightarrow> Ok (load_keys E entries))"

fun pick_keys ::
    "('pk, 'sk) ssh_lib \<Rightarrow> 'pk list \<Rightarrow> (bytes, 'pk piv_descriptor) hashmap \<Rightarrow> (bytes, 'pk piv_descriptor) hashmap
     \<Rightarrow> ((bytes, 'pk piv_descriptor) hashmap, multimode_error) result" where
  "pick_keys L [] all_keys key_map = Ok key_map"
| "pick_keys L (k # ks) all_keys key_map = (case map_of all_keys (pk_encode L k) of
     Some d \<Rightarrow> pick_keys L ks (AList.delete (pk_encode L k) all_keys) (hm_insert (pk_encode L k) d key_map)
   | None \<Rightarrow> Err (ME_UnknownPublicKey (pk_hash L k)))"

definition validate_public_keys ::
    "('pk, 'sk) cli_env \<Rightarrow> 'pk list \<Rightarrow> ((bytes, 'pk piv_descriptor) hashmap, multimode_error) result" where
  "validate_public_keys E public_keys =
     and_then (map_err ME_RusticaAgentError (get_all_piv_keys (cl_ssh E) (cl_keys E))) (\<lambda>all_keys.
       pick_keys (cl_ssh E) public_keys all_keys [])"

fun find_private ::
    "('pk, 'sk) ssh_lib \<Rightarrow> string \<Rightarrow> 'sk list \<Rightarrow> ('pk \<times> ('pk, 'sk) signatory, multimode_error) result" where
  "find_private L fp [] = Err (ME_CertificateIsUnknownKey fp)"
| "find_private L fp (k # ks) =
     (if fp = pk_hash L (sk_pubkey L k) then Ok (sk_pubkey L k, Direct k) else find_private L fp ks)"

fun find_signatory ::
    "('pk, 'sk) cli_env \<Rightarrow> string \<Rightarrow> (bytes, 'pk piv_descriptor) hashmap \<Rightarrow> 'sk list
     \<Rightarrow> ('pk \<times> ('pk, 'sk) signatory, multimode_error) result" where
  "find_signatory E fp [] private_keys = find_private (cl_ssh E) fp private_keys"
| "find_signatory E fp ((blob, des) # public_keys) private_keys =
     and_then (unwrap (pk_from_bytes (cl_ssh E) blob)) (\<lambda>key.
       if fp = pk_hash (cl_ssh E) key then
         and_then (unwrap (cl_yubikey_open E (pv_serial des))) (\<lambda>yk.
           Ok (pv_public_key des, YubikeySignatory (pv_slot des) yk))
       else find_signatory E fp public_keys private_keys)"

definition configure_multimode ::
    "('pk, 'sk) cli_env \<Rightarrow> arg_matches \<Rightarrow> (('pk, 'sk) rustica_agent_action, cli_error) result" where
  "configure_multimode E m = (let L = cl_ssh E in
     and_then (parse_config_from_args E m) (\<lambda>uc. let config = uc_configuration uc in
     and_then (ok_or (value_of m ''cert-for'') (CE_MultiModeError ME_NoCertificateKey)) (\<lambda>fp.
     and_then (ok_or (value_of m ''key-dir'') (CE_MultiModeError ME_NoKeyDir)) (\<lambda>key_dir.
     and_then (map_err CE_MultiModeError (get_keys_from_dir E key_dir)) (\<lambda>(public_keys, private_keys).
     and_then (map_err CE_MultiModeError (validate_public_keys E public_keys)) (\<lambda>key_map.
     and_then (map_err CE_MultiModeError (find_signatory E fp key_map private_keys)) (\<lambda>(pubkey, sg).
       let private_keys = (case value_of m ''fido-device-path'' of
             Some path \<Rightarrow> map (cl_set_device_path E path) private_keys | None \<Rightarrow> private_keys);
           private_map = hm_collect (map (\<lambda>k. (pk_encode L (sk_pubkey L k), k)) private_keys)
       in Ok (ActRun \<lparr>rn_socket_path = parse_socket_path_from_args E m config, rn_pubkey = pubkey,
            rn_handler = \<lparr>hd_configuration = uc, hd_cert = None, hd_pubkey = pubkey, hd_signatory = sg,
              hd_stale_at = 0, hd_certificate_options = parse_certificate_config_from_args E m config,
              hd_identities = AList.delete (pk_encode L pubkey) private_map,
              hd_piv_identities = AList.delete (pk_encode L pubkey) key_map,
              hd_notification_function = False,
              hd_certificate_priority = is_present m ''certificate-priority'', hd_notified = 0\<rparr>\<rparr>))))))))"

subsection \<open>Registering and provisioning\<close>

definition configure_register ::
    "('pk, 'sk) cli_env \<Rightarrow> arg_matches \<Rightarrow> (('pk, 'sk) rustica_agent_action, cli_error) result" where
  "configure_register E m = and_then (parse_config_from_args E m) (\<lambda>uc.
     let config = uc_configuration uc in
     and_then (cli_get_signatory E (value_of m ''slot'') (ac_slot config) (value_of m ''file'') (ac_key config)) (\<lambda>sg.
     and_then (if is_present m ''no-attest'' then Ok \<lparr>apa_certificate = [], apa_intermediate = []\<rparr>
         else (case sg of
           Direct _ \<Rightarrow> Err CE_CannotAttestFileBasedKey
         | YubikeySignatory slot yk \<Rightarrow> Ok
             \<lparr>apa_certificate = (case yd_fetch_attestation yk slot of Inr c \<Rightarrow> c | Inl _ \<Rightarrow> []),
              apa_intermediate = (case yd_fetch_certificate yk (yd_attestation_slot yk) of Some c \<Rightarrow> c | None \<Rightarrow> [])\<rparr>)) (\<lambda>att.
       Ok (ActRegister \<lparr>rg_updatable_configuration = uc, rg_signatory = sg, rg_attestation = att\<rparr>))))"

definition pin_policy_parser :: "string \<Rightarrow> (yk_pin_policy, string) result" where
  "pin_policy_parser policy =
     (if policy = ''always'' \<or> policy = ''a'' then Ok YkPinAlways
      else if policy = ''once'' \<or> policy = ''o'' then Ok YkPinOnce
      else if policy = ''never'' \<or> policy = ''n'' then Ok YkPinNever
      else Err (policy @ '' is not a policy for pin I understand''))"

text \<open>The PIN variable with its fallback, and the management key.\<close>

definition pin_or_default :: "('pk, 'sk) cli_env \<Rightarrow> arg_matches \<Rightarrow> (string, cli_error) result" where
  "pin_or_default E m = and_then (unwrap (value_of m ''pin-env'')) (\<lambda>pin_env.
     Ok (case ke_env_var (cl_keys E) pin_env of Some pin \<Rightarrow> pin | None \<Rightarrow> ''123456''))"

definition management_key_arg :: "('pk, 'sk) cli_env \<Rightarrow> arg_matches \<Rightarrow> (bytes, cli_error) result" where
  "management_key_arg E m = and_then (unwrap (value_of m ''management-key'')) (\<lambda>k.
     ok_or (ke_hex_decode (cl_keys E) k) CE_YubikeyManagementKeyInvalid)"

definition configure_provision_piv ::
    "('pk, 'sk) cli_env \<Rightarrow> arg_matches \<Rightarrow> (('pk, 'sk) rustica_agent_action, cli_error) result" where
  "configure_provision_piv E m =
     and_then (cli_get_signatory E (value_of m ''slot'') None None None) (\<lambda>sg. case sg of
       Direct _ \<Rightarrow> Err CE_CannotProvisionFile
     | YubikeySignatory slot yk \<Rightarrow>
       and_then (unwrap (value_of m ''subject'')) (\<lambda>subject.
       and_then (management_key_arg E m) (\<lambda>mgm.
       and_then (pin_or_default E m) (\<lambda>pin.
         Ok (ActProvisionPIV \<lparr>pp_slot = slot, pp_yubikey = yk, pp_pin = pin, pp_management_key = mgm,
               pp_require_touch = is_present m ''require-touch'',
               pp_pin_policy = (case pin_policy_of m of Some p \<Rightarrow> p | None \<Rightarrow> YkPinOnce),
               pp_subject = subject\<rparr>)))))"

definition configure_fido_setup ::
    "('pk, 'sk) cli_env \<Rightarrow> arg_matches \<Rightarrow> (('pk, 'sk) rustica_agent_action, cli_error) result" where
  "configure_fido_setup E m = and_then (parse_config_from_args E m) (\<lambda>uc.
     and_then (unwrap (value_of m ''application'')) (\<lambda>app_name.
     if \<not> starts_with ''ssh:'' app_name then Err CE_InvalidFidoKeyName
     else and_then (unwrap (value_of m ''comment'')) (\<lambda>comment.
     and_then (unwrap (value_of m ''pin-env'')) (\<lambda>pin_env.
       Ok (ActProvisionAndRegisterFido \<lparr>pf_updatable_configuration = uc, pf_app_name = app_name,
             pf_comment = comment,
             pf_key_type = (if value_of m ''kind'' = Some ''ecdsa'' then SKEcdsa else SKEd25519),
             pf_pin = ke_env_var (cl_keys E) pin_env, pf_out = value_of m ''out''\<rparr>)))))"

definition configure_refresh_x509_certificate ::
    "('pk, 'sk) cli_env \<Rightarrow> arg_matches \<Rightarrow> (('pk, 'sk) rustica_agent_action, cli_error) result" where
  "configure_refresh_x509_certificate E m = and_then (parse_config_from_args E m) (\<lambda>uc.
     and_then (unwrap (value_of m ''slot'')) (\<lambda>slot_name.
     and_then (slot_parser (cl_keys E) slot_name) (\<lambda>parsed.
     and_then (unwrap parsed) (\<lambda>slot.
     and_then (unwrap (cl_yubikey_new E)) (\<lambda>yk.
     and_then (pin_or_default E m) (\<lambda>pin.
     and_then (management_key_arg E m) (\<lambda>mgm.
       Ok (ActRefreshAttestedX509 \<lparr>rx_updatable_configuration = uc,
             rx_signatory = YubikeySignatory slot yk, rx_pin = pin, rx_management_key = mgm\<rparr>))))))))"

subsection \<open>The rest\<close>

text \<open>The last of several keys with the serial that was given is taken.\<close>

definition slot_key ::
    "('pk, 'sk) cli_env \<Rightarrow> slot_id \<Rightarrow> string option \<Rightarrow> ('pk, cli_error) result" where
  "slot_key E slot serial =
     and_then (map_err (\<lambda>e. CE_YubikeyError (library_error_to_string e)) (get_all_piv_keys (cl_ssh E) (cl_keys E))) (\<lambda>all_keys.
       let candidates = filter (\<lambda>x. pv_slot (snd x) = slot) all_keys in
       case (candidates, serial) of
         ([], _) \<Rightarrow> Err CE_YubikeyNoKeypairFound
       | ([c], _) \<Rightarrow> Ok (pv_public_key (snd c))
       | (_, None) \<Rightarrow> Err CE_UnableToDetermineKey
       | (_, Some sn) \<Rightarrow>
           (case filter (\<lambda>x. show_nat (unat (pv_serial (snd x))) = sn) candidates of
              [] \<Rightarrow> Err CE_YubikeyNoKeypairFound
            | cs \<Rightarrow> Ok (pv_public_key (snd (last cs)))))"

definition configure_git_config ::
    "('pk, 'sk) cli_env \<Rightarrow> arg_matches \<Rightarrow> (('pk, 'sk) rustica_agent_action, cli_error) result" where
  "configure_git_config E m =
     and_then (case value_of m ''slot'' of
         None \<Rightarrow> Ok None
       | Some name \<Rightarrow> and_then (slot_parser (cl_keys E) name) (\<lambda>s. and_then (unwrap s) (\<lambda>s. Ok (Some s)))) (\<lambda>slot.
     and_then (case (value_of m ''file'', slot) of
         (Some f, None) \<Rightarrow>
           (case (cl_private_from_path E f, cl_public_from_path E f) of
              (Inr p, _) \<Rightarrow> Ok (sk_pubkey (cl_ssh E) p)
            | (Inl _, Inr p) \<Rightarrow> Ok p
            | (Inl _, Inl _) \<Rightarrow> Err (CE_CannotReadFile ''Could not read the key as either a private or public key''))
       | (None, Some slot) \<Rightarrow> slot_key E slot (value_of m ''serial'')
       | (None, None) \<Rightarrow> Err CE_UnableToDetermineKey
       | (Some _, Some _) \<Rightarrow> Err CE_UnableToDetermineKey) (\<lambda>k. Ok (ActGitConfig k)))"

definition configure_list_piv_keys ::
    "arg_matches \<Rightarrow> (('pk, 'sk) rustica_agent_action, cli_error) result" where
  "configure_list_piv_keys m = Ok (ActListPIVKeys (is_present m ''full''))"

definition configure_allowed_signers ::
    "('pk, 'sk) cli_env \<Rightarrow> arg_matches \<Rightarrow> (('pk, 'sk) rustica_agent_action, cli_error) result" where
  "configure_allowed_signers E m = and_then (parse_config_from_args E m) (\<lambda>uc. Ok (ActGetAllowedSigners uc))"

text \<open>The subcommand that was given, with its arguments, decides; no subcommand prints the help.\<close>

definition cli_configure ::
    "('pk, 'sk) cli_env \<Rightarrow> (string \<times> arg_matches) option \<Rightarrow> (('pk, 'sk) rustica_agent_action, cli_error) result" where
  "cli_configure E subcommand = (case subcommand of
     None \<Rightarrow> Err CE_NoMode
   | Some (name, m) \<Rightarrow>
       if name = ''immediate'' then configure_immediate E m
       else if name = ''multi'' then configure_multimode E m
       else if name = ''fido-setup'' then configure_fido_setup E m
       else if name = ''provision-piv'' then configure_provision_piv E m
       else if name = ''register'' then configure_register E m
       else if name = ''single'' then configure_singlemode E m
       else if name = ''list-piv-keys'' then configure_list_piv_keys m
       else if name = ''list-fido-devices'' then Ok ActListFidoDevices
       else if name = ''git-config'' then configure_git_config E m
       else if name = ''refresh-attested-x509'' then configure_refresh_x509_certificate E m
       else if name = ''allowed_signers'' then configure_allowed_signers E m
       else Err CE_NoMode)"

section \<open>Lemmas\<close>

lemma parse_config_from_args_Ok:
  "parse_config_from_args E m = Ok uc \<longleftrightarrow>
     (\<exists>path. value_of m ''config'' = Some path \<and> new_updatable_configuration (cl_fs E) path = Ok uc)"
  by (simp add: parse_config_from_args_def and_then_Ok map_err_Ok)

lemma find_private_Ok:
  "find_private L fp ks = Ok (pubkey, sg) \<Longrightarrow>
     \<exists>k \<in> set ks. sg = Direct k \<and> pubkey = sk_pubkey L k \<and> fp = pk_hash L pubkey"
  by (induction ks) (auto split: if_splits)

lemma find_signatory_Ok:
  assumes "find_signatory E fp key_map private_keys = Ok (pubkey, sg)"
  shows "(\<exists>blob d yk key. (blob, d) \<in> set key_map \<and> pk_from_bytes (cl_ssh E) blob = Some key \<and>
            fp = pk_hash (cl_ssh E) key \<and> pubkey = pv_public_key d \<and>
            cl_yubikey_open E (pv_serial d) = Some yk \<and> sg = YubikeySignatory (pv_slot d) yk) \<or>
         (\<exists>k \<in> set private_keys. sg = Direct k \<and> pubkey = sk_pubkey (cl_ssh E) k \<and> fp = pk_hash (cl_ssh E) pubkey)"
  using assms
proof (induction key_map)
  case Nil
  then show ?case by (auto dest: find_private_Ok)
next
  case (Cons x key_map)
  obtain blob d where x: "x = (blob, d)" by (cases x)
  with Cons show ?case by (auto simp: and_then_Ok if_splits split: if_splits)
qed

lemma pick_keys_Ok:
  assumes "pick_keys L ks all_keys m = Ok m'"
  shows "dom (map_of m') = dom (map_of m) \<union> pk_encode L ` set ks"
    and "map_of m' blob = Some d \<Longrightarrow> map_of all_keys blob = Some d \<or> map_of m blob = Some d"
  using assms
proof (induction ks arbitrary: all_keys m)
  case Nil
  { case 1 then show ?case by simp }
  { case 2 then show ?case by simp }
next
  case (Cons k ks)
  { case 1
    then obtain d where d: "map_of all_keys (pk_encode L k) = Some d"
      "pick_keys L ks (AList.delete (pk_encode L k) all_keys) (hm_insert (pk_encode L k) d m) = Ok m'"
      by (auto split: option.splits)
    with Cons.IH(1) [OF d(2)] show ?case by (auto simp: update_conv') }
  { case 2
    then obtain d' where d: "map_of all_keys (pk_encode L k) = Some d'"
      "pick_keys L ks (AList.delete (pk_encode L k) all_keys) (hm_insert (pk_encode L k) d' m) = Ok m'"
      by (auto split: option.splits)
    with Cons.IH(2) [OF 2(1) d(2)] show ?case
      by (auto simp: update_conv' delete_conv' split: if_splits) }
qed

lemma validate_public_keys_Ok:
  assumes "validate_public_keys E ks = Ok key_map"
  shows "dom (map_of key_map) = pk_encode (cl_ssh E) ` set ks \<and> piv_entries (cl_ssh E) (cl_keys E) key_map"
proof -
  from assms obtain all_keys where "get_all_piv_keys (cl_ssh E) (cl_keys E) = Ok all_keys"
    and p: "pick_keys (cl_ssh E) ks all_keys [] = Ok key_map"
    by (auto simp: validate_public_keys_def and_then_Ok map_err_Ok)
  with get_all_piv_keys_entries have "piv_entries (cl_ssh E) (cl_keys E) all_keys" by blast
  with pick_keys_Ok [OF p] show ?thesis by (auto simp: piv_entries_def)
qed

lemma hm_collect_dom: "dom (map_of (hm_collect xs)) = fst ` set xs"
proof -
  have "map_of (hm_collect xs) = map_of (rev xs)" by (rule ext) (rule hm_collect_get)
  then show ?thesis by (simp only: dom_map_of_conv_image_fst set_rev)
qed

text \<open>A signatory that can sign for a key: the private key, or a slot of a device that holds it.\<close>

definition signatory_holds :: "('pk, 'sk) cli_env \<Rightarrow> ('pk, 'sk) signatory \<Rightarrow> 'pk \<Rightarrow> bool" where
  "signatory_holds E sg pubkey = (case sg of
     Direct k \<Rightarrow> sk_pubkey (cl_ssh E) k = pubkey
   | YubikeySignatory slot yk \<Rightarrow> yd_fetch_pubkey yk slot = Some pubkey \<or>
       (\<exists>serial dev. cl_yubikey_open E serial = Some yk \<and> ke_open (cl_keys E) serial = Some dev \<and>
          oy_fetch_pubkey dev slot = Some pubkey))"

lemma single_signatory_holds: "single_signatory E m sg = Ok (pubkey, sg') \<Longrightarrow> signatory_holds E sg' pubkey"
  by (auto simp: single_signatory_def signatory_holds_def Let_def and_then_Ok split: signatory.splits)

lemma find_signatory_holds:
  assumes "find_signatory E fp key_map private_keys = Ok (pubkey, sg)"
    and "piv_entries (cl_ssh E) (cl_keys E) key_map" and "hm_wf key_map"
  shows "signatory_holds E sg pubkey"
  using find_signatory_Ok [OF assms(1)] assms(2,3)
  by (fastforce simp: signatory_holds_def piv_entries_def piv_entry_def)

section \<open>Properties\<close>

lemma configure_singlemode_Run:
  "configure_singlemode E m = Ok (ActRun rc) \<longleftrightarrow>
     (\<exists>uc sg pubkey sg'. parse_config_from_args E m = Ok uc \<and>
        cli_get_signatory E (value_of m ''slot'') (ac_slot (uc_configuration uc)) (value_of m ''file'')
          (ac_key (uc_configuration uc)) = Ok sg \<and>
        single_signatory E m sg = Ok (pubkey, sg') \<and>
        rc = \<lparr>rn_socket_path = parse_socket_path_from_args E m (uc_configuration uc), rn_pubkey = pubkey,
             rn_handler = \<lparr>hd_configuration = uc, hd_cert = None, hd_pubkey = pubkey, hd_signatory = sg',
               hd_stale_at = 0,
               hd_certificate_options = parse_certificate_config_from_args E m (uc_configuration uc),
               hd_identities = [], hd_piv_identities = [], hd_notification_function = True,
               hd_certificate_priority = is_present m ''certificate-priority'', hd_notified = 0\<rparr>\<rparr>)"
  by (auto simp: configure_singlemode_def Let_def and_then_Ok)

text \<open>The private keys multimode serves, with the path of the FIDO device set.\<close>

definition served_private_keys ::
    "('pk, 'sk) cli_env \<Rightarrow> arg_matches \<Rightarrow> 'sk list \<Rightarrow> (bytes, 'sk) hashmap" where
  "served_private_keys E m private_keys = hm_collect (map (\<lambda>k. (pk_encode (cl_ssh E) (sk_pubkey (cl_ssh E) k), k))
     (case value_of m ''fido-device-path'' of
        Some path \<Rightarrow> map (cl_set_device_path E path) private_keys | None \<Rightarrow> private_keys))"

lemma configure_multimode_Run:
  "configure_multimode E m = Ok (ActRun rc) \<longleftrightarrow>
     (\<exists>uc fp key_dir public_keys private_keys key_map pubkey sg. parse_config_from_args E m = Ok uc \<and>
        value_of m ''cert-for'' = Some fp \<and> value_of m ''key-dir'' = Some key_dir \<and>
        get_keys_from_dir E key_dir = Ok (public_keys, private_keys) \<and>
        validate_public_keys E public_keys = Ok key_map \<and>
        find_signatory E fp key_map private_keys = Ok (pubkey, sg) \<and>
        rc = \<lparr>rn_socket_path = parse_socket_path_from_args E m (uc_configuration uc), rn_pubkey = pubkey,
             rn_handler = \<lparr>hd_configuration = uc, hd_cert = None, hd_pubkey = pubkey, hd_signatory = sg,
               hd_stale_at = 0,
               hd_certificate_options = parse_certificate_config_from_args E m (uc_configuration uc),
               hd_identities = AList.delete (pk_encode (cl_ssh E) pubkey) (served_private_keys E m private_keys),
               hd_piv_identities = AList.delete (pk_encode (cl_ssh E) pubkey) key_map,
               hd_notification_function = False,
               hd_certificate_priority = is_present m ''certificate-priority'', hd_notified = 0\<rparr>\<rparr>)"
  unfolding configure_multimode_def served_private_keys_def Let_def and_then_Ok ok_or_Ok map_err_Ok
    split_paired_Ex split_conv result.inject rustica_agent_action.inject
  by blast

lemma pick_keys_wf: "pick_keys L ks all_keys m = Ok m' \<Longrightarrow> hm_wf m \<Longrightarrow> hm_wf m'"
  by (induction ks arbitrary: all_keys m) (auto split: option.splits simp: distinct_update)

lemma validate_public_keys_wf: "validate_public_keys E ks = Ok key_map \<Longrightarrow> hm_wf key_map"
  by (auto simp: validate_public_keys_def and_then_Ok dest: pick_keys_wf)

lemma action_not_Run [simp]:
  "configure_immediate E m \<noteq> Ok (ActRun rc)" "configure_fido_setup E m \<noteq> Ok (ActRun rc)"
  "configure_provision_piv E m \<noteq> Ok (ActRun rc)" "configure_register E m \<noteq> Ok (ActRun rc)"
  "configure_list_piv_keys m \<noteq> Ok (ActRun rc)" "configure_git_config E m \<noteq> Ok (ActRun rc)"
  "configure_refresh_x509_certificate E m \<noteq> Ok (ActRun rc)" "configure_allowed_signers E m \<noteq> Ok (ActRun rc)"
  by (auto simp: configure_immediate_def configure_fido_setup_def configure_provision_piv_def
      configure_register_def configure_list_piv_keys_def configure_git_config_def
      configure_refresh_x509_certificate_def configure_allowed_signers_def Let_def and_then_Ok
      split: if_splits signatory.splits)

lemma cli_configure_Run:
  "cli_configure E sub = Ok (ActRun rc) \<longleftrightarrow>
     (\<exists>m. sub = Some (''multi'', m) \<and> configure_multimode E m = Ok (ActRun rc)) \<or>
     (\<exists>m. sub = Some (''single'', m) \<and> configure_singlemode E m = Ok (ActRun rc))"
  by (auto simp: cli_configure_def split: option.splits prod.splits if_splits)

text \<open>
  C31: An agent started from the command line can do what it promises: it starts without a certificate (so its
  invariant holds), its signatory holds the private part of the key it asks certificates for, and
  that key is not listed a second time among the other keys.
\<close>

theorem started_agent_holds_key:
  assumes "cli_configure E sub = Ok (ActRun rc)"
  shows "handler_inv (rn_handler rc) \<and> hd_cert (rn_handler rc) = None \<and> hd_pubkey (rn_handler rc) = rn_pubkey rc \<and>
     signatory_holds E (hd_signatory (rn_handler rc)) (rn_pubkey rc) \<and>
     pk_encode (cl_ssh E) (rn_pubkey rc) \<notin>
       dom (map_of (hd_identities (rn_handler rc))) \<union> dom (map_of (hd_piv_identities (rn_handler rc)))"
  using assms unfolding cli_configure_Run configure_multimode_Run configure_singlemode_Run
proof (elim disjE exE conjE)
  fix m uc fp key_dir public_keys private_keys key_map pubkey sg
  assume v: "validate_public_keys E public_keys = Ok key_map"
    and f: "find_signatory E fp key_map private_keys = Ok (pubkey, sg)"
    and rc: "rc = \<lparr>rn_socket_path = parse_socket_path_from_args E m (uc_configuration uc), rn_pubkey = pubkey,
       rn_handler = \<lparr>hd_configuration = uc, hd_cert = None, hd_pubkey = pubkey, hd_signatory = sg, hd_stale_at = 0,
         hd_certificate_options = parse_certificate_config_from_args E m (uc_configuration uc),
         hd_identities = AList.delete (pk_encode (cl_ssh E) pubkey) (served_private_keys E m private_keys),
         hd_piv_identities = AList.delete (pk_encode (cl_ssh E) pubkey) key_map,
         hd_notification_function = False,
         hd_certificate_priority = is_present m ''certificate-priority'', hd_notified = 0\<rparr>\<rparr>"
  have "signatory_holds E sg pubkey"
    using find_signatory_holds [OF f] validate_public_keys_Ok [OF v] validate_public_keys_wf [OF v] by blast
  then show ?thesis by (simp add: rc handler_inv_def delete_conv')
next
  fix m uc sg pubkey sg'
  assume s: "single_signatory E m sg = Ok (pubkey, sg')"
    and rc: "rc = \<lparr>rn_socket_path = parse_socket_path_from_args E m (uc_configuration uc), rn_pubkey = pubkey,
             rn_handler = \<lparr>hd_configuration = uc, hd_cert = None, hd_pubkey = pubkey, hd_signatory = sg',
               hd_stale_at = 0,
               hd_certificate_options = parse_certificate_config_from_args E m (uc_configuration uc),
               hd_identities = [], hd_piv_identities = [], hd_notification_function = True,
               hd_certificate_priority = is_present m ''certificate-priority'', hd_notified = 0\<rparr>\<rparr>"
  from s have "signatory_holds E sg' pubkey" by (rule single_signatory_holds)
  then show ?thesis by (simp add: rc handler_inv_def)
qed

text \<open>
  The keys of a directory, from its entries: the public keys in the readable files named \<^verbatim>\<open>.pub\<close>, the private keys in
  the other ones. A signatory is from the directory when it is a private key there, or the slot of a Yubikey that holds a
  public key there.
\<close>

definition directory_public_keys :: "('pk, 'sk) cli_env \<Rightarrow> string option list \<Rightarrow> 'pk set" where
  "directory_public_keys E entries =
     {k. \<exists>p. Some p \<in> set entries \<and> ends_with ''.pub'' p \<and> cl_public_from_path E p = Inr k}"

definition directory_private_keys :: "('pk, 'sk) cli_env \<Rightarrow> string option list \<Rightarrow> 'sk set" where
  "directory_private_keys E entries =
     {k. \<exists>p. Some p \<in> set entries \<and> \<not> ends_with ''.pub'' p \<and> cl_private_from_path E p = Inr k}"

definition directory_signatory ::
    "('pk, 'sk) cli_env \<Rightarrow> string option list \<Rightarrow> ('pk, 'sk) signatory \<Rightarrow> 'pk \<Rightarrow> bool" where
  "directory_signatory E entries sg pubkey = (case sg of
     Direct k \<Rightarrow> k \<in> directory_private_keys E entries \<and> sk_pubkey (cl_ssh E) k = pubkey
   | YubikeySignatory slot yk \<Rightarrow> pubkey \<in> directory_public_keys E entries \<and>
       (\<exists>serial dev. cl_yubikey_open E serial = Some yk \<and> ke_open (cl_keys E) serial = Some dev \<and>
          oy_fetch_pubkey dev slot = Some pubkey))"

lemma load_keys_directory:
  "load_keys E entries = (pubs, privs) \<Longrightarrow>
     set pubs = directory_public_keys E entries \<and> set privs = directory_private_keys E entries"
proof (induction E entries arbitrary: pubs privs rule: load_keys.induct)
  case (3 E p ps)
  obtain pubs' privs' where l: "load_keys E ps = (pubs', privs')" by force
  from 3(1) [OF l] 3(2) l show ?case
    by (auto simp: directory_public_keys_def directory_private_keys_def split: if_splits sum.splits)
qed (auto simp: directory_public_keys_def directory_private_keys_def)

lemma get_keys_from_dir_Ok:
  assumes "get_keys_from_dir E dir = Ok (pubs, privs)" and "cl_read_dir E dir = Inr entries"
  shows "set pubs = directory_public_keys E entries" and "set privs = directory_private_keys E entries"
  using assms load_keys_directory [of E entries pubs privs] by (simp_all add: get_keys_from_dir_def)

text \<open>The signatory that is found belongs to the fingerprint, and to the directory, when keys are read back as encoded.\<close>

lemma find_signatory_directory:
  assumes "find_signatory E fp key_map privs = Ok (pubkey, sg)" and "validate_public_keys E pubs = Ok key_map"
    and "set pubs = directory_public_keys E entries" and "set privs = directory_private_keys E entries"
    and on_file: "\<And>p k. cl_public_from_path E p = Inr k \<Longrightarrow> pk_from_bytes (cl_ssh E) (pk_encode (cl_ssh E) k) = Some k"
    and in_slot: "\<And>serial yk slot k. ke_open (cl_keys E) serial = Some yk \<Longrightarrow> oy_fetch_pubkey yk slot = Some k \<Longrightarrow>
       pk_from_bytes (cl_ssh E) (pk_encode (cl_ssh E) k) = Some k"
  shows "fp = pk_hash (cl_ssh E) pubkey \<and> directory_signatory E entries sg pubkey"
  using find_signatory_Ok [OF assms(1)]
proof (elim disjE exE bexE conjE)
  fix blob d yk key
  assume f: "(blob, d) \<in> set key_map" "pk_from_bytes (cl_ssh E) blob = Some key" "fp = pk_hash (cl_ssh E) key"
    "pubkey = pv_public_key d" "cl_yubikey_open E (pv_serial d) = Some yk" "sg = YubikeySignatory (pv_slot d) yk"
  note v = validate_public_keys_Ok [OF assms(2)]
  have m: "map_of key_map blob = Some d" using f(1) validate_public_keys_wf [OF assms(2)] by simp
  with v have "piv_entry (cl_ssh E) (cl_keys E) blob d" by (simp add: piv_entries_def)
  then obtain dev where dev: "blob = pk_encode (cl_ssh E) (pv_public_key d)"
    "ke_open (cl_keys E) (pv_serial d) = Some dev" "oy_fetch_pubkey dev (pv_slot d) = Some (pv_public_key d)"
    by (auto simp: piv_entry_def)
  with in_slot f(2) have key: "key = pv_public_key d" by force
  from m v obtain k where k: "k \<in> set pubs" "blob = pk_encode (cl_ssh E) k" by blast
  then have "pk_from_bytes (cl_ssh E) blob = Some k" using on_file assms(3) by (auto simp: directory_public_keys_def)
  with f(2) k(1) key assms(3) have "pv_public_key d \<in> directory_public_keys E entries" by simp
  with f dev key show ?thesis by (auto simp: directory_signatory_def)
qed (use assms(4) in \<open>auto simp: directory_signatory_def\<close>)

lemma hm_collect_member: "map_of (hm_collect xs) k = Some v \<Longrightarrow> (k, v) \<in> set xs"
  using map_of_SomeD [of "rev xs" k v] by (simp add: hm_collect_get)

text \<open>The private keys that are served: each under its own public key, with the path of the device set.\<close>

definition with_device_path :: "('pk, 'sk) cli_env \<Rightarrow> arg_matches \<Rightarrow> 'sk \<Rightarrow> 'sk" where
  "with_device_path E m k = (case value_of m ''fido-device-path'' of Some path \<Rightarrow> cl_set_device_path E path k | None \<Rightarrow> k)"

lemma served_private_keys_members:
  assumes "\<And>path k. sk_pubkey (cl_ssh E) (cl_set_device_path E path k) = sk_pubkey (cl_ssh E) k"
  shows "dom (map_of (served_private_keys E m ks)) = (\<lambda>k. pk_encode (cl_ssh E) (sk_pubkey (cl_ssh E) k)) ` set ks"
    and "map_of (served_private_keys E m ks) blob = Some k \<Longrightarrow>
       \<exists>k0 \<in> set ks. blob = pk_encode (cl_ssh E) (sk_pubkey (cl_ssh E) k0) \<and> k = with_device_path E m k0"
proof -
  have served: "served_private_keys E m ks =
      hm_collect (map (\<lambda>k. (pk_encode (cl_ssh E) (sk_pubkey (cl_ssh E) k), with_device_path E m k)) ks)"
    using assms by (simp add: served_private_keys_def with_device_path_def comp_def split: option.split)
  then show "dom (map_of (served_private_keys E m ks)) = (\<lambda>k. pk_encode (cl_ssh E) (sk_pubkey (cl_ssh E) k)) ` set ks"
    by (simp add: hm_collect_dom image_image)
  assume "map_of (served_private_keys E m ks) blob = Some k"
  then have "(blob, k) \<in> set (map (\<lambda>k. (pk_encode (cl_ssh E) (sk_pubkey (cl_ssh E) k), with_device_path E m k)) ks)"
    unfolding served by (rule hm_collect_member)
  then show "\<exists>k0 \<in> set ks. blob = pk_encode (cl_ssh E) (sk_pubkey (cl_ssh E) k0) \<and> k = with_device_path E m k0"
    by auto
qed

lemma dom_map_of_delete: "dom (map_of (AList.delete b xs)) = dom (map_of xs) - {b}"
  by (auto simp: delete_conv')

text \<open>
  C32: Multimode serves exactly the keys in its directory. Together with the key the certificate is for, the identities
  are the public keys of its files named \<^verbatim>\<open>.pub\<close> and of the private keys in its other files; the key the certificate is
  for is the one with the fingerprint asked for, and it signs with a private key of the directory, or in
  a Yubikey's slot with a public key of the directory. The PIV identities are the other public keys, each served from a
  slot that holds it; the other identities are the other private keys, each under its own public key and with the path
  of the FIDO device set. (As far as the library reads public keys back from their encoding, and the path of a device
  does not change a key's public part.)
\<close>

theorem multimode_serves_directory:
  assumes "configure_multimode E m = Ok (ActRun rc)"
    and "value_of m ''key-dir'' = Some dir" and "cl_read_dir E dir = Inr entries"
    and "\<And>path k. sk_pubkey (cl_ssh E) (cl_set_device_path E path k) = sk_pubkey (cl_ssh E) k"
    and "\<And>p k. cl_public_from_path E p = Inr k \<Longrightarrow> pk_from_bytes (cl_ssh E) (pk_encode (cl_ssh E) k) = Some k"
    and "\<And>serial yk slot k. ke_open (cl_keys E) serial = Some yk \<Longrightarrow> oy_fetch_pubkey yk slot = Some k \<Longrightarrow>
       pk_from_bytes (cl_ssh E) (pk_encode (cl_ssh E) k) = Some k"
  shows "let encode = pk_encode (cl_ssh E); pubkey_of = sk_pubkey (cl_ssh E); h = rn_handler rc;
         piv = encode ` directory_public_keys E entries;
         files = (\<lambda>k. encode (pubkey_of k)) ` directory_private_keys E entries in
     insert (encode (rn_pubkey rc)) (dom (map_of (hd_piv_identities h)) \<union> dom (map_of (hd_identities h))) = piv \<union> files \<and>
     dom (map_of (hd_piv_identities h)) = piv - {encode (rn_pubkey rc)} \<and>
     dom (map_of (hd_identities h)) = files - {encode (rn_pubkey rc)} \<and>
     value_of m ''cert-for'' = Some (pk_hash (cl_ssh E) (rn_pubkey rc)) \<and>
     directory_signatory E entries (hd_signatory h) (rn_pubkey rc) \<and>
     piv_entries (cl_ssh E) (cl_keys E) (hd_piv_identities h) \<and>
     (\<forall>blob k. map_of (hd_identities h) blob = Some k \<longrightarrow>
        (\<exists>k0 \<in> directory_private_keys E entries. blob = encode (pubkey_of k0) \<and>
           k = with_device_path E m k0))"
proof -
  from assms(1,2) obtain pubs privs fp key_map pubkey sg where
    d: "get_keys_from_dir E dir = Ok (pubs, privs)" and v: "validate_public_keys E pubs = Ok key_map"
    and f: "find_signatory E fp key_map privs = Ok (pubkey, sg)"
    and rc: "value_of m ''cert-for'' = Some fp" "rn_pubkey rc = pubkey" "hd_signatory (rn_handler rc) = sg"
      "hd_identities (rn_handler rc) = AList.delete (pk_encode (cl_ssh E) pubkey) (served_private_keys E m privs)"
      "hd_piv_identities (rn_handler rc) = AList.delete (pk_encode (cl_ssh E) pubkey) key_map"
    unfolding configure_multimode_Run by auto
  note sets = get_keys_from_dir_Ok [OF d assms(3)]
  have fd: "fp = pk_hash (cl_ssh E) pubkey" "directory_signatory E entries sg pubkey"
    using find_signatory_directory [OF f v sets] assms(5,6) by blast+
  note served = served_private_keys_members [of E m privs, OF assms(4), unfolded sets]
  have own: "pk_encode (cl_ssh E) pubkey \<in> pk_encode (cl_ssh E) ` directory_public_keys E entries \<union>
      (\<lambda>k. pk_encode (cl_ssh E) (sk_pubkey (cl_ssh E) k)) ` directory_private_keys E entries"
    using fd by (auto simp: directory_signatory_def split: signatory.splits)
  have members: "\<exists>k0 \<in> directory_private_keys E entries. blob = pk_encode (cl_ssh E) (sk_pubkey (cl_ssh E) k0) \<and>
      k = with_device_path E m k0" if "map_of (hd_identities (rn_handler rc)) blob = Some k" for blob k
    using that served(2) unfolding rc(4) delete_conv' by (simp split: if_splits)
  have piv: "dom (map_of (hd_piv_identities (rn_handler rc))) =
      pk_encode (cl_ssh E) ` directory_public_keys E entries - {pk_encode (cl_ssh E) pubkey}"
    "piv_entries (cl_ssh E) (cl_keys E) (hd_piv_identities (rn_handler rc))"
    using validate_public_keys_Ok [OF v] by (simp_all add: rc(5) sets dom_map_of_delete) (auto simp: delete_conv' piv_entries_def)
  have ids: "dom (map_of (hd_identities (rn_handler rc))) =
      (\<lambda>k. pk_encode (cl_ssh E) (sk_pubkey (cl_ssh E) k)) ` directory_private_keys E entries - {pk_encode (cl_ssh E) pubkey}"
    by (simp add: rc(4) served(1) dom_map_of_delete)
  from own have "insert (pk_encode (cl_ssh E) pubkey) (dom (map_of (hd_piv_identities (rn_handler rc))) \<union>
        dom (map_of (hd_identities (rn_handler rc)))) =
      pk_encode (cl_ssh E) ` directory_public_keys E entries \<union>
        (\<lambda>k. pk_encode (cl_ssh E) (sk_pubkey (cl_ssh E) k)) ` directory_private_keys E entries"
    unfolding piv ids by blast
  then show ?thesis using piv ids fd members unfolding Let_def rc(1-3) by blast
qed

text \<open>
  The subcommand that fetches the allowed signers is never carried out: it is offered under the name
  \<^verbatim>\<open>allowed-signers\<close>, which falls through to the help text, since the dispatch looks for another name.
\<close>

theorem allowed_signers_unreachable:
  "cli_configure E (Some (''allowed-signers'', m)) = Err CE_NoMode"
  by (simp add: cli_configure_def)

text \<open>
  A slot given on the command line wins over a key file given there, against the comment on the function,
  which has the file override everything.
\<close>

lemma slot_beats_file: "cli_get_signatory E (Some slot) cs (Some f) ck = slot_signatory E slot"
  by (simp add: cli_get_signatory_def)

text \<open>
  In multimode the key the certificate is for signs without the path of the FIDO device: the signatory is
  chosen before the path is set on the keys.
\<close>

lemma multimode_signatory_without_path:
  assumes "configure_multimode E m = Ok (ActRun rc)" and "hd_signatory (rn_handler rc) = Direct k"
  shows "\<exists>dir pubs privs. value_of m ''key-dir'' = Some dir \<and> get_keys_from_dir E dir = Ok (pubs, privs) \<and> k \<in> set privs"
proof -
  from assms(1) obtain dir pubs privs fp key_map pubkey sg where d: "value_of m ''key-dir'' = Some dir"
    "get_keys_from_dir E dir = Ok (pubs, privs)" "find_signatory E fp key_map privs = Ok (pubkey, sg)"
    "hd_signatory (rn_handler rc) = sg"
    unfolding configure_multimode_Run by auto
  with find_signatory_Ok [OF d(3)] assms(2) show ?thesis by auto
qed

end
