(* ===== verification/Cli_Main.thy ===== *)
theory Cli_Main
  imports Cli_Config
begin

text \<open>
  \<^verbatim>\<open>rustica-agent-cli/src/main.rs\<close>: carrying out the action the command line asks for. The result of a run is the
  list of what \<^verbatim>\<open>main\<close> itself does to the outside (lines it prints, files it writes, certificates it puts on a
  Yubikey, the connections it serves), in order, and whether it returns an error. FIDO devices, formatting for
  people, and the file system are parameters.
\<close>

section \<open>Outside\<close>

record 'sk fido_key =
  fk_private_key :: 'sk
  fk_attestation :: agent_u2f_attestation

text \<open>
  \<open>mn_private_text\<close> is what writing a private key produces, if it can be serialized; \<open>mn_create_ok\<close>, \<open>mn_metadata_ok\<close>
  and \<open>mn_write_all_ok\<close> tell whether a file can be created, inspected and written.
\<close>

record ('pk, 'sk) main_env =
  mn_cli :: "('pk, 'sk) cli_env"
  mn_agent :: "('pk, 'sk) agent_env"
  mn_fido_devices :: "(string \<times> string) list"
  mn_provisionable :: "'pk yubikey_device \<Rightarrow> 'pk provisionable"
  mn_generate_new_ssh_key :: "string \<Rightarrow> string \<Rightarrow> string option \<Rightarrow> string option \<Rightarrow> string + 'sk fido_key"
  mn_private_text :: "'sk \<Rightarrow> string option"
  mn_create_ok :: "string \<Rightarrow> bool"
  mn_metadata_ok :: "string \<Rightarrow> bool"
  mn_write_all_ok :: "string \<Rightarrow> bool"
  mn_unlock :: "'pk yubikey_device \<Rightarrow> bytes \<Rightarrow> bytes \<Rightarrow> bool"
  mn_write_certificate_ok :: "'pk yubikey_device \<Rightarrow> slot_id \<Rightarrow> bytes \<Rightarrow> bool"
  mn_pretty_cert :: "'pk certificate \<Rightarrow> string"
  mn_debug_x509 :: "bytes \<Rightarrow> string option"
  mn_debug_cli_error :: "cli_error \<Rightarrow> string"
  mn_debug_library_error :: "library_error \<Rightarrow> string"

datatype cli_output =
    Println string
  | WriteFile string string
  | WriteSlot slot_id bytes
  | Served string "nat list" listen_end

datatype main_error = MainSshError string | MainLibraryError library_error | MainSigningError | MainIoError

type_synonym main_result = "cli_output list \<times> (unit, main_error) result"

section \<open>The actions\<close>

definition list_piv_keys :: "('pk, 'sk) main_env \<Rightarrow> bool \<Rightarrow> main_result" where
  "list_piv_keys M show_full = (let L = cl_ssh (mn_cli M) in
     case get_all_piv_keys L (cl_keys (mn_cli M)) of
       Panic \<Rightarrow> ([], Panic)
     | Err e \<Rightarrow> ([], Err (MainLibraryError e))
     | Ok all_keys \<Rightarrow>
         (map (\<lambda>(_, des). Println (show_nat (unat (pv_serial des)) @ [CHR 0x09] @ ae_debug_slot (mn_agent M) (pv_slot des)
              @ '':'' @ [CHR 0x09] @ (if show_full then pk_to_string L (pv_public_key des)
                                     else pk_hash L (pv_public_key des)))) all_keys, Ok ()))"

definition provision_piv :: "('pk, 'sk) main_env \<Rightarrow> 'pk provision_piv_config \<Rightarrow> main_result" where
  "provision_piv M c =
     (case provision_new_key (mn_provisionable M (pp_yubikey c)) (pp_slot c) (pp_pin c) (pp_subject c)
             (pp_management_key c) (pp_require_touch c) (pp_pin_policy c) of
        Panic \<Rightarrow> ([], Panic)
      | Err e \<Rightarrow> ([], Err e)
      | Ok (Some _) \<Rightarrow> ([], Ok ())
      | Ok None \<Rightarrow> ([Println ''Provisioning Error''], Err MainSigningError))"

text \<open>
  Where the new key goes: into the file that was named, or onto the terminal. The permissions of the file are looked
  up and changed in memory, never applied.
\<close>

definition deliver_fido_key ::
    "('pk, 'sk) main_env \<Rightarrow> string option \<Rightarrow> 'sk \<Rightarrow> main_result" where
  "deliver_fido_key M out_path k = (case out_path of
     Some path \<Rightarrow>
       if \<not> mn_create_ok M path then ([], Err MainIoError)
       else let created = WriteFile path '''';
                warned = (if mn_metadata_ok M path then []
                          else [Println (''Error: Could not set file permissions on: '' @ path)])
            in (case mn_private_text M k of
                  None \<Rightarrow> (created # warned, Err MainIoError)
                | Some t \<Rightarrow> if mn_write_all_ok M path then (created # warned @ [WriteFile path t], Ok ())
                            else (created # warned, Err MainIoError))
   | None \<Rightarrow>
       (case mn_private_text M k of
          None \<Rightarrow> ([], Panic)
        | Some t \<Rightarrow> ([Println (''Your new private key handle:'' @ [CHR 0x0A] @ t)], Ok ())))"

definition provision_and_register_fido ::
    "('pk, 'sk) main_env \<Rightarrow> provision_and_register_fido_config \<Rightarrow> main_result" where
  "provision_and_register_fido M prf = (let L = cl_ssh (mn_cli M) in
     case mn_generate_new_ssh_key M (pf_app_name prf) (pf_comment prf) (pf_pin prf) None of
       Inl e \<Rightarrow> ([], Err (MainSshError e))
     | Inr new_fido_key \<Rightarrow>
       (case agent_register_u2f_key L (ae_api (mn_agent M))
               (ac_servers (uc_configuration (pf_updatable_configuration prf)))
               (Direct (fk_private_key new_fido_key)) (pf_app_name prf) (fk_attestation new_fido_key) of
          Panic \<Rightarrow> ([], Panic)
        | Err e \<Rightarrow> ([], Err (MainLibraryError e))
        | Ok _ \<Rightarrow>
            let (outs, r) = deliver_fido_key M (pf_out prf) (fk_private_key new_fido_key);
                said = Println ''Key was successfully registered!'' # outs
            in case r of
                 Ok _ \<Rightarrow> (said @ [Println (''You key fingerprint: ''
                            @ pk_hash L (sk_pubkey L (fk_private_key new_fido_key)))], Ok ())
               | Err e \<Rightarrow> (said, Err e)
               | Panic \<Rightarrow> (said, Panic)))"

definition register_action :: "('pk, 'sk) main_env \<Rightarrow> ('pk, 'sk) register_config \<Rightarrow> main_result" where
  "register_action M c =
     (case agent_register_key (cl_ssh (mn_cli M)) (ae_api (mn_agent M))
             (ac_servers (uc_configuration (rg_updatable_configuration c))) (rg_signatory c) (rg_attestation c) of
        Panic \<Rightarrow> ([], Panic)
      | Err e \<Rightarrow> ([], Err (MainLibraryError e))
      | Ok _ \<Rightarrow> ([Println ''Key was successfully registered''], Ok ()))"

text \<open>Fetch a certificate at once; the configuration it comes back with may hold new credentials.\<close>

definition immediate_action ::
    "('pk, 'sk) main_env \<Rightarrow> (nat \<Rightarrow> u64 option) \<Rightarrow> ('pk, 'sk) immediate_config
     \<Rightarrow> updatable_configuration \<times> main_result" where
  "immediate_action M nows c =
     (case fetch_new_certificate (mn_agent M) nows (ic_signatory c) (ic_certificate_options c)
             (ic_updatable_configuration c) of
        (uc, _, Panic) \<Rightarrow> (uc, [], Panic)
      | (uc, _, Err e) \<Rightarrow> (uc, [], Err (MainLibraryError e))
      | (uc, _, Ok cert) \<Rightarrow>
          (uc, case ic_out c of
             Some path \<Rightarrow>
               if \<not> mn_create_ok M path then ([], Err MainIoError)
               else if \<not> mn_write_all_ok M path then ([WriteFile path ''''], Err MainIoError)
               else ([WriteFile path '''', WriteFile path (cert_to_string (cl_ssh (mn_cli M)) cert)], Ok ())
           | None \<Rightarrow> ([Println (mn_pretty_cert M cert)], Ok ())))"

text \<open>
  Serve until accepting fails: the sender of the termination channel is kept, and never used, so a termination
  message does not come. \<open>bind_ok\<close> tells whether the socket can be bound, \<open>evs\<close> what then arrives.
\<close>

definition run_action ::
    "('pk, 'sk) main_env \<Rightarrow> bool \<Rightarrow> listen_event list \<Rightarrow> ('pk, 'sk) run_config \<Rightarrow> main_result" where
  "run_action M bind_ok evs c =
     (let (cs, e) = run_with_termination_channel bind_ok True evs in
      ([Println ''Starting Rustica Agent'',
        Println (''Access Fingerprint: '' @ pk_hash (cl_ssh (mn_cli M)) (rn_pubkey c)),
        Println (''SSH_AUTH_SOCK='' @ rn_socket_path c @ ''; export SSH_AUTH_SOCK;''),
        Served (rn_socket_path c) cs e],
       if e = BindPanicked then Panic else Ok ()))"

definition refresh_x509_action ::
    "('pk, 'sk) main_env \<Rightarrow> ('pk, 'sk) refresh_attested_x509_config \<Rightarrow> main_result" where
  "refresh_x509_action M c =
     (case fetch_new_attested_x509_certificate (ae_api (mn_agent M))
             (ac_servers (uc_configuration (rx_updatable_configuration c))) (rx_signatory c) of
        Panic \<Rightarrow> ([], Panic)
      | Err e \<Rightarrow> ([Println (''Error: '' @ mn_debug_library_error M e)], Ok ())
      | Ok cert \<Rightarrow>
        (case rx_signatory c of
           YubikeySignatory slot yk \<Rightarrow>
             if \<not> mn_unlock M yk (as_bytes (rx_pin c)) (rx_management_key c) then ([], Panic)
             else if \<not> mn_write_certificate_ok M yk slot cert then ([], Panic)
             else ([WriteSlot slot cert], Ok ())
         | Direct _ \<Rightarrow>
           (case mn_debug_x509 M cert of
              None \<Rightarrow> ([], Panic)
            | Some t \<Rightarrow> ([Println (''Certificate: '' @ t)], Ok ()))))"

definition get_allowed_signers_action ::
    "('pk, 'sk) main_env \<Rightarrow> updatable_configuration \<Rightarrow> main_result" where
  "get_allowed_signers_action M uc =
     (case agent_get_allowed_signers (ae_api (mn_agent M)) (ac_servers (uc_configuration uc)) of
        Panic \<Rightarrow> ([], Panic)
      | Err e \<Rightarrow> ([], Err (MainLibraryError e))
      | Ok allowed_signers \<Rightarrow> ([Println allowed_signers], Ok ()))"

text \<open>What an action reads from outside: the clocks of a fetch, and what happens at the socket.\<close>

record main_input =
  mi_nows :: "nat \<Rightarrow> u64 option"
  mi_bind_ok :: bool
  mi_events :: "listen_event list"

definition cli_main ::
    "('pk, 'sk) main_env \<Rightarrow> main_input \<Rightarrow> (string \<times> arg_matches) option \<Rightarrow> main_result" where
  "cli_main M i subcommand = (case cli_configure (mn_cli M) subcommand of
     Panic \<Rightarrow> ([], Panic)
   | Err e \<Rightarrow> (if e = CE_NoMode then [] else [Println (''Error: '' @ mn_debug_cli_error M e)], Ok ())
   | Ok action \<Rightarrow>
     (case action of
        ActGitConfig k \<Rightarrow> ([Println (git_config_from_public_key (cl_ssh (mn_cli M)) k)], Ok ())
      | ActListFidoDevices \<Rightarrow> (map (\<lambda>(p, s). Println (p @ '' - '' @ s)) (mn_fido_devices M), Ok ())
      | ActListPIVKeys show_full \<Rightarrow> list_piv_keys M show_full
      | ActProvisionPIV c \<Rightarrow> provision_piv M c
      | ActProvisionAndRegisterFido c \<Rightarrow> provision_and_register_fido M c
      | ActRegister c \<Rightarrow> register_action M c
      | ActImmediate c \<Rightarrow> snd (immediate_action M (mi_nows i) c)
      | ActRun c \<Rightarrow> run_action M (mi_bind_ok i) (mi_events i) c
      | ActRefreshAttestedX509 c \<Rightarrow> refresh_x509_action M c
      | ActGetAllowedSigners uc \<Rightarrow> get_allowed_signers_action M uc))"

section \<open>Properties\<close>

text \<open>What a run hands out: the text of a private key, to a file or to the terminal.\<close>

definition hands_out :: "('pk, 'sk) main_env \<Rightarrow> 'sk \<Rightarrow> cli_output \<Rightarrow> bool" where
  "hands_out M k out \<longleftrightarrow> (\<exists>t. mn_private_text M k = Some t \<and>
     ((\<exists>path. out = WriteFile path t) \<or> out = Println (''Your new private key handle:'' @ [CHR 0x0A] @ t)))"

lemma agent_register_u2f_key_Ok:
  "agent_register_u2f_key L A servers sg app att = Ok u \<longleftrightarrow>
     (\<exists>pre s post. servers = pre @ s # post \<and> (\<forall>p \<in> set pre. \<exists>e. register_u2f_key_async L A p sg app att = Err e) \<and>
        register_u2f_key_async L A s sg app att = Ok u)"
  unfolding agent_register_u2f_key_def by (simp add: try_servers_first)

text \<open>
  C34: The FIDO setup gives a key away only after a server has taken it: a run that prints a line, writes a file or
  succeeds generated a key, and some configured server, the first that did not refuse, registered exactly that
  key under the application name with the attestation of its generation; a refused key leaves no trace. When
  the run succeeds the key was handed out, into the named file if there is one and to the terminal otherwise.
\<close>

theorem fido_key_registered_first:
  assumes "provision_and_register_fido M prf = (outs, r)" and "outs \<noteq> [] \<or> r = Ok ()"
  shows "\<exists>new_key s. mn_generate_new_ssh_key M (pf_app_name prf) (pf_comment prf) (pf_pin prf) None = Inr new_key \<and>
     s \<in> set (ac_servers (uc_configuration (pf_updatable_configuration prf))) \<and>
     register_u2f_key_async (cl_ssh (mn_cli M)) (ae_api (mn_agent M)) s (Direct (fk_private_key new_key))
       (pf_app_name prf) (fk_attestation new_key) = Ok () \<and>
     (r = Ok () \<longrightarrow> (\<exists>out \<in> set outs. hands_out M (fk_private_key new_key) out \<and>
        (case pf_out prf of Some path \<Rightarrow> \<exists>t. out = WriteFile path t | None \<Rightarrow> \<exists>t. out = Println t)))"
proof -
  let ?servers = "ac_servers (uc_configuration (pf_updatable_configuration prf))"
  let ?register = "\<lambda>k. agent_register_u2f_key (cl_ssh (mn_cli M)) (ae_api (mn_agent M)) ?servers
     (Direct (fk_private_key k)) (pf_app_name prf) (fk_attestation k)"
  from assms obtain k where
    k: "mn_generate_new_ssh_key M (pf_app_name prf) (pf_comment prf) (pf_pin prf) None = Inr k" "?register k = Ok ()"
    by (auto simp: provision_and_register_fido_def Let_def split: sum.splits result.splits)
  then obtain s where s: "s \<in> set ?servers"
    "register_u2f_key_async (cl_ssh (mn_cli M)) (ae_api (mn_agent M)) s (Direct (fk_private_key k))
       (pf_app_name prf) (fk_attestation k) = Ok ()"
    unfolding agent_register_u2f_key_Ok by (metis in_set_conv_decomp)
  obtain outs' r' where d: "deliver_fido_key M (pf_out prf) (fk_private_key k) = (outs', r')" by (rule prod.exhaust)
  have "r = Ok () \<Longrightarrow> r' = Ok () \<and> set outs' \<subseteq> set outs"
    using assms(1) k d by (auto simp: provision_and_register_fido_def Let_def split: result.splits)
  moreover have "r' = Ok () \<Longrightarrow> \<exists>out \<in> set outs'. hands_out M (fk_private_key k) out \<and>
      (case pf_out prf of Some path \<Rightarrow> \<exists>t. out = WriteFile path t | None \<Rightarrow> \<exists>t. out = Println t)"
    using d by (auto simp: deliver_fido_key_def hands_out_def Let_def split: option.splits if_splits)
  ultimately show ?thesis using k(1) s by blast
qed

text \<open>
  The exit status of the command line says little: a run that could not be configured (whatever the error, and
  also when no or an unknown subcommand was given) and a refused X.509 refresh end without an error, after a line
  that is nothing but printed.
\<close>

theorem errors_exit_successfully:
  "(cli_configure (mn_cli M) sub = Err e \<longrightarrow> snd (cli_main M i sub) = Ok ()) \<and>
   (cli_configure (mn_cli M) sub = Ok (ActRefreshAttestedX509 c) \<and>
    fetch_new_attested_x509_certificate (ae_api (mn_agent M))
      (ac_servers (uc_configuration (rx_updatable_configuration c))) (rx_signatory c) = Err f \<longrightarrow>
    cli_main M i sub = ([Println (''Error: '' @ mn_debug_library_error M f)], Ok ()))"
  by (simp add: cli_main_def refresh_x509_action_def)

text \<open>
  An agent that was started serves every connection up to the first failure to accept, and says which key and
  socket it uses before it does.
\<close>

lemma run_action_serves:
  "run_action M True (map Accepted cs @ AcceptFailed # evs) c =
     ([Println ''Starting Rustica Agent'',
       Println (''Access Fingerprint: '' @ pk_hash (cl_ssh (mn_cli M)) (rn_pubkey c)),
       Println (''SSH_AUTH_SOCK='' @ rn_socket_path c @ ''; export SSH_AUTH_SOCK;''),
       Served (rn_socket_path c) cs Stopped], Ok ())"
proof -
  have "listen True (map Accepted cs @ AcceptFailed # evs) = (cs, Stopped)" by (induction cs) auto
  then show ?thesis by (simp add: run_action_def run_with_termination_channel_def)
qed

text \<open>
  Fetching a certificate at once writes what was fetched: when the run succeeds with a file named, the file holds
  the text of a certificate that the first answering server sent and nothing else is put out; when it fails
  to fetch, nothing is written at all.
\<close>

theorem immediate_writes_fetched:
  assumes "immediate_action M nows c = (uc, outs, r)" and "ic_out c = Some path"
  shows "(r = Ok () \<longleftrightarrow> mn_create_ok M path \<and> mn_write_all_ok M path \<and>
            (\<exists>n cert. fetch_new_certificate (mn_agent M) nows (ic_signatory c) (ic_certificate_options c)
               (ic_updatable_configuration c) = (uc, n, Ok cert) \<and>
             outs = [WriteFile path '''', WriteFile path (cert_to_string (cl_ssh (mn_cli M)) cert)])) \<and>
         (\<forall>e. r = Err (MainLibraryError e) \<longrightarrow> outs = [])"
  using assms by (auto simp: immediate_action_def split: prod.splits result.splits if_splits)

end
