(* ===== verification/Cli_Args.thy ===== *)
theory Cli_Args
  imports Cli_Config
begin

text \<open>
  The declarations of arguments in \<^verbatim>\<open>rustica-agent-cli/src/config/\<close> (the functions \<^verbatim>\<open>add_configuration\<close>,
  \<^verbatim>\<open>add_request_options\<close>, \<^verbatim>\<open>add_daemon_options\<close>, \<^verbatim>\<open>new_run_agent_subcommand\<close> and the list of subcommands). Help texts and the
  spelling of options on the command line are left out. \<open>accepts\<close> states what clap documents of the matches it returns
  for declared arguments; with it, the unwrapped values of the configuration functions are always there.
\<close>

section \<open>Declarations\<close>

record arg_decl =
  ad_name :: string
  ad_default :: "string option"
  ad_required :: bool
  ad_possible_values :: "string list"
  ad_slot_validator :: bool
  ad_requires :: "string option"
  ad_takes_value :: bool

definition arg :: "string \<Rightarrow> arg_decl" where
  "arg name = \<lparr>ad_name = name, ad_default = None, ad_required = False, ad_possible_values = [],
     ad_slot_validator = False, ad_requires = None, ad_takes_value = True\<rparr>"

definition flag :: "string \<Rightarrow> arg_decl" where
  "flag name = (arg name)\<lparr>ad_takes_value := False\<rparr>"

definition arg_default :: "string \<Rightarrow> string \<Rightarrow> arg_decl" where
  "arg_default name d = (arg name)\<lparr>ad_default := Some d\<rparr>"

definition arg_required :: "string \<Rightarrow> arg_decl" where
  "arg_required name = (arg name)\<lparr>ad_required := True\<rparr>"

definition slot_arg :: arg_decl where
  "slot_arg = (arg ''slot'')\<lparr>ad_slot_validator := True\<rparr>"

definition new_run_agent_subcommand :: "arg_decl list" where
  "new_run_agent_subcommand = [arg_default ''config'' ''/etc/rustica/config.toml'']"

definition add_request_options :: "arg_decl list \<Rightarrow> arg_decl list" where
  "add_request_options cmd = cmd @ [(arg ''kind'')\<lparr>ad_possible_values := [''user'', ''host'']\<rparr>, arg ''duration'',
     arg ''principals'', arg ''authority'']"

definition add_daemon_options :: "arg_decl list \<Rightarrow> arg_decl list" where
  "add_daemon_options cmd = cmd @ [flag ''certificate-priority'', arg ''socket'']"

definition add_immediate_configuration :: "arg_decl list \<Rightarrow> arg_decl list" where
  "add_immediate_configuration cmd = add_request_options cmd @ [arg ''out'', slot_arg, arg ''file'']"

definition add_multimode_configuration :: "arg_decl list \<Rightarrow> arg_decl list" where
  "add_multimode_configuration cmd = add_request_options (add_daemon_options cmd)
     @ [arg_required ''key-dir'', arg_required ''cert-for'', arg ''fido-device-path'']"

definition add_fido_setup_configuration :: "arg_decl list \<Rightarrow> arg_decl list" where
  "add_fido_setup_configuration cmd = cmd @ [arg_default ''application'' ''ssh:'',
     arg_default ''comment'' ''RusticaAgentProvisionedKey'',
     (arg_default ''kind'' ''ed25519'')\<lparr>ad_possible_values := [''ed25519'', ''ecdsa'']\<rparr>,
     arg_default ''pin-env'' ''YK_PIN'', arg ''out'']"

definition default_management_key :: string where
  "default_management_key = ''010203040506070801020304050607080102030405060708''"

definition add_provision_piv_configuration :: "arg_decl list \<Rightarrow> arg_decl list" where
  "add_provision_piv_configuration cmd = cmd @ [arg_default ''management-key'' default_management_key, slot_arg,
     arg_default ''pin-env'' ''YK_PIN'', flag ''require-touch'', arg ''pin-policy'',
     arg_default ''subject'' ''Rustica-AgentQuickProvision'']"

definition add_register_configuration :: "arg_decl list \<Rightarrow> arg_decl list" where
  "add_register_configuration cmd = cmd @ [flag ''no-attest'', slot_arg, arg ''file'']"

definition add_singlemode_configuration :: "arg_decl list \<Rightarrow> arg_decl list" where
  "add_singlemode_configuration cmd = add_request_options (add_daemon_options cmd)
     @ [slot_arg, arg ''file'', arg ''fido-device-path'']"

definition add_list_piv_keys_configuration :: "arg_decl list \<Rightarrow> arg_decl list" where
  "add_list_piv_keys_configuration cmd = cmd @ [flag ''full'']"

definition add_git_config_configuration :: "arg_decl list \<Rightarrow> arg_decl list" where
  "add_git_config_configuration cmd = cmd @ [arg ''file'', slot_arg, (arg ''serial'')\<lparr>ad_requires := Some ''slot''\<rparr>]"

definition add_refresh_x509_configuration :: "arg_decl list \<Rightarrow> arg_decl list" where
  "add_refresh_x509_configuration cmd = cmd @ [slot_arg\<lparr>ad_required := True\<rparr>, arg_default ''pin-env'' ''YK_PIN'',
     arg_default ''management-key'' default_management_key]"

definition command_configuration :: "(string \<times> arg_decl list) list" where
  "command_configuration =
     [(''immediate'', add_immediate_configuration new_run_agent_subcommand),
      (''multi'', add_multimode_configuration new_run_agent_subcommand),
      (''fido-setup'', add_fido_setup_configuration new_run_agent_subcommand),
      (''provision-piv'', add_provision_piv_configuration []),
      (''register'', add_register_configuration new_run_agent_subcommand),
      (''single'', add_singlemode_configuration new_run_agent_subcommand),
      (''list-piv-keys'', add_list_piv_keys_configuration []),
      (''list-fido-devices'', []),
      (''git-config'', add_git_config_configuration []),
      (''refresh-attested-x509'', add_refresh_x509_configuration new_run_agent_subcommand),
      (''allowed-signers'', new_run_agent_subcommand)]"

section \<open>What clap returns\<close>

text \<open>
  For a declared argument: a value if it is required or has a default; only a possible value if these are listed; only a
  value the validator takes; the argument that it requires.
\<close>

definition accepts_arg :: "'pk key_env \<Rightarrow> arg_matches \<Rightarrow> arg_decl \<Rightarrow> bool" where
  "accepts_arg K m d \<longleftrightarrow>
     (ad_required d \<or> ad_default d \<noteq> None \<longrightarrow> value_of m (ad_name d) \<noteq> None) \<and>
     (case value_of m (ad_name d) of
        None \<Rightarrow> True
      | Some v \<Rightarrow> ad_takes_value d \<and> (ad_possible_values d = [] \<or> v \<in> set (ad_possible_values d)) \<and>
          (ad_slot_validator d \<longrightarrow> slot_validator K v = Ok ()) \<and>
          (case ad_requires d of None \<Rightarrow> True | Some r \<Rightarrow> value_of m r \<noteq> None))"

definition accepts :: "'pk key_env \<Rightarrow> (string \<times> arg_matches) option \<Rightarrow> bool" where
  "accepts K sub = (case sub of
     None \<Rightarrow> True
   | Some (name, m) \<Rightarrow> (case map_of command_configuration name of
       None \<Rightarrow> False
     | Some decls \<Rightarrow> list_all (accepts_arg K m) decls \<and>
         (\<forall>a. value_of m a \<noteq> None \<longrightarrow> a \<in> ad_name ` set decls)))"

section \<open>Arguments that are unwrapped are there\<close>

lemmas declarations = command_configuration_def add_immediate_configuration_def add_multimode_configuration_def
  add_fido_setup_configuration_def add_provision_piv_configuration_def add_register_configuration_def
  add_singlemode_configuration_def add_list_piv_keys_configuration_def add_git_config_configuration_def
  add_refresh_x509_configuration_def new_run_agent_subcommand_def add_request_options_def add_daemon_options_def
  arg_def flag_def arg_default_def arg_required_def slot_arg_def

lemma and_then_not_Panic: "and_then r f \<noteq> Panic \<longleftrightarrow> r \<noteq> Panic \<and> (\<forall>x. r = Ok x \<longrightarrow> f x \<noteq> Panic)"
  by (cases r) simp_all

lemma unwrap_not_Panic [simp]: "unwrap x \<noteq> Panic \<longleftrightarrow> x \<noteq> None"
  by (cases x) simp_all

lemma map_err_not_Panic [simp]: "map_err f r \<noteq> Panic \<longleftrightarrow> r \<noteq> Panic"
  by (cases r) simp_all

text \<open>The parser of slots never returns an error, so its outcome does not depend on the type of errors.\<close>

lemma slot_parser_Ok_transfer:
  "(slot_parser K v :: (slot_id option, 'a) result) = Ok s \<longleftrightarrow> (slot_parser K v :: (slot_id option, 'b) result) = Ok s"
  by (auto simp: slot_parser_def and_then_Ok split: option.splits list.splits if_splits)

lemma slot_validated: "slot_validator K v = Ok () \<Longrightarrow> \<exists>s. (slot_parser K v :: (slot_id option, 'e) result) = Ok (Some s)"
  using slot_parser_Ok_transfer [where 'a = string and 'b = 'e, of K v]
  by (auto simp: slot_validator_def and_then_Ok split: option.splits)

text \<open>
  What the outside must be like. Of the libraries: the slots of the PIV standard are converted, the retired ones among
  them, and public keys are read back from their encoding. Of the machine: a Yubikey is connected, the list of readers is
  not abandoned half-way, and a Yubikey whose keys were listed can be opened. Of the configuration files: a slot they
  name is written \<^verbatim>\<open>R1\<close> to \<^verbatim>\<open>R20\<close>, or \<^verbatim>\<open>0x\<close> and the identifier of a slot.
\<close>

definition yubikey_library :: "('pk, 'sk) cli_env \<Rightarrow> bool" where
  "yubikey_library E \<longleftrightarrow> piv_slots (cl_keys E) \<and>
     (\<forall>b \<in> set retired_slots. ke_retired_try_from (cl_keys E) b \<noteq> None) \<and>
     (\<forall>serial yk slot k. ke_open (cl_keys E) serial = Some yk \<longrightarrow> oy_fetch_pubkey yk slot = Some k \<longrightarrow>
        pk_from_bytes (cl_ssh E) (pk_encode (cl_ssh E) k) \<noteq> None)"

definition yubikey_connected :: "('pk, 'sk) cli_env \<Rightarrow> bool" where
  "yubikey_connected E \<longleftrightarrow> cl_yubikey_new E \<noteq> None \<and> ke_readers (cl_keys E) \<noteq> Inr None \<and>
     (\<forall>serial. ke_open (cl_keys E) serial \<noteq> None \<longrightarrow> cl_yubikey_open E serial \<noteq> None)"

definition names_slot :: "('pk, 'z) key_env_scheme \<Rightarrow> string \<Rightarrow> bool" where
  "names_slot K name \<longleftrightarrow> (\<exists>n. 1 \<le> n \<and> n \<le> 20 \<and> name = CHR ''R'' # show_nat n) \<or>
     (\<exists>digits b. name = ''0x'' @ digits \<and> length digits = 2 \<and> ke_hex_decode K digits = Some [b] \<and>
        ke_slot_try_from K b \<noteq> None)"

definition configured_slots :: "('pk, 'sk) cli_env \<Rightarrow> bool" where
  "configured_slots E \<longleftrightarrow> (\<forall>path uc name. new_updatable_configuration (cl_fs E) path = Ok uc \<longrightarrow>
     ac_slot (uc_configuration uc) = Some name \<longrightarrow> names_slot (cl_keys E) name)"

definition cli_world_ok :: "('pk, 'sk) cli_env \<Rightarrow> bool" where
  "cli_world_ok E \<longleftrightarrow> yubikey_library E \<and> yubikey_connected E \<and> configured_slots E"

lemmas cli_world_defs = cli_world_ok_def yubikey_library_def yubikey_connected_def

lemma cli_worldD:
  assumes "cli_world_ok E"
  shows "piv_slots (cl_keys E)" and "ke_readers (cl_keys E) \<noteq> Inr None" and "cl_yubikey_new E \<noteq> None"
    and "b \<in> set retired_slots \<Longrightarrow> ke_retired_try_from (cl_keys E) b \<noteq> None"
    and "ke_open (cl_keys E) serial = Some yk \<Longrightarrow> oy_fetch_pubkey yk slot = Some k \<Longrightarrow>
       pk_from_bytes (cl_ssh E) (pk_encode (cl_ssh E) k) \<noteq> None"
    and "ke_open (cl_keys E) serial = Some yk \<Longrightarrow> cl_yubikey_open E serial \<noteq> None"
  using assms unfolding cli_world_defs by blast+

text \<open>Then the listing of the keys does not panic, and the parser reads the names of slots.\<close>

lemma collect_slots_no_panic:
  "\<forall>b \<in> set bs. ke_retired_try_from K b \<noteq> None \<Longrightarrow> collect_slots L K serial pin yk bs m \<noteq> Panic"
  by (induction bs arbitrary: m) (auto simp: and_then_not_Panic)

lemma collect_devices_no_panic:
  "\<forall>b \<in> set retired_slots. ke_retired_try_from K b \<noteq> None \<Longrightarrow> collect_devices L K serials m \<noteq> Panic"
  by (induction serials arbitrary: m) (auto simp: and_then_not_Panic collect_slots_no_panic split: option.split)

lemma get_all_piv_keys_no_panic: "cli_world_ok E \<Longrightarrow> get_all_piv_keys L (cl_keys E) \<noteq> Panic"
  by (auto simp: get_all_piv_keys_def list_yubikey_serials_def and_then_not_Panic collect_devices_no_panic cli_world_defs
      split: sum.split)

lemma names_slot_parsed:
  assumes "piv_slots K" and "names_slot K name"
  shows "\<exists>s. slot_parser K name = Ok (Some s)"
  using assms(2) unfolding names_slot_def
proof (elim disjE exE conjE)
  fix n assume "1 \<le> n" "n \<le> 20" "name = CHR ''R'' # show_nat n"
  with retired_slot_names [OF assms(1)] show ?thesis by blast
next
  fix digits b assume "name = ''0x'' @ digits" "length digits = 2" "ke_hex_decode K digits = Some [b]"
    "ke_slot_try_from K b \<noteq> None"
  then show ?thesis by (auto simp: slot_parser_def)
qed

lemma slot_signatory_no_panic:
  assumes "cli_world_ok E" and "slot_parser (cl_keys E) v \<noteq> (Panic :: (slot_id option, cli_error) result)"
  shows "slot_signatory E v \<noteq> Panic"
  using assms by (auto simp: slot_signatory_def and_then_not_Panic cli_world_defs split: option.split)

lemma cli_get_signatory_no_panic:
  assumes "cli_world_ok E"
    and "\<And>v. cmd_slot = Some v \<Longrightarrow> slot_parser (cl_keys E) v \<noteq> (Panic :: (slot_id option, cli_error) result)"
    and "\<And>v. config_slot = Some v \<Longrightarrow> slot_parser (cl_keys E) v \<noteq> (Panic :: (slot_id option, cli_error) result)"
  shows "cli_get_signatory E cmd_slot config_slot file config_key \<noteq> Panic"
  using assms slot_signatory_no_panic [OF assms(1)]
  by (auto simp: cli_get_signatory_def and_then_not_Panic split: option.split sum.split)

lemma new_updatable_configuration_no_panic: "new_updatable_configuration F path \<noteq> Panic"
  by (simp add: new_updatable_configuration_def and_then_not_Panic parse_config_path_def parse_config_def
      parse_v1_config_def parse_v2_config_def split: sum.split option.split)

lemma parse_config_from_args_no_panic:
  "value_of m ''config'' \<noteq> None \<Longrightarrow> parse_config_from_args E m \<noteq> Panic"
  by (auto simp: parse_config_from_args_def and_then_not_Panic new_updatable_configuration_no_panic)

lemma configured_signatory_no_panic:
  assumes "cli_world_ok E" and "parse_config_from_args E m = Ok uc"
    and "\<And>v. cmd_slot = Some v \<Longrightarrow> slot_validator (cl_keys E) v = Ok ()"
  shows "cli_get_signatory E cmd_slot (ac_slot (uc_configuration uc)) file config_key \<noteq> Panic"
proof (rule cli_get_signatory_no_panic [OF assms(1)])
  show "slot_parser (cl_keys E) v \<noteq> (Panic :: (slot_id option, cli_error) result)" if "cmd_slot = Some v" for v
    using slot_validated [OF assms(3) [OF that], where 'e = cli_error] by auto
  show "slot_parser (cl_keys E) v \<noteq> (Panic :: (slot_id option, cli_error) result)"
    if "ac_slot (uc_configuration uc) = Some v" for v
  proof -
    have "piv_slots (cl_keys E)" "names_slot (cl_keys E) v"
      using assms(1,2) that by (auto simp: cli_world_defs configured_slots_def parse_config_from_args_Ok)
    from names_slot_parsed [OF this] show ?thesis by (metis result.distinct(3))
  qed
qed

lemma find_signatory_no_panic:
  assumes "cli_world_ok E" and "piv_entries (cl_ssh E) (cl_keys E) key_map" and "hm_wf key_map"
  shows "find_signatory E fp key_map private_keys \<noteq> Panic"
proof -
  have keyfile: "find_private (cl_ssh E) fp ks \<noteq> Panic" for ks by (induction ks) auto
  have "\<forall>(blob, d) \<in> set key_map. pk_from_bytes (cl_ssh E) blob \<noteq> None \<and> cl_yubikey_open E (pv_serial d) \<noteq> None"
  proof (clarify, intro conjI)
    fix blob d assume "(blob, d) \<in> set key_map"
    with assms(2,3) have "piv_entry (cl_ssh E) (cl_keys E) blob d" by (simp add: piv_entries_def)
    with cli_worldD(5,6) [OF assms(1)]
    show "pk_from_bytes (cl_ssh E) blob \<noteq> None" "cl_yubikey_open E (pv_serial d) \<noteq> None"
      unfolding piv_entry_def by blast+
  qed
  then show ?thesis
    by (induction key_map) (auto simp: keyfile and_then_not_Panic split: if_splits)
qed

lemma pick_keys_no_panic: "pick_keys L ks all_keys m \<noteq> Panic"
  by (induction ks arbitrary: all_keys m) (auto split: option.split)

lemma validate_public_keys_no_panic: "cli_world_ok E \<Longrightarrow> validate_public_keys E ks \<noteq> Panic"
  by (simp add: validate_public_keys_def and_then_not_Panic pick_keys_no_panic get_all_piv_keys_no_panic)

lemma slot_key_no_panic: "cli_world_ok E \<Longrightarrow> slot_key E slot serial \<noteq> Panic"
  using get_all_piv_keys_no_panic [of E "cl_ssh E"] cli_worldD(3) [of E]
  by (auto simp: slot_key_def and_then_not_Panic Let_def split: list.split option.split)

text \<open>The subcommands, each with the arguments that it unwraps.\<close>

lemma subcommands_no_panic:
  assumes "cli_world_ok E" and "\<And>v. value_of m ''slot'' = Some v \<Longrightarrow> slot_validator (cl_keys E) v = Ok ()"
  shows "value_of m ''config'' \<noteq> None \<Longrightarrow> configure_immediate E m \<noteq> Panic"
    and "value_of m ''config'' \<noteq> None \<Longrightarrow> configure_register E m \<noteq> Panic"
    and "value_of m ''config'' \<noteq> None \<Longrightarrow> configure_singlemode E m \<noteq> Panic"
    and "value_of m ''config'' \<noteq> None \<Longrightarrow> configure_multimode E m \<noteq> Panic"
    and "value_of m ''config'' \<noteq> None \<Longrightarrow> value_of m ''application'' \<noteq> None \<Longrightarrow> value_of m ''comment'' \<noteq> None \<Longrightarrow>
       value_of m ''pin-env'' \<noteq> None \<Longrightarrow> configure_fido_setup E m \<noteq> Panic"
    and "value_of m ''subject'' \<noteq> None \<Longrightarrow> value_of m ''management-key'' \<noteq> None \<Longrightarrow> value_of m ''pin-env'' \<noteq> None \<Longrightarrow>
       configure_provision_piv E m \<noteq> Panic"
    and "value_of m ''config'' \<noteq> None \<Longrightarrow> value_of m ''slot'' \<noteq> None \<Longrightarrow> value_of m ''management-key'' \<noteq> None \<Longrightarrow>
       value_of m ''pin-env'' \<noteq> None \<Longrightarrow> configure_refresh_x509_certificate E m \<noteq> Panic"
    and "configure_git_config E m \<noteq> Panic"
proof -
  note config = parse_config_from_args_no_panic [of m E]
  note signatory = configured_signatory_no_panic [OF assms(1) _ assms(2)]
  have slot: "\<exists>s. slot_parser (cl_keys E) v = (Ok (Some s) :: (slot_id option, cli_error) result)"
    if "value_of m ''slot'' = Some v" for v
    using slot_validated assms(2) [OF that] by blast
  show "configure_immediate E m \<noteq> Panic" if "value_of m ''config'' \<noteq> None"
    using config [OF that] signatory by (simp add: configure_immediate_def and_then_not_Panic Let_def)
  show "configure_register E m \<noteq> Panic" if "value_of m ''config'' \<noteq> None"
    using config [OF that] signatory
    by (simp add: configure_register_def and_then_not_Panic Let_def split: signatory.split)
  show "configure_singlemode E m \<noteq> Panic" if "value_of m ''config'' \<noteq> None"
    using config [OF that] signatory
    by (simp add: configure_singlemode_def single_signatory_def and_then_not_Panic Let_def split: signatory.split prod.split)
  have find: "find_signatory E fp key_map privs \<noteq> Panic" if "validate_public_keys E pubs = Ok key_map" for fp pubs key_map privs
    using find_signatory_no_panic [OF assms(1)] validate_public_keys_Ok [OF that] validate_public_keys_wf [OF that] by blast
  have dir: "get_keys_from_dir E d \<noteq> Panic" for d by (simp add: get_keys_from_dir_def split: sum.split)
  show "configure_multimode E m \<noteq> Panic" if "value_of m ''config'' \<noteq> None"
    using config [OF that] validate_public_keys_no_panic [OF assms(1)] find dir
    unfolding configure_multimode_def Let_def and_then_not_Panic by (auto simp: and_then_not_Panic)
  show "configure_fido_setup E m \<noteq> Panic" if "value_of m ''config'' \<noteq> None" "value_of m ''application'' \<noteq> None"
    "value_of m ''comment'' \<noteq> None" "value_of m ''pin-env'' \<noteq> None"
    using config [OF that(1)] that by (simp add: configure_fido_setup_def and_then_not_Panic)
  have "cli_get_signatory E (value_of m ''slot'') None None None \<noteq> Panic"
    by (rule cli_get_signatory_no_panic [OF assms(1)]) (use slot in force, simp)
  then show "configure_provision_piv E m \<noteq> Panic"
    if "value_of m ''subject'' \<noteq> None" "value_of m ''management-key'' \<noteq> None" "value_of m ''pin-env'' \<noteq> None"
    using that
    by (simp add: configure_provision_piv_def management_key_arg_def pin_or_default_def and_then_not_Panic
        split: signatory.split)
  show "configure_refresh_x509_certificate E m \<noteq> Panic" if given: "value_of m ''config'' \<noteq> None"
    "value_of m ''slot'' \<noteq> None" "value_of m ''management-key'' \<noteq> None" "value_of m ''pin-env'' \<noteq> None"
  proof -
    from given(2) slot obtain v s where
      "value_of m ''slot'' = Some v" "slot_parser (cl_keys E) v = (Ok (Some s) :: (slot_id option, cli_error) result)"
      by blast
    with config [OF given(1)] given assms(1) show ?thesis
      by (simp add: configure_refresh_x509_certificate_def management_key_arg_def pin_or_default_def
          and_then_not_Panic cli_world_defs)
  qed
  show "configure_git_config E m \<noteq> Panic"
  proof (cases "value_of m ''slot''")
    case None
    then show ?thesis
      by (simp add: configure_git_config_def and_then_not_Panic split: option.split sum.split)
  next
    case (Some v)
    with slot obtain s where "slot_parser (cl_keys E) v = (Ok (Some s) :: (slot_id option, cli_error) result)" by blast
    with Some slot_key_no_panic [OF assms(1)] show ?thesis
      by (simp add: configure_git_config_def and_then_not_Panic split: option.split)
  qed
qed

text \<open>The arguments each subcommand unwraps, and that they are declared with a default or as required.\<close>

definition unwrapped_args :: "string \<Rightarrow> string list" where
  "unwrapped_args name =
     (if name = ''fido-setup'' then [''config'', ''application'', ''comment'', ''pin-env'']
      else if name = ''provision-piv'' then [''subject'', ''management-key'', ''pin-env'']
      else if name = ''refresh-attested-x509'' then [''config'', ''slot'', ''management-key'', ''pin-env'']
      else if name \<in> {''list-piv-keys'', ''list-fido-devices'', ''git-config''} then []
      else [''config''])"

lemma unwrapped_args_declared:
  "list_all (\<lambda>(name, decls). list_all (\<lambda>a. list_ex (\<lambda>d. ad_name d = a \<and> (ad_required d \<or> ad_default d \<noteq> None)) decls)
     (unwrapped_args name)) command_configuration"
  by code_simp

lemma slots_declared:
  "list_all (\<lambda>(name, decls). list_all (\<lambda>d. ad_name d = ''slot'' \<longrightarrow> ad_slot_validator d) decls) command_configuration"
  by code_simp

lemma accepted_values:
  assumes "accepts K (Some (name, m))"
  shows "a \<in> set (unwrapped_args name) \<Longrightarrow> value_of m a \<noteq> None"
    and "value_of m ''slot'' = Some v \<Longrightarrow> slot_validator K v = Ok ()"
proof -
  from assms obtain decls where "map_of command_configuration name = Some decls"
    and d: "list_all (accepts_arg K m) decls" "\<And>a. value_of m a \<noteq> None \<Longrightarrow> a \<in> ad_name ` set decls"
    by (auto simp: accepts_def split: option.splits)
  then have in_config: "(name, decls) \<in> set command_configuration" by (blast dest: map_of_SomeD)
  show "value_of m a \<noteq> None" if "a \<in> set (unwrapped_args name)"
    using unwrapped_args_declared in_config that d(1)
    by (fastforce simp: list_all_iff list_ex_iff accepts_arg_def)
  show "slot_validator K v = Ok ()" if "value_of m ''slot'' = Some v"
    using slots_declared in_config that d(1) d(2) [of "''slot''"]
    by (fastforce simp: list_all_iff accepts_arg_def split: option.splits)
qed

text \<open>Without a Yubikey a slot that was accepted makes the subcommands that sign with it panic.\<close>

lemma slot_without_yubikey_panics:
  assumes "slot_validator (cl_keys E) v = Ok ()" and "cl_yubikey_new E = None"
  shows "slot_signatory E v = Panic"
  using slot_validated [OF assms(1), where 'e = cli_error] assms(2) by (auto simp: slot_signatory_def)

text \<open>
  C33: When a Yubikey is connected (and stays readable), and the slots named in configuration files are slots
  of the PIV standard, no command line that clap accepts under the declarations makes the configuration of a
  subcommand panic: every argument that the code unwraps is required or has a default, every slot was validated, the
  listing of the keys reads only slots that exist, and the Yubikeys it opens again are those it listed. (Without a
  connected Yubikey, an accepted slot does panic.)
\<close>

theorem accepted_arguments_suffice:
  assumes "accepts (cl_keys E) sub" and "yubikey_library E" and "yubikey_connected E" and "configured_slots E"
  shows "cli_configure E sub \<noteq> Panic"
proof (cases sub)
  case None
  then show ?thesis by (simp add: cli_configure_def)
next
  case (Some nm)
  obtain name m where nm: "sub = Some (name, m)" using Some by (cases nm) simp
  note given = accepted_values [OF assms(1) [unfolded nm]]
  note no_panic = subcommands_no_panic [OF _ given(2), unfolded cli_world_ok_def, OF conjI [OF assms(2) conjI [OF assms(3,4)]]]
  have listed: "configure_list_piv_keys m \<noteq> (Panic :: (('a, 'b) rustica_agent_action, cli_error) result)"
    by (simp add: configure_list_piv_keys_def)
  have signers: "configure_allowed_signers E m \<noteq> Panic" if "value_of m ''config'' \<noteq> None"
    using parse_config_from_args_no_panic [OF that] by (simp add: configure_allowed_signers_def and_then_not_Panic)
  show ?thesis
    unfolding nm cli_configure_def option.case prod.case
    using given(1) no_panic listed signers by (auto simp: unwrapped_args_def)
qed

end
