(* ===== verification/Cli_Witnesses.thy ===== *)
theory Cli_Witnesses
  imports Agent_Witnesses Cli_Main Cli_Args
begin

text \<open>
  The properties of slots, PIV keys, the client loop and the command line that have hypotheses, each applied to a
  concrete device, byte stream or command line.
\<close>

section \<open>Slots and devices\<close>

definition ex_slot :: "u8 \<Rightarrow> slot_id option" where
  "ex_slot b = (if b \<in> {0x9A, 0x9C, 0x9D, 0x9E, 0xF9} \<or> 0x82 \<le> b \<and> b \<le> 0x95 then Some b else None)"

definition ex_device :: "string open_yubikey" where
  "ex_device = \<lparr>oy_fetch_pubkey = (\<lambda>s. if s = 0x83 then Some ''piv'' else None), oy_fetch_subject = (\<lambda>_. None)\<rparr>"

definition ex_keys :: "string key_env" where
  "ex_keys = \<lparr>ke_slot_try_from = ex_slot, ke_retired_try_from = Some, ke_hex_decode = (\<lambda>s. Some (as_bytes s)),
     ke_readers = Inr (Some [Some 7, None]), ke_env_var = (\<lambda>v. if v = ''YK_PIN_7'' then Some ''1234'' else None),
     ke_open = (\<lambda>serial. if serial = 7 then Some ex_device else None)\<rparr>"

definition ex_piv :: "string piv_descriptor" where
  "ex_piv = \<lparr>pv_serial = 7, pv_slot = 0x83, pv_public_key = ''piv'', pv_pin = Some ''1234'', pv_subject = ''''\<rparr>"

theorem slot_parsers_agree_witness:
  "parse_option_slot ex_crypto (se_yubikey ex_signer_env) (Some ''R3'') = Ok (Some 0x84)"
proof -
  let ?K = "ex_keys\<lparr>ke_slot_try_from := Some\<rparr>"
  have "slot_parser ?K ''R3'' = (Ok (Some 0x84) :: (slot_id option, string) result)"
    by (simp add: slot_parser_def ex_keys_def parse_u8_def parse_digits_def strip_plus_def digit_val_def)
  with slot_parsers_agree [of "se_yubikey ex_signer_env" ?K ex_crypto "''R3''"] show ?thesis
    by (simp add: ex_signer_env_def ex_keys_def ex_crypto_def)
qed

theorem retired_slot_names_witness:
  "slot_parser ex_keys (CHR ''R'' # show_nat 20) = (Ok (Some 0x95) :: (slot_id option, string) result) \<and>
   slot_parser ex_keys ''R0'' = (Panic :: (slot_id option, string) result)"
proof -
  have "piv_slots ex_keys" by (simp add: piv_slots_def ex_keys_def ex_slot_def)
  from retired_slot_names [OF this, of 20] show ?thesis by simp
qed

lemma ex_retired_slots:
  "retired_slots = [0x82, 0x83, 0x84, 0x85, 0x86, 0x87, 0x88, 0x89, 0x8A, 0x8B, 0x8C, 0x8D, 0x8E, 0x8F,
     0x90, 0x91, 0x92, 0x93, 0x94, 0x95]"
  by (simp add: retired_slots_def)

lemma ex_show: "show_int 7 = ''7''"
  by (simp add: show_int_def show_nat.simps digit_char_def char_of_def bit_0)

lemma ex_keys_simps:
  "ke_retired_try_from ex_keys = Some" "ke_open ex_keys 7 = Some ex_device"
  "ke_readers ex_keys = Inr (Some [Some 7, None])" "pin_for ex_keys 7 = Some ''1234''"
  "oy_fetch_pubkey ex_device s = (if s = 0x83 then Some ''piv'' else None)" "oy_fetch_subject ex_device s = None"
  "pk_encode ex_ssh_direct = as_bytes"
  by (simp_all add: ex_keys_def ex_device_def pin_for_def ex_show ex_ssh_direct_def ex_ssh_def)

lemma ex_all_piv_keys: "get_all_piv_keys ex_ssh_direct ex_keys = Ok [(as_bytes ''piv'', ex_piv)]"
  by (simp add: get_all_piv_keys_def list_yubikey_serials_def ex_keys_simps ex_retired_slots ex_piv_def
      collect_slots_step List.map_filter_def del: collect_slots.simps(2))

theorem all_piv_keys_exact_witness:
  "get_all_piv_keys ex_ssh_direct ex_keys = Ok [(as_bytes ''piv'', ex_piv)] \<and>
   piv_entries ex_ssh_direct ex_keys [(as_bytes ''piv'', ex_piv)]"
proof -
  from all_piv_keys_exact [OF ex_all_piv_keys ex_keys_simps(3)] ex_all_piv_keys show ?thesis by blast
qed

section \<open>The client loop\<close>

text \<open>A client that asks for a signature, sends something unknown, and hangs up in the middle of a frame.\<close>

definition ex_bodies :: "bytes list" where
  "ex_bodies = [request_body (as_bytes ''key'') [2, 3] 4, [99]]"

definition ex_requests :: "string agent_request list" where
  "ex_requests = [RSign (as_bytes ''key'') [2, 3] 4, RUnknown]"

theorem client_loop_equivalence_witness:
  "snd (handle_client ex_ssh_direct (rustica_handler ex_agent_env) (\<lambda>_. (Some 102, \<lambda>_. Some 102)) (\<lambda>_. True) 0
      (framed ex_bodies @ [0, 0]) ex_handler) = ([RespSign (as_bytes ''key'' @ [2, 3]), RespFailure], Err IoError)"
proof -
  have "carries ex_ssh_direct (request_body (as_bytes ''key'') [2, 3] 4) (RSign (as_bytes ''key'') [2, 3] 4)"
    "carries ex_ssh_direct [99] RUnknown"
    using parse_sign_request_body [of "as_bytes ''key''" "[2, 3]" 4 ex_ssh_direct]
    by (simp_all add: carries_def request_body_def write_message_def write_u32_def)
       (simp add: parse_request_def read_u8_def from_u8_def)
  then have carried: "list_all2 (carries ex_ssh_direct) ex_bodies ex_requests"
    by (simp add: ex_bodies_def ex_requests_def)
  have "read_request ex_ssh_direct [0, 0] = Err IoError"
    by (simp add: read_request_def read_message_def read_u32_def)
  note run = client_loop_equivalence [OF carried this]
  have "request_fingerprint ex_ssh_direct (as_bytes ''key'') = Some (pk_fingerprint ex_ssh_direct ''key'')"
    by (simp add: request_fingerprint_def ex_ssh_direct_def ex_ssh_def)
  then show ?thesis
    unfolding run
    by (simp add: ex_requests_def rustica_handler_def sign_request_def sign_with_signatory_def sign_with_def
        ex_handler_def ex_agent_env_def) (simp add: ex_ssh_direct_def ex_ssh_def)
qed

section \<open>Command lines\<close>

definition ex_cli :: "(string, string) cli_env" where
  "ex_cli = \<lparr>cl_ssh = ex_ssh_direct, cl_fs = ex_agent_fs\<lparr>read_to_string := (\<lambda>_. Inr ''new'')\<rparr>, cl_keys = ex_keys,
     cl_yubikey_new = None, cl_yubikey_open = (\<lambda>_. None),
     cl_private_from_path = (\<lambda>p. if p = ''id'' then Inr ''key'' else if p = ''id2'' then Inr ''key2'' else Inl ''no key''),
     cl_public_from_path = (\<lambda>p. if p = ''piv.pub'' then Inr ''piv'' else Inl ''no key''),
     cl_set_device_path = (\<lambda>_ k. k),
     cl_read_dir = (\<lambda>_. Inr [Some ''id'', None, Some ''id2'', Some ''piv.pub'', Some ''other'']),
     cl_temp_file = (\<lambda>n. ''/tmp/'' @ n), cl_process_id = 42\<rparr>"

definition ex_args :: arg_matches where
  "ex_args = \<lparr>value_of = map_of [(''config'', ''path''), (''cert-for'', ''key''), (''key-dir'', ''keys''), (''file'', ''id'')],
     is_present = (\<lambda>_. False), pin_policy_of = None\<rparr>"

definition ex_run :: "(string, string) run_config" where
  "ex_run = \<lparr>rn_socket_path = ''/tmp/rustica.42'', rn_pubkey = ''key'',
     rn_handler = \<lparr>hd_configuration = \<lparr>uc_path = ''path'', uc_configuration = ex_new_config, uc_disk = None\<rparr>, hd_cert = None, hd_pubkey = ''key'',
       hd_signatory = Direct ''key'', hd_stale_at = 0,
       hd_certificate_options = parse_certificate_config_from_args ex_cli ex_args ex_new_config,
       hd_identities = [(as_bytes ''key2'', ''key2'')], hd_piv_identities = [(as_bytes ''piv'', ex_piv)],
       hd_notification_function = False, hd_certificate_priority = False, hd_notified = 0\<rparr>\<rparr>"

lemma ex_cli_simps [simp]:
  "cl_ssh ex_cli = ex_ssh_direct" "cl_keys ex_cli = ex_keys"
  "cl_private_from_path ex_cli ''id'' = Inr ''key''"
  "get_keys_from_dir ex_cli d = Ok ([''piv''], [''key'', ''key2''])"
  "cl_set_device_path ex_cli p k = k"
  by (simp_all add: ex_cli_def get_keys_from_dir_def ends_with_def)

lemma ex_args_simps [simp]:
  "value_of ex_args ''config'' = Some ''path''" "value_of ex_args ''cert-for'' = Some ''key''"
  "value_of ex_args ''key-dir'' = Some ''keys''" "value_of ex_args ''file'' = Some ''id''"
  "value_of ex_args ''slot'' = None" "value_of ex_args ''fido-device-path'' = None" "value_of ex_args ''socket'' = None"
  "is_present ex_args f = False"
  by (simp_all add: ex_args_def)

lemma ex_cli_config: "parse_config_from_args ex_cli ex_args = Ok (ex_uc ex_new_config)"
  by (simp add: parse_config_from_args_def ex_cli_def new_updatable_configuration_def ex_agent_fs_def parse_config_path_def
      parse_config_def parse_v2_config_def ex_uc_def)

lemma ex_socket: "parse_socket_path_from_args ex_cli ex_args ex_new_config = ''/tmp/rustica.42''"
  by (simp add: parse_socket_path_from_args_def ex_new_config_def ex_agent_config_def ex_cli_def show_nat.simps
      digit_char_def char_of_def)

lemma ex_validated_keys: "validate_public_keys ex_cli [''piv''] = Ok [(as_bytes ''piv'', ex_piv)]"
  by (simp add: validate_public_keys_def ex_all_piv_keys ex_ssh_keys)

lemma ex_multimode: "configure_multimode ex_cli ex_args = Ok (ActRun ex_run)"
  by (simp add: configure_multimode_def ex_cli_config ex_validated_keys ex_ssh_keys ex_run_def ex_socket
      hm_collect_def ex_uc_def)

definition ex_entries :: "string option list" where
  "ex_entries = [Some ''id'', None, Some ''id2'', Some ''piv.pub'', Some ''other'']"

lemma ex_directory:
  "cl_read_dir ex_cli d = Inr ex_entries" "directory_private_keys ex_cli ex_entries = {''key'', ''key2''}"
  "directory_public_keys ex_cli ex_entries = {''piv''}"
proof -
  show "cl_read_dir ex_cli d = Inr ex_entries" by (simp add: ex_cli_def ex_entries_def)
  have "load_keys ex_cli ex_entries = ([''piv''], [''key'', ''key2''])"
    by (simp add: ex_cli_def ex_entries_def ends_with_def)
  from load_keys_directory [OF this] show "directory_private_keys ex_cli ex_entries = {''key'', ''key2''}"
    "directory_public_keys ex_cli ex_entries = {''piv''}" by simp_all
qed

lemma ex_read_back: "k \<noteq> '''' \<Longrightarrow> pk_from_bytes ex_ssh_direct (as_bytes k) = Some k"
  by (simp add: ex_ssh_direct_def ex_ssh_def)

lemma ex_piv_keys: "ke_open ex_keys serial = Some yk \<Longrightarrow> oy_fetch_pubkey yk slot = Some k \<Longrightarrow> k = ''piv''"
  by (auto simp: ex_keys_def ex_device_def split: if_splits)

theorem multimode_serves_directory_witness:
  "configure_multimode ex_cli ex_args = Ok (ActRun ex_run) \<and>
   insert (as_bytes (rn_pubkey ex_run)) (dom (map_of (hd_piv_identities (rn_handler ex_run))) \<union>
     dom (map_of (hd_identities (rn_handler ex_run)))) = {as_bytes ''piv'', as_bytes ''key'', as_bytes ''key2''} \<and>
   dom (map_of (hd_piv_identities (rn_handler ex_run))) = {as_bytes ''piv''} \<and>
   dom (map_of (hd_identities (rn_handler ex_run))) = {as_bytes ''key2''} \<and>
   Some (rn_pubkey ex_run) = value_of ex_args ''cert-for''"
proof -
  have on_file: "pk_from_bytes ex_ssh_direct (as_bytes k) = Some k" if "cl_public_from_path ex_cli p = Inr k" for p k
  proof -
    from that have "k = ''piv''" by (simp add: ex_cli_def split: if_splits)
    then show ?thesis by (simp add: ex_read_back)
  qed
  have in_slot: "pk_from_bytes ex_ssh_direct (as_bytes k) = Some k"
    if "ke_open ex_keys serial = Some yk" "oy_fetch_pubkey yk slot = Some k" for serial yk slot k
    using ex_piv_keys [OF that] by (simp add: ex_read_back)
  have path: "sk_pubkey (cl_ssh ex_cli) (cl_set_device_path ex_cli p k) = sk_pubkey (cl_ssh ex_cli) k" for p k
    by simp
  note served = multimode_serves_directory [OF ex_multimode ex_args_simps(3) ex_directory(1) path,
    unfolded ex_directory Let_def ex_cli_simps ex_keys_simps]
  have "insert (as_bytes (rn_pubkey ex_run)) (dom (map_of (hd_piv_identities (rn_handler ex_run))) \<union>
      dom (map_of (hd_identities (rn_handler ex_run)))) =
      as_bytes ` {''piv''} \<union> (\<lambda>k. as_bytes (sk_pubkey ex_ssh_direct k)) ` {''key'', ''key2''}"
    by (rule served [THEN conjunct1]; (rule on_file in_slot; assumption))
  moreover have "value_of ex_args ''cert-for'' = Some (pk_hash ex_ssh_direct (rn_pubkey ex_run))"
    by (rule served [THEN conjunct2, THEN conjunct2, THEN conjunct2, THEN conjunct1]; (rule on_file in_slot; assumption))
  ultimately show ?thesis using ex_multimode by (simp add: ex_run_def ex_ssh_keys insert_commute)
qed

theorem started_agent_holds_key_witness:
  "cli_configure ex_cli (Some (''multi'', ex_args)) = Ok (ActRun ex_run) \<and>
   handler_inv (rn_handler ex_run) \<and> signatory_holds ex_cli (Direct ''key'') ''key''"
proof -
  have run: "cli_configure ex_cli (Some (''multi'', ex_args)) = Ok (ActRun ex_run)"
    by (simp add: cli_configure_def ex_multimode)
  from started_agent_holds_key [OF run] run show ?thesis by (simp add: ex_run_def)
qed

section \<open>Arguments\<close>

definition ex_yubikey :: "string yubikey_device" where
  "ex_yubikey = \<lparr>yd_reconnect = True, yd_fetch_pubkey = (\<lambda>_. None), yd_sign = (\<lambda>_ _. None),
     yd_generate_csr = (\<lambda>_ _. None), yd_fetch_attestation = (\<lambda>_. Inl ''''), yd_fetch_certificate = (\<lambda>_. None),
     yd_attestation_slot = 0xF9, yd_show_slot = (\<lambda>_. '''')\<rparr>"

definition ex_connected :: "(string, string) cli_env" where
  "ex_connected = ex_cli\<lparr>cl_yubikey_new := Some ex_yubikey, cl_yubikey_open := (\<lambda>_. Some ex_yubikey)\<rparr>"

definition ex_single_args :: arg_matches where
  "ex_single_args = \<lparr>value_of = map_of [(''config'', ''path''), (''slot'', ''R3''), (''kind'', ''user'')],
     is_present = (\<lambda>_. False), pin_policy_of = None\<rparr>"

lemma ex_world: "yubikey_library ex_connected" "yubikey_connected ex_connected" "configured_slots ex_connected"
proof -
  show "yubikey_library ex_connected"
    unfolding yubikey_library_def
  proof (intro conjI allI impI ballI)
    show "piv_slots (cl_keys ex_connected)" by (simp add: piv_slots_def ex_connected_def ex_keys_def ex_slot_def)
    show "ke_retired_try_from (cl_keys ex_connected) b \<noteq> None" for b by (simp add: ex_connected_def ex_keys_simps)
    fix serial yk slot k
    assume "ke_open (cl_keys ex_connected) serial = Some yk" "oy_fetch_pubkey yk slot = Some k"
    then have "k = ''piv''" using ex_piv_keys [of serial yk slot k] by (simp add: ex_connected_def)
    with ex_read_back [of k]
    show "pk_from_bytes (cl_ssh ex_connected) (pk_encode (cl_ssh ex_connected) k) \<noteq> None"
      by (simp add: ex_connected_def ex_keys_simps)
  qed
  show "yubikey_connected ex_connected" by (simp add: yubikey_connected_def ex_connected_def ex_keys_simps)
  have "ac_slot (uc_configuration uc) = None" if "new_updatable_configuration (cl_fs ex_cli) path = Ok uc" for path uc
    using that
    by (simp add: new_updatable_configuration_def and_then_Ok parse_config_path_def ex_cli_def parse_config_def
        ex_agent_fs_def parse_v2_config_def ex_new_config_def ex_agent_config_def) auto
  then show "configured_slots ex_connected" by (simp add: configured_slots_def ex_connected_def)
qed

theorem accepted_arguments_suffice_witness:
  "cli_configure ex_connected (Some (''single'', ex_single_args)) \<noteq> Panic"
proof -
  have slot: "slot_validator (cl_keys ex_connected) ''R3'' = Ok ()"
    by (simp add: slot_validator_def slot_parser_def ex_connected_def ex_keys_def ex_slot_def parse_u8_def parse_digits_def
        strip_plus_def digit_val_def)
  have "accepts (cl_keys ex_connected) (Some (''single'', ex_single_args))"
    by (simp add: accepts_def declarations accepts_arg_def ex_single_args_def slot)
  from accepted_arguments_suffice [OF this ex_world] show ?thesis .
qed

section \<open>A new FIDO key\<close>

definition ex_fido_key :: "string fido_key" where
  "ex_fido_key = \<lparr>fk_private_key = ''key'', fk_attestation = \<lparr>aua_auth_data = [], aua_auth_data_sig = [],
     aua_intermediate = [], aua_challenge = [], aua_alg = 7\<rparr>\<rparr>"

definition ex_main :: "(string, string) main_env" where
  "ex_main = \<lparr>mn_cli = ex_cli, mn_agent = ex_agent_env, mn_fido_devices = [],
     mn_provisionable = (\<lambda>_. \<lparr>pr_unlock = (\<lambda>_ _. False), pr_provision = (\<lambda>_ _ _ _ _. None)\<rparr>),
     mn_generate_new_ssh_key = (\<lambda>_ _ _ _. Inr ex_fido_key), mn_private_text = Some, mn_create_ok = (\<lambda>_. True),
     mn_metadata_ok = (\<lambda>_. True), mn_write_all_ok = (\<lambda>_. True), mn_unlock = (\<lambda>_ _ _. False),
     mn_write_certificate_ok = (\<lambda>_ _ _. False), mn_pretty_cert = (\<lambda>_. ''''), mn_debug_x509 = (\<lambda>_. None),
     mn_debug_cli_error = (\<lambda>_. ''''), mn_debug_library_error = (\<lambda>_. '''')\<rparr>"

definition ex_fido_setup :: provision_and_register_fido_config where
  "ex_fido_setup = \<lparr>pf_updatable_configuration = ex_uc ex_agent_config, pf_app_name = ''ssh:'', pf_comment = '''',
     pf_key_type = SKEd25519, pf_pin = None, pf_out = Some ''out''\<rparr>"

lemma ex_fido_run: "provision_and_register_fido ex_main ex_fido_setup =
  ([Println ''Key was successfully registered!'', WriteFile ''out'' '''', WriteFile ''out'' ''key'',
    Println ''You key fingerprint: key''], Ok ())"
  by (simp add: provision_and_register_fido_def deliver_fido_key_def agent_register_u2f_key_def register_u2f_key_async_def
      complete_rustica_challenge_def get_rustica_client_def rpc_def ex_main_def ex_fido_setup_def ex_fido_key_def
      ex_agent_env_def ex_uc_def ex_agent_config_def ex_api_def ex_agent_server_def ex_answered ex_ssh_keys)

theorem fido_key_registered_first_witness:
  "\<exists>s. s \<in> set (ac_servers ex_agent_config) \<and>
     register_u2f_key_async ex_ssh_direct ex_api s (Direct ''key'') ''ssh:'' (fk_attestation ex_fido_key) = Ok ()"
proof -
  have "mn_generate_new_ssh_key ex_main a c p d = Inr ex_fido_key" "cl_ssh (mn_cli ex_main) = ex_ssh_direct"
    "ae_api (mn_agent ex_main) = ex_api" "fk_private_key ex_fido_key = ''key''" for a c p d
    by (simp_all add: ex_main_def ex_agent_env_def ex_fido_key_def)
  with fido_key_registered_first [OF ex_fido_run] show ?thesis
    by (auto simp: ex_fido_setup_def ex_uc_def)
qed

end
