(* ===== verification/Ffi_Memory.thy ===== *)
theory Ffi_Memory
  imports Agent_Loop Agent_Keys
begin

text \<open>
  What the C interface of \<^verbatim>\<open>rustica-agent/src/ffi/\<close> shares: strings that come in from C, and the memory that is handed
  out to C. Blocks that C owns are kept in an explicit store, so that freeing a pointer that is not live, or with
  the wrong length, is undefined behaviour of the model. A panic in an \<^verbatim>\<open>extern "C"\<close> function aborts the process.
\<close>

section \<open>Outcomes\<close>

datatype 'a ffi = Returns 'a | Aborts | Undefined

fun ffi_bind :: "'a ffi \<Rightarrow> ('a \<Rightarrow> 'b ffi) \<Rightarrow> 'b ffi" where
  "ffi_bind (Returns x) f = f x"
| "ffi_bind Aborts f = Aborts"
| "ffi_bind Undefined f = Undefined"

lemma ffi_bind_Returns [simp, ok_iff]: "ffi_bind m f = Returns y \<longleftrightarrow> (\<exists>x. m = Returns x \<and> f x = Returns y)"
  by (cases m) auto

definition ffi_unwrap :: "'a option \<Rightarrow> 'a ffi" where
  "ffi_unwrap x = (case x of Some v \<Rightarrow> Returns v | None \<Rightarrow> Aborts)"

lemma ffi_unwrap_Returns [simp, ok_iff]: "ffi_unwrap x = Returns v \<longleftrightarrow> x = Some v"
  by (cases x) (simp_all add: ffi_unwrap_def)

text \<open>A \<^verbatim>\<open>return\<close> in the middle of a function: \<open>early none m f\<close> leaves with \<open>none\<close> when \<open>m\<close> has no value.\<close>

definition early :: "'b \<Rightarrow> 'a option \<Rightarrow> ('a \<Rightarrow> 'b ffi) \<Rightarrow> 'b ffi" where
  "early none m f = (case m of None \<Rightarrow> Returns none | Some x \<Rightarrow> f x)"

lemma early_Returns: "early none m f = Returns y \<longleftrightarrow>
     (m = None \<and> y = none) \<or> (\<exists>x. m = Some x \<and> f x = Returns y)"
  by (cases m) (auto simp: early_def)

lemma early_simps [simp]: "early none None f = Returns none" "early none (Some x) f = f x"
  by (simp_all add: early_def)

section \<open>Arguments from C\<close>

text \<open>A pointer to characters is null, or points to the bytes before a terminating zero.\<close>

datatype c_arg = CNull | CBytes bytes

text \<open>\<^verbatim>\<open>CStr::from_ptr(p).to_str()\<close>: undefined on null, no value unless the bytes are UTF-8.\<close>

fun c_str :: "c_arg \<Rightarrow> string option ffi" where
  "c_str CNull = Undefined"
| "c_str (CBytes b) = Returns (from_utf8 b)"

text \<open>An array is null or has elements; \<^verbatim>\<open>slice::from_raw_parts\<close> needs a pointer that is not null even for no elements.\<close>

datatype 'a c_array = NullArray | Elements "'a list"

fun from_raw_parts :: "'a c_array \<Rightarrow> u64 \<Rightarrow> 'a list ffi" where
  "from_raw_parts NullArray n = Undefined"
| "from_raw_parts (Elements xs) n = (if unat n \<le> length xs then Returns (take (unat n) xs) else Undefined)"

section \<open>Memory that C owns\<close>

datatype 'i block =
    StringBlock string
  | LongBlock "i64 list" nat
  | PointerBlock "nat list" nat
  | InstanceBlock 'i

record 'i c_heap =
  hp_blocks :: "nat \<rightharpoonup> 'i block"
  hp_next :: nat

definition heap_ok :: "'i c_heap \<Rightarrow> bool" where
  "heap_ok h \<longleftrightarrow> 0 < hp_next h \<and> (\<forall>p. p \<in> dom (hp_blocks h) \<longrightarrow> 0 < p \<and> p < hp_next h)"

definition allocate :: "'i block \<Rightarrow> 'i c_heap \<Rightarrow> nat \<times> 'i c_heap" where
  "allocate b h = (hp_next h, h\<lparr>hp_blocks := (hp_blocks h)(hp_next h \<mapsto> b), hp_next := Suc (hp_next h)\<rparr>)"

definition deallocate :: "nat \<Rightarrow> 'i c_heap \<Rightarrow> 'i c_heap" where
  "deallocate p h = h\<lparr>hp_blocks := (hp_blocks h)(p := None)\<rparr>"

text \<open>A Rust string has a C counterpart unless it has a zero in it.\<close>

definition cstring_new :: "string \<Rightarrow> string option" where
  "cstring_new s = (if CHR 0x00 \<in> set s then None else Some s)"

text \<open>A string for C: null when it has a zero in it.\<close>

definition give_string :: "string \<Rightarrow> 'i c_heap \<Rightarrow> nat \<times> 'i c_heap" where
  "give_string s h = (case cstring_new s of None \<Rightarrow> (0, h) | Some c \<Rightarrow> allocate (StringBlock c) h)"

definition ffi_free_rust_string :: "nat \<Rightarrow> 'i c_heap \<Rightarrow> 'i c_heap ffi" where
  "ffi_free_rust_string p h = (case hp_blocks h p of
     Some (StringBlock _) \<Rightarrow> Returns (deallocate p h) | _ \<Rightarrow> Undefined)"

fun give_strings :: "string list \<Rightarrow> 'i c_heap \<Rightarrow> nat list \<times> 'i c_heap" where
  "give_strings [] h = ([], h)"
| "give_strings (s # ss) h =
     (let (p, h1) = allocate (StringBlock s) h; (ps, h2) = give_strings ss h1 in (p # ps, h2))"

fun free_strings :: "nat list \<Rightarrow> 'i c_heap \<Rightarrow> 'i c_heap ffi" where
  "free_strings [] h = Returns h"
| "free_strings (p # ps) h = ffi_bind (ffi_free_rust_string p h) (free_strings ps)"

section \<open>Handles\<close>

text \<open>
  The contract of a resource handed to C: acquiring it gives a fresh pointer and leaves every other block alone;
  releasing that pointer gives the memory back; a pointer that is not live cannot be released.
\<close>

locale c_handle =
  fixes acquire :: "'i c_heap \<Rightarrow> nat \<times> 'i c_heap" and release :: "nat \<Rightarrow> 'i c_heap \<Rightarrow> 'i c_heap ffi"
  assumes acquire_ok: "heap_ok h \<Longrightarrow> heap_ok (snd (acquire h))"
    and acquire_fresh: "heap_ok h \<Longrightarrow> fst (acquire h) \<noteq> 0 \<and> hp_blocks h (fst (acquire h)) = None"
    and acquire_keeps: "heap_ok h \<Longrightarrow> hp_blocks h \<subseteq>\<^sub>m hp_blocks (snd (acquire h))"
    and acquire_live: "hp_blocks (snd (acquire h)) (fst (acquire h)) \<noteq> None"
    and release_acquired: "heap_ok h \<Longrightarrow>
      \<exists>h'. release (fst (acquire h)) (snd (acquire h)) = Returns h' \<and> hp_blocks h' = hp_blocks h"
    and release_dead: "hp_blocks h p = None \<Longrightarrow> release p h = Undefined"
begin

lemma release_twice:
  assumes "heap_ok h"
  shows "ffi_bind (release (fst (acquire h)) (snd (acquire h))) (release (fst (acquire h))) = Undefined"
proof -
  obtain h' where "release (fst (acquire h)) (snd (acquire h)) = Returns h'" "hp_blocks h' = hp_blocks h"
    using release_acquired [OF assms] by blast
  with acquire_fresh [OF assms] release_dead show ?thesis by simp
qed

lemma acquired_distinct:
  assumes "heap_ok h"
  shows "fst (acquire (snd (acquire h))) \<noteq> fst (acquire h)"
  using acquire_fresh [OF acquire_ok [OF assms]] acquire_live [of h] by metis

end

lemma allocate_simps:
  "fst (allocate b h) = hp_next h" "hp_blocks (snd (allocate b h)) = (hp_blocks h)(hp_next h \<mapsto> b)"
  "hp_next (snd (allocate b h)) = Suc (hp_next h)"
  by (simp_all add: allocate_def)

lemma heap_ok_next: "heap_ok h \<Longrightarrow> hp_next h \<noteq> 0 \<and> hp_blocks h (hp_next h) = None"
  by (auto simp: heap_ok_def)

lemma heap_ok_allocate: "heap_ok h \<Longrightarrow> heap_ok (snd (allocate b h))"
  by (auto simp: heap_ok_def allocate_def less_Suc_eq)

lemma deallocate_blocks [simp]: "hp_blocks (deallocate p h) = (hp_blocks h)(p := None)"
  by (simp add: deallocate_def)

lemma map_le_fresh: "m p = None \<Longrightarrow> m \<subseteq>\<^sub>m m(p \<mapsto> b)"
  by (auto simp: map_le_def)

interpretation string_handle: c_handle "allocate (StringBlock s)" ffi_free_rust_string for s
proof unfold_locales
  fix h :: "'i c_heap"
  assume h: "heap_ok h"
  show "\<exists>h'. ffi_free_rust_string (fst (allocate (StringBlock s) h)) (snd (allocate (StringBlock s) h)) = Returns h' \<and>
      hp_blocks h' = hp_blocks h"
    using heap_ok_next [OF h] by (auto simp: ffi_free_rust_string_def allocate_simps)
qed (simp_all add: heap_ok_allocate heap_ok_next allocate_simps map_le_fresh ffi_free_rust_string_def)

lemma string_freed_twice:
  "heap_ok h \<Longrightarrow> allocate (StringBlock s) h = (p, h1) \<Longrightarrow>
     ffi_bind (ffi_free_rust_string p h1) (ffi_free_rust_string p) = Undefined"
  using string_handle.release_twice [of h s] by simp

subsection \<open>Lists of strings\<close>

lemma give_strings_step:
  "give_strings (s # ss) h = (hp_next h # fst (give_strings ss (snd (allocate (StringBlock s) h))),
     snd (give_strings ss (snd (allocate (StringBlock s) h))))"
  by (simp add: allocate_def split_def Let_def)

lemma give_strings_closed:
  "fst (give_strings ss h) = [hp_next h..<hp_next h + length ss]"
  "hp_next (snd (give_strings ss h)) = hp_next h + length ss"
  "hp_blocks (snd (give_strings ss h)) q =
     (if hp_next h \<le> q \<and> q < hp_next h + length ss then Some (StringBlock (ss ! (q - hp_next h))) else hp_blocks h q)"
proof (induction ss arbitrary: h)
  case (Cons s ss)
  { case 1
    have "hp_next h # [Suc (hp_next h)..<Suc (hp_next h) + length ss] = [hp_next h..<hp_next h + length (s # ss)]"
      by (simp add: upt_conv_Cons del: upt_Suc)
    then show ?case by (simp only: give_strings_step fst_conv Cons.IH(1) allocate_simps) }
  { case 2 show ?case unfolding give_strings_step by (simp add: Cons.IH(2) allocate_simps) }
  { case 3
    have "q \<noteq> hp_next h \<Longrightarrow> hp_next h \<le> q \<Longrightarrow> q - hp_next h = Suc (q - Suc (hp_next h))" by simp
    then show ?case unfolding give_strings_step by (auto simp: Cons.IH(3) allocate_simps nth_Cons') }
qed auto

lemma heap_ok_give_strings: "heap_ok h \<Longrightarrow> heap_ok (snd (give_strings ss h))"
  by (force simp: heap_ok_def give_strings_closed dom_def split: if_splits)

lemma free_strings_spec:
  assumes "distinct ps" and "\<And>p. p \<in> set ps \<Longrightarrow> \<exists>s. hp_blocks h p = Some (StringBlock s)"
  shows "\<exists>h'. free_strings ps h = Returns h' \<and> hp_blocks h' = (\<lambda>q. if q \<in> set ps then None else hp_blocks h q)"
  using assms
proof (induction ps arbitrary: h)
  case Nil
  then show ?case by simp
next
  case (Cons p ps)
  let ?h1 = "deallocate p h"
  from Cons.prems(2) [of p] have first: "ffi_free_rust_string p h = Returns ?h1"
    by (auto simp: ffi_free_rust_string_def)
  have "\<exists>s. hp_blocks ?h1 p' = Some (StringBlock s)" if "p' \<in> set ps" for p'
    using Cons.prems(1) Cons.prems(2) [of p'] that by auto
  with Cons.IH [of ?h1] Cons.prems(1) obtain h' where "free_strings ps ?h1 = Returns h'"
    "hp_blocks h' = (\<lambda>q. if q \<in> set ps then None else hp_blocks ?h1 q)" by auto
  with first show ?case by auto
qed

text \<open>Strings that were given out can all be freed again, which gives the memory back as it was.\<close>

lemma free_given_strings:
  assumes "heap_ok h" and "hp_blocks h2 = hp_blocks (snd (give_strings ss h))"
  shows "\<exists>h3. free_strings (fst (give_strings ss h)) h2 = Returns h3 \<and> hp_blocks h3 = hp_blocks h"
proof -
  let ?ps = "fst (give_strings ss h)"
  have "\<exists>s. hp_blocks h2 p = Some (StringBlock s)" if "p \<in> set ?ps" for p
    using that by (simp add: assms(2) give_strings_closed)
  then obtain h3 where h3: "free_strings ?ps h2 = Returns h3"
    "hp_blocks h3 = (\<lambda>q. if q \<in> set ?ps then None else hp_blocks h2 q)"
    using free_strings_spec [of ?ps h2] by (auto simp: give_strings_closed(1))
  have "hp_blocks h q = None" if "hp_next h \<le> q" for q
    using assms(1) that by (force simp: heap_ok_def)
  then have "hp_blocks h3 = hp_blocks h"
    by (auto simp: h3(2) assms(2) give_strings_closed fun_eq_iff)
  with h3(1) show ?thesis by blast
qed

end
