(* ===== verification/Ffi_Signing.thy ===== *)
theory Ffi_Signing
  imports Ffi_Memory Server_Signers
begin

text \<open>
  \<^verbatim>\<open>rustica-agent/src/ffi/signing.rs\<close>: signing data for C programs and verifying a signature against a file of allowed
  signers. SSH signatures are a parameter. The last section joins the file's reader here with its writer, the
  server's \<^verbatim>\<open>allowed_signers\<close> handler.
\<close>

section \<open>Operations\<close>

text \<open>\<open>sl_sign\<close> is the armored text of a new signature; \<open>sl_verify\<close> checks one under a namespace and key.\<close>

record ('pk, 'sk, 'sig) signature_lib =
  sl_ssh :: "('pk, 'sk) ssh_lib"
  sl_private_from_path :: "string \<Rightarrow> 'sk option"
  sl_sign :: "bytes \<Rightarrow> string \<Rightarrow> 'sk \<Rightarrow> string option"
  sl_from_armored :: "string \<Rightarrow> 'sig option"
  sl_pubkey :: "'sig \<Rightarrow> 'pk"
  sl_verify :: "bytes \<Rightarrow> 'sig \<Rightarrow> string \<Rightarrow> 'pk \<Rightarrow> bool"
  sl_read_to_string :: "string \<Rightarrow> string option"

definition ffi_sign_data ::
    "('pk, 'sk, 'sig) signature_lib \<Rightarrow> c_arg \<Rightarrow> c_arg \<Rightarrow> u8 c_array \<Rightarrow> u64 \<Rightarrow> 'i c_heap \<Rightarrow> (nat \<times> 'i c_heap) ffi" where
  "ffi_sign_data S key_path namespace data data_len h =
     ffi_bind (c_str key_path) (\<lambda>key_path. early (0, h) key_path (\<lambda>key_path.
     early (0, h) (sl_private_from_path S key_path) (\<lambda>private_key.
     ffi_bind (c_str namespace) (\<lambda>namespace. early (0, h) namespace (\<lambda>namespace.
     ffi_bind (from_raw_parts data data_len) (\<lambda>data.
     early (0, h) (sl_sign S data namespace private_key) (\<lambda>signature. Returns (give_string signature h))))))))"

text \<open>\<^verbatim>\<open>str::lines\<close>: the pieces between line feeds, less a carriage return before one, and less an empty last piece.\<close>

definition strip_cr_suffix :: "string \<Rightarrow> string" where
  "strip_cr_suffix s = (if s \<noteq> [] \<and> last s = CHR 0x0D then butlast s else s)"

definition str_lines :: "string \<Rightarrow> string list" where
  "str_lines s = (let ps = split_on CHR 0x0A s in
     map strip_cr_suffix (butlast ps) @ (if last ps = [] then [] else [last ps]))"

text \<open>A line is a name, a space, and a public key (which may have spaces of its own).\<close>

definition parse_allowed_signer :: "('pk, 'sk) ssh_lib \<Rightarrow> string \<Rightarrow> ('pk \<times> string) option" where
  "parse_allowed_signer L line = (case dropWhile (\<lambda>c. c \<noteq> CHR '' '') line of
     [] \<Rightarrow> None
   | _ # rest \<Rightarrow> (case pk_from_string L rest of
       None \<Rightarrow> None
     | Some k \<Rightarrow> Some (k, takeWhile (\<lambda>c. c \<noteq> CHR '' '') line)))"

definition ffi_verify_signed_data ::
    "('pk, 'sk, 'sig) signature_lib \<Rightarrow> c_arg \<Rightarrow> c_arg \<Rightarrow> u8 c_array \<Rightarrow> u64 \<Rightarrow> c_arg \<Rightarrow> 'i c_heap
     \<Rightarrow> (nat \<times> 'i c_heap) ffi" where
  "ffi_verify_signed_data S allowed_signers_path namespace data data_len signature_contents h =
     ffi_bind (c_str signature_contents) (\<lambda>contents. early (0, h) contents (\<lambda>contents.
     early (0, h) (sl_from_armored S contents) (\<lambda>ssh_signature.
     ffi_bind (c_str allowed_signers_path) (\<lambda>path. early (0, h) path (\<lambda>path.
     early (0, h) (sl_read_to_string S path) (\<lambda>allowed_signers.
     early (0, h) (find (\<lambda>x. sl_pubkey S ssh_signature = fst x)
         (List.map_filter (parse_allowed_signer (sl_ssh S)) (str_lines allowed_signers))) (\<lambda>allowed_signer.
     ffi_bind (from_raw_parts data data_len) (\<lambda>message.
     ffi_bind (c_str namespace) (\<lambda>namespace. early (0, h) namespace (\<lambda>namespace.
       if sl_verify S message ssh_signature namespace (fst allowed_signer)
       then Returns (give_string (snd allowed_signer) h) else Returns (0, h)))))))))))"

section \<open>The reader and the writer of the allowed signers\<close>

lemma str_lines_join:
  assumes "list_all (\<lambda>l. CHR 0x0A \<notin> set l \<and> l \<noteq> [] \<and> last l \<noteq> CHR 0x0D) ls"
  shows "str_lines (join_with [CHR 0x0A] ls) = ls"
proof (cases "ls = []")
  case True
  then show ?thesis by (simp add: str_lines_def)
next
  case False
  have "map strip_cr_suffix (butlast ls) = butlast ls"
    using assms by (intro map_idI) (auto simp: strip_cr_suffix_def list_all_iff dest: in_set_butlastD)
  moreover have "last ls \<noteq> []" using assms False by (auto simp: list_all_iff)
  moreover have "split_on CHR 0x0A (join_with [CHR 0x0A] ls) = ls"
    using assms False by (intro split_join) (auto simp: list_all_iff)
  ultimately show ?thesis using False by (simp add: str_lines_def)
qed

text \<open>
  Signers whose lines can be read back: the name has no space (nor anything that ends a line or a string), the key is
  one line.
\<close>

definition plain_signer :: "allowed_signer \<Rightarrow> bool" where
  "plain_signer s \<longleftrightarrow> set (as_identity s) \<inter> {CHR 0x00, CHR 0x0A, CHR '' ''} = {} \<and>
     CHR 0x0A \<notin> set (as_pubkey s) \<and> as_pubkey s \<noteq> [] \<and> last (as_pubkey s) \<noteq> CHR 0x0D"

lemma parse_allowed_signer_line:
  assumes "CHR '' '' \<notin> set name"
  shows "parse_allowed_signer L (name @ '' '' @ k) = map_option (\<lambda>k. (k, name)) (pk_from_string L k)"
proof -
  have "dropWhile (\<lambda>c. c \<noteq> CHR '' '') (name @ '' '' @ k) = CHR '' '' # k"
    "takeWhile (\<lambda>c. c \<noteq> CHR '' '') (name @ '' '' @ k) = name"
    using assms by (auto simp: dropWhile_append takeWhile_append takeWhile_eq_all_conv)
  then show ?thesis by (simp add: parse_allowed_signer_def split: option.split)
qed

lemma map_filter_map_cong:
  "(\<And>x. x \<in> set xs \<Longrightarrow> f (g x) = k x) \<Longrightarrow> List.map_filter f (map g xs) = List.map_filter k xs"
  by (induction xs) (auto simp: List.map_filter_simps split: option.split)

lemma read_allowed_signers:
  assumes "list_all plain_signer (as_allowed_signers a)"
  shows "List.map_filter (parse_allowed_signer L) (str_lines (allowed_signers_text a)) =
     List.map_filter (\<lambda>s. map_option (\<lambda>k. (k, as_identity s)) (pk_from_string L (as_pubkey s))) (as_allowed_signers a)"
proof -
  let ?line = "\<lambda>s. as_identity s @ '' '' @ as_pubkey s"
  have "str_lines (allowed_signers_text a) = map ?line (as_allowed_signers a)"
    unfolding allowed_signers_text_def using assms
    by (intro str_lines_join) (auto simp: list_all_iff plain_signer_def)
  moreover have "parse_allowed_signer L (?line s) = map_option (\<lambda>k. (k, as_identity s)) (pk_from_string L (as_pubkey s))"
    if "s \<in> set (as_allowed_signers a)" for s
    using assms that by (intro parse_allowed_signer_line) (auto simp: list_all_iff plain_signer_def)
  ultimately show ?thesis by (simp only: map_filter_map_cong)
qed

lemma find_map_filter:
  "find (\<lambda>x. key = fst x) (List.map_filter (\<lambda>s. map_option (\<lambda>k. (k, name s)) (f s)) xs) =
     map_option (\<lambda>s. (key, name s)) (find (\<lambda>s. f s = Some key) xs)"
  by (induction xs) (auto simp: List.map_filter_simps split: option.split)

text \<open>
  C27: A C program that verifies a signature against the allowed signers is told the right name: given a file that holds
  the list as the server writes it (of signers whose names have no space, line break or zero and whose keys are one line each), the result is the name of the first signer in the
  server's list whose key made the signature, in a fresh string that C can free, if the signature is good for the data
  and the namespace; and null, with no memory taken, in every other case.
\<close>

theorem verified_signer:
  assumes "sl_read_to_string S path = Some (allowed_signers_text a)" and "list_all plain_signer (as_allowed_signers a)"
    and "from_utf8 pb = Some path" and "from_utf8 nb = Some namespace" and "from_utf8 sb = Some contents"
    and "sl_from_armored S contents = Some sg" and "unat len \<le> length data"
  shows "ffi_verify_signed_data S (CBytes pb) (CBytes nb) (Elements data) len (CBytes sb) h =
     (case find (\<lambda>s. pk_from_string (sl_ssh S) (as_pubkey s) = Some (sl_pubkey S sg)) (as_allowed_signers a) of
        Some s \<Rightarrow> if sl_verify S (take (unat len) data) sg namespace (sl_pubkey S sg)
                  then Returns (allocate (StringBlock (as_identity s)) h) else Returns (0, h)
      | None \<Rightarrow> Returns (0, h))"
proof -
  have named: "cstring_new (as_identity s) = Some (as_identity s)"
    if "find P (as_allowed_signers a) = Some s" for s P
    using that assms(2) by (auto simp: find_Some_iff cstring_new_def list_all_length plain_signer_def)
  show ?thesis
    using assms named
    by (simp add: ffi_verify_signed_data_def read_allowed_signers find_map_filter give_string_def split: option.split)
qed

text \<open>A name with a space in it is cut there, and what follows is taken for the key.\<close>

lemma spaced_name_cut:
  assumes "CHR '' '' \<notin> set first"
  shows "parse_allowed_signer L ((first @ '' '' @ second) @ '' '' @ k) =
     map_option (\<lambda>k. (k, first)) (pk_from_string L (second @ '' '' @ k))"
  using parse_allowed_signer_line [OF assms, of L "second @ '' '' @ k"] by simp

end
