(* ===== verification/Ffi_Agent.thy ===== *)
theory Ffi_Agent
  imports Ffi_Memory
begin

text \<open>
  \<^verbatim>\<open>rustica-agent/src/ffi/agent.rs\<close> and \<^verbatim>\<open>mod.rs\<close>: starting, using and stopping an agent from C. A running
  agent is a block in the memory C holds a pointer to. The asynchronous runtime is a parameter (whether one can be
  made), as are Yubikeys and the X.509 parser.
\<close>

section \<open>Data\<close>

record ('pk, 'sk) rustica_agent_instance =
  ri_handler :: "('pk, 'sk) handler"
  ri_socket_path :: string

type_synonym ('pk, 'sk) ffi_heap = "('pk, 'sk) rustica_agent_instance c_heap"

text \<open>\<open>fe_parse_pem\<close> and \<open>fe_x509_not_after\<close>: the body of a PEM block, and the expiry of an encoded certificate.\<close>

record ('pk, 'sk) ffi_env =
  fe_agent :: "('pk, 'sk) agent_env"
  fe_keys :: "'pk key_env"
  fe_open :: "u32 \<Rightarrow> 'pk yubikey_device option"
  fe_set_pin :: "string \<Rightarrow> 'sk \<Rightarrow> 'sk"
  fe_set_device_path :: "string \<Rightarrow> 'sk \<Rightarrow> 'sk"
  fe_runtime :: bool
  fe_parse_pem :: "string \<Rightarrow> bytes option"
  fe_x509_not_after :: "bytes \<Rightarrow> i64 option"

section \<open>Operations\<close>

text \<open>An argument that may be null: no value at all when it is there and not UTF-8.\<close>

fun opt_c_str :: "c_arg \<Rightarrow> string option option" where
  "opt_c_str CNull = Some None"
| "opt_c_str (CBytes b) = (case from_utf8 b of None \<Rightarrow> None | Some s \<Rightarrow> Some (Some s))"

text \<open>The configuration that a path argument names.\<close>

definition config_arg :: "('pk, 'sk) ffi_env \<Rightarrow> string \<Rightarrow> updatable_configuration option" where
  "config_arg E path = (case new_updatable_configuration (ae_fs (fe_agent E)) path of Ok uc \<Rightarrow> Some uc | _ \<Rightarrow> None)"

definition pin_of_long :: "i64 \<Rightarrow> string option" where
  "pin_of_long x = (let pin = ucast x :: u32 in if pin \<noteq> 0 then Some (show_nat (unat pin)) else None)"

fun slots_for :: "'pk key_env \<Rightarrow> u8 list \<Rightarrow> slot_id list option" where
  "slots_for K [] = Some []"
| "slots_for K (b # bs) = (case ke_slot_try_from K b of
     None \<Rightarrow> None
   | Some s \<Rightarrow> map_option (\<lambda>ss. s # ss) (slots_for K bs))"

fun piv_identities_for ::
    "('pk, 'sk) ssh_lib \<Rightarrow> 'pk key_env \<Rightarrow> ((u32 \<times> slot_id) \<times> string option) list
     \<Rightarrow> (bytes, 'pk piv_descriptor) hashmap \<Rightarrow> (bytes, 'pk piv_descriptor) hashmap option" where
  "piv_identities_for L K [] m = Some m"
| "piv_identities_for L K (((serial, slot), pin) # xs) m = (case ke_open K serial of
     None \<Rightarrow> None
   | Some yk \<Rightarrow> (case oy_fetch_pubkey yk slot of
       None \<Rightarrow> None
     | Some pubkey \<Rightarrow> piv_identities_for L K xs (hm_insert (pk_encode L pubkey)
         \<lparr>pv_serial = serial, pv_slot = slot, pv_public_key = pubkey, pv_pin = pin,
          pv_subject = (case oy_fetch_subject yk slot of None \<Rightarrow> '''' | Some s \<Rightarrow> s)\<rparr> m)))"

definition ffi_handler ::
    "('pk, 'sk) ffi_env \<Rightarrow> updatable_configuration \<Rightarrow> string \<Rightarrow> 'pk \<Rightarrow> ('pk, 'sk) signatory
     \<Rightarrow> (bytes, 'pk piv_descriptor) hashmap \<Rightarrow> bool \<Rightarrow> ('pk, 'sk) handler" where
  "ffi_handler E uc authority pubkey sg piv_identities certificate_priority =
     \<lparr>hd_configuration = uc, hd_cert = None, hd_pubkey = pubkey, hd_signatory = sg, hd_stale_at = 0,
      hd_certificate_options = (certificate_config_from (ae_ssh (fe_agent E)) (ac_options (uc_configuration uc)))
        \<lparr>cc_authority := authority\<rparr>,
      hd_identities = [], hd_piv_identities = piv_identities, hd_notification_function = True,
      hd_certificate_priority = certificate_priority, hd_notified = 0\<rparr>"

text \<open>The agent runs on the runtime of the instance, which is leaked to C.\<close>

definition start_instance ::
    "('pk, 'sk) handler \<Rightarrow> string \<Rightarrow> ('pk, 'sk) ffi_heap \<Rightarrow> nat \<times> ('pk, 'sk) ffi_heap" where
  [simp]: "start_instance handler socket_path h =
     allocate (InstanceBlock \<lparr>ri_handler = handler, ri_socket_path = socket_path\<rparr>) h"

definition start_direct_rustica_agent_with_piv_idents ::
    "('pk, 'sk) ffi_env \<Rightarrow> c_arg \<Rightarrow> c_arg \<Rightarrow> c_arg \<Rightarrow> c_arg \<Rightarrow> c_arg \<Rightarrow> c_arg \<Rightarrow> bool
     \<Rightarrow> i64 c_array \<Rightarrow> u8 c_array \<Rightarrow> i64 c_array \<Rightarrow> i32 \<Rightarrow> ('pk, 'sk) ffi_heap \<Rightarrow> (nat \<times> ('pk, 'sk) ffi_heap) ffi" where
  "start_direct_rustica_agent_with_piv_idents E private_key config_path socket_path pin device authority
     certificate_priority piv_serials piv_slot_ids piv_pins piv_key_count h = (let L = ae_ssh (fe_agent E) in
     ffi_bind (c_str config_path) (\<lambda>p. early (0, h) p (\<lambda>config_path.
     early (0, h) (config_arg E config_path) (\<lambda>uc.
     ffi_bind (c_str socket_path) (\<lambda>p. early (0, h) p (\<lambda>socket_path.
     ffi_bind (c_str authority) (\<lambda>p. early (0, h) p (\<lambda>authority.
     ffi_bind (c_str private_key) (\<lambda>p. early (0, h) p (\<lambda>text.
     early (0, h) (sk_from_string L text) (\<lambda>k.
     early (0, h) (opt_c_str pin) (\<lambda>pin.
     let k = (case pin of None \<Rightarrow> k | Some pin \<Rightarrow> fe_set_pin E pin k) in
     early (0, h) (opt_c_str device) (\<lambda>device.
     let k = (case device of None \<Rightarrow> k | Some device \<Rightarrow> fe_set_device_path E device k);
         count = (scast piv_key_count :: u64) in
     ffi_bind (from_raw_parts piv_serials count) (\<lambda>serials.
     ffi_bind (from_raw_parts piv_pins count) (\<lambda>pins.
     ffi_bind (from_raw_parts piv_slot_ids count) (\<lambda>slot_bytes.
     early (0, h) (slots_for (fe_keys E) slot_bytes) (\<lambda>slots.
     early (0, h) (piv_identities_for L (fe_keys E)
         (zip (zip (map ucast serials) slots) (map pin_of_long pins)) []) (\<lambda>piv_identities.
     if \<not> fe_runtime E then Returns (0, h)
     else Returns (start_instance
       (ffi_handler E uc authority (sk_pubkey L k) (Direct k) piv_identities certificate_priority) socket_path h)))))))))))))))))))"

definition start_direct_rustica_agent ::
    "('pk, 'sk) ffi_env \<Rightarrow> c_arg \<Rightarrow> c_arg \<Rightarrow> c_arg \<Rightarrow> c_arg \<Rightarrow> c_arg \<Rightarrow> c_arg \<Rightarrow> bool
     \<Rightarrow> ('pk, 'sk) ffi_heap \<Rightarrow> (nat \<times> ('pk, 'sk) ffi_heap) ffi" where
  "start_direct_rustica_agent E private_key config_path socket_path pin device authority certificate_priority h =
     start_direct_rustica_agent_with_piv_idents E private_key config_path socket_path pin device authority
       certificate_priority NullArray NullArray NullArray 0 h"

text \<open>Stopping takes the instance back from C and drops it, its runtime and tasks with it.\<close>

definition shutdown_rustica_agent :: "nat \<Rightarrow> ('pk, 'sk) ffi_heap \<Rightarrow> (bool \<times> ('pk, 'sk) ffi_heap) ffi" where
  "shutdown_rustica_agent rai h = (case hp_blocks h rai of
     Some (InstanceBlock _) \<Rightarrow> Returns (True, deallocate rai h) | _ \<Rightarrow> Undefined)"

definition start_yubikey_rustica_agent ::
    "('pk, 'sk) ffi_env \<Rightarrow> u32 \<Rightarrow> u8 \<Rightarrow> c_arg \<Rightarrow> c_arg \<Rightarrow> c_arg \<Rightarrow> bool
     \<Rightarrow> ('pk, 'sk) ffi_heap \<Rightarrow> (nat \<times> ('pk, 'sk) ffi_heap) ffi" where
  "start_yubikey_rustica_agent E yubikey_serial slot config_path socket_path authority certificate_priority h =
     ffi_bind (c_str authority) (\<lambda>p. early (0, h) p (\<lambda>authority.
     ffi_bind (c_str config_path) (\<lambda>p. early (0, h) p (\<lambda>config_path.
     early (0, h) (config_arg E config_path) (\<lambda>uc.
     if \<not> fe_runtime E then Returns (0, h)
     else ffi_bind (ffi_unwrap (fe_open E yubikey_serial)) (\<lambda>yk.
     ffi_bind (ffi_unwrap (ke_slot_try_from (fe_keys E) slot)) (\<lambda>slot.
     early (0, h) (yd_fetch_pubkey yk slot) (\<lambda>pubkey.
     ffi_bind (c_str socket_path) (\<lambda>p. early (0, h) p (\<lambda>socket_path.
       Returns (start_instance
         (ffi_handler E uc authority pubkey (YubikeySignatory slot yk) [] certificate_priority) socket_path h)))))))))))"

definition ffi_get_git_config_string_from_private_key ::
    "('pk, 'sk) ssh_lib \<Rightarrow> c_arg \<Rightarrow> 'i c_heap \<Rightarrow> (nat \<times> 'i c_heap) ffi" where
  "ffi_get_git_config_string_from_private_key L private_key h =
     ffi_bind (c_str private_key) (\<lambda>p. early (0, h) p (\<lambda>text.
     early (0, h) (sk_from_string L text) (\<lambda>k.
       Returns (give_string (git_config_from_public_key L (sk_pubkey L k)) h))))"

text \<open>The instance stays C's: the box it was taken into is leaked again.\<close>

definition ffi_get_certificate ::
    "('pk, 'sk) ffi_env \<Rightarrow> u64 option \<Rightarrow> (nat \<Rightarrow> u64 option) \<Rightarrow> nat \<Rightarrow> bool \<Rightarrow> ('pk, 'sk) ffi_heap
     \<Rightarrow> (nat \<times> ('pk, 'sk) ffi_heap) ffi" where
  "ffi_get_certificate E now nows rai fetch_new_cert_if_needed h = (case hp_blocks h rai of
     Some (InstanceBlock i) \<Rightarrow>
       (case get_certificate_async (fe_agent E) now nows fetch_new_cert_if_needed (ri_handler i) of
          (hd', r) \<Rightarrow>
            let h' = h\<lparr>hp_blocks := (hp_blocks h)(rai \<mapsto> InstanceBlock (i\<lparr>ri_handler := hd'\<rparr>))\<rparr> in
            (case r of
               Panic \<Rightarrow> Aborts
             | Err _ \<Rightarrow> Returns (0, h')
             | Ok None \<Rightarrow> Returns (0, h')
             | Ok (Some cert) \<Rightarrow> Returns (give_string (cert_to_string (ae_ssh (fe_agent E)) cert) h')))
   | _ \<Rightarrow> Undefined)"

text \<open>The expiry of the client certificate for the first server, or a code for what is wrong.\<close>

definition ffi_get_expiry_of_primary_server :: "('pk, 'sk) ffi_env \<Rightarrow> c_arg \<Rightarrow> i64 ffi" where
  "ffi_get_expiry_of_primary_server E config_path =
     ffi_bind (c_str config_path) (\<lambda>p. early (- 1) p (\<lambda>config_path.
     case config_arg E config_path of
       None \<Rightarrow> Returns 1
     | Some uc \<Rightarrow> (case ac_servers (uc_configuration uc) of
         [] \<Rightarrow> Returns (- 1)
       | server # _ \<Rightarrow> (case fe_parse_pem E (ag_mtls_cert server) of
           None \<Rightarrow> Returns (- 1)
         | Some der \<Rightarrow> (case fe_x509_not_after E der of None \<Rightarrow> Returns (- 2) | Some t \<Rightarrow> Returns t)))))"

section \<open>Properties\<close>

interpretation instance_handle:
  c_handle "allocate (InstanceBlock i)" "\<lambda>p h. ffi_bind (shutdown_rustica_agent p h) (\<lambda>r. Returns (snd r))"
  for i :: "('pk, 'sk) rustica_agent_instance"
proof unfold_locales
  fix h :: "('pk, 'sk) ffi_heap"
  assume h: "heap_ok h"
  show "\<exists>h'. ffi_bind (shutdown_rustica_agent (fst (allocate (InstanceBlock i) h)) (snd (allocate (InstanceBlock i) h)))
        (\<lambda>r. Returns (snd r)) = Returns h' \<and> hp_blocks h' = hp_blocks h"
    using heap_ok_next [OF h] by (auto simp: shutdown_rustica_agent_def allocate_simps)
qed (simp_all add: heap_ok_allocate heap_ok_next allocate_simps map_le_fresh shutdown_rustica_agent_def)

text \<open>
  The simple start function cannot be used: it passes null for the three arrays, from which a slice must not be made
  even when it is to have no elements. Whenever it returns without undefined behaviour it returns null, some argument
  having been refused before.
\<close>

theorem simple_start_never_starts:
  "start_direct_rustica_agent E private_key config_path socket_path pin device authority certificate_priority h
     \<in> {Returns (0, h), Undefined}"
  by (cases private_key; cases config_path; cases socket_path; cases authority)
     (auto simp: start_direct_rustica_agent_def start_direct_rustica_agent_with_piv_idents_def early_def Let_def
       split: option.splits)

text \<open>
  What the PIV identities given by C are: for each serial number, slot and PIN that C named (the list \<open>xs\<close>) the key found in
  that slot, and nothing else.
\<close>

definition ffi_piv_entry ::
    "('pk, 'sk) ssh_lib \<Rightarrow> 'pk key_env \<Rightarrow> (u32 \<times> slot_id) \<times> string option \<Rightarrow> bytes \<Rightarrow> 'pk piv_descriptor \<Rightarrow> bool" where
  "ffi_piv_entry L K x blob d \<longleftrightarrow> x = ((pv_serial d, pv_slot d), pv_pin d) \<and> blob = pk_encode L (pv_public_key d) \<and>
     (\<exists>yk. ke_open K (pv_serial d) = Some yk \<and> oy_fetch_pubkey yk (pv_slot d) = Some (pv_public_key d))"

definition ffi_piv_entries ::
    "('pk, 'sk) ssh_lib \<Rightarrow> 'pk key_env \<Rightarrow> ((u32 \<times> slot_id) \<times> string option) list \<Rightarrow> (bytes, 'pk piv_descriptor) hashmap
     \<Rightarrow> bool" where
  "ffi_piv_entries L K xs m \<longleftrightarrow>
     (\<forall>blob d. map_of m blob = Some d \<longrightarrow> (\<exists>x \<in> set xs. ffi_piv_entry L K x blob d)) \<and>
     (\<forall>x \<in> set xs. \<exists>blob d. ffi_piv_entry L K x blob d \<and> blob \<in> dom (map_of m))"

lemma ffi_piv_entries_insert:
  "ffi_piv_entries L K xs m \<Longrightarrow> ffi_piv_entry L K x blob d \<Longrightarrow> ffi_piv_entries L K (xs @ [x]) (hm_insert blob d m)"
  by (fastforce simp: ffi_piv_entries_def update_conv')

lemma piv_identities_for_entries:
  "piv_identities_for L K xs m = Some m' \<Longrightarrow> ffi_piv_entries L K ys m \<Longrightarrow> ffi_piv_entries L K (ys @ xs) m'"
proof (induction L K xs m arbitrary: ys rule: piv_identities_for.induct)
  case (1 L K m)
  then show ?case by simp
next
  case (2 L K serial slot pin xs m)
  from "2.prems"(1) obtain yk pubkey where yk: "ke_open K serial = Some yk" "oy_fetch_pubkey yk slot = Some pubkey"
    by (auto split: option.splits)
  let ?d = "\<lparr>pv_serial = serial, pv_slot = slot, pv_public_key = pubkey, pv_pin = pin,
     pv_subject = (case oy_fetch_subject yk slot of None \<Rightarrow> '''' | Some s \<Rightarrow> s)\<rparr>"
  have "ffi_piv_entry L K ((serial, slot), pin) (pk_encode L pubkey) ?d" using yk by (simp add: ffi_piv_entry_def)
  from ffi_piv_entries_insert [OF "2.prems"(2) this] "2.prems"(1) yk show ?case
    using "2.IH" [OF yk, of "ys @ [((serial, slot), pin)]"] by simp
qed

lemma slots_for_Some: "slots_for K bs = Some slots \<longleftrightarrow> list_all2 (\<lambda>b s. ke_slot_try_from K b = Some s) bs slots"
  by (induction bs arbitrary: slots) (auto simp: list_all2_Cons1 split: option.splits)

text \<open>What C gets when an agent was started: a pointer to a handler that has just begun.\<close>

definition started_instance ::
    "('pk, 'sk) ffi_env \<Rightarrow> ((u32 \<times> slot_id) \<times> string option) list \<Rightarrow> ('pk, 'sk) ffi_heap \<Rightarrow> nat \<Rightarrow> ('pk, 'sk) ffi_heap
     \<Rightarrow> ('pk, 'sk) rustica_agent_instance \<Rightarrow> bool" where
  "started_instance E xs h rai h' i \<longleftrightarrow> rai \<noteq> 0 \<and> hp_blocks h rai = None \<and>
     hp_blocks h' = (hp_blocks h)(rai \<mapsto> InstanceBlock i) \<and> heap_ok h' \<and>
     handler_inv (ri_handler i) \<and> hd_cert (ri_handler i) = None \<and> hd_identities (ri_handler i) = [] \<and>
     (case hd_signatory (ri_handler i) of
        Direct k \<Rightarrow> hd_pubkey (ri_handler i) = sk_pubkey (ae_ssh (fe_agent E)) k
      | YubikeySignatory slot yk \<Rightarrow> yd_fetch_pubkey yk slot = Some (hd_pubkey (ri_handler i))) \<and>
     ffi_piv_entries (ae_ssh (fe_agent E)) (fe_keys E) xs (hd_piv_identities (ri_handler i))"

lemma allocate_started:
  assumes "heap_ok h" and "allocate (InstanceBlock i) h = (rai, h')"
    and "ri_handler i = ffi_handler E uc authority pubkey sg piv prio"
    and "case sg of Direct k \<Rightarrow> pubkey = sk_pubkey (ae_ssh (fe_agent E)) k
       | YubikeySignatory slot yk \<Rightarrow> yd_fetch_pubkey yk slot = Some pubkey"
    and "ffi_piv_entries (ae_ssh (fe_agent E)) (fe_keys E) xs piv"
  shows "started_instance E xs h rai h' i"
proof -
  have "rai = hp_next h" "hp_blocks h' = (hp_blocks h)(rai \<mapsto> InstanceBlock i)" "heap_ok h'"
    using assms(2) heap_ok_allocate [OF assms(1), of "InstanceBlock i"] by (auto simp: allocate_def)
  with assms heap_ok_next [OF assms(1)] show ?thesis
    by (cases sg) (simp_all add: started_instance_def ffi_handler_def handler_inv_def)
qed

text \<open>
  C29: An agent that C starts with a private key and PIV keys is sound: a pointer other than null is fresh and points to a
  handler that satisfies the agent's invariant, has no certificate yet, has the configuration and the private key that C
  named (with the PIN and the device that C gave), asks certificates for the public part of that key, and serves as further
  keys exactly the keys found in the slots that C named, each with the serial number and PIN at the same place in
  C's arrays; a null pointer changes no memory.
\<close>

theorem ffi_started_agent:
  assumes "heap_ok h"
    and "start_direct_rustica_agent_with_piv_idents E private_key config_path socket_path pin device authority
      certificate_priority piv_serials piv_slot_ids piv_pins piv_key_count h = Returns (rai, h')"
  shows "rai = 0 \<and> h' = h \<or> (\<exists>i serials slot_bytes slots pins key_text config k p d.
     from_raw_parts piv_serials (scast piv_key_count) = Returns serials \<and>
     from_raw_parts piv_slot_ids (scast piv_key_count) = Returns slot_bytes \<and>
     from_raw_parts piv_pins (scast piv_key_count) = Returns pins \<and>
     list_all2 (\<lambda>b s. ke_slot_try_from (fe_keys E) b = Some s) slot_bytes slots \<and>
     started_instance E (zip (zip (map ucast serials) slots) (map pin_of_long pins)) h rai h' i \<and>
     c_str config_path = Returns (Some config) \<and> config_arg E config = Some (hd_configuration (ri_handler i)) \<and>
     c_str socket_path = Returns (Some (ri_socket_path i)) \<and>
     c_str private_key = Returns (Some key_text) \<and> sk_from_string (ae_ssh (fe_agent E)) key_text = Some k \<and>
     opt_c_str pin = Some p \<and> opt_c_str device = Some d \<and>
     hd_signatory (ri_handler i) = Direct
       ((case d of None \<Rightarrow> id | Some path \<Rightarrow> fe_set_device_path E path)
         ((case p of None \<Rightarrow> id | Some digits \<Rightarrow> fe_set_pin E digits) k)))"
proof (cases "rai = 0 \<and> h' = h")
  case False
  let ?L = "ae_ssh (fe_agent E)" and ?n = "scast piv_key_count :: u64"
  let ?key = "\<lambda>p d k. (case d of None \<Rightarrow> id | Some path \<Rightarrow> fe_set_device_path E path)
         ((case p of None \<Rightarrow> id | Some digits \<Rightarrow> fe_set_pin E digits) k)"
  have key: "(case d of None \<Rightarrow> (case p of None \<Rightarrow> k | Some pin \<Rightarrow> fe_set_pin E pin k)
      | Some device \<Rightarrow> fe_set_device_path E device (case p of None \<Rightarrow> k | Some pin \<Rightarrow> fe_set_pin E pin k)) = ?key p d k"
    for p d k by (simp split: option.split)
  from False assms(2) obtain uc authority' k p d piv socket serials slot_bytes slots pins config key_text where run:
    "allocate (InstanceBlock \<lparr>ri_handler = ffi_handler E uc authority' (sk_pubkey ?L (?key p d k)) (Direct (?key p d k)) piv
        certificate_priority, ri_socket_path = socket\<rparr>) h = (rai, h')"
    "piv_identities_for ?L (fe_keys E) (zip (zip (map ucast serials) slots) (map pin_of_long pins)) [] = Some piv"
    and arguments: "from_raw_parts piv_serials ?n = Returns serials" "from_raw_parts piv_slot_ids ?n = Returns slot_bytes"
    "from_raw_parts piv_pins ?n = Returns pins" "slots_for (fe_keys E) slot_bytes = Some slots"
    "c_str config_path = Returns (Some config)" "config_arg E config = Some uc" "c_str socket_path = Returns (Some socket)"
    "c_str private_key = Returns (Some key_text)" "sk_from_string ?L key_text = Some k"
    "opt_c_str pin = Some p" "opt_c_str device = Some d"
    by (auto simp: start_direct_rustica_agent_with_piv_idents_def early_Returns Let_def key split: if_splits)
  let ?i = "\<lparr>ri_handler = ffi_handler E uc authority' (sk_pubkey ?L (?key p d k)) (Direct (?key p d k)) piv
        certificate_priority, ri_socket_path = socket\<rparr>"
  have entries: "ffi_piv_entries ?L (fe_keys E) (zip (zip (map ucast serials) slots) (map pin_of_long pins)) piv"
    using piv_identities_for_entries [OF run(2), of "[]"] by (simp add: ffi_piv_entries_def)
  have "started_instance E (zip (zip (map ucast serials) slots) (map pin_of_long pins)) h rai h' ?i"
    by (rule allocate_started [OF assms(1) run(1)], simp, simp only: signatory.case, rule entries)
  moreover have "hd_configuration (ri_handler ?i) = uc" "hd_signatory (ri_handler ?i) = Direct (?key p d k)"
    "ri_socket_path ?i = socket" by (simp_all add: ffi_handler_def)
  ultimately show ?thesis using arguments unfolding slots_for_Some by metis
qed simp

lemma ffi_started_yubikey_agent:
  assumes "heap_ok h"
    and "start_yubikey_rustica_agent E serial slot config_path socket_path authority certificate_priority h = Returns (rai, h')"
  shows "rai = 0 \<and> h' = h \<or> (\<exists>i. started_instance E [] h rai h' i)"
proof (cases "rai = 0 \<and> h' = h")
  case False
  with assms(2) obtain uc authority' yk sl pubkey socket where run:
    "allocate (InstanceBlock \<lparr>ri_handler = ffi_handler E uc authority' pubkey (YubikeySignatory sl yk) []
        certificate_priority, ri_socket_path = socket\<rparr>) h = (rai, h')"
    "yd_fetch_pubkey yk sl = Some pubkey"
    by (auto simp: start_yubikey_rustica_agent_def early_Returns split: if_splits)
  have "started_instance E [] h rai h' \<lparr>ri_handler = ffi_handler E uc authority' pubkey (YubikeySignatory sl yk) []
        certificate_priority, ri_socket_path = socket\<rparr>"
    by (rule allocate_started [OF assms(1) run(1)], simp, simp add: run(2), simp add: ffi_piv_entries_def)
  then show ?thesis by blast
qed simp

text \<open>
  Asking for a certificate keeps the instance where it is, with the agent's invariant, and takes memory only for the
  text of the certificate; after a shutdown the same call is undefined.
\<close>

lemma ffi_get_certificate_keeps:
  assumes "heap_ok h" and "hp_blocks h rai = Some (InstanceBlock i)" and "handler_inv (ri_handler i)"
    and "ffi_get_certificate E now nows rai fetch h = Returns (p, h')"
  shows "heap_ok h' \<and> (\<exists>i'. hp_blocks h' rai = Some (InstanceBlock i') \<and> handler_inv (ri_handler i')) \<and>
     (p \<noteq> 0 \<longrightarrow> p \<noteq> rai \<and> hp_blocks h p = None \<and> (\<exists>s. hp_blocks h' p = Some (StringBlock s))) \<and>
     (\<forall>q. q \<noteq> rai \<and> q \<noteq> p \<longrightarrow> hp_blocks h' q = hp_blocks h q)"
proof -
  obtain hd' r where g: "get_certificate_async (fe_agent E) now nows fetch (ri_handler i) = (hd', r)"
    by (rule prod.exhaust)
  note inv = get_certificate_inv [OF assms(3) g]
  let ?h = "h\<lparr>hp_blocks := (hp_blocks h)(rai \<mapsto> InstanceBlock (i\<lparr>ri_handler := hd'\<rparr>))\<rparr>"
  have ok: "heap_ok ?h" and live: "rai < hp_next h" using assms(1,2) by (auto simp: heap_ok_def)
  have "(p, h') = (0, ?h) \<or> (\<exists>t. (p, h') = give_string t ?h)"
    using assms(2,4) g by (simp add: ffi_get_certificate_def Let_def split: result.splits option.splits) metis
  then consider "(p, h') = (0, ?h)" | s where "(p, h') = allocate (StringBlock s) ?h"
    by (auto simp: give_string_def split: option.splits)
  then show ?thesis
  proof cases
    case 1
    with ok inv assms(1) show ?thesis by (auto simp: heap_ok_def)
  next
    case 2
    then have "p = hp_next h" "hp_blocks h' = (hp_blocks ?h)(p \<mapsto> StringBlock s)" "heap_ok h'"
      using heap_ok_allocate [OF ok, of "StringBlock s"] by (auto simp: allocate_def)
    with inv live heap_ok_next [OF assms(1)] show ?thesis by auto
  qed
qed

lemma use_after_shutdown:
  "shutdown_rustica_agent rai h = Returns (b, h') \<Longrightarrow> ffi_get_certificate E now nows rai fetch h' = Undefined"
  by (auto simp: shutdown_rustica_agent_def ffi_get_certificate_def split: option.splits block.splits)

lemma shutdown_twice:
  "heap_ok h \<Longrightarrow> allocate (InstanceBlock i) h = (rai, h1) \<Longrightarrow> shutdown_rustica_agent rai h1 = Returns (b, h2) \<Longrightarrow>
     shutdown_rustica_agent rai h2 = Undefined"
  using instance_handle.release_twice [of h i] by (cases "shutdown_rustica_agent rai h2") simp_all

text \<open>A configuration that cannot be read is reported as the time 1, which is also an expiry a certificate can have.\<close>

lemma expiry_of_bad_configuration:
  "from_utf8 b = Some path \<Longrightarrow> config_arg E path = None \<Longrightarrow> ffi_get_expiry_of_primary_server E (CBytes b) = Returns 1"
  by (simp add: ffi_get_expiry_of_primary_server_def)

end
