(* ===== verification/Ffi_Yubikey.thy ===== *)
theory Ffi_Yubikey
  imports Ffi_Agent
begin

text \<open>
  \<^verbatim>\<open>rustica-agent/src/ffi/yubikey_utils.rs\<close>: Yubikeys for C programs. Arrays that C is to free later are blocks with
  the capacity they were allocated with.
\<close>

section \<open>Devices\<close>

text \<open>
  \<open>fd_needs_pin\<close> and \<open>fd_pin_retries\<close> ask a FIDO device; \<open>yu_unlock\<close> and \<open>yu_pin_retries\<close> a Yubikey that was
  opened by its serial number (with the PIN and the management key), \<open>yu_write_certificate\<close> stores a certificate
  in a slot; \<open>yu_vec_capacity n\<close> is the capacity of a vector after \<open>n\<close> elements were pushed to an empty one, and
  \<open>yu_shrunk_capacity n\<close> the capacity of a vector of \<open>n\<close> elements after \<^verbatim>\<open>shrink_to_fit\<close>, which may leave some to spare.
\<close>

record ('pk, 'sk) ykutil_env = "('pk, 'sk) ffi_env" +
  fd_needs_pin :: "string \<Rightarrow> bool option"
  fd_pin_retries :: "string \<Rightarrow> i32 option"
  yu_unlock :: "u32 \<Rightarrow> bytes \<Rightarrow> bytes \<Rightarrow> bool"
  yu_pin_retries :: "u32 \<Rightarrow> u8 option"
  yu_write_certificate :: "u32 \<Rightarrow> slot_id \<Rightarrow> bytes \<Rightarrow> bool"
  yu_vec_capacity :: "nat \<Rightarrow> nat"
  yu_shrunk_capacity :: "nat \<Rightarrow> nat"

abbreviation yu_ffi :: "('pk, 'sk) ykutil_env \<Rightarrow> ('pk, 'sk) ffi_env" where
  "yu_ffi Y \<equiv> ffi_env.truncate Y"

section \<open>Operations\<close>

definition ffi_does_device_need_pin :: "('pk, 'sk) ykutil_env \<Rightarrow> c_arg \<Rightarrow> i32" where
  "ffi_does_device_need_pin Y device = (case device of
     CNull \<Rightarrow> - 1
   | CBytes b \<Rightarrow> (case from_utf8 b of
       None \<Rightarrow> - 1
     | Some device_path \<Rightarrow> (case fd_needs_pin Y device_path of
         Some True \<Rightarrow> 1 | Some False \<Rightarrow> 0 | None \<Rightarrow> - 1)))"

definition ffi_device_pin_retries :: "('pk, 'sk) ykutil_env \<Rightarrow> c_arg \<Rightarrow> i32" where
  "ffi_device_pin_retries Y device = (case device of
     CNull \<Rightarrow> - 1
   | CBytes b \<Rightarrow> (case from_utf8 b of
       None \<Rightarrow> - 1
     | Some device_path \<Rightarrow> (case fd_pin_retries Y device_path of Some x \<Rightarrow> x | None \<Rightarrow> - 1)))"

text \<open>The first parameter is declared a pointer; its address is what is used as the serial number.\<close>

definition unlock_yubikey :: "('pk, 'sk) ykutil_env \<Rightarrow> u64 \<Rightarrow> c_arg \<Rightarrow> c_arg \<Rightarrow> i32" where
  "unlock_yubikey Y yubikey_serial pin management_key = (let serial = ucast yubikey_serial :: u32 in
     case fe_open Y serial of
       None \<Rightarrow> - 1
     | Some _ \<Rightarrow> (case pin of
         CNull \<Rightarrow> - 6
       | CBytes pb \<Rightarrow> (case from_utf8 pb of
           None \<Rightarrow> - 2
         | Some pin \<Rightarrow> (case management_key of
             CNull \<Rightarrow> - 4
           | CBytes mb \<Rightarrow> (case from_utf8 mb of
               None \<Rightarrow> - 2
             | Some mk \<Rightarrow> (case ke_hex_decode (fe_keys Y) mk of
                 None \<Rightarrow> - 3
               | Some management_key \<Rightarrow>
                   if yu_unlock Y serial (as_bytes pin) management_key then 0
                   else (case yu_pin_retries Y serial of Some x \<Rightarrow> ucast x | None \<Rightarrow> - 9)))))))"

text \<open>
  Lists for C: the pointer, the length written to \<^verbatim>\<open>out_length\<close> (nothing is written on an error), the memory.
  The vector of serial numbers is handed over as it was grown.
\<close>

definition list_yubikeys ::
    "('pk, 'sk) ykutil_env \<Rightarrow> 'i c_heap \<Rightarrow> (nat \<times> i32 option \<times> 'i c_heap) ffi" where
  "list_yubikeys Y h = (case list_yubikey_serials (fe_keys Y) of
     Panic \<Rightarrow> Aborts
   | Err _ \<Rightarrow> Returns (0, None, h)
   | Ok serials \<Rightarrow>
       let (p, h') = allocate (LongBlock serials (yu_vec_capacity Y (length serials))) h
       in Returns (p, Some (of_nat (length serials)), h'))"

definition free_list_yubikeys :: "i32 \<Rightarrow> nat \<Rightarrow> 'i c_heap \<Rightarrow> 'i c_heap ffi" where
  "free_list_yubikeys n yubikeys h = (case hp_blocks h yubikeys of
     Some (LongBlock xs capacity) \<Rightarrow>
       if length xs = unat (scast n :: u64) \<and> capacity = unat (scast n :: u64) then Returns (deallocate yubikeys h)
       else Undefined
   | _ \<Rightarrow> Undefined)"

fun key_lines :: "('pk, 'sk) ykutil_env \<Rightarrow> 'pk open_yubikey \<Rightarrow> u8 list \<Rightarrow> string list ffi" where
  "key_lines Y yk [] = Returns []"
| "key_lines Y yk (b # bs) =
     ffi_bind (ffi_unwrap (ke_retired_try_from (fe_keys Y) b)) (\<lambda>slot.
     ffi_bind (case oy_fetch_subject yk slot of
         None \<Rightarrow> Returns []
       | Some subj \<Rightarrow> ffi_bind (ffi_unwrap (cstring_new (ae_debug_slot (fe_agent Y) slot @ '' - '' @ subj)))
                        (\<lambda>s. Returns [s])) (\<lambda>l.
     ffi_bind (key_lines Y yk bs) (\<lambda>ls. Returns (l @ ls))))"

definition list_keys ::
    "('pk, 'sk) ykutil_env \<Rightarrow> u32 \<Rightarrow> 'i c_heap \<Rightarrow> (nat \<times> i32 option \<times> 'i c_heap) ffi" where
  "list_keys Y yubikey_serial h = (case ke_open (fe_keys Y) yubikey_serial of
     None \<Rightarrow> Returns (0, None, h)
   | Some yk \<Rightarrow> ffi_bind (key_lines Y yk retired_slots) (\<lambda>keys.
       let (out, h1) = give_strings keys h;
           (p, h2) = allocate (PointerBlock out (yu_shrunk_capacity Y (length out))) h1
       in Returns (p, Some (of_nat (length out)), h2)))"

definition free_list_keys :: "i32 \<Rightarrow> nat \<Rightarrow> 'i c_heap \<Rightarrow> 'i c_heap ffi" where
  "free_list_keys n keys h = (case hp_blocks h keys of
     Some (PointerBlock ps capacity) \<Rightarrow>
       if length ps = unat (scast n :: u64) \<and> capacity = unat (scast n :: u64)
       then free_strings ps (deallocate keys h) else Undefined
   | _ \<Rightarrow> Undefined)"

definition check_yubikey_slot_provisioned :: "('pk, 'sk) ykutil_env \<Rightarrow> u32 \<Rightarrow> u8 \<Rightarrow> bool" where
  "check_yubikey_slot_provisioned Y yubikey_serial slot_id = (case ke_open (fe_keys Y) yubikey_serial of
     None \<Rightarrow> False
   | Some yk \<Rightarrow> (case ke_slot_try_from (fe_keys Y) slot_id of
       None \<Rightarrow> False
     | Some slot \<Rightarrow> oy_fetch_subject yk slot \<noteq> None))"

definition check_yubikey_slot_certificate_expiry :: "('pk, 'sk) ykutil_env \<Rightarrow> u32 \<Rightarrow> u8 \<Rightarrow> u64" where
  "check_yubikey_slot_certificate_expiry Y yubikey_serial slot_id =
     (case (fe_open Y yubikey_serial, ke_slot_try_from (fe_keys Y) slot_id) of
        (Some yk, Some slot) \<Rightarrow> (case yd_fetch_certificate yk slot of
           None \<Rightarrow> 0
         | Some cert \<Rightarrow> (case fe_x509_not_after Y cert of Some t \<Rightarrow> t | None \<Rightarrow> 0))
      | _ \<Rightarrow> 0)"

definition ffi_get_git_config_string_from_serial_and_slot ::
    "('pk, 'sk) ykutil_env \<Rightarrow> u32 \<Rightarrow> u8 \<Rightarrow> 'i c_heap \<Rightarrow> (nat \<times> 'i c_heap) ffi" where
  "ffi_get_git_config_string_from_serial_and_slot Y serial slot h =
     early (0, h) (ke_open (fe_keys Y) serial) (\<lambda>yk.
     early (0, h) (ke_retired_try_from (fe_keys Y) slot) (\<lambda>slot.
     early (0, h) (oy_fetch_pubkey yk slot) (\<lambda>public_key.
       Returns (give_string (git_config_from_public_key (ae_ssh (fe_agent Y)) public_key) h))))"

text \<open>
  Refreshing the certificate in a slot: the result, and the certificate that was written. The servers are asked in
  order; whatever happens after one issued a certificate, no further one is asked.
\<close>

fun refresh_from_servers ::
    "('pk, 'sk) ykutil_env \<Rightarrow> u32 \<Rightarrow> slot_id \<Rightarrow> 'pk yubikey_device \<Rightarrow> bytes \<Rightarrow> bytes \<Rightarrow> agent_server list
     \<Rightarrow> (bool \<times> bytes option) ffi" where
  "refresh_from_servers Y serial slot yk pin mgm [] = Returns (False, None)"
| "refresh_from_servers Y serial slot yk pin mgm (server # servers) =
     (case refresh_attested_x509_certificate_async (ae_api (fe_agent Y)) server (YubikeySignatory slot yk :: ('pk, 'sk) signatory) of
        Panic \<Rightarrow> Aborts
      | Err _ \<Rightarrow> refresh_from_servers Y serial slot yk pin mgm servers
      | Ok c \<Rightarrow>
          ffi_bind (ffi_unwrap (fe_open Y serial)) (\<lambda>_.
          if \<not> yu_unlock Y serial pin mgm then Aborts
          else if yu_write_certificate Y serial slot c then Returns (True, Some c) else Returns (False, None)))"

definition ffi_refresh_x509_certificate ::
    "('pk, 'sk) ykutil_env \<Rightarrow> u32 \<Rightarrow> u8 \<Rightarrow> c_arg \<Rightarrow> c_arg \<Rightarrow> c_arg \<Rightarrow> (bool \<times> bytes option) ffi" where
  "ffi_refresh_x509_certificate Y yubikey_serial slot config_path pin management_key =
     ffi_bind (c_str config_path) (\<lambda>p. early (False, None) p (\<lambda>config_path.
     early (False, None) (config_arg (yu_ffi Y) config_path) (\<lambda>uc.
     ffi_bind (c_str pin) (\<lambda>pin_str.
     ffi_bind (c_str management_key) (\<lambda>mk. ffi_bind (ffi_unwrap mk) (\<lambda>mk.
     ffi_bind (ffi_unwrap (ke_hex_decode (fe_keys Y) mk)) (\<lambda>mgm.
     ffi_bind (ffi_unwrap (ke_slot_try_from (fe_keys Y) slot)) (\<lambda>slot.
     ffi_bind (ffi_unwrap (fe_open Y yubikey_serial)) (\<lambda>yk.
     ffi_bind (ffi_unwrap pin_str) (\<lambda>pin.
     if \<not> yu_unlock Y yubikey_serial (as_bytes pin) mgm then Returns (False, None)
     else if \<not> fe_runtime Y then Returns (False, None)
     else refresh_from_servers Y yubikey_serial slot yk (as_bytes pin) mgm (ac_servers (uc_configuration uc))))))))))))"

section \<open>Properties\<close>

lemma length_from_c: "n < 2 ^ 31 \<Longrightarrow> unat (scast (of_nat n :: i32) :: u64) = n"
  by (simp add: signed_of_nat signed_take_bit_int_eq_self unat_of_nat)

lemma key_lines_step:
  "ke_retired_try_from (fe_keys Y) b = Some slot \<Longrightarrow> oy_fetch_subject yk slot = None \<Longrightarrow>
     key_lines Y yk (b # bs) = key_lines Y yk bs"
  "ke_retired_try_from (fe_keys Y) b = Some slot \<Longrightarrow> oy_fetch_subject yk slot = Some subj \<Longrightarrow>
     cstring_new (ae_debug_slot (fe_agent Y) slot @ '' - '' @ subj) = Some s \<Longrightarrow>
     key_lines Y yk (b # bs) = ffi_bind (key_lines Y yk bs) (\<lambda>ls. Returns (s # ls))"
  by (cases "key_lines Y yk bs"; simp add: ffi_unwrap_def)+

lemma key_lines_length: "key_lines Y yk bs = Returns ls \<Longrightarrow> length ls \<le> length bs"
proof (induction bs arbitrary: ls)
  case (Cons b bs)
  then show ?case by (fastforce split: option.splits)
qed simp

lemma length_retired_slots: "length retired_slots = 20"
  by (simp add: retired_slots_def)

text \<open>
  C30: What C is given as the list of keys it can give back: the list has at most twenty strings, each pointer is fresh, and
  freeing the list with the length that came with it frees every string and the array, and leaves the memory exactly
  as it was before the list was made, provided shrinking the array left no capacity to spare, on which the code
  relies: with capacity to spare, freeing is undefined.
\<close>

theorem list_keys_freed:
  assumes "heap_ok h" and "list_keys Y serial h = Returns (p, Some n, h')"
  shows "heap_ok h' \<and> p \<noteq> 0 \<and> hp_blocks h p = None \<and> unat n \<le> 20 \<and>
     (\<exists>h''. hp_blocks h'' = hp_blocks h \<and>
        free_list_keys n p h' = (if yu_shrunk_capacity Y (unat n) = unat n then Returns h'' else Undefined))"
proof -
  from assms(2) obtain yk keys where keys: "key_lines Y yk retired_slots = Returns keys"
    and p: "p = fst (allocate (PointerBlock (fst (give_strings keys h))
        (yu_shrunk_capacity Y (length (fst (give_strings keys h))))) (snd (give_strings keys h)))"
      "h' = snd (allocate (PointerBlock (fst (give_strings keys h))
        (yu_shrunk_capacity Y (length (fst (give_strings keys h))))) (snd (give_strings keys h)))"
      "n = of_nat (length (fst (give_strings keys h)))"
    by (auto simp: list_keys_def Let_def split_def split: option.splits)
  let ?out = "fst (give_strings keys h)" and ?h1 = "snd (give_strings keys h)"
  have len: "length ?out = length keys" by (simp add: give_strings_closed)
  have short: "length keys \<le> 20" using key_lines_length [OF keys] by (simp add: length_retired_slots)
  have ok: "heap_ok ?h1" using assms(1) by (rule heap_ok_give_strings)
  have p': "p = hp_next h + length keys" "hp_blocks h' = (hp_blocks ?h1)(p \<mapsto> PointerBlock ?out (yu_shrunk_capacity Y (length keys)))"
    by (simp_all add: p(1,2) allocate_simps give_strings_closed len)
  have fresh: "hp_blocks ?h1 p = None" using heap_ok_next [OF ok] p'(1) by (simp add: give_strings_closed(2))
  have n: "unat (scast n :: u64) = length keys" "unat n = length keys"
    using short by (simp_all add: p(3) len length_from_c unat_of_nat)
  have "hp_blocks (deallocate p h') = hp_blocks ?h1" using p'(2) fresh by auto
  from free_given_strings [OF assms(1) this] obtain h3 where
    h3: "free_strings ?out (deallocate p h') = Returns h3" "hp_blocks h3 = hp_blocks h" by blast
  then have "free_list_keys n p h' = (if yu_shrunk_capacity Y (unat n) = unat n then Returns h3 else Undefined)"
    using p'(2) n len by (simp add: free_list_keys_def)
  moreover have "heap_ok h'" unfolding p(2) using ok by (rule heap_ok_allocate)
  moreover have "hp_blocks h p = None" "p \<noteq> 0" using assms(1) p'(1) by (auto simp: heap_ok_def)
  ultimately show ?thesis using h3(2) n short by auto
qed

text \<open>
  The list of serial numbers, in contrast, cannot be given back unless the vector happened to be full: it is handed
  over with the capacity it was grown to, and freed as if it had been shrunk.
\<close>

lemma list_yubikeys_free_undefined:
  assumes "list_yubikeys Y h = Returns (p, Some n, h')" and "list_yubikey_serials (fe_keys Y) = Ok serials"
    and "length serials < 2 ^ 31" and "yu_vec_capacity Y (length serials) \<noteq> length serials"
  shows "free_list_yubikeys n p h' = Undefined"
  using assms by (auto simp: list_yubikeys_def free_list_yubikeys_def allocate_def length_from_c)

text \<open>
  Unlocking reports success when it failed for good: with no PIN tries left, the number of tries that is returned for a
  wrong PIN is the code for success. With any other number of tries a failure is distinguishable.
\<close>

theorem unlock_yubikey_codes:
  assumes "fe_open Y (ucast address) = Some yk" and "from_utf8 pb = Some pin" and "from_utf8 mb = Some mk"
    and "ke_hex_decode (fe_keys Y) mk = Some mgm"
  shows "unlock_yubikey Y address (CBytes pb) (CBytes mb) = 0 \<longleftrightarrow>
     yu_unlock Y (ucast address) (as_bytes pin) mgm \<or> yu_pin_retries Y (ucast address) = Some 0"
proof -
  have "ucast (ucast x :: i32) = x" for x :: u8
    by (rule bit_word_eqI) (simp add: bit_simps)
  then have "(ucast (x :: u8) :: i32) = 0 \<longleftrightarrow> x = 0" for x by (metis unsigned_0)
  with assms show ?thesis
    by (auto simp: unlock_yubikey_def Let_def split: option.splits)
qed

text \<open>
  A certificate lands in the slot only if a configured server issued it for that slot and the device was unlocked; the
  result says whether one did.
\<close>

lemma refresh_from_servers_True:
  assumes "refresh_from_servers Y serial slot yk pin mgm servers = Returns (b, written)"
  shows "b = (written \<noteq> None) \<and> (\<forall>c. written = Some c \<longrightarrow> yu_unlock Y serial pin mgm \<and>
     (\<exists>s \<in> set servers. refresh_attested_x509_certificate_async (ae_api (fe_agent Y)) s (YubikeySignatory slot yk) = Ok c))"
  using assms
  by (induction servers) (auto split: result.splits if_splits)

end
