(* ===== verification/Ffi_Enroll.thy ===== *)
theory Ffi_Enroll
  imports Ffi_Yubikey
begin

text \<open>
  \<^verbatim>\<open>rustica-agent/src/ffi/enrollment.rs\<close> and \<^verbatim>\<open>allowed_signer.rs\<close>: generating a key and registering it, and fetching the
  allowed signers into a file, for C programs. Files are an explicit map from paths to contents.
\<close>

section \<open>Files and FIDO keys\<close>

type_synonym files = "string \<rightharpoonup> string"

text \<open>Why generating a FIDO key failed, as far as the code tells the reasons apart.\<close>

datatype fido_error = InvalidPin "u8 option" | KeyLocked | KeyBlocked | PinRequired | OtherFidoError

record 'sk generated_key =
  gk_private_key :: 'sk
  gk_attestation :: agent_u2f_attestation

text \<open>
  \<open>en_write\<close> is the outcome of writing a text to a newly created file: what the file then holds, and whether all of
  it was written. \<open>en_private_text\<close> is the text a private key is written as.
\<close>

record ('pk, 'sk) enroll_env = "('pk, 'sk) ykutil_env" +
  en_generate :: "string \<Rightarrow> string \<Rightarrow> string option \<Rightarrow> string option \<Rightarrow> fido_error + 'sk generated_key"
  en_create_ok :: "string \<Rightarrow> bool"
  en_metadata_ok :: "string \<Rightarrow> bool"
  en_private_text :: "'sk \<Rightarrow> string"
  en_write :: "string \<Rightarrow> string \<Rightarrow> string \<times> bool"
  en_remove_ok :: "string \<Rightarrow> bool"
  en_provisionable :: "u32 \<Rightarrow> 'pk provisionable option"

abbreviation en_ffi :: "('pk, 'sk) enroll_env \<Rightarrow> ('pk, 'sk) ffi_env" where
  "en_ffi N \<equiv> ffi_env.truncate N"

datatype generate_and_enroll_status =
    GE_Success | GE_ConfigurationError | GE_ParameterError | GE_PinRequired | GE_KeyLocked | GE_KeyBlocked
  | GE_UnknownAttemptsRemaining | GE_InternalError | GE_KeyFileError | GE_KeyRegistrationError

fun ge_code :: "generate_and_enroll_status \<Rightarrow> i64" where
  "ge_code GE_Success = 0"
| "ge_code GE_ConfigurationError = 1"
| "ge_code GE_ParameterError = 2"
| "ge_code GE_PinRequired = 3"
| "ge_code GE_KeyLocked = 4"
| "ge_code GE_KeyBlocked = 5"
| "ge_code GE_UnknownAttemptsRemaining = 6"
| "ge_code GE_InternalError = 7"
| "ge_code GE_KeyFileError = 8"
| "ge_code GE_KeyRegistrationError = 9"

section \<open>Operations\<close>

definition fido_error_code :: "fido_error \<Rightarrow> i64" where
  "fido_error_code e = (case e of
     InvalidPin (Some attempts) \<Rightarrow>
       if attempts = 0 then ge_code GE_UnknownAttemptsRemaining else - ucast attempts
   | KeyLocked \<Rightarrow> ge_code GE_KeyLocked
   | KeyBlocked \<Rightarrow> ge_code GE_KeyBlocked
   | PinRequired \<Rightarrow> ge_code GE_PinRequired
   | _ \<Rightarrow> ge_code GE_InternalError)"

text \<open>The first server that registers the key settles it.\<close>

fun register_with_servers :: "(agent_server \<Rightarrow> (unit, refresh_error) result) \<Rightarrow> agent_server list \<Rightarrow> bool ffi" where
  "register_with_servers register [] = Returns False"
| "register_with_servers register (s # ss) = (case register s of
     Ok _ \<Rightarrow> Returns True | Err _ \<Rightarrow> register_with_servers register ss | Panic \<Rightarrow> Aborts)"

text \<open>From the generated key on: the file is written first, and removed again when no server takes the key.\<close>

definition enroll_fido_key ::
    "('pk, 'sk) enroll_env \<Rightarrow> agent_server list \<Rightarrow> string \<Rightarrow> 'sk generated_key \<Rightarrow> files \<Rightarrow> (i64 \<times> files) ffi" where
  "enroll_fido_key N servers out_path key fs =
     (if \<not> en_create_ok N out_path then Returns (ge_code GE_KeyFileError, fs)
      else if \<not> en_metadata_ok N out_path then Returns (ge_code GE_KeyFileError, fs(out_path \<mapsto> ''''))
      else (case en_write N out_path (en_private_text N (gk_private_key key)) of
        (content, False) \<Rightarrow>
          Returns (ge_code GE_KeyFileError,
            if en_remove_ok N out_path then fs(out_path := None) else fs(out_path \<mapsto> content))
      | (content, True) \<Rightarrow>
          ffi_bind (register_with_servers (\<lambda>s. register_u2f_key_async (ae_ssh (fe_agent N)) (ae_api (fe_agent N)) s
              (Direct (gk_private_key key) :: ('pk, 'sk) signatory) ''ssh:'' (gk_attestation key)) servers) (\<lambda>registered.
          if registered then Returns (ge_code GE_Success, fs(out_path \<mapsto> content))
          else if en_remove_ok N out_path then Returns (ge_code GE_KeyRegistrationError, fs(out_path := None))
          else Aborts)))"

definition generate_fido_key ::
    "('pk, 'sk) enroll_env \<Rightarrow> agent_server list \<Rightarrow> string \<Rightarrow> string \<Rightarrow> string option \<Rightarrow> string option \<Rightarrow> files
     \<Rightarrow> (i64 \<times> files) ffi" where
  "generate_fido_key N servers out_path comment pin device fs = (case en_generate N ''ssh:'' comment pin device of
     Inl e \<Rightarrow> Returns (fido_error_code e, fs)
   | Inr key \<Rightarrow>
       if \<not> fe_runtime N then Returns (ge_code GE_InternalError, fs)
       else enroll_fido_key N servers out_path key fs)"

definition ffi_generate_and_enroll_fido ::
    "('pk, 'sk) enroll_env \<Rightarrow> c_arg \<Rightarrow> c_arg \<Rightarrow> c_arg \<Rightarrow> c_arg \<Rightarrow> c_arg \<Rightarrow> files \<Rightarrow> (i64 \<times> files) ffi" where
  "ffi_generate_and_enroll_fido N config_path out_path comment pin device fs =
     ffi_bind (c_str config_path) (\<lambda>p. early (ge_code GE_ConfigurationError, fs) p (\<lambda>config_path.
     early (ge_code GE_ConfigurationError, fs) (config_arg (en_ffi N) config_path) (\<lambda>uc.
     ffi_bind (c_str out_path) (\<lambda>p. early (ge_code GE_ParameterError, fs) p (\<lambda>out_path.
     early (ge_code GE_ParameterError, fs) (opt_c_str comment) (\<lambda>comment.
     early (ge_code GE_ParameterError, fs) (opt_c_str pin) (\<lambda>pin.
     early (ge_code GE_ParameterError, fs) (opt_c_str device) (\<lambda>device.
     generate_fido_key N (ac_servers (uc_configuration uc)) out_path
       (case comment of Some c \<Rightarrow> c | None \<Rightarrow> ''FFI-RusticaAgent-Generated-Key'') pin device fs))))))))"

definition touch_policy_of_byte :: "u8 \<Rightarrow> yk_touch_policy" where
  "touch_policy_of_byte b = (if b = 0 then YkTouchNever else if b = 1 then YkTouchCached else YkTouchAlways)"

definition pin_policy_of_byte :: "u8 \<Rightarrow> yk_pin_policy" where
  "pin_policy_of_byte b = (if b = 0 then YkPinNever else if b = 1 then YkPinOnce else YkPinAlways)"

definition generate_and_enroll ::
    "('pk, 'sk) enroll_env \<Rightarrow> u32 \<Rightarrow> u8 \<Rightarrow> u8 \<Rightarrow> u8 \<Rightarrow> c_arg \<Rightarrow> c_arg \<Rightarrow> c_arg \<Rightarrow> c_arg \<Rightarrow> bool ffi" where
  "generate_and_enroll N yubikey_serial slot touch_policy pin_policy subject config_path pin management_key =
     ffi_bind (c_str config_path) (\<lambda>p. early False p (\<lambda>config_path.
     early False (config_arg (en_ffi N) config_path) (\<lambda>uc.
     ffi_bind (c_str pin) (\<lambda>pin_str.
     ffi_bind (c_str management_key) (\<lambda>mk. ffi_bind (ffi_unwrap mk) (\<lambda>mk.
     ffi_bind (ffi_unwrap (ke_hex_decode (fe_keys N) mk)) (\<lambda>mgm.
     ffi_bind (c_str subject) (\<lambda>subject_str.
     ffi_bind (ffi_unwrap (ke_slot_try_from (fe_keys N) slot)) (\<lambda>slot.
     ffi_bind (ffi_unwrap (en_provisionable N yubikey_serial)) (\<lambda>yk.
     ffi_bind (ffi_unwrap pin_str) (\<lambda>pin.
     if \<not> pr_unlock yk (as_bytes pin) mgm then Returns False
     else ffi_bind (ffi_unwrap subject_str) (\<lambda>subject.
     early False (pr_provision yk slot subject EccP384 (touch_policy_of_byte touch_policy) (pin_policy_of_byte pin_policy)) (\<lambda>yk'.
     case (yd_fetch_attestation yk' slot, yd_fetch_certificate yk' (yd_attestation_slot yk')) of
       (Inr certificate, Some intermediate) \<Rightarrow>
         if \<not> fe_runtime N then Returns False
         else register_with_servers (\<lambda>s. register_key_async (ae_ssh (fe_agent N)) (ae_api (fe_agent N)) s
           (YubikeySignatory slot yk' :: ('pk, 'sk) signatory)
           \<lparr>apa_certificate = certificate, apa_intermediate = intermediate\<rparr>) (ac_servers (uc_configuration uc))
     | _ \<Rightarrow> Returns False)))))))))))))"

datatype get_allowed_signers_status =
    GS_Success | GS_ConfigurationError | GS_ParameterError | GS_InternalError | GS_AllowedSignersFileError

fun gs_code :: "get_allowed_signers_status \<Rightarrow> i32" where
  "gs_code GS_Success = 0"
| "gs_code GS_ConfigurationError = 1"
| "gs_code GS_ParameterError = 2"
| "gs_code GS_InternalError = 3"
| "gs_code GS_AllowedSignersFileError = 4"

text \<open>The file is created (and emptied) before the servers are asked.\<close>

fun signers_from_servers ::
    "('pk, 'sk) enroll_env \<Rightarrow> string \<Rightarrow> agent_server list \<Rightarrow> files \<Rightarrow> (i32 \<times> files) ffi" where
  "signers_from_servers N out_path [] fs = Returns (gs_code GS_InternalError, fs)"
| "signers_from_servers N out_path (s # ss) fs = (case get_allowed_signers_async (ae_api (fe_agent N)) s of
     Panic \<Rightarrow> Aborts
   | Err _ \<Rightarrow> signers_from_servers N out_path ss fs
   | Ok allowed_signers \<Rightarrow>
       (let (content, ok) = en_write N out_path allowed_signers in
        Returns (gs_code (if ok then GS_Success else GS_AllowedSignersFileError), fs(out_path \<mapsto> content))))"

definition ffi_get_allowed_signers ::
    "('pk, 'sk) enroll_env \<Rightarrow> c_arg \<Rightarrow> c_arg \<Rightarrow> files \<Rightarrow> (i32 \<times> files) ffi" where
  "ffi_get_allowed_signers N config_path out_path fs =
     ffi_bind (c_str config_path) (\<lambda>p. early (gs_code GS_ConfigurationError, fs) p (\<lambda>config_path.
     early (gs_code GS_ConfigurationError, fs) (config_arg (en_ffi N) config_path) (\<lambda>uc.
     ffi_bind (c_str out_path) (\<lambda>p. early (gs_code GS_ParameterError, fs) p (\<lambda>out_path.
     if \<not> fe_runtime N then Returns (gs_code GS_InternalError, fs)
     else if \<not> en_create_ok N out_path then Returns (gs_code GS_AllowedSignersFileError, fs)
     else signers_from_servers N out_path (ac_servers (uc_configuration uc)) (fs(out_path \<mapsto> '''')))))))"

section \<open>Properties\<close>

text \<open>Writing all of a text leaves that text in the file.\<close>

definition writes_all :: "('pk, 'sk) enroll_env \<Rightarrow> bool" where
  "writes_all N \<longleftrightarrow> (\<forall>path t content. en_write N path t = (content, True) \<longrightarrow> content = t)"

lemma register_with_servers_True:
  "register_with_servers register ss = Returns True \<longleftrightarrow>
     (\<exists>pre s post. ss = pre @ s # post \<and> (\<forall>p \<in> set pre. \<exists>e. register p = Err e) \<and> register s = Ok ())"
proof (induction ss)
  case (Cons s ss)
  then show ?case
    unfolding split_first_Cons [where P = "\<lambda>p. \<exists>e. register p = Err e" and Q = "\<lambda>p. register p = Ok ()"]
    by (cases "register s") auto
qed simp

lemma fido_error_code_codes: "fido_error_code e \<noteq> 0" "fido_error_code e \<noteq> ge_code GE_KeyRegistrationError"
proof -
  have "ucast (ucast x :: i64) = x" for x :: u8
    by (rule bit_word_eqI) (simp add: bit_simps)
  then have zero: "(ucast x :: i64) = 0 \<longleftrightarrow> x = 0" for x :: u8 by (metis unsigned_0)
  have nine: "- (ucast x :: i64) \<noteq> 9" for x :: u8
  proof
    assume "- (ucast x :: i64) = 9"
    then have "(ucast x :: i64) = - 9" by (metis minus_minus)
    then have "bit (ucast x :: i64) 63 = bit (- 9 :: i64) 63" by simp
    moreover have "bit (- 9 :: i64) 63" by simp
    ultimately show False using bit_imp_le_length [of x 63] by (auto simp: bit_simps)
  qed
  show "fido_error_code e \<noteq> 0" "fido_error_code e \<noteq> ge_code GE_KeyRegistrationError"
    using zero nine by (auto simp: fido_error_code_def split: fido_error.split option.split)
qed

lemma register_with_servers_False:
  "register_with_servers register ss = Returns False \<longleftrightarrow> (\<forall>s \<in> set ss. \<exists>e. register s = Err e)"
  by (induction ss) (auto split: result.splits)

lemma register_with_servers_some:
  assumes "register_with_servers register ss = Returns b"
  shows "b \<longleftrightarrow> (\<exists>s \<in> set ss. register s = Ok ())"
proof (cases b)
  case True
  with assms register_with_servers_True [of register ss] show ?thesis by (metis in_set_conv_decomp)
next
  case False
  with assms register_with_servers_False [of register ss] show ?thesis by fastforce
qed

lemma enroll_fido_key_outcome:
  assumes "enroll_fido_key N servers path key fs = Returns (code, fs')" and "writes_all N"
  shows "(if en_create_ok N path \<and> en_metadata_ok N path \<and> snd (en_write N path (en_private_text N (gk_private_key key)))
          then if \<exists>s \<in> set servers. register_u2f_key_async (ae_ssh (fe_agent N)) (ae_api (fe_agent N)) s
                 (Direct (gk_private_key key)) ''ssh:'' (gk_attestation key) = Ok ()
               then code = 0 \<and> fs' = fs(path \<mapsto> en_private_text N (gk_private_key key))
               else code = ge_code GE_KeyRegistrationError \<and> fs' = fs(path := None)
          else code = ge_code GE_KeyFileError) \<and>
         (\<forall>q. q \<noteq> path \<longrightarrow> fs' q = fs q)"
  using assms
  by (auto simp: enroll_fido_key_def writes_all_def dest: register_with_servers_some
      split: if_splits prod.splits bool.splits)

text \<open>The arguments are in order and a key was generated from them.\<close>

definition fido_key_generated ::
    "('pk, 'sk) enroll_env \<Rightarrow> bytes \<Rightarrow> c_arg \<Rightarrow> c_arg \<Rightarrow> c_arg \<Rightarrow> updatable_configuration \<Rightarrow> 'sk generated_key \<Rightarrow> bool" where
  "fido_key_generated N cb comment pin device uc key \<longleftrightarrow> (\<exists>config c p d. from_utf8 cb = Some config \<and>
     config_arg (en_ffi N) config = Some uc \<and> opt_c_str comment = Some c \<and> opt_c_str pin = Some p \<and>
     opt_c_str device = Some d \<and> fe_runtime N \<and>
     en_generate N ''ssh:'' (case c of Some c \<Rightarrow> c | None \<Rightarrow> ''FFI-RusticaAgent-Generated-Key'') p d = Inr key)"

text \<open>
  C28: Enrolling a FIDO key from C is all or nothing. Once the arguments are in order and a key was generated, and its file
  could be created and written: if some configured server registers that very key with the attestation of its
  generation, the code for success is returned and the file holds the key; if every server refused it, the code
  for that is returned and the file is gone. If the file could not be written its own code is returned. If the
  arguments were not in order or no key was generated no file is touched, and the code is neither of the first two (the
  number of tries left, returned negated, is not mistaken for one). No other file is ever touched.
\<close>

theorem fido_enrollment_outcome:
  assumes "ffi_generate_and_enroll_fido N (CBytes cb) (CBytes ob) comment pin device fs = Returns (code, fs')"
    and "writes_all N" and "from_utf8 ob = Some path"
  shows "(\<forall>uc key. fido_key_generated N cb comment pin device uc key \<longrightarrow>
            (if en_create_ok N path \<and> en_metadata_ok N path \<and> snd (en_write N path (en_private_text N (gk_private_key key)))
             then if \<exists>s \<in> set (ac_servers (uc_configuration uc)).
                    register_u2f_key_async (ae_ssh (fe_agent N)) (ae_api (fe_agent N)) s
                      (Direct (gk_private_key key)) ''ssh:'' (gk_attestation key) = Ok ()
                  then code = 0 \<and> fs' = fs(path \<mapsto> en_private_text N (gk_private_key key))
                  else code = 9 \<and> fs' = fs(path := None)
             else code = 8)) \<and>
         ((\<nexists>uc key. fido_key_generated N cb comment pin device uc key) \<longrightarrow> fs' = fs \<and> code \<noteq> 0 \<and> code \<noteq> 9) \<and>
         (\<forall>q. q \<noteq> path \<longrightarrow> fs' q = fs q)"
proof (cases "\<exists>uc key. fido_key_generated N cb comment pin device uc key")
  case True
  then obtain uc key where ready: "fido_key_generated N cb comment pin device uc key" by blast
  then have "enroll_fido_key N (ac_servers (uc_configuration uc)) path key fs = Returns (code, fs')"
    using assms(1,3)
    by (auto simp: fido_key_generated_def ffi_generate_and_enroll_fido_def generate_fido_key_def)
  note outcome = enroll_fido_key_outcome [OF this assms(2)]
  have "uc' = uc \<and> key' = key" if "fido_key_generated N cb comment pin device uc' key'" for uc' key'
    using ready that by (auto simp: fido_key_generated_def)
  with True outcome show ?thesis by (auto simp del: fun_upd_apply simp: fun_upd_other)
next
  case False
  consider (early) "fs' = fs" "code \<noteq> 0" "code \<noteq> 9"
    | (ran) config uc c p d where "from_utf8 cb = Some config" "config_arg (en_ffi N) config = Some uc"
        "opt_c_str comment = Some c" "opt_c_str pin = Some p" "opt_c_str device = Some d"
        "generate_fido_key N (ac_servers (uc_configuration uc)) path
          (case c of Some c \<Rightarrow> c | None \<Rightarrow> ''FFI-RusticaAgent-Generated-Key'') p d fs = Returns (code, fs')"
    using assms(1,3) by (auto simp: ffi_generate_and_enroll_fido_def early_Returns)
  then have "fs' = fs \<and> code \<noteq> 0 \<and> code \<noteq> 9"
  proof cases
    case early
    then show ?thesis by simp
  next
    case (ran config uc c p d)
    with False fido_error_code_codes show ?thesis
      by (auto simp: generate_fido_key_def fido_key_generated_def split: sum.splits if_splits)
  qed
  with False show ?thesis by simp
qed

lemma signers_from_servers_Success:
  assumes "signers_from_servers N path ss fs = Returns (gs_code GS_Success, fs')"
  shows "\<exists>s t. s \<in> set ss \<and> get_allowed_signers_async (ae_api (fe_agent N)) s = Ok t \<and>
     (\<exists>content. en_write N path t = (content, True) \<and> fs' = fs(path \<mapsto> content))"
  using assms
  by (induction ss) (auto simp: Let_def split: result.splits prod.splits if_splits)

text \<open>
  The file of allowed signers that C asked for holds, after success, exactly the list some configured server sent; but the
  file is emptied before any server is asked, so a failure loses the list that was there.
\<close>

lemma allowed_signers_file:
  assumes "ffi_get_allowed_signers N (CBytes cb) (CBytes ob) fs = Returns (gs_code GS_Success, fs')"
    and "writes_all N" and "from_utf8 ob = Some path"
  shows "\<exists>t s. get_allowed_signers_async (ae_api (fe_agent N)) s = Ok t \<and> fs' = fs(path \<mapsto> t)"
proof -
  from assms(1,3) obtain ss where
    "signers_from_servers N path ss (fs(path \<mapsto> '''')) = Returns (gs_code GS_Success, fs')"
    by (auto simp: ffi_get_allowed_signers_def early_Returns split: if_splits)
  from signers_from_servers_Success [OF this] assms(2) show ?thesis
    by (auto simp: writes_all_def)
qed

lemma allowed_signers_file_lost:
  assumes "signers_from_servers N path ss fs = Returns (gs_code GS_InternalError, fs')"
  shows "fs' = fs"
  using assms by (induction ss) (auto simp: Let_def split: result.splits prod.splits if_splits)

end
