(* ===== verification/Ffi_Witnesses.thy ===== *)
theory Ffi_Witnesses
  imports Cli_Witnesses Ffi_Signing Ffi_Enroll
begin

text \<open>
  The properties of the C interface that have hypotheses, each applied to a concrete call.
\<close>

section \<open>Arguments, devices, memory\<close>

definition ex_arg :: "string \<Rightarrow> c_arg" where
  "ex_arg s = CBytes (as_bytes s)"

lemma ex_utf8:
  "from_utf8 (as_bytes ''path'') = Some ''path''" "from_utf8 (as_bytes ''key'') = Some ''key''"
  "from_utf8 (as_bytes ''sock'') = Some ''sock''" "from_utf8 (as_bytes '''') = Some ''''"
  "from_utf8 (as_bytes ''out'') = Some ''out''" "from_utf8 (as_bytes ''git'') = Some ''git''"
  "from_utf8 (as_bytes ''sig'') = Some ''sig''"
  by (simp_all add: from_utf8_def ex_strings)

definition ex_heap :: "(string, string) ffi_heap" where
  "ex_heap = \<lparr>hp_blocks = Map.empty, hp_next = 1\<rparr>"

lemma ex_heap_ok: "heap_ok ex_heap"
  by (simp add: ex_heap_def heap_ok_def)

definition ex_ffi_device :: "string open_yubikey" where
  "ex_ffi_device = ex_device\<lparr>oy_fetch_subject := \<lambda>s. if s = 0x83 then Some ''ann'' else None\<rparr>"

definition ex_enroll :: "(string, string) enroll_env" where
  "ex_enroll = \<lparr>fe_agent = ex_agent_env\<lparr>ae_fs := ex_agent_fs\<lparr>read_to_string := (\<lambda>_. Inr ''new'')\<rparr>\<rparr>,
     fe_keys = ex_keys\<lparr>ke_open := (\<lambda>s. if s = 7 then Some ex_ffi_device else None)\<rparr>,
     fe_open = (\<lambda>s. if s = 7 then Some ex_yubikey else None), fe_set_pin = (\<lambda>_ k. k), fe_set_device_path = (\<lambda>_ k. k),
     fe_runtime = True, fe_parse_pem = (\<lambda>_. None), fe_x509_not_after = (\<lambda>_. None),
     fd_needs_pin = (\<lambda>_. None), fd_pin_retries = (\<lambda>_. None), yu_unlock = (\<lambda>_ _ _. False),
     yu_pin_retries = (\<lambda>_. Some 0), yu_write_certificate = (\<lambda>_ _ _. False), yu_vec_capacity = (\<lambda>n. n), yu_shrunk_capacity = (\<lambda>n. n),
     en_generate = (\<lambda>_ _ _ _. Inr \<lparr>gk_private_key = ''key'', gk_attestation = fk_attestation ex_fido_key\<rparr>),
     en_create_ok = (\<lambda>_. True), en_metadata_ok = (\<lambda>_. True), en_private_text = (\<lambda>k. k), en_write = (\<lambda>_ t. (t, True)),
     en_remove_ok = (\<lambda>_. True), en_provisionable = (\<lambda>_. None)\<rparr>"

abbreviation ex_ykutil :: "(string, string) ykutil_env" where
  "ex_ykutil \<equiv> ykutil_env.truncate ex_enroll"

lemma ex_config_arg: "config_arg (en_ffi ex_enroll) ''path'' = Some (ex_uc ex_new_config)"
  by (simp add: config_arg_def ex_enroll_def ffi_env.defs ykutil_env.defs new_updatable_configuration_def ex_agent_env_def
      ex_agent_fs_def parse_config_path_def parse_config_def parse_v2_config_def ex_uc_def)

section \<open>Verifying a signature\<close>

definition ex_sigs :: "(string, string, string) signature_lib" where
  "ex_sigs = \<lparr>sl_ssh = ex_ssh_direct, sl_private_from_path = (\<lambda>_. None), sl_sign = (\<lambda>_ _ _. None),
     sl_from_armored = (\<lambda>s. if s = ''sig'' then Some ''key'' else None), sl_pubkey = (\<lambda>s. s),
     sl_verify = (\<lambda>m s n k. m = [1, 2] \<and> n = ''git''), sl_read_to_string = (\<lambda>p. if p = ''path'' then Some ''ann key'' else None)\<rparr>"

theorem verified_signer_witness:
  "ffi_verify_signed_data ex_sigs (ex_arg ''path'') (ex_arg ''git'') (Elements [1, 2, 3]) 2 (ex_arg ''sig'') ex_heap
     = Returns (allocate (StringBlock ''ann'') ex_heap)"
proof -
  let ?a = "\<lparr>as_allowed_signers = [\<lparr>as_identity = ''ann'', as_pubkey = ''key''\<rparr>]\<rparr>"
  have "sl_read_to_string ex_sigs ''path'' = Some (allowed_signers_text ?a)"
    by (simp add: ex_sigs_def allowed_signers_text_def)
  moreover have "list_all plain_signer (as_allowed_signers ?a)" by (simp add: plain_signer_def)
  moreover have "sl_from_armored ex_sigs ''sig'' = Some ''key''" by (simp add: ex_sigs_def)
  ultimately show ?thesis
    using verified_signer [of ex_sigs "''path''" ?a "as_bytes ''path''" "as_bytes ''git''" "''git''" "as_bytes ''sig''"
        "''sig''" "''key''" 2 "[1, 2, 3]" ex_heap]
    by (simp add: ex_arg_def ex_utf8 ex_sigs_def ex_ssh_direct_def)
qed

section \<open>Starting an agent\<close>

theorem ffi_started_agent_witness:
  "\<exists>rai h' i. start_direct_rustica_agent_with_piv_idents (en_ffi ex_enroll) (ex_arg ''key'') (ex_arg ''path'')
      (ex_arg ''sock'') CNull CNull (ex_arg '''') True (Elements [7]) (Elements [0x83]) (Elements [1234]) 1 ex_heap
      = Returns (rai, h') \<and> started_instance (en_ffi ex_enroll) [((7, 0x83), Some ''1234'')] ex_heap rai h' i"
proof -
  let ?run = "start_direct_rustica_agent_with_piv_idents (en_ffi ex_enroll) (ex_arg ''key'') (ex_arg ''path'')
      (ex_arg ''sock'') CNull CNull (ex_arg '''') True (Elements [7]) (Elements [0x83]) (Elements [1234]) 1 ex_heap"
  have "\<exists>rai h'. ?run = Returns (rai, h') \<and> rai \<noteq> 0"
    using ex_config_arg
    by (simp add: start_direct_rustica_agent_with_piv_idents_def ex_arg_def ex_utf8 ffi_env.defs ex_enroll_def
        ex_agent_env_def ex_ssh_direct_def ex_ssh_def ex_keys_def ex_slot_def ex_ffi_device_def ex_device_def
        allocate_def ex_heap_def Let_def)
  then obtain rai h' where "?run = Returns (rai, h')" "rai \<noteq> 0" by blast
  moreover have one: "unat (scast (1 :: i32) :: u64) = 1" by simp
  moreover have "ke_slot_try_from (fe_keys (en_ffi ex_enroll)) = ex_slot"
    by (simp add: ffi_env.defs ex_enroll_def ex_keys_def)
  moreover have "pin_of_long 1234 = Some ''1234''"
    by (simp add: pin_of_long_def Let_def show_nat.simps digit_char_def char_of_def bit_0)
  ultimately show ?thesis
    using ffi_started_agent [OF ex_heap_ok \<open>?run = Returns (rai, h')\<close>]
    by (auto simp: list_all2_Cons1 ex_slot_def split: if_splits)
qed

section \<open>Lists of keys, and unlocking\<close>

theorem list_keys_freed_witness:
  "\<exists>h' h''. list_keys ex_ykutil 7 ex_heap = Returns (2, Some 1, h') \<and>
     free_list_keys 1 2 h' = Returns h'' \<and> hp_blocks h'' = hp_blocks ex_heap"
proof -
  have env: "ke_retired_try_from (fe_keys ex_ykutil) = Some" "ke_open (fe_keys ex_ykutil) 7 = Some ex_ffi_device"
    "oy_fetch_subject ex_ffi_device s = (if s = 0x83 then Some ''ann'' else None)"
    "ae_debug_slot (fe_agent ex_ykutil) s = ''slot''" for s
    by (simp_all add: ykutil_env.defs ex_enroll_def ex_keys_def ex_ffi_device_def ex_device_def ex_agent_env_def)
  have "key_lines ex_ykutil ex_ffi_device retired_slots = Returns [''slot - ann'']"
    by (simp add: ex_retired_slots key_lines_step env cstring_new_def del: key_lines.simps(2))
  then have "\<exists>h'. list_keys ex_ykutil 7 ex_heap = Returns (2, Some 1, h')"
    by (simp add: list_keys_def env allocate_def ex_heap_def)
  then obtain h' where run: "list_keys ex_ykutil 7 ex_heap = Returns (2, Some 1, h')" by blast
  have "yu_shrunk_capacity ex_ykutil n = n" for n by (simp add: ykutil_env.defs ex_enroll_def)
  with list_keys_freed [OF ex_heap_ok run] obtain h'' where
    "hp_blocks h'' = hp_blocks ex_heap" "free_list_keys 1 2 h' = Returns h''" by (auto split: if_splits)
  with run show ?thesis by blast
qed

theorem unlock_yubikey_codes_witness:
  "unlock_yubikey ex_ykutil 7 (ex_arg ''key'') (ex_arg ''path'') = 0 \<and>
   yu_unlock ex_ykutil 7 (as_bytes ''key'') (as_bytes ''path'') = False"
  using unlock_yubikey_codes [of ex_ykutil 7 ex_yubikey "as_bytes ''key''" "''key''" "as_bytes ''path''" "''path''"
      "as_bytes ''path''"]
  by (simp add: ex_arg_def ex_utf8 ykutil_env.defs ex_enroll_def ex_keys_def)

section \<open>Enrolling\<close>

text \<open>Servers that refuse to register the key, and what comes of it.\<close>

definition ex_refusing :: "(string, string) enroll_env" where
  "ex_refusing = ex_enroll\<lparr>fe_agent := (fe_agent ex_enroll)\<lparr>ae_api :=
     ex_api\<lparr>api_register_u2f_key := (\<lambda>_ _. Inl (Status Unavailable ''''))\<rparr>\<rparr>\<rparr>"

definition ex_generated :: "string generated_key" where
  "ex_generated = \<lparr>gk_private_key = ''key'', gk_attestation = fk_attestation ex_fido_key\<rparr>"

lemmas ex_registering = register_u2f_key_async_def complete_rustica_challenge_def get_rustica_client_def rpc_def
  ex_refusing_def ex_enroll_def ex_generated_def ex_new_config_def ex_agent_config_def ex_agent_env_def ex_api_def
  ex_agent_server_def ex_answered ex_ssh_keys

lemma ex_fido_ready:
  assumes "N \<in> {ex_enroll, ex_refusing}"
  shows "fido_key_generated N (as_bytes ''path'') CNull CNull CNull (ex_uc ex_new_config) ex_generated"
    and "ffi_generate_and_enroll_fido N (CBytes (as_bytes ''path'')) (CBytes (as_bytes ''out'')) CNull CNull CNull fs =
      enroll_fido_key N (ac_servers ex_new_config) ''out'' ex_generated fs"
    and "writes_all N"
proof -
  have "en_ffi ex_refusing = (en_ffi ex_enroll)\<lparr>fe_agent := fe_agent ex_refusing\<rparr>"
    by (simp add: ffi_env.defs ex_refusing_def ex_enroll_def)
  moreover have "ae_fs (fe_agent ex_refusing) = ae_fs (fe_agent ex_enroll)" by (simp add: ex_refusing_def)
  ultimately have config: "config_arg (en_ffi N) ''path'' = Some (ex_uc ex_new_config)"
    using assms ex_config_arg by (auto simp: config_arg_def ffi_env.defs)
  have N: "fe_runtime N" "en_generate N a c p d = Inr ex_generated" "en_write N path t = (t, True)" for a c p d path t
    using assms by (auto simp: ex_refusing_def ex_enroll_def ex_generated_def)
  show "fido_key_generated N (as_bytes ''path'') CNull CNull CNull (ex_uc ex_new_config) ex_generated"
    using config by (simp add: fido_key_generated_def ex_utf8 N)
  show "ffi_generate_and_enroll_fido N (CBytes (as_bytes ''path'')) (CBytes (as_bytes ''out'')) CNull CNull CNull fs =
      enroll_fido_key N (ac_servers ex_new_config) ''out'' ex_generated fs"
    using config by (simp add: ffi_generate_and_enroll_fido_def ex_utf8 generate_fido_key_def N ex_uc_def)
  show "writes_all N" by (simp add: writes_all_def N)
qed

theorem fido_enrollment_outcome_witness:
  "ffi_generate_and_enroll_fido ex_enroll (ex_arg ''path'') (ex_arg ''out'') CNull CNull CNull Map.empty
     = Returns (0, [''out'' \<mapsto> ''key'']) \<and>
   ffi_generate_and_enroll_fido ex_refusing (ex_arg ''path'') (ex_arg ''out'') CNull CNull CNull [''a'' \<mapsto> ''b'']
     = Returns (9, [''a'' \<mapsto> ''b''])"
proof
  have env: "en_create_ok N ''out''" "en_metadata_ok N ''out''" "snd (en_write N ''out'' t)" "en_private_text N ''key'' = ''key''"
    if "N \<in> {ex_enroll, ex_refusing}" for N t
    using that by (auto simp: ex_refusing_def ex_enroll_def)
  let ?reg = "\<lambda>N s. register_u2f_key_async (ae_ssh (fe_agent N)) (ae_api (fe_agent N)) s (Direct (gk_private_key ex_generated))
    ''ssh:'' (gk_attestation ex_generated)"
  have taken: "?reg ex_enroll (ac_servers ex_new_config ! 1) = Ok ()" by (simp add: ex_registering)
  have refused: "\<exists>e. ?reg ex_refusing s = Err e" if "s \<in> set (ac_servers ex_new_config)" for s
    using that by (auto simp: ex_registering)
  have "\<exists>c f. enroll_fido_key ex_enroll (ac_servers ex_new_config) ''out'' ex_generated Map.empty = Returns (c, f)"
    by (simp add: enroll_fido_key_def ex_registering)
  then obtain c f where run: "ffi_generate_and_enroll_fido ex_enroll (CBytes (as_bytes ''path'')) (CBytes (as_bytes ''out''))
      CNull CNull CNull Map.empty = Returns (c, f)" using ex_fido_ready(2) [of ex_enroll] by fastforce
  have "\<exists>s \<in> set (ac_servers (uc_configuration (ex_uc ex_new_config))). ?reg ex_enroll s = Ok ()"
    using taken by (simp add: ex_uc_def ex_new_config_def ex_agent_config_def)
  with fido_enrollment_outcome [OF run ex_fido_ready(3) ex_utf8(5)] ex_fido_ready(1) [of ex_enroll] env [of ex_enroll]
  have "c = 0 \<and> f = [''out'' \<mapsto> ''key'']" by (simp add: ex_generated_def)
  with run show "ffi_generate_and_enroll_fido ex_enroll (ex_arg ''path'') (ex_arg ''out'') CNull CNull CNull Map.empty
     = Returns (0, [''out'' \<mapsto> ''key''])" by (simp add: ex_arg_def)
  have "register_with_servers (?reg ex_refusing) (ac_servers ex_new_config) = Returns False"
    unfolding register_with_servers_False using refused by blast
  then have "\<exists>c f. enroll_fido_key ex_refusing (ac_servers ex_new_config) ''out'' ex_generated fs = Returns (c, f)" for fs
    using env [of ex_refusing] by (simp add: enroll_fido_key_def) (simp add: ex_refusing_def ex_enroll_def)
  then obtain c f where run: "ffi_generate_and_enroll_fido ex_refusing (CBytes (as_bytes ''path'')) (CBytes (as_bytes ''out''))
      CNull CNull CNull [''a'' \<mapsto> ''b''] = Returns (c, f)" using ex_fido_ready(2) [of ex_refusing] by fastforce
  have "\<not> (\<exists>s \<in> set (ac_servers (uc_configuration (ex_uc ex_new_config))). ?reg ex_refusing s = Ok ())"
    using refused by (fastforce simp: ex_uc_def)
  with fido_enrollment_outcome [OF run ex_fido_ready(3) ex_utf8(5)] ex_fido_ready(1) [of ex_refusing] env [of ex_refusing]
  have "c = 9 \<and> f = [''a'' \<mapsto> ''b''](''out'' := None)" by (simp add: ex_generated_def)
  with run show "ffi_generate_and_enroll_fido ex_refusing (ex_arg ''path'') (ex_arg ''out'') CNull CNull CNull [''a'' \<mapsto> ''b'']
     = Returns (9, [''a'' \<mapsto> ''b''])" by (simp add: ex_arg_def fun_upd_twist fun_upd_idem)
qed

end
