(* ===== verification/Gui.thy ===== *)
theory Gui
  imports Agent_Keys
begin

text \<open>
  \<^verbatim>\<open>rustica-agent-gui/src/main.rs\<close>: the graphical client as a state machine. A frame draws the window from the state
  (\<open>gui_view\<close>: the widgets in order; where egui puts them is left out) and handles what the user did in it (\<open>gui_update\<close>).
  The file system, the Yubikeys and base64 are parameters of the events that use them.
\<close>

section \<open>Data\<close>

datatype gui_error =
    UnableToDetermineHomeDir
  | UnableToCreateDir string
  | RequiredDirIsFile string
  | CouldNotReadFolder string

definition gui_error_to_string :: "gui_error \<Rightarrow> string" where
  "gui_error_to_string e = (case e of
     UnableToDetermineHomeDir \<Rightarrow> ''Cannot determine your home directory so I don'' @ [CHR 0x27]
       @ ''t know where to find keys and configs''
   | UnableToCreateDir m \<Rightarrow> ''When we tried to create a directory but we got error: '' @ m
   | RequiredDirIsFile p \<Rightarrow> ''There was a regular file where we needed a directory: '' @ p
   | CouldNotReadFolder p \<Rightarrow> ''We needed to read the following folder but failed: '' @ p)"

record 'pk piv_key_with_use =
  pu_descriptor :: "'pk piv_descriptor"
  pu_in_use :: bool

record 'pk rustica_agent_gui =
  gu_agent_dir :: string
  gu_environments :: "string list"
  gu_selected_environment :: "nat option"
  gu_shutdown_rustica :: bool
  gu_certificate_priority :: bool
  gu_status :: string
  gu_new_env_name :: string
  gu_new_env_content :: string
  gu_piv_keys :: "(bytes, 'pk piv_key_with_use) hashmap"
  gu_unlock_pin :: string

text \<open>
  What is at a path: nothing (with the error that creating a directory gives, if it does), a file, or a directory with
  its entries (unless it cannot be read; an entry that cannot be read is \<open>None\<close>).
\<close>

datatype path_state = PathMissing "string option" | PathFile | PathDir "string option list option"

text \<open>Opening and unlocking a Yubikey: no device, unlocked, or refused with the tries left or the error of asking.\<close>

datatype unlock_outcome = NoDevice | Unlocked | Refused "string + u8"

section \<open>Operations\<close>

definition check_create_dir :: "path_state \<Rightarrow> string \<Rightarrow> (string list, gui_error) result" where
  "check_create_dir st path = (case st of
     PathMissing None \<Rightarrow> Ok []
   | PathMissing (Some e) \<Rightarrow> Err (UnableToCreateDir e)
   | PathFile \<Rightarrow> Err (RequiredDirIsFile path)
   | PathDir None \<Rightarrow> Err (CouldNotReadFolder path)
   | PathDir (Some entries) \<Rightarrow> Ok (List.map_filter id entries))"

definition path_join :: "string \<Rightarrow> string \<Rightarrow> string" where
  "path_join a b = a @ ''/'' @ b"

definition load_environments ::
    "('pk, 'sk) ssh_lib \<Rightarrow> 'pk key_env \<Rightarrow> string option \<Rightarrow> (string \<Rightarrow> path_state) \<Rightarrow> bool
     \<Rightarrow> ('pk rustica_agent_gui, gui_error) result" where
  "load_environments L K home st runtime =
     and_then (ok_or home UnableToDetermineHomeDir) (\<lambda>home_dir.
     let rustica_agent_home = path_join home_dir ''.rusticaagent'';
         keys_folder = path_join rustica_agent_home ''keys'';
         config_folder = path_join rustica_agent_home ''environments'' in
     and_then (check_create_dir (st rustica_agent_home) rustica_agent_home) (\<lambda>_.
     and_then (check_create_dir (st keys_folder) keys_folder) (\<lambda>_.
     and_then (check_create_dir (st config_folder) config_folder) (\<lambda>environments.
     case get_all_piv_keys L K of
       Panic \<Rightarrow> Panic
     | r \<Rightarrow>
       if \<not> runtime then Panic
       else Ok \<lparr>gu_agent_dir = rustica_agent_home, gu_environments = environments,
              gu_selected_environment = (if environments \<noteq> [] then Some 0 else None),
              gu_shutdown_rustica = False, gu_certificate_priority = True, gu_status = '''',
              gu_new_env_name = '''', gu_new_env_content = '''',
              gu_piv_keys = map (\<lambda>(b, d). (b, \<lparr>pu_descriptor = d, pu_in_use = False\<rparr>))
                (case r of Ok m \<Rightarrow> m | _ \<Rightarrow> []),
              gu_unlock_pin = ''''\<rparr>))))"

text \<open>
  What the user does in a frame. \<open>Import cfg w st\<close>: the button was pressed, the content decodes to \<open>cfg\<close>, writing the
  file gives the error \<open>w\<close> or none, and the directory is then in state \<open>st\<close>. \<open>Stop ok\<close> tells whether a shutdown
  message could be sent.
\<close>

datatype gui_event =
    SelectEnvironment nat
  | EditName string
  | EditContent string
  | Import "bytes option" "string option" path_state
  | TogglePriority
  | EditPin string
  | UnlockKey bytes unlock_outcome
  | UseKey bytes bool
  | Stop bool
  | Start

definition import_environment ::
    "bytes option \<Rightarrow> string option \<Rightarrow> path_state \<Rightarrow> 'pk rustica_agent_gui \<Rightarrow> ('pk rustica_agent_gui, unit) result" where
  "import_environment cfg w st g = (case cfg of
     None \<Rightarrow> Ok (g\<lparr>gu_status := ''Could not decode configuration''\<rparr>)
   | Some _ \<Rightarrow> (case w of
       Some e \<Rightarrow> Ok (g\<lparr>gu_status := ''Could not add environemnt: '' @ e\<rparr>)
     | None \<Rightarrow> (case check_create_dir st (path_join (gu_agent_dir g) ''environments'') of
         Ok envs \<Rightarrow> Ok (g\<lparr>gu_status := ''New environment added'', gu_environments := envs\<rparr>)
       | _ \<Rightarrow> Panic)))"

definition unlock_key :: "bytes \<Rightarrow> unlock_outcome \<Rightarrow> 'pk rustica_agent_gui \<Rightarrow> 'pk rustica_agent_gui" where
  "unlock_key blob outcome g = (case map_of (gu_piv_keys g) blob of
     None \<Rightarrow> g
   | Some k \<Rightarrow>
       if pv_pin (pu_descriptor k) \<noteq> None then g
       else (case outcome of
         NoDevice \<Rightarrow> g\<lparr>gu_status := ''Could not open Yubikey. Still connected?''\<rparr>
       | Unlocked \<Rightarrow> g\<lparr>gu_piv_keys := hm_insert blob
           (k\<lparr>pu_descriptor := (pu_descriptor k)\<lparr>pv_pin := Some (gu_unlock_pin g)\<rparr>\<rparr>) (gu_piv_keys g)\<rparr>
       | Refused (Inr retries) \<Rightarrow>
           g\<lparr>gu_status := ''Unlock failed, '' @ show_nat (unat retries) @ '' tries remaining''\<rparr>
       | Refused (Inl e) \<Rightarrow> g\<lparr>gu_status := ''Could not get pin retries: '' @ e\<rparr>))"

text \<open>
  The last component of a path, as \<^verbatim>\<open>Path::file_name\<close> gives it (for a path without trailing separators): nothing for
  a path that ends in \<^verbatim>\<open>..\<close> or has no component.
\<close>

definition file_name :: "string \<Rightarrow> string option" where
  "file_name path = (let n = rev (takeWhile (\<lambda>c. c \<noteq> CHR ''/'') (rev path)) in
     if n = '''' \<or> n = ''..'' then None else Some n)"

text \<open>
  The name of the selected environment: indexing with a selection out of range panics, and so does an environment without
  a file name.
\<close>

definition selected_name :: "'pk rustica_agent_gui \<Rightarrow> (string option, unit) result" where
  "selected_name g = (case gu_selected_environment g of
     None \<Rightarrow> Ok None
   | Some i \<Rightarrow>
       if i < length (gu_environments g) then
         (case file_name (gu_environments g ! i) of None \<Rightarrow> Panic | Some n \<Rightarrow> Ok (Some n))
       else Panic)"

definition selection_ok :: "'pk rustica_agent_gui \<Rightarrow> bool" where
  "selection_ok g \<longleftrightarrow> is_ok (selected_name g)"

text \<open>The key file that belongs to the selected environment; \<open>is_file\<close> tells which paths are files.\<close>

definition has_key :: "(string \<Rightarrow> bool) \<Rightarrow> 'pk rustica_agent_gui \<Rightarrow> bool" where
  "has_key is_file g = (case selected_name g of
     Ok (Some name) \<Rightarrow> is_file (path_join (path_join (gu_agent_dir g) ''keys'') name)
   | _ \<Rightarrow> False)"

subsection \<open>The window\<close>

datatype widget =
    Heading string
  | LabelW string
  | ComboBox string string "string list"
  | TextEdit string
  | PasswordEdit string
  | ButtonW string bool
  | ToggleW string bool
  | CheckboxW bytes bool
  | SeparatorW

definition environment_widgets :: "'pk rustica_agent_gui \<Rightarrow> widget list" where
  "environment_widgets g = (case gu_selected_environment g of
     Some i \<Rightarrow> [ComboBox ''Choose an environment'' (gu_environments g ! i) (gu_environments g)]
   | None \<Rightarrow> [LabelW ''There are no environments, please add one''])"

definition import_widgets :: "'pk rustica_agent_gui \<Rightarrow> widget list" where
  "import_widgets g = [LabelW ''Environment Name'', TextEdit (gu_new_env_name g),
     LabelW ''Environment Data'', TextEdit (gu_new_env_content g), ButtonW ''Import'' True]"

definition key_row :: "(slot_id \<Rightarrow> string) \<Rightarrow> bytes \<times> 'pk piv_key_with_use \<Rightarrow> widget list" where
  "key_row fmt_slot e = (let (blob, k) = e; d = pu_descriptor k in
     [LabelW (show_nat (unat (pv_serial d))), LabelW (fmt_slot (pv_slot d)), LabelW (pv_subject d),
      ButtonW ''Unlock'' (pv_pin d = None), CheckboxW blob (pu_in_use k)])"

definition key_widgets :: "(slot_id \<Rightarrow> string) \<Rightarrow> 'pk rustica_agent_gui \<Rightarrow> widget list" where
  "key_widgets fmt_slot g = [LabelW ''Additional Keys'', LabelW ''Unlock Pin'', PasswordEdit (gu_unlock_pin g),
     LabelW ''Serial'', LabelW ''Slot'', LabelW ''Subject'', LabelW ''Unlock Key'', LabelW ''Use'']
     @ concat (map (key_row fmt_slot) (gu_piv_keys g))"

definition agent_widgets :: "(string \<Rightarrow> bool) \<Rightarrow> 'pk rustica_agent_gui \<Rightarrow> widget list" where
  "agent_widgets is_file g =
     (if has_key is_file g then [ButtonW ''Stop'' True, ButtonW ''Start'' True]
      else [LabelW (''There is no key, you'' @ [CHR 0x27] @ ''ll need to generate and enroll one'')])"

definition gui_view ::
    "(slot_id \<Rightarrow> string) \<Rightarrow> (string \<Rightarrow> bool) \<Rightarrow> 'pk rustica_agent_gui \<Rightarrow> (widget list, unit) result" where
  "gui_view fmt_slot is_file g = and_then (selected_name g) (\<lambda>name. Ok (
     [Heading ''Rustica Agent''] @ environment_widgets g @ [SeparatorW] @ import_widgets g @ [SeparatorW]
     @ (if name = None then []
        else [ToggleW (if gu_certificate_priority g then ''Certificate Priority Enabled''
                       else ''Certificate Priority Disabled'') (gu_certificate_priority g), SeparatorW]
          @ key_widgets fmt_slot g @ agent_widgets is_file g)
     @ [LabelW (gu_status g)]))"

subsection \<open>Frames\<close>

text \<open>
  What an event does. The window below the separator exists only when an environment is selected; its stop and
  start buttons only when there is a key file of that name. The handler of the start button is empty. A frame draws the
  window, so the selection must be good before and after.
\<close>

fun gui_handle ::
    "(string \<Rightarrow> bool) \<Rightarrow> gui_event \<Rightarrow> 'pk rustica_agent_gui \<Rightarrow> ('pk rustica_agent_gui, unit) result" where
  "gui_handle is_file (SelectEnvironment i) g =
     Ok (if gu_selected_environment g \<noteq> None \<and> i < length (gu_environments g)
         then g\<lparr>gu_selected_environment := Some i\<rparr> else g)"
| "gui_handle is_file (EditName s) g = Ok (g\<lparr>gu_new_env_name := s\<rparr>)"
| "gui_handle is_file (EditContent s) g = Ok (g\<lparr>gu_new_env_content := s\<rparr>)"
| "gui_handle is_file (Import cfg w st) g = import_environment cfg w st g"
| "gui_handle is_file TogglePriority g =
     Ok (if gu_selected_environment g \<noteq> None
         then g\<lparr>gu_certificate_priority := \<not> gu_certificate_priority g\<rparr> else g)"
| "gui_handle is_file (EditPin s) g =
     Ok (if gu_selected_environment g \<noteq> None then g\<lparr>gu_unlock_pin := s\<rparr> else g)"
| "gui_handle is_file (UnlockKey blob outcome) g =
     Ok (if gu_selected_environment g \<noteq> None then unlock_key blob outcome g else g)"
| "gui_handle is_file (UseKey blob b) g =
     Ok (if gu_selected_environment g \<noteq> None then (case map_of (gu_piv_keys g) blob of
           None \<Rightarrow> g
         | Some k \<Rightarrow> g\<lparr>gu_piv_keys := hm_insert blob (k\<lparr>pu_in_use := b\<rparr>) (gu_piv_keys g)\<rparr>) else g)"
| "gui_handle is_file (Stop ok) g =
     (if has_key is_file g \<and> gu_shutdown_rustica g \<and> \<not> ok then Panic else Ok g)"
| "gui_handle is_file Start g = Ok g"

definition gui_update ::
    "(string \<Rightarrow> bool) \<Rightarrow> gui_event \<Rightarrow> 'pk rustica_agent_gui \<Rightarrow> ('pk rustica_agent_gui, unit) result" where
  "gui_update is_file ev g =
     (if \<not> selection_ok g then Panic
      else and_then (gui_handle is_file ev g) (\<lambda>g'. if selection_ok g' then Ok g' else Panic))"

fun gui_run :: "((string \<Rightarrow> bool) \<times> gui_event) list \<Rightarrow> 'pk rustica_agent_gui \<Rightarrow> ('pk rustica_agent_gui, unit) result" where
  "gui_run [] g = Ok g"
| "gui_run ((is_file, ev) # evs) g = and_then (gui_update is_file ev g) (gui_run evs)"

text \<open>The program: the result of the event loop is thrown away.\<close>

definition gui_main ::
    "('pk, 'sk) ssh_lib \<Rightarrow> 'pk key_env \<Rightarrow> string option \<Rightarrow> (string \<Rightarrow> path_state) \<Rightarrow> bool
     \<Rightarrow> ((string \<Rightarrow> bool) \<times> gui_event) list \<Rightarrow> (unit, gui_error) result" where
  "gui_main L K home st runtime frames = (case load_environments L K home st runtime of
     Panic \<Rightarrow> Panic
   | Err e \<Rightarrow> Err e
   | Ok agent \<Rightarrow> (case gui_run frames agent of Panic \<Rightarrow> Panic | _ \<Rightarrow> Ok ()))"

section \<open>Properties\<close>

text \<open>What no event changes: whether an agent can be stopped, and which keys there are.\<close>

definition gui_keys :: "'pk rustica_agent_gui \<Rightarrow> bytes set" where
  "gui_keys g = dom (map_of (gu_piv_keys g))"

lemma unlock_key_keeps:
  "gu_shutdown_rustica (unlock_key b o' g) = gu_shutdown_rustica g"
  "gui_keys (unlock_key b o' g) = gui_keys g"
  "gu_environments (unlock_key b o' g) = gu_environments g"
  "gu_selected_environment (unlock_key b o' g) = gu_selected_environment g"
  by (auto simp: unlock_key_def gui_keys_def update_conv' split: option.split unlock_outcome.split sum.split)

lemma import_environment_keeps:
  "import_environment cfg w st g = Ok g' \<Longrightarrow> gu_shutdown_rustica g' = gu_shutdown_rustica g \<and>
     gui_keys g' = gui_keys g \<and> gu_selected_environment g' = gu_selected_environment g"
  by (auto simp: import_environment_def gui_keys_def split: option.splits result.splits)

lemma use_key_keeps:
  assumes "map_of (gu_piv_keys g) blob = Some k"
  shows "gui_keys (g\<lparr>gu_piv_keys := hm_insert blob k' (gu_piv_keys g)\<rparr>) = gui_keys g"
  using assms by (auto simp: gui_keys_def update_conv')

lemma gui_keys_upd [simp]:
  "gui_keys (g\<lparr>gu_selected_environment := x\<rparr>) = gui_keys g" "gui_keys (g\<lparr>gu_new_env_name := n\<rparr>) = gui_keys g"
  "gui_keys (g\<lparr>gu_new_env_content := n\<rparr>) = gui_keys g" "gui_keys (g\<lparr>gu_unlock_pin := n\<rparr>) = gui_keys g"
  "gui_keys (g\<lparr>gu_certificate_priority := p\<rparr>) = gui_keys g"
  by (simp_all add: gui_keys_def)

lemma gui_update_keeps:
  assumes "gui_update is_file ev g = Ok g'"
  shows "gu_shutdown_rustica g' = gu_shutdown_rustica g \<and> gui_keys g' = gui_keys g \<and>
     selection_ok g'"
  using assms
  by (cases ev)
     (auto simp: gui_update_def and_then_Ok unlock_key_keeps use_key_keeps dest: import_environment_keeps
       split: if_splits option.splits)

lemma gui_run_keeps:
  "gui_run evs g = Ok g' \<Longrightarrow> gu_shutdown_rustica g' = gu_shutdown_rustica g \<and>
     gui_keys g' = gui_keys g"
  by (induction evs g rule: gui_run.induct) (auto simp: and_then_Ok dest: gui_update_keeps)

lemma load_environments_start:
  assumes "load_environments L K home st runtime = Ok g"
  shows "\<not> gu_shutdown_rustica g"
    "gu_selected_environment g = (if gu_environments g \<noteq> [] then Some 0 else None)"
  using assms
  by (cases "get_all_piv_keys L K"; auto simp: load_environments_def Let_def and_then_Ok split: if_splits)+

text \<open>
  The graphical client never runs an agent: in every state it can reach from the start, whatever the user does, there
  is nothing to shut down; and it never learns of keys that were not connected when it started.
\<close>

theorem gui_never_runs_agent:
  assumes "load_environments L K home st runtime = Ok g" and "gui_run evs g = Ok g'"
  shows "\<not> gu_shutdown_rustica g' \<and> gui_keys g' = gui_keys g"
  using load_environments_start(1) [OF assms(1)] gui_run_keeps [OF assms(2)] by simp

text \<open>
  The directory of environments after an import: it can be read, has no fewer entries than before, and its entries have
  names (as those of a directory do).
\<close>

definition growing :: "gui_event \<Rightarrow> 'pk rustica_agent_gui \<Rightarrow> bool" where
  "growing ev g = (case ev of
     Import (Some _) None st \<Rightarrow> (case check_create_dir st '''' of
         Ok envs \<Rightarrow> length (gu_environments g) \<le> length envs \<and> (\<forall>p \<in> set envs. file_name p \<noteq> None)
       | _ \<Rightarrow> False)
   | _ \<Rightarrow> True)"

fun growing_run :: "((string \<Rightarrow> bool) \<times> gui_event) list \<Rightarrow> 'pk rustica_agent_gui \<Rightarrow> bool" where
  "growing_run [] g = True"
| "growing_run ((is_file, ev) # evs) g \<longleftrightarrow> growing ev g \<and>
     (case gui_update is_file ev g of Ok g' \<Rightarrow> growing_run evs g' | _ \<Rightarrow> True)"

definition gui_inv :: "'pk rustica_agent_gui \<Rightarrow> bool" where
  "gui_inv g \<longleftrightarrow> (\<forall>p \<in> set (gu_environments g). file_name p \<noteq> None) \<and> \<not> gu_shutdown_rustica g \<and>
     (case gu_selected_environment g of None \<Rightarrow> True | Some i \<Rightarrow> i < length (gu_environments g))"

lemma gui_inv_selection: "gui_inv g \<Longrightarrow> selection_ok g"
  by (fastforce simp: gui_inv_def selection_ok_def selected_name_def is_ok_iff split: option.splits
      dest: nth_mem)

lemma check_create_dir_Ok: "check_create_dir st p = Ok xs \<longleftrightarrow> check_create_dir st q = Ok xs"
  by (auto simp: check_create_dir_def split: path_state.splits option.splits)

lemma import_environment_inv:
  assumes "gui_inv g" and "growing (Import cfg w st) g"
  shows "\<exists>g'. import_environment cfg w st g = Ok g' \<and> gui_inv g'"
proof (cases "cfg = None \<or> w \<noteq> None")
  case True
  with assms(1) show ?thesis by (auto simp: import_environment_def gui_inv_def split: option.splits)
next
  case False
  with assms(2) obtain envs where envs: "check_create_dir st '''' = Ok envs"
    "length (gu_environments g) \<le> length envs" "\<forall>p \<in> set envs. file_name p \<noteq> None"
    by (auto simp: growing_def split: result.splits)
  then have "check_create_dir st (path_join (gu_agent_dir g) ''environments'') = Ok envs"
    using check_create_dir_Ok by blast
  with False assms(1) envs(2,3) show ?thesis
    by (auto simp: import_environment_def gui_inv_def split: option.splits)
qed

lemma gui_handle_inv:
  assumes "gui_inv g" and "growing ev g"
  shows "\<exists>g'. gui_handle is_file ev g = Ok g' \<and> gui_inv g'"
proof (cases ev)
  case (Import cfg w st)
  with assms import_environment_inv show ?thesis by simp
qed (use assms in \<open>auto simp: gui_inv_def unlock_key_keeps split: option.splits\<close>)

lemma gui_update_inv:
  "gui_inv g \<Longrightarrow> growing ev g \<Longrightarrow> \<exists>g'. gui_update is_file ev g = Ok g' \<and> gui_inv g'"
  using gui_handle_inv [of g ev is_file] gui_inv_selection by (fastforce simp: gui_update_def)

lemma gui_run_inv: "gui_inv g \<Longrightarrow> growing_run evs g \<Longrightarrow> \<exists>g'. gui_run evs g = Ok g' \<and> gui_inv g'"
proof (induction evs g rule: gui_run.induct)
  case (2 is_file ev evs g)
  then obtain g1 where g1: "gui_update is_file ev g = Ok g1" "gui_inv g1"
    using gui_update_inv [of g ev is_file] by auto
  with 2 show ?case by simp
qed simp

text \<open>
  C40: The graphical client does not panic once it has started: as long as the directory of environments only grows,
  whatever the user does, every frame can be drawn, the selection stays in range, and the program ends well. (When files
  are removed behind the client's back the next import may leave the selection out of range, which panics.)
\<close>

theorem gui_safe:
  assumes "load_environments L K home st runtime = Ok g"
    and "\<forall>p \<in> set (gu_environments g). file_name p \<noteq> None" and "growing_run frames g"
  shows "gui_main L K home st runtime frames = Ok () \<and>
     (\<exists>g' window. gui_run frames g = Ok g' \<and> gui_view fmt_slot is_file g' = Ok window)"
proof -
  have "gui_inv g" using assms(2) load_environments_start [OF assms(1)] by (simp add: gui_inv_def)
  with gui_run_inv assms(3) obtain g' where g': "gui_run frames g = Ok g'" "gui_inv g'" by blast
  then have "is_ok (selected_name g')" using gui_inv_selection by (simp add: selection_ok_def)
  with g' assms(1) show ?thesis by (auto simp: gui_main_def gui_view_def is_ok_iff)
qed

text \<open>
  The window offers what the handlers act on: without a selected environment nothing below the import is drawn, and
  the buttons that stop and start are drawn exactly for an environment with a key file.
\<close>

lemma stop_button_drawn:
  assumes "gui_view fmt_slot is_file g = Ok window"
  shows "ButtonW ''Start'' True \<in> set window \<longleftrightarrow> has_key is_file g"
  using assms
  by (auto simp: gui_view_def and_then_Ok environment_widgets_def import_widgets_def key_widgets_def key_row_def
      agent_widgets_def has_key_def Let_def split: if_splits option.splits prod.splits)

text \<open>An environment that is imported when there was none cannot be selected: nothing offers it.\<close>

lemma first_import_not_selected:
  assumes "gu_selected_environment g = None" and "gui_run evs g = Ok g'"
  shows "gu_selected_environment g' = None"
  using assms(2,1)
proof (induction evs g rule: gui_run.induct)
  case (2 is_file ev evs g)
  then obtain g1 where g1: "gui_update is_file ev g = Ok g1" "gui_run evs g1 = Ok g'" by (auto simp: and_then_Ok)
  have "gu_selected_environment g1 = None"
    using g1(1) 2(3)
    by (cases ev) (auto simp: gui_update_def and_then_Ok dest: import_environment_keeps split: if_splits)
  with 2(1) [OF g1(2)] show ?case by simp
qed simp

end
