(* ===== verification/Gui_Witnesses.thy ===== *)
theory Gui_Witnesses
  imports Cli_Witnesses Gui
begin

text \<open>
  The graphical client in the concrete world of the examples: one environment, a second one is imported and selected.
\<close>

definition ex_paths :: "string \<Rightarrow> path_state" where
  "ex_paths p = (if p = ''/home/.rusticaagent/environments'' then PathDir (Some [Some ''/e/one''])
     else PathMissing None)"

definition ex_gui :: "string rustica_agent_gui" where
  "ex_gui = \<lparr>gu_agent_dir = ''/home/.rusticaagent'', gu_environments = [''/e/one''],
     gu_selected_environment = Some 0, gu_shutdown_rustica = False, gu_certificate_priority = True, gu_status = '''',
     gu_new_env_name = '''', gu_new_env_content = '''',
     gu_piv_keys = [(as_bytes ''piv'', \<lparr>pu_descriptor = ex_piv, pu_in_use = False\<rparr>)], gu_unlock_pin = ''''\<rparr>"

definition ex_frames :: "((string \<Rightarrow> bool) \<times> gui_event) list" where
  "ex_frames = map (Pair (\<lambda>_. False)) [EditName ''two'', EditContent ''AA=='',
     Import (Some [0]) None (PathDir (Some [Some ''/e/one'', Some ''/e/two''])), SelectEnvironment 1, Start]"

lemma ex_loaded: "load_environments ex_ssh_direct ex_keys (Some ''/home'') ex_paths True = Ok ex_gui"
  by (simp add: load_environments_def Let_def path_join_def check_create_dir_def ex_paths_def ex_all_piv_keys
      ex_gui_def List.map_filter_def)

lemma ex_named: "file_name ''/e/one'' = Some ''one''" "file_name ''/e/two'' = Some ''two''"
  by (simp_all add: file_name_def Let_def)

lemma ex_growing: "growing_run ex_frames ex_gui"
  by (simp add: ex_frames_def ex_gui_def gui_update_def selection_ok_def selected_name_def is_ok_iff ex_named
      growing_def import_environment_def check_create_dir_def List.map_filter_def)

theorem gui_safe_witness:
  "gui_main ex_ssh_direct ex_keys (Some ''/home'') ex_paths True ex_frames = Ok () \<and>
   (\<exists>g' window. gui_run ex_frames ex_gui = Ok g' \<and> gui_view (\<lambda>_. '''') (\<lambda>_. False) g' = Ok window)"
proof -
  have "\<forall>p \<in> set (gu_environments ex_gui). file_name p \<noteq> None" by (simp add: ex_gui_def ex_named)
  from gui_safe [OF ex_loaded this ex_growing] show ?thesis by blast
qed

end
