(* ===== verification/Spec2Isabelle.thy ===== *)
theory Spec2Isabelle
  imports Service_Witnesses Ffi_Witnesses Gui_Witnesses
begin

text \<open>
  \<^bold>\<open>Rustica\<close>: an SSH certificate authority (\<^verbatim>\<open>rustica\<close>), the agent that lives on a user's machine
  (\<^verbatim>\<open>rustica-agent\<close>), and three front ends of the agent: a command line (\<^verbatim>\<open>rustica-agent-cli\<close>), a C interface
  (\<^verbatim>\<open>rustica-agent/src/ffi\<close>) and a window (\<^verbatim>\<open>rustica-agent-gui\<close>).

  \<^bold>\<open>How the parts interact.\<close> An SSH client talks to the agent over a Unix socket. When it asks for identities the
  agent answers with its key and a certificate, which it fetches from the first configured server that issues one. To
  get a certificate the agent asks the server for a challenge (a certificate over its key whose key id is an HMAC of the
  time, the key and the client's identities), signs it with its own key, and sends it back with the request. The server
  validates the challenge, asks its authorizer (a local database or an external service) what the key may have, signs a
  certificate with the authority's key (a file, Amazon KMS or a Yubikey), logs it, and replies; when the client's mTLS
  certificate is due it sends a new one along, which the agent writes into its configuration. Keys are registered with
  an attestation; the list of registered keys is served, cached and rate limited, as the allowed signers.

  \<^bold>\<open>Theories, the code they model, and what they show.\<close>

  \<^item> \<open>Rustica_Prelude\<close>: results (\<open>Ok\<close>, \<open>Err\<close>, \<open>Panic\<close>), hash maps as association lists, strings and bytes,
    decimal printing and parsing, UTF-8, and their lemmas; the collection \<open>ok_iff\<close> characterises successful runs.
  \<^item> \<open>Library_Env\<close>: the interfaces of the libraries (sshcerts, rcgen, hmac, hex) as records of functions, with the
    laws that properties assume of them (\<open>sshcerts_laws\<close>, for example, that a signed certificate parses back).
  \<^item> \<open>Server_Errors\<close>, \<open>Verification\<close> (\<^verbatim>\<open>error.rs\<close>, \<^verbatim>\<open>key.rs\<close>, \<^verbatim>\<open>verification.rs\<close>): error codes, attestations.
  \<^item> \<open>Auth_Types\<close>, \<open>Auth_Database\<close>, \<open>Auth_External\<close>, \<open>Auth_Mechanism\<close> (\<^verbatim>\<open>auth/\<close>): the two authorizers and the dispatch
    between them; the contract of an authorizer is a locale, interpreted on both.
  \<^item> \<open>Auth_Schema\<close> (\<^verbatim>\<open>auth/database/schema.rs\<close>, \<^verbatim>\<open>models.rs\<close>): the declared tables with column types and primary keys; the
    authorizer's decisions are those the tables prescribe when they are read by the names of their columns, and in a
    database that keeps its primary keys grants are unambiguous.
  \<^item> \<open>Signer_Types\<close>, \<open>Signer_File\<close>, \<open>Signer_Kms\<close>, \<open>Signer_Yubikey\<close>, \<open>Signing\<close> (\<^verbatim>\<open>signing/\<close>): the three signers, building
    the mechanism from its configuration, and that a mechanism is accepted exactly when no CA key occurs twice.
  \<^item> \<open>Logging\<close> (\<^verbatim>\<open>logging/\<close>): the loggers, and the logging thread from its configuration on, which delivers every log to every
    configured backend in order while the channel is open (what each backend has to get is stated from the configuration).
  \<^item> \<open>Rustica_Proto\<close> (\<^verbatim>\<open>proto/rustica.proto\<close>): the messages.
  \<^item> \<open>Server_State\<close>, \<open>Server_Validate\<close>, \<open>Server_Issue\<close>, \<open>Server_Register\<close>, \<open>Server_X509\<close>, \<open>Server_Signers\<close>
    (\<^verbatim>\<open>server.rs\<close>): the state of the server and its handlers. For each handler: exactly when it succeeds, what it
    then replies, changes and logs, and what a failure leaves alone. The allowed signers are a step relation that
    interleaves the handler's lock sections over any number of calls, while databases and the external service change.
    A history records each question to the authorizer with what it knew and answered; invariants show that replies
    are what the authorizer knew no longer ago than the cache's validity, that it is asked exactly when all it gave before
    has expired, and a simulation shows that the whole refines a cache over a changing source, without locks.
  \<^item> \<open>Server_System\<close>: the server under any sequence of calls. Every call leaves keys, authorizer and signers alone; the
    log records exactly the certificates issued and keys registered, and the database changes by exactly the
    registrations that were confirmed.
  \<^item> \<open>Server_Config\<close> (\<^verbatim>\<open>config/mod.rs\<close>, \<^verbatim>\<open>main.rs\<close>): from the command line and the configuration file to the running server.
  \<^item> \<open>Agent_Protocol\<close>, \<open>Agent_Loop\<close> (\<^verbatim>\<open>sshagent/\<close>): the wire format (round trips, by the locale \<open>codec\<close>), the dispatch to
    a handler (the locale \<open>agent_handler\<close>, interpreted on the agent), the loop over one client's bytes, which does what a
    loop over requests does and ends on every stream, and the listener.
  \<^item> \<open>Agent_Client\<close> (\<^verbatim>\<open>rustica-agent/src/rustica/\<close>): answering challenges and the requests to a server.
  \<^item> \<open>Agent_Config\<close> (\<^verbatim>\<open>config/mod.rs\<close>): both versions of the agent's file, and writing it back; a write may fail before
    it changes the file or be cut off within it.
  \<^item> \<open>Agent_Handler\<close>, \<open>Agent_Keys\<close> (\<^verbatim>\<open>lib.rs\<close>): the agent's cache, identities and signing, trying servers in order; slot
    names, provisioning, and the PIV keys of all connected Yubikeys.
  \<^item> \<open>Exchange\<close>: agent and server together: a challenge answered in time is accepted, an accepted challenge is
    bound to the key, time and identities it was issued for, and a certificate has what the database grants.
  \<^item> \<open>Service\<close>: the agent's view of a server made of the server's handlers, with other calls served between challenge
    and request. The exchange is transparent: the agent gets what authorization and signing decide for its own key;
    an SSH client that asks for identities gets the certificate the service issued, and the list of allowed signers
    is the authorizer's.
  \<^item> \<open>Cli_Config\<close>, \<open>Cli_Args\<close>, \<open>Cli_Main\<close> (\<^verbatim>\<open>rustica-agent-cli/\<close>): each subcommand from its arguments to its action (the
    keys that are served are exactly those of the directory in multimode), the declarations of the arguments (with a
    Yubikey connected, no accepted command line panics), and carrying the action out, as the list of what is printed, written and served.
  \<^item> \<open>Ffi_Memory\<close>, \<open>Ffi_Agent\<close>, \<open>Ffi_Yubikey\<close>, \<open>Ffi_Enroll\<close>, \<open>Ffi_Signing\<close> (\<^verbatim>\<open>rustica-agent/src/ffi/\<close>): every exported
    function. Memory that C owns is an explicit store, and undefined behaviour an outcome; the capacity of a vector, shrunk or not,
    is what the allocator makes it; the locale \<open>c_handle\<close> is the
    contract of a resource given to C, interpreted on strings and on running agents.
  \<^item> \<open>Gui\<close> (\<^verbatim>\<open>rustica-agent-gui/src/main.rs\<close>): the program's start, what the window shows in a state (as a list of
    widgets), and what each action of the user does; once started it never panics while environments are only added.
  \<^item> \<open>Example_Env\<close>, \<open>Example_Runs\<close>, \<open>Server_Witnesses\<close>, \<open>Agent_Witnesses\<close>, \<open>Service_Witnesses\<close>, \<open>Cli_Witnesses\<close>,
    \<open>Ffi_Witnesses\<close>, \<open>Gui_Witnesses\<close>: a small concrete world in which the definitions are evaluated, and every property with hypotheses applied to a run in it: the
    hypotheses, laws of libraries included, can hold together.

  \<^bold>\<open>Conventions.\<close> State is passed explicitly: a handler takes the server's record and returns it changed. A function
  of the source that can fail returns a \<open>result\<close>, in which \<open>Panic\<close> is a panic (an unwrapped error, an index out of
  range). Machine integers are words of their width, and sums and differences wrap, as in the release build. Clock
  readings, files, devices, services and random keys are arguments. Mutexes held over a whole operation make it one
  step; where a handler gives its locks up in between, the sections are separate steps. Iteration over a hash map
  follows the association list, one of the orders the code may see. Recursion is structural or has a measure; no
  definition uses fuel, so every operation of the model is total.

  \<^bold>\<open>Not modelled.\<close> The libraries themselves (cryptography, X.509 and SSH encodings, gRPC, TLS, SQLite, TOML, JSON, HTTP,
  PC/SC and FIDO devices, the asynchronous runtime): they are parameters. The parsing of command lines by clap: what it
  returns for the declared arguments is assumed as documented, and help texts are left out. Progress
  messages inside library functions of the agent, and the derived \<^verbatim>\<open>Debug\<close> texts of the agent. The functions of
  \<^verbatim>\<open>rustica-agent/src/rustica/\<close> that only run their asynchronous counterpart to its end on a runtime. Layout, colours and the
  event loop of the window. The build scripts, which run the protobuf compiler.
\<close>

end
